(* ===== verification/Js_Prelude.thy ===== *)
theory Js_Prelude
  imports Complex_Main
begin

text \<open>
  Shared vocabulary of the development: results of code that may throw, the
  character classes and scanners the parsers use, decimal numerals, and the list and
  association-list lemmas the components share.

  JavaScript strings.  A string of the source is a sequence of UTF-16 code units.  It is
  represented here by \<open>string\<close> (a list of 8-bit characters) holding the code units
  one after the other in their 1-, 2- or 3-byte encoding, each code unit encoded on its own:
  ASCII text is itself, concatenation and equality of strings are concatenation and
  equality of their representations, and scanning for an ASCII character is scanning for
  the same character.
\<close>

section \<open>Results\<close>

text \<open>A computation that may throw is a sum: \<open>Inl\<close> is the thrown error.\<close>

named_theorems res_simps \<open>equations of the results of throwing code\<close>

definition rbind :: "'e + 'a \<Rightarrow> ('a \<Rightarrow> 'e + 'b) \<Rightarrow> 'e + 'b" where
  "rbind r f = (case r of Inl e \<Rightarrow> Inl e | Inr a \<Rightarrow> f a)"

lemma rbind_simps [simp]: "rbind (Inl e) f = Inl e" "rbind (Inr a) f = f a"
  by (simp_all add: rbind_def)

lemma rbind_Inr [res_simps]: "rbind r f = Inr b \<longleftrightarrow> (\<exists>a. r = Inr a \<and> f a = Inr b)"
  by (cases r) simp_all

lemma rbind_Inl [res_simps]:
  "rbind r f = Inl e \<longleftrightarrow> r = Inl e \<or> (\<exists>a. r = Inr a \<and> f a = Inl e)"
  by (cases r) auto

text \<open>\<open>xs.map(f)\<close> where \<open>f\<close> gets the index and may throw: the first error wins.\<close>

fun map_indexed :: "nat \<Rightarrow> (nat \<Rightarrow> 'a \<Rightarrow> 'e + 'b) \<Rightarrow> 'a list \<Rightarrow> 'e + 'b list" where
  "map_indexed i f [] = Inr []"
| "map_indexed i f (x # xs) =
     rbind (f i x) (\<lambda>y. rbind (map_indexed (Suc i) f xs) (\<lambda>ys. Inr (y # ys)))"

lemma map_indexed_Inr_iff:
  "map_indexed i f xs = Inr ys \<longleftrightarrow>
     length ys = length xs \<and> (\<forall>k < length xs. f (i + k) (xs ! k) = Inr (ys ! k))"
proof (induction xs arbitrary: i ys)
  case Nil
  then show ?case by auto
next
  case (Cons x xs)
  show ?case
  proof (cases ys)
    case Nil
    then show ?thesis by (auto simp: res_simps)
  next
    case ys: (Cons y zs)
    have "map_indexed i f (x # xs) = Inr ys \<longleftrightarrow>
        f i x = Inr y \<and> map_indexed (Suc i) f xs = Inr zs"
      by (auto simp: ys res_simps)
    also have "\<dots> \<longleftrightarrow> length ys = length (x # xs) \<and>
        (\<forall>k < length (x # xs). f (i + k) ((x # xs) ! k) = Inr (ys ! k))"
      by (auto simp: Cons.IH ys less_Suc_eq_0_disj All_less_Suc2)
    finally show ?thesis .
  qed
qed

section \<open>Characters and scanners\<close>

abbreviation LF :: char where "LF \<equiv> CHR 0x0A"
abbreviation CR :: char where "CR \<equiv> CHR 0x0D"
abbreviation TAB :: char where "TAB \<equiv> CHR 0x09"
abbreviation QUOTE :: char where "QUOTE \<equiv> CHR 0x22"
abbreviation BACKSLASH :: char where "BACKSLASH \<equiv> CHR 0x5C"

definition code :: "char \<Rightarrow> nat" where
  "code c = of_char c"

definition is_digit :: "char \<Rightarrow> bool" where
  "is_digit c \<longleftrightarrow> 48 \<le> code c \<and> code c \<le> 57"

definition digit_val :: "char \<Rightarrow> nat" where
  "digit_val c = code c - 48"

definition digit_char :: "nat \<Rightarrow> char" where
  "digit_char d = char_of (d + 48)"

lemma code_char_of [simp]: "n < 256 \<Longrightarrow> code (char_of n) = n"
  by (simp add: code_def)

lemma is_digit_digit_char [simp]: "d < 10 \<Longrightarrow> is_digit (digit_char d)"
  by (simp add: is_digit_def digit_char_def)

lemma digit_val_digit_char [simp]: "d < 10 \<Longrightarrow> digit_val (digit_char d) = d"
  by (simp add: digit_val_def digit_char_def)

lemma code_inject [simp]: "code c = code d \<longleftrightarrow> c = d"
  by (simp add: code_def)

text \<open>The maximal run of characters with a property, and what follows it.\<close>

definition scan :: "('a \<Rightarrow> bool) \<Rightarrow> 'a list \<Rightarrow> 'a list \<times> 'a list" where
  "scan P s = (takeWhile P s, dropWhile P s)"

lemma scan_append:
  assumes "\<forall>c \<in> set xs. P c" and "ys = [] \<or> \<not> P (hd ys)"
  shows "scan P (xs @ ys) = (xs, ys)"
  using assms by (cases ys) (auto simp: scan_def takeWhile_append dropWhile_append)

lemma scan_eqD: "scan P s = (a, b) \<Longrightarrow> s = a @ b \<and> (\<forall>c \<in> set a. P c) \<and> (b = [] \<or> \<not> P (hd b))"
  unfolding scan_def by (auto dest: set_takeWhileD simp: hd_dropWhile)

lemma scan_length: "scan P s = (a, b) \<Longrightarrow> length b \<le> length s"
  by (auto dest!: scan_eqD)

section \<open>Decimal numerals\<close>

definition nat_of_digits :: "string \<Rightarrow> nat" where
  "nat_of_digits ds = foldl (\<lambda>n c. 10 * n + digit_val c) 0 ds"

fun show_nat :: "nat \<Rightarrow> string" where
  "show_nat n = (if n < 10 then [digit_char n] else show_nat (n div 10) @ [digit_char (n mod 10)])"

declare show_nat.simps [simp del]

definition show_int :: "int \<Rightarrow> string" where
  "show_int i = (if i < 0 then CHR ''-'' # show_nat (nat (- i)) else show_nat (nat i))"

lemma nat_of_digits_snoc [simp]:
  "nat_of_digits (ds @ [c]) = 10 * nat_of_digits ds + digit_val c"
  by (simp add: nat_of_digits_def)

lemma nat_of_digits_show_nat [simp]: "nat_of_digits (show_nat n) = n"
proof (induction n rule: show_nat.induct)
  case (1 n)
  show ?case
  proof (cases "n < 10")
    case True
    then show ?thesis by (simp add: show_nat.simps [of n] nat_of_digits_def)
  next
    case False
    with 1 show ?thesis by (simp add: show_nat.simps [of n])
  qed
qed

lemma show_nat_digits: "\<forall>c \<in> set (show_nat n). is_digit c"
proof (induction n rule: show_nat.induct)
  case (1 n)
  then show ?case by (cases "n < 10") (auto simp: show_nat.simps [of n])
qed

lemma show_nat_nonempty [simp]: "show_nat n \<noteq> []"
  by (simp add: show_nat.simps [of n])

lemma hd_show_nat_digit [simp]: "is_digit (hd (show_nat n))"
  using show_nat_digits [of n] by (simp add: list.set_sel(1))

text \<open>No leading zero: the numeral of a positive number starts with a digit from 1 to 9.\<close>

lemma digit_char_eq_0: "d < 10 \<Longrightarrow> digit_char d = CHR ''0'' \<longleftrightarrow> d = 0"
proof -
  assume "d < 10"
  then have "code (digit_char d) = d + 48" by (simp add: digit_char_def)
  moreover have "code (CHR ''0'') = 48" by (simp add: code_def)
  ultimately show ?thesis by (metis add_0 add_right_cancel code_inject)
qed

lemma hd_show_nat: "hd (show_nat n) = CHR ''0'' \<longleftrightarrow> n = 0"
proof (induction n rule: show_nat.induct)
  case (1 n)
  show ?case
  proof (cases "n < 10")
    case True
    then show ?thesis by (simp add: show_nat.simps [of n] digit_char_eq_0)
  next
    case False
    with 1 show ?thesis by (auto simp: show_nat.simps [of n])
  qed
qed

lemma show_nat_0: "show_nat 0 = ''0''"
  using hd_show_nat [of 0] by (simp add: show_nat.simps [of 0])

section \<open>Lists and association lists\<close>

lemma map_of_eq_Some_distinct:
  "distinct (map fst kvs) \<Longrightarrow> map_of kvs k = Some v \<longleftrightarrow> (k, v) \<in> set kvs"
  by (rule map_of_eq_Some_iff)

lemma distinct_map_fst_snoc [simp]:
  "distinct (map fst (kvs @ [(k, v)])) \<longleftrightarrow> distinct (map fst kvs) \<and> k \<notin> fst ` set kvs"
  by auto

lemma map_of_snoc:
  "k \<notin> fst ` set kvs \<Longrightarrow> map_of (kvs @ [(k, v)]) = (map_of kvs)(k \<mapsto> v)"
  by (rule ext) (auto simp: map_add_def dest: map_of_SomeD intro: rev_image_eqI split: option.splits)

section \<open>Folds\<close>

lemma fold_keeps:
  assumes "P s" and "\<And>x s. P s \<Longrightarrow> P (f x s)"
  shows "P (fold f xs s)"
  using assms by (induction xs arbitrary: s) simp_all

end
