(* ===== verification/Js_Value.thy ===== *)
theory Js_Value
  imports Js_Prelude
begin

text \<open>
  The JavaScript values that flow through the client: numbers, the value tree that
  \<open>JSON.parse\<close> and \<open>parseToml\<close> produce, property lookup, and the coercions
  \<open>Boolean(v)\<close> and \<open>Number(v)\<close> that the source applies to untrusted values.

  A finite double is the real number it denotes; \<open>+0\<close> and \<open>-0\<close> are one value, as
  nothing the client does with them tells them apart.  A computed or parsed value that is
  too large for a double becomes an infinity (\<open>js_num\<close>, at the IEEE 754 threshold);
  rounding to 53 bits is not modelled.
\<close>

section \<open>Numbers\<close>

datatype jsnum = Fin real | PInf | NInf | NaN

definition overflow_threshold :: real where
  "overflow_threshold = 2 ^ 1024 - 2 ^ 970"

definition js_num :: "real \<Rightarrow> jsnum" where
  "js_num x = (if overflow_threshold \<le> x then PInf
     else if x \<le> - overflow_threshold then NInf else Fin x)"

definition is_finite_num :: "jsnum \<Rightarrow> bool" where
  "is_finite_num n = (case n of Fin _ \<Rightarrow> True | _ \<Rightarrow> False)"

text \<open>\<open>Number.isInteger\<close> and \<open>Number.isSafeInteger\<close>.\<close>

definition is_integral :: "real \<Rightarrow> bool" where
  "is_integral x \<longleftrightarrow> of_int \<lfloor>x\<rfloor> = x"

definition num_is_integer :: "jsnum \<Rightarrow> bool" where
  "num_is_integer n = (case n of Fin x \<Rightarrow> is_integral x | _ \<Rightarrow> False)"

definition max_safe_integer :: real where
  "max_safe_integer = 9007199254740991"

definition num_is_safe_integer :: "jsnum \<Rightarrow> bool" where
  "num_is_safe_integer n =
     (case n of Fin x \<Rightarrow> is_integral x \<and> \<bar>x\<bar> \<le> max_safe_integer | _ \<Rightarrow> False)"

lemma is_finite_num_iff: "is_finite_num n \<longleftrightarrow> (\<exists>x. n = Fin x)"
  by (cases n) (simp_all add: is_finite_num_def)

lemma is_integral_of_int [simp]: "is_integral (of_int i)"
  by (simp add: is_integral_def)

lemma is_integral_numeral [simp]: "is_integral (numeral n)" "is_integral 0" "is_integral 1"
  using is_integral_of_int [of "numeral n"] is_integral_of_int [of 0] is_integral_of_int [of 1]
  by simp_all

lemma is_integralE: "is_integral x \<Longrightarrow> (\<And>i. x = of_int i \<Longrightarrow> P) \<Longrightarrow> P"
  by (metis is_integral_def)

lemma overflow_threshold_large: "2 ^ 53 < overflow_threshold"
proof -
  have "(2::real) ^ 970 + 2 ^ 53 < 2 ^ 971" by simp
  also have "\<dots> \<le> 2 ^ 1024" by (rule power_increasing) simp_all
  finally show ?thesis by (simp add: overflow_threshold_def)
qed

lemma js_num_small: "\<bar>x\<bar> \<le> 2 ^ 53 \<Longrightarrow> js_num x = Fin x"
  using overflow_threshold_large by (auto simp: js_num_def)

lemma js_num_eq_Fin: "js_num x = Fin y \<longleftrightarrow> y = x \<and> \<bar>x\<bar> < overflow_threshold"
  by (auto simp: js_num_def)

lemma js_num_not_NaN [simp]: "js_num x \<noteq> NaN"
  by (simp add: js_num_def)

text \<open>An array of three numbers.\<close>

type_synonym vec3 = "real \<times> real \<times> real"

section \<open>Values\<close>

text \<open>
  Objects list their own properties in insertion order; the keys of an object are distinct.
  \<open>JUndef\<close> is \<open>undefined\<close>, the value of an absent property.
\<close>

datatype jsval =
    JUndef
  | JNull
  | JBool bool
  | JNum jsnum
  | JStr string
  | JArr "jsval list"
  | JObj "(string \<times> jsval) list"

definition is_string :: "jsval \<Rightarrow> bool" where
  "is_string v = (case v of JStr _ \<Rightarrow> True | _ \<Rightarrow> False)"

definition is_array :: "jsval \<Rightarrow> bool" where
  "is_array v = (case v of JArr _ \<Rightarrow> True | _ \<Rightarrow> False)"

text \<open>The own properties of an object, and \<open>'k' in v\<close> and \<open>v.k\<close> for a name \<open>k\<close> that
  \<open>Object.prototype\<close> does not define.\<close>

definition own_props :: "jsval \<Rightarrow> (string \<times> jsval) list" where
  "own_props v = (case v of JObj kvs \<Rightarrow> kvs | _ \<Rightarrow> [])"

definition has_prop :: "jsval \<Rightarrow> string \<Rightarrow> bool" where
  "has_prop v k \<longleftrightarrow> map_of (own_props v) k \<noteq> None"

definition get_prop :: "jsval \<Rightarrow> string \<Rightarrow> jsval" where
  "get_prop v k = (case map_of (own_props v) k of Some w \<Rightarrow> w | None \<Rightarrow> JUndef)"

lemma own_props_JObj [simp]: "own_props (JObj kvs) = kvs"
  by (simp add: own_props_def)

text \<open>The contents of a string or number, for use under the test that it is one.\<close>

definition the_str :: "jsval \<Rightarrow> string" where
  "the_str v = (case v of JStr s \<Rightarrow> s | _ \<Rightarrow> [])"

definition the_arr :: "jsval \<Rightarrow> jsval list" where
  "the_arr v = (case v of JArr xs \<Rightarrow> xs | _ \<Rightarrow> [])"

definition the_real :: "jsval \<Rightarrow> real" where
  "the_real v = (case v of JNum (Fin x) \<Rightarrow> x | _ \<Rightarrow> 0)"

lemma the_simps [simp]:
  "the_str (JStr s) = s" "the_arr (JArr xs) = xs" "the_real (JNum (Fin x)) = x"
  by (simp_all add: the_str_def the_arr_def the_real_def)

lemma is_string_iff: "is_string v \<longleftrightarrow> (\<exists>s. v = JStr s)"
  by (cases v) (simp_all add: is_string_def)

lemma is_array_iff: "is_array v \<longleftrightarrow> (\<exists>xs. v = JArr xs)"
  by (cases v) (simp_all add: is_array_def)

text \<open>The property names every plain object inherits from \<open>Object.prototype\<close>.\<close>

definition object_prototype_names :: "string list" where
  "object_prototype_names =
     [''constructor'', ''__defineGetter__'', ''__defineSetter__'', ''hasOwnProperty'',
      ''__lookupGetter__'', ''__lookupSetter__'', ''isPrototypeOf'', ''propertyIsEnumerable'',
      ''toString'', ''valueOf'', ''__proto__'', ''toLocaleString'']"

section \<open>\<open>Boolean(v)\<close>\<close>

definition truthy :: "jsval \<Rightarrow> bool" where
  "truthy v = (case v of
      JUndef \<Rightarrow> False
    | JNull \<Rightarrow> False
    | JBool b \<Rightarrow> b
    | JNum n \<Rightarrow> n \<noteq> Fin 0 \<and> n \<noteq> NaN
    | JStr s \<Rightarrow> s \<noteq> []
    | JArr _ \<Rightarrow> True
    | JObj _ \<Rightarrow> True)"

lemma truthy_simps [simp]:
  "\<not> truthy JUndef" "\<not> truthy JNull" "truthy (JBool b) = b" "truthy (JStr s) \<longleftrightarrow> s \<noteq> []"
  "truthy (JArr xs)" "truthy (JObj kvs)"
  by (simp_all add: truthy_def)

section \<open>\<open>Number(v)\<close>\<close>

text \<open>
  A decimal literal with integer digits \<open>ip\<close>, fraction digits \<open>fp\<close> and exponent \<open>ex\<close>
  denotes \<open>(ip fp) * 10 ^ (ex - |fp|)\<close>.
\<close>

definition dec_value :: "string \<Rightarrow> string \<Rightarrow> int \<Rightarrow> real" where
  "dec_value ip fp ex =
     (let m = real (nat_of_digits (ip @ fp)); e = ex - int (length fp)
      in if 0 \<le> e then m * 10 ^ nat e else m / 10 ^ nat (- e))"

lemma dec_value_int [simp]: "dec_value ip [] 0 = real (nat_of_digits ip)"
  by (simp add: dec_value_def)

text \<open>An optional exponent part: \<open>None\<close> if there is an \<open>e\<close> with no digits after it.\<close>

definition exp_part :: "string \<Rightarrow> (int \<times> string) option" where
  "exp_part s = (case s of
      [] \<Rightarrow> Some (0, [])
    | c # cs \<Rightarrow>
        if c = CHR ''e'' \<or> c = CHR ''E'' then
          let neg = (cs \<noteq> [] \<and> hd cs = CHR ''-'');
              ds = (if cs \<noteq> [] \<and> (hd cs = CHR ''-'' \<or> hd cs = CHR ''+'') then tl cs else cs);
              (d, r) = scan is_digit ds
          in if d = [] then None
             else Some (if neg then - int (nat_of_digits d) else int (nat_of_digits d), r)
        else Some (0, s))"

text \<open>The white space that \<open>Number(string)\<close> ignores at both ends, one code unit each.\<close>

definition js_white :: "string list" where
  "js_white =
     map (\<lambda>n. [char_of n]) [9::nat, 10, 11, 12, 13, 32] @
     [[CHR 0xC2, CHR 0xA0], [CHR 0xE1, CHR 0x9A, CHR 0x80], [CHR 0xE2, CHR 0x80, CHR 0xA8],
      [CHR 0xE2, CHR 0x80, CHR 0xA9], [CHR 0xE2, CHR 0x80, CHR 0xAF],
      [CHR 0xE2, CHR 0x81, CHR 0x9F], [CHR 0xE3, CHR 0x80, CHR 0x80],
      [CHR 0xEF, CHR 0xBB, CHR 0xBF]] @
     map (\<lambda>n. [CHR 0xE2, CHR 0x80, char_of n]) [0x80::nat ..< 0x8B]"

function trim_front :: "string list \<Rightarrow> string \<Rightarrow> string" where
  "trim_front ws s =
     (case find (\<lambda>w. w \<noteq> [] \<and> take (length w) s = w) ws of
        None \<Rightarrow> s
      | Some w \<Rightarrow> trim_front ws (drop (length w) s))"
  by pat_completeness auto
termination
proof (relation "measure (\<lambda>(ws, s). length s)", goal_cases)
  case 1
  show ?case by simp
next
  case (2 ws s w)
  then have "w \<noteq> []" and "take (length w) s = w" by (auto simp: find_Some_iff)
  then have "s \<noteq> []" by auto
  with \<open>w \<noteq> []\<close> show ?case by simp
qed

declare trim_front.simps [simp del]

definition js_trim :: "string \<Rightarrow> string" where
  "js_trim s = rev (trim_front (map rev js_white) (rev (trim_front js_white s)))"

text \<open>\<open>StringToNumber\<close>: the empty string is 0, hexadecimal, octal and binary integers carry
  no sign, everything else is a decimal literal or \<open>Infinity\<close> with an optional sign.\<close>

definition radix_digit :: "nat \<Rightarrow> char \<Rightarrow> nat option" where
  "radix_digit b c =
     (let d = (if is_digit c then digit_val c
               else if 97 \<le> code c \<and> code c \<le> 102 then code c - 87
               else if 65 \<le> code c \<and> code c \<le> 70 then code c - 55 else 99)
      in if d < b then Some d else None)"

definition radix_number :: "nat \<Rightarrow> string \<Rightarrow> jsnum" where
  "radix_number b s =
     (if s = [] \<or> list_ex (\<lambda>c. radix_digit b c = None) s then NaN
      else js_num (real (foldl (\<lambda>n c. b * n + the (radix_digit b c)) 0 s)))"

definition unsigned_decimal :: "string \<Rightarrow> real option" where
  "unsigned_decimal s =
     (let (ip, r1) = scan is_digit s;
          (fp, r2) = (if r1 \<noteq> [] \<and> hd r1 = CHR ''.'' then scan is_digit (tl r1) else ([], r1))
      in if ip = [] \<and> fp = [] then None
         else case exp_part r2 of
             Some (ex, []) \<Rightarrow> Some (dec_value ip fp ex)
           | _ \<Rightarrow> None)"

definition string_to_number :: "string \<Rightarrow> jsnum" where
  "string_to_number str =
     (let s = js_trim str; p = map code (take 2 s) in
      if s = [] then Fin 0
      else if p = [48, 120] \<or> p = [48, 88] then radix_number 16 (drop 2 s)
      else if p = [48, 111] \<or> p = [48, 79] then radix_number 8 (drop 2 s)
      else if p = [48, 98] \<or> p = [48, 66] then radix_number 2 (drop 2 s)
      else
        let neg = (hd s = CHR ''-'');
            u = (if hd s = CHR ''-'' \<or> hd s = CHR ''+'' then tl s else s)
        in if u = ''Infinity'' then (if neg then NInf else PInf)
           else case unsigned_decimal u of
               None \<Rightarrow> NaN
             | Some x \<Rightarrow> js_num (if neg then - x else x))"

text \<open>
  \<open>Number(v)\<close>.  An array is converted through the comma-joined text of its elements, so it
  is a number only when it has at most one element; an object is converted through
  \<open>toString\<close>, which throws a \<open>TypeError\<close> when the object carries a property of that name,
  as no value of a parsed text is callable.
\<close>

datatype js_error = TypeError

fun text_throws :: "jsval \<Rightarrow> bool" where
  "text_throws (JArr vs) = list_ex text_throws vs"
| "text_throws (JObj kvs) = (map_of kvs ''toString'' \<noteq> None)"
| "text_throws _ = False"

fun to_number :: "jsval \<Rightarrow> js_error + jsnum" where
  "to_number JUndef = Inr NaN"
| "to_number JNull = Inr (Fin 0)"
| "to_number (JBool b) = Inr (Fin (if b then 1 else 0))"
| "to_number (JNum n) = Inr n"
| "to_number (JStr s) = Inr (string_to_number s)"
| "to_number (JObj kvs) = (if text_throws (JObj kvs) then Inl TypeError else Inr NaN)"
| "to_number (JArr []) = Inr (Fin 0)"
| "to_number (JArr [v]) =
     (case v of
        JUndef \<Rightarrow> Inr (Fin 0)
      | JNull \<Rightarrow> Inr (Fin 0)
      | JBool _ \<Rightarrow> Inr NaN
      | _ \<Rightarrow> to_number v)"
| "to_number (JArr (v # w # vs)) =
     (if text_throws (JArr (v # w # vs)) then Inl TypeError else Inr NaN)"

lemma to_number_throws_iff: "(\<exists>e. to_number v = Inl e) \<longleftrightarrow> text_throws v"
  by (induction v rule: to_number.induct) (auto split: jsval.splits)

text \<open>An integer numeral converts back to its value.\<close>

lemma trim_front_id:
  assumes "\<forall>w \<in> set ws. w \<noteq> [] \<longrightarrow> take (length w) s \<noteq> w"
  shows "trim_front ws s = s"
proof -
  have "find (\<lambda>w. w \<noteq> [] \<and> take (length w) s = w) ws = None"
    using assms by (auto simp: find_None_iff)
  then show ?thesis by (simp add: trim_front.simps [of ws s])
qed

definition plain_edge :: "char \<Rightarrow> bool" where
  "plain_edge c \<longleftrightarrow> 33 \<le> code c \<and> code c \<le> 126"

lemma js_white_edges:
  "w \<in> set js_white \<Longrightarrow> w \<noteq> [] \<and> \<not> plain_edge (hd w) \<and> \<not> plain_edge (last w)"
proof -
  have "list_all (\<lambda>w. w \<noteq> [] \<and> \<not> plain_edge (hd w) \<and> \<not> plain_edge (last w)) js_white"
    by code_simp
  then show "w \<in> set js_white \<Longrightarrow> ?thesis" by (simp add: list_all_iff)
qed

lemma trim_front_plain:
  assumes "s = [] \<or> plain_edge (hd s)" and "\<forall>w \<in> set ws. \<not> plain_edge (hd w)"
  shows "trim_front ws s = s"
proof (rule trim_front_id, intro ballI impI notI)
  fix w assume w: "w \<in> set ws" "w \<noteq> []" and eq: "take (length w) s = w"
  then obtain c cs where "s = c # cs" by (cases s) auto
  with eq w(2) have "hd w = hd s" by (cases w) auto
  with w(1) assms \<open>s = c # cs\<close> show False by auto
qed

lemma js_trim_plain:
  assumes "s = [] \<or> plain_edge (hd s) \<and> plain_edge (last s)"
  shows "js_trim s = s"
proof -
  have "trim_front js_white s = s"
    using assms js_white_edges by (intro trim_front_plain) auto
  moreover have "trim_front (map rev js_white) (rev s) = rev s"
    using assms js_white_edges by (intro trim_front_plain) (auto simp: hd_rev)
  ultimately show ?thesis by (simp add: js_trim_def)
qed

lemma is_digit_plain: "is_digit c \<Longrightarrow> plain_edge c"
  by (simp add: is_digit_def plain_edge_def)

lemma digits_plain: "ds \<noteq> [] \<Longrightarrow> \<forall>c \<in> set ds. is_digit c \<Longrightarrow> plain_edge (hd ds) \<and> plain_edge (last ds)"
  by (simp add: is_digit_plain)

lemma unsigned_decimal_digits:
  assumes "ds \<noteq> []" and "\<forall>c \<in> set ds. is_digit c"
  shows "unsigned_decimal ds = Some (real (nat_of_digits ds))"
  using assms scan_append [of ds is_digit "[]"]
  by (simp add: unsigned_decimal_def exp_part_def)

lemma digit_char_facts:
  "is_digit c \<Longrightarrow> c \<noteq> CHR ''-'' \<and> c \<noteq> CHR ''+'' \<and> c \<noteq> CHR ''.'' \<and> c \<noteq> CHR ''I''"
  by (auto simp: is_digit_def code_def)

lemma two_digits_no_prefix:
  assumes "\<forall>c \<in> set ds. is_digit c"
  shows "map code (take 2 ds) = [48, n] \<Longrightarrow> n \<le> 57"
  using assms by (cases ds rule: list.exhaust; cases "tl ds" rule: list.exhaust)
    (auto simp: is_digit_def numeral_2_eq_2)

text \<open>A signed or unsigned run of digits is read as the integer it denotes.\<close>

lemma string_to_number_digits:
  assumes "ds \<noteq> []" and digits: "\<forall>c \<in> set ds. is_digit c"
  shows "string_to_number ds = js_num (real (nat_of_digits ds))"
proof -
  from assms have trim: "js_trim ds = ds"
    by (simp add: js_trim_plain digits_plain)
  from assms have hd: "is_digit (hd ds)" by simp
  then have ninf: "ds \<noteq> ''Infinity''"
    by (auto simp: is_digit_def code_def)
  have no_prefix: "map code (take 2 ds) \<noteq> [48, n]" if "57 < n" for n
    using two_digits_no_prefix [OF digits, of n] that by auto
  show ?thesis
    using assms hd digit_char_facts [OF hd] ninf
    by (simp add: string_to_number_def Let_def trim no_prefix unsigned_decimal_digits)
qed

lemma string_to_number_sign:
  assumes "ds \<noteq> []" and digits: "\<forall>c \<in> set ds. is_digit c" and c: "c = CHR ''-'' \<or> c = CHR ''+''"
  shows "string_to_number (c # ds) =
    js_num (if c = CHR ''-'' then - real (nat_of_digits ds) else real (nat_of_digits ds))"
proof -
  from c have pc: "plain_edge c" by (auto simp: plain_edge_def code_def)
  from assms pc have trim: "js_trim (c # ds) = c # ds"
    by (intro js_trim_plain) (simp add: digits_plain)
  have code_c: "code c \<noteq> 48" using c by (auto simp: code_def)
  from assms have "is_digit (hd ds)" by simp
  then have ninf: "ds \<noteq> ''Infinity''" by (auto simp: is_digit_def code_def)
  show ?thesis
    using assms c code_c ninf
    by (auto simp: string_to_number_def Let_def trim unsigned_decimal_digits numeral_2_eq_2)
qed

lemma string_to_number_show_int: "string_to_number (show_int i) = js_num (of_int i)"
proof (cases "i < 0")
  case True
  then show ?thesis
    using string_to_number_sign [of "show_nat (nat (- i))" "CHR ''-''"]
    by (simp add: show_int_def show_nat_digits)
next
  case False
  then show ?thesis
    by (simp add: show_int_def string_to_number_digits show_nat_digits)
qed

lemma show_int_hd_cases: "\<exists>c s. show_int i = c # s \<and> (is_digit c \<or> c = CHR ''-'')"
proof (cases "i < 0")
  case False
  then show ?thesis using hd_show_nat_digit [of "nat i"]
    by (cases "show_nat (nat i)") (simp_all add: show_int_def)
qed (simp add: show_int_def)

text \<open>A decimal literal: an optional sign, digits, and digits after a point.\<close>

definition number_char :: "char \<Rightarrow> bool" where
  "number_char c \<longleftrightarrow> is_digit c \<or> c \<in> {CHR ''-'', CHR ''+'', CHR ''.'', CHR ''e'', CHR ''E''}"

lemma number_char_code: "number_char c \<Longrightarrow> plain_edge c \<and> code c \<notin> {120, 88, 111, 79, 98, 66, 73}"
  by (auto simp: number_char_def plain_edge_def is_digit_def code_def)

lemma no_radix_prefix:
  assumes "\<forall>c \<in> set s. number_char c" and "n \<in> {120, 88, 111, 79, 98, 66}"
  shows "map code (take 2 s) \<noteq> [48, n]"
proof
  assume "map code (take 2 s) = [48, n]"
  then have "n \<in> set (map code (take 2 s))" by simp
  then obtain c where "c \<in> set s" "code c = n" by (auto dest: in_set_takeD)
  with assms number_char_code show False by auto
qed

lemma string_to_number_signed:
  assumes sg: "sg \<in> {[], ''-'', ''+''}" and ne: "u \<noteq> []" and chars: "\<forall>c \<in> set u. number_char c"
    and hd: "hd u \<notin> {CHR ''-'', CHR ''+''}" and dec: "unsigned_decimal u = Some y"
  shows "string_to_number (sg @ u) = js_num (if sg = ''-'' then - y else y)"
proof -
  have signs: "number_char (CHR ''-'')" "number_char (CHR ''+'')" by (simp_all add: number_char_def)
  then have all: "\<forall>c \<in> set (sg @ u). number_char c" using sg chars by auto
  then have trim: "js_trim (sg @ u) = sg @ u"
    using ne number_char_code by (intro js_trim_plain) (auto simp: hd_append last_append)
  have pre: "map code (take 2 (sg @ u)) \<noteq> [48, n]" if "n \<in> {120, 88, 111, 79, 98, 66}" for n
    using no_radix_prefix [OF all that] .
  have "number_char (hd u)" using chars ne by simp
  then have "hd u \<noteq> CHR ''I''" using number_char_code [of "hd u"] by (auto simp: code_def)
  then have inf: "u \<noteq> ''Infinity''" by auto
  have "code (CHR ''-'') \<noteq> 48" "code (CHR ''+'') \<noteq> 48" by (simp_all add: code_def)
  then show ?thesis
    using sg trim pre inf ne hd dec
    by (elim insertE emptyE) (simp_all add: string_to_number_def Let_def)
qed

lemma string_to_number_decimal:
  assumes "ip \<noteq> []" and "length fp = d" and digits: "\<forall>c \<in> set (ip @ fp). is_digit c"
    and sg: "sg \<in> {[], ''-'', ''+''}"
  shows "string_to_number (sg @ ip @ (if d = 0 then [] else CHR ''.'' # fp)) =
    js_num (if sg = ''-'' then - (real (nat_of_digits (ip @ fp)) / 10 ^ d) else real (nat_of_digits (ip @ fp)) / 10 ^ d)"
proof (rule string_to_number_signed [OF sg])
  have scan: "scan is_digit (ip @ CHR ''.'' # fp) = (ip, CHR ''.'' # fp)" "scan is_digit fp = (fp, [])"
      "scan is_digit ip = (ip, [])"
    using digits scan_append [of ip is_digit "CHR ''.'' # fp"] scan_append [of fp is_digit "[]"]
      scan_append [of ip is_digit "[]"]
    by (simp_all add: is_digit_def code_def)
  have "dec_value ip fp 0 = real (nat_of_digits (ip @ fp)) / 10 ^ d"
    using assms(2) by (simp add: dec_value_def Let_def)
  with assms(1,2) scan show "unsigned_decimal (ip @ (if d = 0 then [] else CHR ''.'' # fp)) =
      Some (real (nat_of_digits (ip @ fp)) / 10 ^ d)"
    by (cases "d = 0") (simp_all add: unsigned_decimal_def exp_part_def)
  show "\<forall>c \<in> set (ip @ (if d = 0 then [] else CHR ''.'' # fp)). number_char c"
    using digits by (auto simp: number_char_def)
  show "hd (ip @ (if d = 0 then [] else CHR ''.'' # fp)) \<notin> {CHR ''-'', CHR ''+''}"
    using assms(1) digits digit_char_facts [of "hd ip"] by auto
qed (use assms in auto)

end
