(* ===== verification/Json_Text.thy ===== *)
theory Json_Text
  imports Js_Value "HOL-Library.AList"
begin

text \<open>
  \<open>JSON.parse\<close>: the JSON grammar on the text, written with a fuel argument that bounds the
  recursion.  The fuel \<open>json_parse\<close> supplies is enough for every text (\<open>json_val_fuel\<close>), so
  \<open>None\<close> means that \<open>JSON.parse\<close> throws a \<open>SyntaxError\<close>.
\<close>

section \<open>Parsing\<close>

definition json_ws :: "char \<Rightarrow> bool" where
  "json_ws c \<longleftrightarrow> code c \<in> {9, 10, 13, 32}"

definition skip_ws :: "string \<Rightarrow> string" where
  "skip_ws s = dropWhile json_ws s"

definition hex_val :: "char \<Rightarrow> nat option" where
  "hex_val c = radix_digit 16 c"

definition hex4 :: "char \<Rightarrow> char \<Rightarrow> char \<Rightarrow> char \<Rightarrow> nat option" where
  "hex4 a b c d =
     (case (hex_val a, hex_val b, hex_val c, hex_val d) of
        (Some w, Some x, Some y, Some z) \<Rightarrow> Some (4096 * w + 256 * x + 16 * y + z)
      | _ \<Rightarrow> None)"

text \<open>The bytes of one UTF-16 code unit.\<close>

definition code_unit :: "nat \<Rightarrow> string" where
  "code_unit n =
     (if n < 128 then [char_of n]
      else if n < 2048 then [char_of (192 + n div 64), char_of (128 + n mod 64)]
      else [char_of (224 + n div 4096), char_of (128 + n div 64 mod 64), char_of (128 + n mod 64)])"

definition json_escape :: "char \<Rightarrow> char option" where
  "json_escape e =
     (if e = QUOTE \<or> e = BACKSLASH \<or> e = CHR ''/'' then Some e
      else if e = CHR ''b'' then Some (CHR 0x08)
      else if e = CHR ''f'' then Some (CHR 0x0C)
      else if e = CHR ''n'' then Some LF
      else if e = CHR ''r'' then Some CR
      else if e = CHR ''t'' then Some TAB
      else None)"

text \<open>The characters of a string up to its closing quote, and what follows it.\<close>

fun json_chars :: "string \<Rightarrow> (string \<times> string) option" where
  "json_chars [] = None"
| "json_chars (c # s) =
     (if c = QUOTE then Some ([], s)
      else if c = BACKSLASH then
        (case s of
           [] \<Rightarrow> None
         | e # s' \<Rightarrow>
             if e = CHR ''u'' then
               (case s' of
                  h1 # h2 # h3 # h4 # s'' \<Rightarrow>
                    (case hex4 h1 h2 h3 h4 of
                       None \<Rightarrow> None
                     | Some n \<Rightarrow> map_option (apfst (\<lambda>t. code_unit n @ t)) (json_chars s''))
                | _ \<Rightarrow> None)
             else
               (case json_escape e of
                  None \<Rightarrow> None
                | Some x \<Rightarrow> map_option (apfst (Cons x)) (json_chars s')))
      else if code c < 32 then None
      else map_option (apfst (Cons c)) (json_chars s))"

definition json_number :: "string \<Rightarrow> (jsnum \<times> string) option" where
  "json_number s =
     (let neg = (s \<noteq> [] \<and> hd s = CHR ''-'');
          (ip, r1) = scan is_digit (if neg then tl s else s);
          dot = (r1 \<noteq> [] \<and> hd r1 = CHR ''.'');
          (fp, r2) = (if dot then scan is_digit (tl r1) else ([], r1))
      in if ip = [] \<or> (1 < length ip \<and> hd ip = CHR ''0'') \<or> (dot \<and> fp = []) then None
         else case exp_part r2 of
             None \<Rightarrow> None
           | Some (ex, r3) \<Rightarrow>
               Some (js_num (if neg then - dec_value ip fp ex else dec_value ip fp ex), r3))"

text \<open>Own properties from the members of an object literal: a repeated key keeps its first
  place and takes the last value.\<close>

definition obj_of :: "(string \<times> jsval) list \<Rightarrow> (string \<times> jsval) list" where
  "obj_of kvs = fold (\<lambda>(k, v) ob. AList.update k v ob) kvs []"

definition strip_word :: "string \<Rightarrow> string \<Rightarrow> string option" where
  "strip_word w s = (if take (length w) s = w then Some (drop (length w) s) else None)"

definition json_word :: "string \<Rightarrow> (jsval \<times> string) option" where
  "json_word s =
     (case strip_word ''true'' s of Some r \<Rightarrow> Some (JBool True, r) | None \<Rightarrow>
      (case strip_word ''false'' s of Some r \<Rightarrow> Some (JBool False, r) | None \<Rightarrow>
       (case strip_word ''null'' s of Some r \<Rightarrow> Some (JNull, r) | None \<Rightarrow>
        map_option (apfst JNum) (json_number s))))"

fun json_val :: "nat \<Rightarrow> string \<Rightarrow> (jsval \<times> string) option"
  and json_elems :: "nat \<Rightarrow> string \<Rightarrow> (jsval list \<times> string) option"
  and json_members :: "nat \<Rightarrow> string \<Rightarrow> ((string \<times> jsval) list \<times> string) option" where
  "json_val 0 s = None"
| "json_val (Suc f) s =
     (case skip_ws s of
        [] \<Rightarrow> None
      | c # r \<Rightarrow>
          if c = CHR ''{'' then
            (if skip_ws r \<noteq> [] \<and> hd (skip_ws r) = CHR ''}'' then Some (JObj [], tl (skip_ws r))
             else map_option (apfst (\<lambda>kvs. JObj (obj_of kvs))) (json_members f r))
          else if c = CHR ''['' then
            (if skip_ws r \<noteq> [] \<and> hd (skip_ws r) = CHR '']'' then Some (JArr [], tl (skip_ws r))
             else map_option (apfst JArr) (json_elems f r))
          else if c = QUOTE then map_option (apfst JStr) (json_chars r)
          else json_word (c # r))"
| "json_elems 0 s = None"
| "json_elems (Suc f) s =
     (case json_val f s of
        None \<Rightarrow> None
      | Some (v, r) \<Rightarrow>
          (case skip_ws r of
             [] \<Rightarrow> None
           | c # r' \<Rightarrow>
               if c = CHR '']'' then Some ([v], r')
               else if c = CHR '','' then map_option (apfst (Cons v)) (json_elems f r')
               else None))"
| "json_members 0 s = None"
| "json_members (Suc f) s =
     (case skip_ws s of
        [] \<Rightarrow> None
      | q # r \<Rightarrow>
          if q \<noteq> QUOTE then None
          else case json_chars r of
              None \<Rightarrow> None
            | Some (k, r1) \<Rightarrow>
                (case skip_ws r1 of
                   [] \<Rightarrow> None
                 | c # r2 \<Rightarrow>
                     if c \<noteq> CHR '':'' then None
                     else case json_val f r2 of
                         None \<Rightarrow> None
                       | Some (v, r3) \<Rightarrow>
                           (case skip_ws r3 of
                              [] \<Rightarrow> None
                            | d # r4 \<Rightarrow>
                                if d = CHR ''}'' then Some ([(k, v)], r4)
                                else if d = CHR '','' then
                                  map_option (apfst (Cons (k, v))) (json_members f r4)
                                else None)))"

definition json_parse :: "string \<Rightarrow> jsval option" where
  "json_parse s =
     (case json_val (2 * length s + 2) s of
        Some (v, r) \<Rightarrow> (if skip_ws r = [] then Some v else None)
      | None \<Rightarrow> None)"

section \<open>The fuel is enough\<close>

text \<open>Every scanner returns a shorter rest.\<close>

lemma skip_ws_length: "length (skip_ws s) \<le> length s"
  by (simp add: skip_ws_def length_dropWhile_le)

lemma skip_ws_Cons_length: "skip_ws s = c # r \<Longrightarrow> length r < length s"
  using skip_ws_length [of s] by simp

lemma json_chars_length: "json_chars s = Some (t, r) \<Longrightarrow> length r < length s"
  by (induction s arbitrary: t r rule: json_chars.induct)
    (fastforce split: if_splits list.splits option.splits)+

lemma exp_part_length: "exp_part s = Some (e, r) \<Longrightarrow> length r \<le> length s"
  by (cases s) (auto simp: exp_part_def Let_def split: if_splits prod.splits
      dest!: scan_length dest: order.trans [OF _ diff_le_self])

lemma json_number_length: "json_number s = Some (n, r) \<Longrightarrow> length r < length s"
proof -
  assume *: "json_number s = Some (n, r)"
  define u where "u = (if s \<noteq> [] \<and> hd s = CHR ''-'' then tl s else s)"
  obtain ip r1 where s1: "scan is_digit u = (ip, r1)" by force
  define dot where "dot = (r1 \<noteq> [] \<and> hd r1 = CHR ''.'')"
  obtain fp r2 where s2: "(if dot then scan is_digit (tl r1) else ([], r1)) = (fp, r2)" by force
  have ip: "ip \<noteq> []" and ex: "\<exists>ex. exp_part r2 = Some (ex, r)"
    using * by (auto simp: json_number_def Let_def u_def [symmetric] dot_def [symmetric] s1 s2
        split: if_splits option.splits)
  have "length r1 < length u" using scan_eqD [OF s1] ip by auto
  moreover have "length r2 \<le> length r1" using s2 scan_length [of is_digit "tl r1" fp r2]
    by (auto split: if_splits)
  moreover have "length r \<le> length r2" using ex exp_part_length by blast
  moreover have "length u \<le> length s" by (simp add: u_def)
  ultimately show ?thesis by simp
qed

lemma strip_word_length: "strip_word w s = Some r \<Longrightarrow> w \<noteq> [] \<Longrightarrow> length r < length s"
  by (cases s) (auto simp: strip_word_def split: if_splits)

lemma json_word_length: "json_word s = Some (v, r) \<Longrightarrow> length r < length s"
  by (auto simp: json_word_def split: option.splits dest: strip_word_length json_number_length)

lemma json_length:
  "json_val f s = Some (v, r) \<Longrightarrow> length r < length s"
  "json_elems f s = Some (vs, r) \<Longrightarrow> length r < length s"
  "json_members f s = Some (kvs, r) \<Longrightarrow> length r < length s"
proof (induction f s and f s and f s arbitrary: v r and vs r and kvs r
    rule: json_val_json_elems_json_members.induct)
  case (2 f s)
  then obtain c t where c: "skip_ws s = c # t" by (auto split: list.splits)
  have t: "length t < length s" by (rule skip_ws_Cons_length [OF c])
  have tl: "length (tl (skip_ws t)) \<le> length t" using skip_ws_length [of t] by simp
  from 2 c t tl skip_ws_length [of s] show ?case
    by (fastforce split: if_splits dest: json_chars_length json_word_length)
next
  case (4 f s)
  then show ?case
    by (fastforce split: list.splits option.splits if_splits dest!: skip_ws_Cons_length)
next
  case (6 f s)
  then show ?case
    by (fastforce split: list.splits option.splits if_splits
        dest!: skip_ws_Cons_length json_chars_length)
qed simp_all

lemma json_val_cong:
  assumes "\<And>c r. skip_ws s = c # r \<Longrightarrow> json_members f r = json_members g r"
    and "\<And>c r. skip_ws s = c # r \<Longrightarrow> json_elems f r = json_elems g r"
  shows "json_val (Suc f) s = json_val (Suc g) s"
  using assms by (cases "skip_ws s") simp_all

lemma json_elems_cong:
  assumes "json_val f s = json_val g s"
    and "\<And>v r c r'. json_val f s = Some (v, r) \<Longrightarrow> skip_ws r = c # r' \<Longrightarrow> json_elems f r' = json_elems g r'"
  shows "json_elems (Suc f) s = json_elems (Suc g) s"
  using assms by (auto simp del: json_val.simps split: option.splits list.splits)

lemma json_members_cong:
  assumes "\<And>q r k r1 c r2. skip_ws s = q # r \<Longrightarrow> json_chars r = Some (k, r1) \<Longrightarrow> skip_ws r1 = c # r2 \<Longrightarrow>
      json_val f r2 = json_val g r2"
    and "\<And>q r k r1 c r2 v r3 d r4. skip_ws s = q # r \<Longrightarrow> json_chars r = Some (k, r1) \<Longrightarrow>
      skip_ws r1 = c # r2 \<Longrightarrow> json_val f r2 = Some (v, r3) \<Longrightarrow> skip_ws r3 = d # r4 \<Longrightarrow>
      json_members f r4 = json_members g r4"
  shows "json_members (Suc f) s = json_members (Suc g) s"
proof (cases "\<exists>q r k r1 c r2. skip_ws s = q # r \<and> json_chars r = Some (k, r1) \<and> skip_ws r1 = c # r2")
  case False
  then show ?thesis by (auto split: list.split option.split)
next
  case True
  then obtain q r k r1 c r2 where q: "skip_ws s = q # r" and k: "json_chars r = Some (k, r1)"
    and c: "skip_ws r1 = c # r2" by blast
  note v = assms(1) [OF q k c] and m = assms(2) [OF q k c]
  show ?thesis
  proof (cases "json_val f r2")
    case None
    with v q k c show ?thesis by simp
  next
    case (Some vr)
    obtain w r3 where vr: "vr = (w, r3)" by force
    with Some v q k c m show ?thesis by (cases "skip_ws r3") simp_all
  qed
qed

lemma json_stable:
  "2 * length s < f \<Longrightarrow> 2 * length s < g \<Longrightarrow> json_val f s = json_val g s"
  "2 * length s + 1 < f \<Longrightarrow> 2 * length s + 1 < g \<Longrightarrow> json_elems f s = json_elems g s"
  "2 * length s + 1 < f \<Longrightarrow> 2 * length s + 1 < g \<Longrightarrow> json_members f s = json_members g s"
proof (induction f arbitrary: s g)
  case 0
  { case 1 then show ?case by simp }
  { case 2 then show ?case by simp }
  { case 3 then show ?case by simp }
next
  case (Suc f)
  {
    case 1
    then obtain h where g: "g = Suc h" by (cases g) auto
    have "2 * length r + 1 < f \<and> 2 * length r + 1 < h" if "skip_ws s = c # r" for c r
      using skip_ws_Cons_length [OF that] 1 g by simp
    then show ?case unfolding g by (intro json_val_cong) (blast intro: Suc.IH)+
  }
  {
    case 2
    then obtain h where g: "g = Suc h" by (cases g) auto
    have v: "json_val f s = json_val h s" using 2 g by (intro Suc.IH) simp_all
    have "2 * length r' + 1 < f \<and> 2 * length r' + 1 < h"
      if "json_val f s = Some (v, r)" "skip_ws r = c # r'" for v r c r'
      using json_length(1) [OF that(1)] skip_ws_Cons_length [OF that(2)] 2 g by simp
    with v show ?case unfolding g by (intro json_elems_cong) (blast intro: Suc.IH)+
  }
  {
    case 3
    then obtain h where g: "g = Suc h" by (cases g) auto
    have len: "length r2 < length s" if "skip_ws s = q # r" "json_chars r = Some (k, r1)"
      "skip_ws r1 = c # r2" for q r k r1 c r2
      using skip_ws_Cons_length [OF that(1)] json_chars_length [OF that(2)]
        skip_ws_Cons_length [OF that(3)] by simp
    show ?case unfolding g
    proof (rule json_members_cong)
      fix q r k r1 c r2
      assume *: "skip_ws s = q # r" "json_chars r = Some (k, r1)" "skip_ws r1 = c # r2"
      show "json_val f r2 = json_val h r2" using len [OF *] 3 g by (intro Suc.IH) simp_all
    next
      fix q r k r1 c r2 v r3 d r4
      assume *: "skip_ws s = q # r" "json_chars r = Some (k, r1)" "skip_ws r1 = c # r2"
        and v: "json_val f r2 = Some (v, r3)" and d: "skip_ws r3 = d # r4"
      show "json_members f r4 = json_members h r4"
        using len [OF *] json_length(1) [OF v] skip_ws_Cons_length [OF d] 3 g
        by (intro Suc.IH) simp_all
    qed
  }
qed

text \<open>Any fuel above the bound gives the value the parser uses.\<close>

lemma json_val_fuel: "2 * length s < f \<Longrightarrow> json_val f s = json_val (2 * length s + 2) s"
  by (rule json_stable(1)) simp_all

end
