(* ===== verification/Json_Print.thy ===== *)
theory Json_Print
  imports Json_Text
begin

text \<open>
  The part of \<open>JSON.stringify\<close> the client uses, and the round trip through \<open>JSON.parse\<close>.  The
  printer covers the values the settings store serialises: booleans, integers, strings
  and objects of those.  The codec locale states what the store relies on, and the JSON
  printer and parser are its interpretation.
\<close>

section \<open>Printing\<close>

text \<open>The values the settings store hands to \<open>JSON.stringify\<close>.\<close>

datatype jlit = LBool bool | LInt int | LStr string | LObj "(string \<times> jlit) list"

fun jval :: "jlit \<Rightarrow> jsval" where
  "jval (LBool b) = JBool b"
| "jval (LInt i) = JNum (js_num (of_int i))"
| "jval (LStr s) = JStr s"
| "jval (LObj kvs) = JObj (map (\<lambda>(k, l). (k, jval l)) kvs)"

text \<open>Objects have distinct keys, and at least one property.\<close>

fun lit_wf :: "jlit \<Rightarrow> bool" where
  "lit_wf (LObj kvs) \<longleftrightarrow> kvs \<noteq> [] \<and> distinct (map fst kvs) \<and> list_all (\<lambda>(k, l). lit_wf l) kvs"
| "lit_wf _ \<longleftrightarrow> True"

definition hex_char :: "nat \<Rightarrow> char" where
  "hex_char d = (if d < 10 then digit_char d else char_of (d + 87))"

definition json_esc :: "char \<Rightarrow> string" where
  "json_esc c =
     (if c = QUOTE then [BACKSLASH, QUOTE]
      else if c = BACKSLASH then [BACKSLASH, BACKSLASH]
      else if c = CHR 0x08 then [BACKSLASH, CHR ''b'']
      else if c = CHR 0x0C then [BACKSLASH, CHR ''f'']
      else if c = LF then [BACKSLASH, CHR ''n'']
      else if c = CR then [BACKSLASH, CHR ''r'']
      else if c = TAB then [BACKSLASH, CHR ''t'']
      else if code c < 32 then
        [BACKSLASH, CHR ''u'', CHR ''0'', CHR ''0'', hex_char (code c div 16), hex_char (code c mod 16)]
      else [c])"

definition json_quote :: "string \<Rightarrow> string" where
  "json_quote s = QUOTE # concat (map json_esc s) @ [QUOTE]"

fun join_with :: "string \<Rightarrow> string list \<Rightarrow> string" where
  "join_with sep [] = []"
| "join_with sep [x] = x"
| "join_with sep (x # y # xs) = x @ sep @ join_with sep (y # xs)"

fun print_lit :: "jlit \<Rightarrow> string" where
  "print_lit (LBool b) = (if b then ''true'' else ''false'')"
| "print_lit (LInt i) = show_int i"
| "print_lit (LStr s) = json_quote s"
| "print_lit (LObj kvs) =
     ''{'' @ join_with '','' (map (\<lambda>(k, l). json_quote k @ '':'' @ print_lit l) kvs) @ ''}''"

section \<open>Reading back what was printed\<close>

lemma hex_val_hex_char: "d < 16 \<Longrightarrow> hex_val (hex_char d) = Some d"
proof (cases "d < 10")
  case True
  then show ?thesis by (simp add: hex_val_def radix_digit_def hex_char_def)
next
  case False
  moreover assume "d < 16"
  ultimately show ?thesis
    by (simp add: hex_val_def radix_digit_def hex_char_def is_digit_def)
qed

lemma hex4_escape: "n < 256 \<Longrightarrow> hex4 (CHR ''0'') (CHR ''0'') (hex_char (n div 16)) (hex_char (n mod 16)) = Some n"
proof -
  assume n: "n < 256"
  have "hex_val (CHR ''0'') = Some 0" by code_simp
  moreover have "hex_val (hex_char (n div 16)) = Some (n div 16)"
    using n by (intro hex_val_hex_char) auto
  moreover have "hex_val (hex_char (n mod 16)) = Some (n mod 16)"
    by (intro hex_val_hex_char) simp
  ultimately show ?thesis by (simp add: hex4_def)
qed

lemma code_unit_ascii: "code c < 128 \<Longrightarrow> code_unit (code c) = [c]"
  by (simp add: code_unit_def code_def)


lemma json_chars_quote [simp]: "json_chars (QUOTE # s) = Some ([], s)"
  by (simp only: json_chars.simps) simp
lemma json_chars_escape [simp]:
  "e \<noteq> CHR ''u'' \<Longrightarrow> json_chars (BACKSLASH # e # s) =
    (case json_escape e of None \<Rightarrow> None | Some x \<Rightarrow> map_option (apfst (Cons x)) (json_chars s))"
  by (simp only: json_chars.simps list.case if_False) simp
lemma json_chars_u [simp]:
  "json_chars (BACKSLASH # CHR ''u'' # a # b # c # d # s) =
    (case hex4 a b c d of None \<Rightarrow> None
     | Some n \<Rightarrow> map_option (apfst (\<lambda>t. code_unit n @ t)) (json_chars s))"
  by (simp only: json_chars.simps list.case) simp
lemma json_chars_plain [simp]:
  "c \<noteq> QUOTE \<Longrightarrow> c \<noteq> BACKSLASH \<Longrightarrow> \<not> code c < 32 \<Longrightarrow>
     json_chars (c # s) = map_option (apfst (Cons c)) (json_chars s)"
  by (simp only: json_chars.simps) simp

lemma json_chars_esc: "json_chars (json_esc c @ t) = map_option (apfst (Cons c)) (json_chars t)"
proof -
  consider "c \<in> {QUOTE, BACKSLASH, CHR 0x08, CHR 0x0C, LF, CR, TAB}"
    | "c \<notin> {QUOTE, BACKSLASH, CHR 0x08, CHR 0x0C, LF, CR, TAB}" "code c < 32"
    | "c \<notin> {QUOTE, BACKSLASH}" "\<not> code c < 32" by blast
  then show ?thesis
  proof cases
    case 1
    then show ?thesis by (auto simp: json_esc_def json_escape_def)
  next
    case 2
    then show ?thesis by (simp add: json_esc_def hex4_escape code_unit_ascii apfst_def map_prod_def)
  next
    case 3
    moreover from this(2) have "c \<notin> {CHR 0x08, CHR 0x0C, LF, CR, TAB}"
      by (auto simp: code_def)
    ultimately show ?thesis by (simp add: json_esc_def)
  qed
qed

lemma json_chars_quoted: "json_chars (concat (map json_esc s) @ QUOTE # r) = Some (s, r)"
  by (induction s) (simp_all add: json_chars_esc)

text \<open>What may follow a number: nothing, or a character that continues no numeral.\<close>

definition delim :: "string \<Rightarrow> bool" where
  "delim r \<longleftrightarrow> r = [] \<or> hd r = CHR '','' \<or> hd r = CHR ''}''"

lemma delim_facts:
  assumes "delim r"
  shows "r = [] \<or> \<not> is_digit (hd r)" "\<not> (r \<noteq> [] \<and> hd r = CHR ''.'')" "exp_part r = Some (0, r)"
  using assms by (auto simp: delim_def is_digit_def code_def exp_part_def split: list.splits)

lemma json_number_show_int:
  assumes "delim r"
  shows "json_number (show_int i @ r) = Some (js_num (of_int i), r)"
proof -
  have scan: "scan is_digit (show_nat n @ r) = (show_nat n, r)" for n
    using assms by (intro scan_append) (simp_all add: show_nat_digits delim_facts(1))
  have zero: "\<not> (1 < length (show_nat n) \<and> hd (show_nat n) = CHR ''0'')" for n
    by (cases "n = 0") (simp_all add: hd_show_nat show_nat_0)
  show ?thesis
  proof (cases "i < 0")
    case True
    then show ?thesis
      using scan [of "nat (- i)"] zero [of "nat (- i)"] delim_facts [OF assms]
      by (cases r) (simp_all add: json_number_def Let_def show_int_def)
  next
    case False
    have "hd (show_nat (nat i)) \<noteq> CHR ''-''"
      using digit_char_facts [OF hd_show_nat_digit [of "nat i"]] by simp
    with False show ?thesis
      using scan [of "nat i"] zero [of "nat i"] delim_facts [OF assms]
      by (cases r) (simp_all add: json_number_def Let_def show_int_def)
  qed
qed

lemma json_word_show_int:
  assumes "delim r"
  shows "json_word (show_int i @ r) = Some (JNum (js_num (of_int i)), r)"
proof -
  obtain c cs where c: "show_int i = c # cs" "is_digit c \<or> c = CHR ''-''"
    using show_int_hd_cases by blast
  then have "c \<noteq> CHR ''t'' \<and> c \<noteq> CHR ''f'' \<and> c \<noteq> CHR ''n''"
    by (auto simp: is_digit_def code_def)
  with c(1) show ?thesis
    using json_number_show_int [OF assms, of i] by (simp add: json_word_def strip_word_def)
qed

lemma skip_ws_plain [simp]: "\<not> json_ws c \<Longrightarrow> skip_ws (c # s) = c # s"
  by (simp add: skip_ws_def)

lemma json_ws_chars [simp]:
  "\<not> json_ws QUOTE" "\<not> json_ws (CHR ''{'')" "\<not> json_ws (CHR ''}'')" "\<not> json_ws (CHR '','')"
  "\<not> json_ws (CHR '':'')" "\<not> json_ws (CHR ''t'')" "\<not> json_ws (CHR ''f'')" "\<not> json_ws (CHR ''-'')"
  "is_digit c \<Longrightarrow> \<not> json_ws c"
  by (auto simp: json_ws_def code_def is_digit_def)

lemma json_val_int:
  assumes "delim r"
  shows "json_val (Suc f) (show_int i @ r) = Some (JNum (js_num (of_int i)), r)"
proof -
  obtain c cs where c: "show_int i = c # cs" "is_digit c \<or> c = CHR ''-''"
    using show_int_hd_cases by blast
  then have "\<not> json_ws c" "c \<noteq> CHR ''{''" "c \<noteq> CHR ''[''" "c \<noteq> QUOTE"
    by (auto simp: is_digit_def code_def)
  with c(1) show ?thesis using json_word_show_int [OF assms, of i] by simp
qed

lemma json_val_bool:
  "json_val (Suc f) ((if b then ''true'' else ''false'') @ r) = Some (JBool b, r)"
  by (cases b) (simp_all add: json_word_def strip_word_def)

lemma json_val_str: "json_val (Suc f) (json_quote s @ r) = Some (JStr s, r)"
  by (simp add: json_quote_def json_chars_quoted)


lemma update_new: "k \<notin> fst ` set kvs \<Longrightarrow> AList.update k v kvs = kvs @ [(k, v)]"
  by (induction kvs) auto

lemma obj_of_distinct: "distinct (map fst kvs) \<Longrightarrow> obj_of kvs = kvs"
proof -
  have "distinct (map fst (acc @ kvs)) \<Longrightarrow>
      fold (\<lambda>(k, v) ob. AList.update k v ob) kvs acc = acc @ kvs" for acc
    by (induction kvs arbitrary: acc) (auto simp: update_new)
  from this [of "[]"] show "distinct (map fst kvs) \<Longrightarrow> ?thesis" by (simp add: obj_of_def)
qed

abbreviation print_member :: "string \<times> jlit \<Rightarrow> string" where
  "print_member kl \<equiv> (case kl of (k, l) \<Rightarrow> json_quote k @ '':'' @ print_lit l)"

text \<open>The printed text of a value is read back as the value, whatever follows it.\<close>

definition reads_back :: "jlit \<Rightarrow> bool" where
  "reads_back l \<longleftrightarrow> (\<forall>f r. delim r \<longrightarrow> 2 * length (print_lit l) < f \<longrightarrow>
     json_val f (print_lit l @ r) = Some (jval l, r))"

lemma length_join_Cons: "length (join_with sep (x # xs)) \<ge> length x"
  by (cases xs) simp_all

lemma json_members_print:
  assumes "kvs \<noteq> []" and "\<And>k l. (k, l) \<in> set kvs \<Longrightarrow> reads_back l"
    and "2 * length (join_with '','' (map print_member kvs)) < f"
  shows "json_members f (join_with '','' (map print_member kvs) @ CHR ''}'' # r) =
    Some (map (\<lambda>(k, l). (k, jval l)) kvs, r)"
  using assms
proof (induction kvs arbitrary: f rule: list_nonempty_induct)
  case (single kl)
  obtain k l where kl: "kl = (k, l)" by force
  from single kl obtain g where f: "f = Suc g" and g: "2 * length (print_lit l) < g"
    by (cases f) (auto simp: json_quote_def)
  from single kl have "reads_back l" by auto
  with g have "json_val g (print_lit l @ CHR ''}'' # r) = Some (jval l, CHR ''}'' # r)"
    by (simp add: reads_back_def delim_def)
  then show ?case by (simp add: kl f json_quote_def json_chars_quoted)
next
  case (cons kl kvs)
  obtain k l where kl: "kl = (k, l)" by force
  let ?rest = "join_with '','' (map print_member kvs)"
  have join: "join_with '','' (map print_member (kl # kvs)) =
      json_quote k @ '':'' @ print_lit l @ '','' @ ?rest"
    using cons.hyps by (cases kvs) (simp_all add: kl)
  from cons.prems(2) obtain g where f: "f = Suc g" and g: "2 * length (print_lit l) < g"
      "2 * length ?rest < g"
    unfolding join by (cases f) (auto simp: json_quote_def)
  have "reads_back l" using cons.prems(1) kl by auto
  with g(1) have v: "json_val g (print_lit l @ CHR '','' # ?rest @ CHR ''}'' # r) =
      Some (jval l, CHR '','' # ?rest @ CHR ''}'' # r)"
    by (simp add: reads_back_def delim_def)
  have "json_members g (?rest @ CHR ''}'' # r) = Some (map (\<lambda>(k, l). (k, jval l)) kvs, r)"
    using cons.prems(1) g(2) by (intro cons.IH) auto
  with v show ?case unfolding join by (simp add: kl f json_quote_def json_chars_quoted)
qed

lemma reads_backI:
  assumes "\<And>g r. delim r \<Longrightarrow> json_val (Suc g) (print_lit l @ r) = Some (jval l, r)"
  shows "reads_back l"
  unfolding reads_back_def
proof (intro allI impI)
  fix f r assume "delim r" and "2 * length (print_lit l) < f"
  then show "json_val f (print_lit l @ r) = Some (jval l, r)" using assms by (cases f) auto
qed

lemma print_lit_reads_back: "lit_wf l \<Longrightarrow> reads_back l"
proof (induction l)
  case (LBool b)
  show ?case by (rule reads_backI) (simp only: print_lit.simps jval.simps json_val_bool)
next
  case (LInt i)
  show ?case by (rule reads_backI) (simp only: print_lit.simps jval.simps json_val_int)
next
  case (LStr s)
  show ?case by (rule reads_backI) (simp only: print_lit.simps jval.simps json_val_str)
next
  case (LObj kvs)
  let ?m = "join_with '','' (map print_member kvs)"
  from LObj.prems have kvs: "kvs \<noteq> []" "distinct (map fst kvs)" by auto
  have rb: "(k, l) \<in> set kvs \<Longrightarrow> reads_back l" for k l
    using LObj.IH [of "(k, l)" l] LObj.prems by (auto simp: list_all_iff)
  have start: "\<exists>q. ?m = QUOTE # q"
    using kvs(1) by (cases kvs rule: remdups_adj.cases) (auto simp: json_quote_def)
  show ?case unfolding reads_back_def
  proof (intro allI impI)
    fix f r assume "2 * length (print_lit (LObj kvs)) < f"
    then obtain g where f: "f = Suc g" and g: "2 * length ?m < g" by (cases f) auto
    have "json_members g (?m @ CHR ''}'' # r) = Some (map (\<lambda>(k, l). (k, jval l)) kvs, r)"
      by (rule json_members_print [OF kvs(1) rb g])
    moreover have "distinct (map fst (map (\<lambda>(k, l). (k, jval l)) kvs))"
      using kvs(2) by (simp add: comp_def split_def)
    ultimately show "json_val f (print_lit (LObj kvs) @ r) = Some (jval (LObj kvs), r)"
      using start by (auto simp: f obj_of_distinct)
  qed
qed

lemma json_parse_print:
  assumes "lit_wf l"
  shows "json_parse (print_lit l) = Some (jval l)"
proof -
  have "delim []" by (simp add: delim_def)
  with print_lit_reads_back [OF assms]
  have "json_val (2 * length (print_lit l) + 2) (print_lit l @ []) = Some (jval l, [])"
    unfolding reads_back_def by (metis less_add_same_cancel1 zero_less_numeral)
  then show ?thesis by (simp only: json_parse_def append_Nil2) (simp add: skip_ws_def)
qed

section \<open>The codec interface\<close>

text \<open>
  What the settings store relies on: reading a written value gives the value.  It makes
  the written text determine the value, and copying a value through its text the identity.
\<close>

locale codec =
  fixes enc :: "'a \<Rightarrow> string"
    and dec :: "string \<Rightarrow> 'b option"
    and value_of :: "'a \<Rightarrow> 'b"
    and valid :: "'a \<Rightarrow> bool"
  assumes dec_enc: "valid a \<Longrightarrow> dec (enc a) = Some (value_of a)"
begin

lemma enc_determines: "valid a \<Longrightarrow> valid b \<Longrightarrow> enc a = enc b \<Longrightarrow> value_of a = value_of b"
  by (metis dec_enc option.inject)

lemma copy_identity: "valid a \<Longrightarrow> map_option f (dec (enc a)) = Some (f (value_of a))"
  by (simp add: dec_enc)

end

interpretation json: codec print_lit json_parse jval lit_wf
  by unfold_locales (rule json_parse_print)

end
