(* ===== verification/Settings_Store.thy ===== *)
theory Settings_Store
  imports Json_Print Transition
begin

text \<open>
  frontend/js/settings.js: the persisted settings store.  The settings object is a record,
  written to and read from the injected storage through the JSON text of \<open>settings_lit\<close>;
  an untrusted patch (a user's, a stored one, or the site configuration) is a JavaScript
  value.  Operations that may throw return a sum.  Listeners are named by numbers; a
  notification is the list of calls it makes, each with the snapshot passed.
\<close>

section \<open>The settings\<close>

datatype view_mode = Orbit | Sat

record settings =
  showTrails :: bool
  trailSeconds :: int
  showLabels :: bool
  showSky :: bool
  viewMode :: view_mode
  categories :: "(string \<times> bool) list"
  host :: string
  port :: int

definition category_names :: "string list" where
  "category_names = [''debris'', ''star'', ''comet'', ''satellite'', ''groundHot'', ''unknown'']"

definition DEFAULTS :: settings where
  "DEFAULTS = \<lparr>showTrails = False, trailSeconds = 30, showLabels = False, showSky = True,
     viewMode = Orbit, categories = map (\<lambda>k. (k, True)) category_names, host = [], port = 8765\<rparr>"

definition STORAGE_KEY :: string where
  "STORAGE_KEY = ''olv.settings.v1''"

section \<open>As JSON\<close>

fun view_name :: "view_mode \<Rightarrow> string" where
  "view_name Orbit = ''orbit''"
| "view_name Sat = ''sat''"

text \<open>The object \<open>JSON.stringify\<close> is given, its properties in the order of \<open>DEFAULTS\<close>, and the
  record view of the object \<open>JSON.parse\<close> gives back.\<close>

definition settings_lit :: "settings \<Rightarrow> jlit" where
  "settings_lit s = LObj
     [(''showTrails'', LBool (showTrails s)),
      (''trailSeconds'', LInt (trailSeconds s)),
      (''showLabels'', LBool (showLabels s)),
      (''showSky'', LBool (showSky s)),
      (''viewMode'', LStr (view_name (viewMode s))),
      (''categories'', LObj (map (\<lambda>(k, b). (k, LBool b)) (categories s))),
      (''host'', LStr (host s)),
      (''port'', LInt (port s))]"

definition settings_of :: "jsval \<Rightarrow> settings" where
  "settings_of v = \<lparr>
     showTrails = truthy (get_prop v ''showTrails''),
     trailSeconds = \<lfloor>the_real (get_prop v ''trailSeconds'')\<rfloor>,
     showLabels = truthy (get_prop v ''showLabels''),
     showSky = truthy (get_prop v ''showSky''),
     viewMode = (if get_prop v ''viewMode'' = JStr ''sat'' then Sat else Orbit),
     categories = map (\<lambda>(k, b). (k, truthy b)) (own_props (get_prop v ''categories'')),
     host = the_str (get_prop v ''host''),
     port = \<lfloor>the_real (get_prop v ''port'')\<rfloor>\<rparr>"

definition stringify :: "settings \<Rightarrow> string" where
  "stringify s = print_lit (settings_lit s)"

definition clone :: "settings \<Rightarrow> settings" where
  "clone s = settings_of (the (json_parse (stringify s)))"

section \<open>Patches\<close>

text \<open>\<open>Math.trunc\<close>.\<close>

definition js_trunc :: "real \<Rightarrow> int" where
  "js_trunc x = (if 0 \<le> x then \<lfloor>x\<rfloor> else \<lceil>x\<rceil>)"

definition clampInt :: "jsval \<Rightarrow> int \<Rightarrow> int \<Rightarrow> int \<Rightarrow> js_error + int" where
  "clampInt value lo hi fallback =
     rbind (to_number value) (\<lambda>n. Inr (case n of
        Fin x \<Rightarrow> min hi (max lo (js_trunc x))
      | _ \<Rightarrow> fallback))"

definition patch_bool :: "jsval \<Rightarrow> string \<Rightarrow> bool \<Rightarrow> bool" where
  "patch_bool patch k old = (if has_prop patch k then truthy (get_prop patch k) else old)"

definition patch_int :: "jsval \<Rightarrow> string \<Rightarrow> int \<Rightarrow> int \<Rightarrow> int \<Rightarrow> js_error + int" where
  "patch_int patch k lo hi old =
     (if has_prop patch k then clampInt (get_prop patch k) lo hi old else Inr old)"

definition patch_view :: "jsval \<Rightarrow> view_mode \<Rightarrow> view_mode" where
  "patch_view patch old =
     (if has_prop patch ''viewMode'' then
        if get_prop patch ''viewMode'' = JStr ''orbit'' then Orbit
        else if get_prop patch ''viewMode'' = JStr ''sat'' then Sat else old
      else old)"

definition patch_host :: "jsval \<Rightarrow> string \<Rightarrow> string" where
  "patch_host patch old =
     (if has_prop patch ''host'' \<and> is_string (get_prop patch ''host'')
      then the_str (get_prop patch ''host'') else old)"

definition is_object :: "jsval \<Rightarrow> bool" where
  "is_object v = (case v of JObj _ \<Rightarrow> True | _ \<Rightarrow> False)"

definition patch_categories :: "jsval \<Rightarrow> (string \<times> bool) list \<Rightarrow> (string \<times> bool) list" where
  "patch_categories patch old =
     (if has_prop patch ''categories'' \<and> is_object (get_prop patch ''categories'') then
        fold (\<lambda>key cats.
            if has_prop (get_prop patch ''categories'') key
            then AList.update key (truthy (get_prop (get_prop patch ''categories'') key)) cats
            else cats)
          category_names old
      else old)"

definition applyPatch :: "settings \<Rightarrow> jsval \<Rightarrow> js_error + settings" where
  "applyPatch base patch =
     (let base1 = base\<lparr>showTrails := patch_bool patch ''showTrails'' (showTrails base)\<rparr>;
          base2 = base1\<lparr>showLabels := patch_bool patch ''showLabels'' (showLabels base1)\<rparr>;
          base3 = base2\<lparr>showSky := patch_bool patch ''showSky'' (showSky base2)\<rparr>;
          base4 = base3\<lparr>viewMode := patch_view patch (viewMode base3)\<rparr>
      in rbind (patch_int patch ''trailSeconds'' 0 60 (trailSeconds base4)) (\<lambda>ts.
         let base5 = base4\<lparr>trailSeconds := ts\<rparr>
         in rbind (patch_int patch ''port'' 1 65535 (port base5)) (\<lambda>p.
            let base6 = base5\<lparr>port := p\<rparr>;
                base7 = base6\<lparr>host := patch_host patch (host base6)\<rparr>
            in Inr (base7\<lparr>categories := patch_categories patch (categories base7)\<rparr>))))"

text \<open>A truthy value whose \<open>typeof\<close> is \<open>object\<close>: an object or an array.\<close>

definition object_like :: "jsval \<Rightarrow> bool" where
  "object_like v \<longleftrightarrow> is_object v \<or> is_array v"

definition normalize :: "jsval option \<Rightarrow> settings \<Rightarrow> js_error + settings" where
  "normalize raw base =
     (case raw of
        Some v \<Rightarrow> if object_like v then applyPatch (clone base) v else Inr (clone base)
      | None \<Rightarrow> Inr (clone base))"

definition mergeSiteDefaults :: "jsval \<Rightarrow> js_error + settings" where
  "mergeSiteDefaults siteDefaults =
     (if object_like siteDefaults then applyPatch (clone DEFAULTS) siteDefaults
      else Inr (clone DEFAULTS))"

section \<open>The store\<close>

text \<open>The injected storage: which methods it has, which of them throw, and the item under
  \<open>STORAGE_KEY\<close>.\<close>

record storage =
  has_getItem :: bool
  has_setItem :: bool
  getItem_throws :: bool
  setItem_throws :: bool
  item :: "string option"

definition loadStored :: "storage \<Rightarrow> jsval option" where
  "loadStored st =
     (if \<not> has_getItem st \<or> getItem_throws st then None
      else case item st of
          None \<Rightarrow> None
        | Some raw \<Rightarrow>
            if raw = [] then None
            else case json_parse raw of
                None \<Rightarrow> None
              | Some parsed \<Rightarrow> if is_object parsed then Some parsed else None)"

record store =
  current :: settings
  effectiveDefaults :: settings
  listeners :: "nat list"
  storage :: storage

definition createSettings :: "storage \<Rightarrow> jsval \<Rightarrow> js_error + store" where
  "createSettings stg siteDefaults =
     rbind (mergeSiteDefaults siteDefaults) (\<lambda>eff.
     rbind (normalize (loadStored stg) eff) (\<lambda>cur.
       Inr \<lparr>current = cur, effectiveDefaults = eff, listeners = [], storage = stg\<rparr>))"

definition persist :: "store \<Rightarrow> store" where
  "persist st =
     (if \<not> has_setItem (storage st) \<or> setItem_throws (storage st) then st
      else st\<lparr>storage := (storage st)\<lparr>item := Some (stringify (current st))\<rparr>\<rparr>)"

type_synonym calls = "(nat \<times> settings) list"

definition notify :: "store \<Rightarrow> calls" where
  "notify st = (let snapshot = clone (current st) in map (\<lambda>cb. (cb, snapshot)) (listeners st))"

definition get :: "store \<Rightarrow> settings" where
  "get st = clone (current st)"

definition update :: "jsval \<Rightarrow> store \<Rightarrow> js_error + (store \<times> calls \<times> settings)" where
  "update patch st =
     (if is_object patch then
        rbind (applyPatch (clone (current st)) patch) (\<lambda>cur.
          let st' = persist (st\<lparr>current := cur\<rparr>) in Inr (st', notify st', get st'))
      else Inr (st, [], get st))"

text \<open>\<open>listeners.add\<close> and the function that removes the listener again.\<close>

definition onChange :: "nat \<Rightarrow> store \<Rightarrow> store" where
  "onChange cb st = (if cb \<in> set (listeners st) then st else st\<lparr>listeners := listeners st @ [cb]\<rparr>)"

definition unsubscribe :: "nat \<Rightarrow> store \<Rightarrow> store" where
  "unsubscribe cb st = st\<lparr>listeners := filter (\<lambda>l. l \<noteq> cb) (listeners st)\<rparr>"

definition resetDefaults :: "store \<Rightarrow> store \<times> calls \<times> settings" where
  "resetDefaults st =
     (let st' = persist (st\<lparr>current := clone (effectiveDefaults st)\<rparr>) in (st', notify st', get st'))"

text \<open>The store as a machine: its operations, an update that throws leaving it as it was, and
  changes of the storage from outside.\<close>

datatype store_event =
    Update jsval
  | Reset
  | Subscribe nat
  | Unsubscribe nat
  | StorageChanged storage

inductive store_step :: "store \<Rightarrow> store_event \<Rightarrow> store \<Rightarrow> bool" where
  step_update: "update patch st = Inr (st', calls, s) \<Longrightarrow> store_step st (Update patch) st'"
| step_throw: "update patch st = Inl e \<Longrightarrow> store_step st (Update patch) st"
| step_reset: "resetDefaults st = (st', calls, s) \<Longrightarrow> store_step st Reset st'"
| step_subscribe: "store_step st (Subscribe cb) (onChange cb st)"
| step_unsubscribe: "store_step st (Unsubscribe cb) (unsubscribe cb st)"
| step_storage: "store_step st (StorageChanged stg) (st\<lparr>storage := stg\<rparr>)"

inductive_cases store_stepE: "store_step st ev st'"

definition store_init :: "store \<Rightarrow> bool" where
  "store_init st \<longleftrightarrow> (\<exists>stg site. createSettings stg site = Inr st)"

end
