(* ===== verification/Renderer_Settings.thy ===== *)
theory Renderer_Settings
  imports Settings_Store
begin

text \<open>
  The settings as the renderer keeps them: \<open>normalizeSettings\<close> of frontend/js/renderer.js and
  the object \<open>applyRendererSettings\<close> of frontend/js/main.js hands it.
\<close>

record r_settings =
  r_showTrails :: bool
  r_trailSeconds :: jsnum
  r_showLabels :: bool
  r_showSky :: bool
  r_viewMode :: view_mode
  r_categories :: "(string \<times> bool) list"

text \<open>\<open>Math.max(lo, Math.min(hi, n))\<close>.\<close>

definition clamp_num :: "real \<Rightarrow> real \<Rightarrow> jsnum \<Rightarrow> jsnum" where
  "clamp_num lo hi n = (case n of
      Fin x \<Rightarrow> Fin (max lo (min hi x))
    | PInf \<Rightarrow> Fin (max lo hi)
    | NInf \<Rightarrow> Fin lo
    | NaN \<Rightarrow> NaN)"

definition normalizeSettings :: "jsval \<Rightarrow> r_settings" where
  "normalizeSettings s =
     (let c = get_prop s ''categories'';
          ts = (case get_prop s ''trailSeconds'' of JNum n \<Rightarrow> n | _ \<Rightarrow> Fin 20)
      in \<lparr>r_showTrails = truthy (get_prop s ''showTrails''),
          r_trailSeconds = clamp_num 0 60 ts,
          r_showLabels = truthy (get_prop s ''showLabels''),
          r_showSky = (get_prop s ''showSky'' \<noteq> JBool False),
          r_viewMode = (if get_prop s ''viewMode'' = JStr ''sat'' then Sat else Orbit),
          r_categories = map (\<lambda>k. (k, get_prop c k \<noteq> JBool False))
            [''debris'', ''star'', ''comet'', ''satellite'', ''groundHot'', ''unknown'']\<rparr>)"

text \<open>\<open>catVisible\<close>; \<open>None\<close> is the satellite's own trail.\<close>

definition catVisible :: "r_settings \<Rightarrow> string option \<Rightarrow> bool" where
  "catVisible s c = (case c of None \<Rightarrow> True | Some k \<Rightarrow> map_of (r_categories s) k \<noteq> Some False)"

definition applyRendererSettings :: "settings \<Rightarrow> jsval" where
  "applyRendererSettings s = JObj
     [(''showTrails'', JBool (showTrails s)),
      (''trailSeconds'', JNum (Fin (of_int (trailSeconds s)))),
      (''showLabels'', JBool (showLabels s)),
      (''showSky'', JBool (showSky s)),
      (''categories'', JObj (map (\<lambda>(k, b). (k, JBool b)) (categories s))),
      (''viewMode'', JStr (view_name (viewMode s)))]"

lemma clamp_num_range: "clamp_num lo hi n = Fin x \<Longrightarrow> lo \<le> hi \<Longrightarrow> lo \<le> x \<and> x \<le> hi"
  by (cases n) (auto simp: clamp_num_def)

lemma map_of_bools: "map_of (map (\<lambda>(k, b). (k, JBool b)) cs) k = map_option JBool (map_of cs k)"
  by (induction cs) auto

lemma normalize_categories:
  assumes "map fst cs = category_names"
  shows "map (\<lambda>k. (k, get_prop (JObj (map (\<lambda>(k, b). (k, JBool b)) cs)) k \<noteq> JBool False)) category_names = cs"
proof -
  have d: "distinct (map fst cs)" unfolding assms by (simp add: category_names_def)
  have "map (\<lambda>k. (k, get_prop (JObj (map (\<lambda>(k, b). (k, JBool b)) cs)) k \<noteq> JBool False)) (map fst cs) =
      map (\<lambda>x. x) cs"
    unfolding map_map
  proof (rule map_cong [OF refl])
    fix x assume "x \<in> set cs"
    then have "map_of cs (fst x) = Some (snd x)" using d by (simp add: map_of_is_SomeI)
    then show "((\<lambda>k. (k, get_prop (JObj (map (\<lambda>(k, b). (k, JBool b)) cs)) k \<noteq> JBool False)) \<circ> fst) x = x"
      by (cases x) (simp add: get_prop_def map_of_bools)
  qed
  then show ?thesis by (simp add: assms)
qed

end
