(* ===== verification/Settings_Facts.thy ===== *)
theory Settings_Facts
  imports Settings_Store
begin

text \<open>
  Correctness of the settings store: a copy through JSON is the identity, every operation
  keeps the settings in range with exactly the six categories, what is stored is what a
  later page load gets, and who is notified of what.
\<close>

section \<open>Well-formed settings\<close>

definition settings_wf :: "settings \<Rightarrow> bool" where
  "settings_wf s \<longleftrightarrow> 0 \<le> trailSeconds s \<and> trailSeconds s \<le> 60 \<and> 1 \<le> port s \<and> port s \<le> 65535
     \<and> map fst (categories s) = category_names"

lemma category_names_distinct [simp]: "distinct category_names"
  by (simp add: category_names_def)

lemma DEFAULTS_wf [simp]: "settings_wf DEFAULTS"
  by (simp add: settings_wf_def DEFAULTS_def comp_def)

section \<open>Copies through JSON\<close>

lemma settings_lit_wf: "settings_wf s \<Longrightarrow> lit_wf (settings_lit s)"
proof -
  assume "settings_wf s"
  then have keys: "map fst (categories s) = category_names" by (simp add: settings_wf_def)
  then have "categories s \<noteq> []" by (auto simp: category_names_def)
  moreover have "distinct (map fst (map (\<lambda>(k, b). (k, LBool b)) (categories s)))"
    using keys by (simp add: comp_def split_def)
  moreover have "list_all (\<lambda>(k, l). lit_wf l) (map (\<lambda>(k, b). (k, LBool b)) (categories s))"
    by (auto simp: list_all_iff)
  ultimately show ?thesis by (simp add: settings_lit_def)
qed

lemma js_num_setting: "settings_wf s \<Longrightarrow> js_num (of_int (trailSeconds s)) = Fin (of_int (trailSeconds s))
    \<and> js_num (of_int (port s)) = Fin (of_int (port s))"
  by (intro conjI js_num_small) (auto simp: settings_wf_def)

text \<open>The properties of a written settings object.\<close>

lemma get_prop_settings:
  assumes "settings_wf s"
  shows "get_prop (jval (settings_lit s)) ''showTrails'' = JBool (showTrails s)"
    and "get_prop (jval (settings_lit s)) ''trailSeconds'' = JNum (Fin (of_int (trailSeconds s)))"
    and "get_prop (jval (settings_lit s)) ''showLabels'' = JBool (showLabels s)"
    and "get_prop (jval (settings_lit s)) ''showSky'' = JBool (showSky s)"
    and "get_prop (jval (settings_lit s)) ''viewMode'' = JStr (view_name (viewMode s))"
    and "get_prop (jval (settings_lit s)) ''categories'' = JObj (map (\<lambda>(k, b). (k, JBool b)) (categories s))"
    and "get_prop (jval (settings_lit s)) ''host'' = JStr (host s)"
    and "get_prop (jval (settings_lit s)) ''port'' = JNum (Fin (of_int (port s)))"
  using js_num_setting [OF assms]
  by (simp_all add: get_prop_def settings_lit_def split_def comp_def)

lemma has_prop_settings:
  assumes "k \<in> {''showTrails'', ''trailSeconds'', ''showLabels'', ''showSky'', ''viewMode'',
    ''categories'', ''host'', ''port''}"
  shows "has_prop (jval (settings_lit s)) k"
  using assms by (auto simp: has_prop_def settings_lit_def)

lemma view_name_sat [simp]: "view_name m = ''sat'' \<longleftrightarrow> m = Sat" "view_name m = ''orbit'' \<longleftrightarrow> m = Orbit"
  by (cases m; simp)+

lemma settings_of_lit: "settings_wf s \<Longrightarrow> settings_of (jval (settings_lit s)) = s"
  by (cases s; cases "viewMode s")
    (simp_all add: settings_of_def get_prop_settings comp_def split_def)

lemma parse_stringify: "settings_wf s \<Longrightarrow> json_parse (stringify s) = Some (jval (settings_lit s))"
  unfolding stringify_def by (rule json.dec_enc) (rule settings_lit_wf)

lemma clone_id [simp]: "settings_wf s \<Longrightarrow> clone s = s"
  by (simp add: clone_def parse_stringify settings_of_lit)

section \<open>Patches\<close>

lemma clampInt_range:
  assumes "clampInt v lo hi fb = Inr n" and "lo \<le> hi" and "lo \<le> fb" and "fb \<le> hi"
  shows "lo \<le> n \<and> n \<le> hi"
proof -
  from assms(1) obtain a where "n = (case a of Fin x \<Rightarrow> min hi (max lo (js_trunc x)) | _ \<Rightarrow> fb)"
    by (auto simp: clampInt_def res_simps)
  with assms(2-4) show ?thesis by (cases a) auto
qed

lemma clampInt_int [simp]:
  "lo \<le> i \<Longrightarrow> i \<le> hi \<Longrightarrow> clampInt (JNum (Fin (of_int i))) lo hi fb = Inr i"
  by (simp add: clampInt_def js_trunc_def)

lemma patch_int_range:
  "patch_int patch k lo hi old = Inr n \<Longrightarrow> lo \<le> old \<Longrightarrow> old \<le> hi \<Longrightarrow> lo \<le> n \<and> n \<le> hi"
  by (auto simp: patch_int_def split: if_splits dest: clampInt_range)

lemma patch_int_throws:
  "patch_int patch k lo hi old = Inl e \<longleftrightarrow> has_prop patch k \<and> text_throws (get_prop patch k)"
proof -
  have "(\<exists>e. to_number v = Inl e) \<longleftrightarrow> (to_number v = Inl e)" for v
    by (cases e) (metis (full_types) js_error.exhaust)
  then show ?thesis
    by (auto simp: patch_int_def clampInt_def res_simps simp flip: to_number_throws_iff)
qed

lemma update_distinct:
  "k \<in> fst ` set kvs \<Longrightarrow> distinct (map fst kvs) \<Longrightarrow>
     AList.update k v kvs = map (\<lambda>(k', w). (k', if k' = k then v else w)) kvs"
proof (induction kvs)
  case (Cons kw kvs)
  obtain k0 w0 where kw: "kw = (k0, w0)" by force
  show ?case
  proof (cases "k0 = k")
    case True
    with Cons.prems(2) kw have "\<forall>x \<in> set kvs. fst x \<noteq> k" by auto
    then have "map (\<lambda>(k', w). (k', if k' = k then v else w)) kvs = kvs"
      by (intro map_idI) auto
    with True kw show ?thesis by simp
  qed (use Cons kw in auto)
qed simp

lemma fold_update_map:
  assumes "distinct (map fst kvs)" and "set ks \<subseteq> fst ` set kvs"
  shows "fold (\<lambda>k cats. if P k then AList.update k (f k) cats else cats) ks kvs =
    map (\<lambda>(k, w). (k, if k \<in> set ks \<and> P k then f k else w)) kvs"
  using assms
proof (induction ks arbitrary: kvs)
  case Nil
  then show ?case by (simp add: split_def)
next
  case (Cons k ks)
  let ?kvs = "if P k then AList.update k (f k) kvs else kvs"
  have eq: "?kvs = map (\<lambda>(k', w). (k', if k' = k \<and> P k then f k else w)) kvs"
    using Cons.prems by (auto simp: update_distinct intro: map_cong)
  then have keys: "map fst ?kvs = map fst kvs" by (simp add: comp_def split_def)
  then have "fst ` set ?kvs = fst ` set kvs" by (metis set_map)
  with Cons keys have "fold (\<lambda>k cats. if P k then AList.update k (f k) cats else cats) ks ?kvs =
    map (\<lambda>(k, w). (k, if k \<in> set ks \<and> P k then f k else w)) ?kvs" by auto
  also have "\<dots> = map (\<lambda>(k', w). (k', if k' \<in> set (k # ks) \<and> P k' then f k' else w)) kvs"
    unfolding eq by (auto simp: comp_def split_def)
  finally show ?case by simp
qed

lemma patch_categories_map:
  assumes "map fst old = category_names"
  shows "patch_categories patch old =
    (if is_object (get_prop patch ''categories'') then
       map (\<lambda>(k, b). (k, patch_bool (get_prop patch ''categories'') k b)) old
     else old)"
proof -
  have obj: "is_object (get_prop patch ''categories'') \<Longrightarrow> has_prop patch ''categories''"
    by (auto simp: has_prop_def get_prop_def is_object_def split: option.splits)
  have keys: "distinct (map fst old)" "set category_names = fst ` set old"
    by (simp add: assms) (simp flip: assms)
  have "(k, b) \<in> set old \<Longrightarrow> k \<in> set category_names" for k b using keys(2) by force
  then show ?thesis
    using obj keys
    by (auto simp: patch_categories_def fold_update_map patch_bool_def)
qed

text \<open>A successful patch, field by field.\<close>

lemma applyPatch_eq:
  "applyPatch base patch = Inr s \<longleftrightarrow>
     (\<exists>ts p. patch_int patch ''trailSeconds'' 0 60 (trailSeconds base) = Inr ts \<and>
        patch_int patch ''port'' 1 65535 (port base) = Inr p \<and>
        s = \<lparr>showTrails = patch_bool patch ''showTrails'' (showTrails base), trailSeconds = ts,
          showLabels = patch_bool patch ''showLabels'' (showLabels base),
          showSky = patch_bool patch ''showSky'' (showSky base),
          viewMode = patch_view patch (viewMode base),
          categories = patch_categories patch (categories base),
          host = patch_host patch (host base), port = p\<rparr>)"
  by (cases base) (auto simp: applyPatch_def Let_def res_simps)

lemma applyPatch_throws:
  "applyPatch base patch = Inl e \<longleftrightarrow>
     (\<exists>k \<in> {''trailSeconds'', ''port''}. has_prop patch k \<and> text_throws (get_prop patch k))"
  by (auto simp: applyPatch_def Let_def res_simps patch_int_throws)
    (metis Inl_Inr_False patch_int_throws sum.exhaust_sel)+

lemma applyPatch_wf:
  assumes "applyPatch base patch = Inr s" and "settings_wf base"
  shows "settings_wf s"
proof -
  have keys: "map fst (categories base) = category_names" using assms(2) by (simp add: settings_wf_def)
  have "map fst (patch_categories patch (categories base)) = category_names"
    using keys by (auto simp: patch_categories_map [OF keys] comp_def split_def)
  with assms show ?thesis
    by (auto simp: applyPatch_eq settings_wf_def dest: patch_int_range)
qed

lemma patched_from:
  assumes "map fst old = map fst new" and "distinct (map fst new)"
  shows "map (\<lambda>(k, b). (k, patch_bool (JObj (map (\<lambda>(k, b). (k, JBool b)) new)) k b)) old = new"
proof -
  have look: "map_of (map (\<lambda>(k, b). (k, JBool b)) new) k = map_option JBool (map_of new k)" for k
    by (induction new) auto
  have look': "patch_bool (JObj (map (\<lambda>(k, b). (k, JBool b)) new)) k b = the (map_of new k)"
    if "k \<in> fst ` set new" for k b
    using that by (auto simp: patch_bool_def has_prop_def get_prop_def look map_of_eq_None_iff
        dest: weak_map_of_SomeI)
  have keys: "fst ` set old = fst ` set new" using assms(1) by (metis set_map)
  have "map (\<lambda>(k, b). (k, patch_bool (JObj (map (\<lambda>(k, b). (k, JBool b)) new)) k b)) old =
      map (\<lambda>x. (fst x, the (map_of new (fst x)))) old"
  proof (rule map_cong [OF refl])
    fix x assume "x \<in> set old"
    then have "fst x \<in> fst ` set new" unfolding keys [symmetric] by (rule imageI)
    then show "(case x of (k, b) \<Rightarrow> (k, patch_bool (JObj (map (\<lambda>(k, b). (k, JBool b)) new)) k b)) =
        (fst x, the (map_of new (fst x)))"
      using look' [of "fst x" "snd x"] by (simp add: split_def)
  qed
  also have "\<dots> = map (\<lambda>k. (k, the (map_of new k))) (map fst old)" by simp
  also have "\<dots> = map (\<lambda>x. (fst x, the (map_of new (fst x)))) new"
    unfolding assms(1) by simp
  also have "\<dots> = map (\<lambda>x. x) new"
    using assms(2) by (intro map_cong) auto
  finally show ?thesis by simp
qed

text \<open>A written settings object overrides every field of whatever it is applied to.\<close>

lemma applyPatch_stored:
  assumes s: "settings_wf s" and b: "settings_wf base"
  shows "applyPatch base (jval (settings_lit s)) = Inr s"
proof -
  let ?v = "jval (settings_lit s)"
  note has = has_prop_settings [of _ s]
  have keys: "map fst (categories base) = category_names" "map fst (categories s) = category_names"
    using s b by (auto simp: settings_wf_def)
  have "patch_categories ?v (categories base) = categories s"
    using keys by (simp add: patch_categories_map get_prop_settings [OF s] is_object_def patched_from)
  moreover have "patch_view ?v (viewMode base) = viewMode s"
    by (cases "viewMode s") (simp_all add: patch_view_def has get_prop_settings [OF s])
  moreover have "patch_int ?v ''trailSeconds'' 0 60 (trailSeconds base) = Inr (trailSeconds s)"
    "patch_int ?v ''port'' 1 65535 (port base) = Inr (port s)"
    using s by (simp_all add: patch_int_def has get_prop_settings settings_wf_def)
  ultimately show ?thesis
    by (simp add: applyPatch_eq patch_bool_def patch_host_def has get_prop_settings [OF s]
      is_string_def)
qed

section \<open>The store\<close>

definition store_inv :: "store \<Rightarrow> bool" where
  "store_inv st \<longleftrightarrow> settings_wf (current st) \<and> settings_wf (effectiveDefaults st) \<and>
     distinct (listeners st)"

lemma mergeSiteDefaults_wf: "mergeSiteDefaults site = Inr eff \<Longrightarrow> settings_wf eff"
  by (auto simp: mergeSiteDefaults_def split: if_splits intro: applyPatch_wf)

lemma normalize_wf: "normalize raw base = Inr s \<Longrightarrow> settings_wf base \<Longrightarrow> settings_wf s"
  by (auto simp: normalize_def split: option.splits if_splits intro: applyPatch_wf)

lemma persist_simps [simp]:
  "current (persist st) = current st" "effectiveDefaults (persist st) = effectiveDefaults st"
  "listeners (persist st) = listeners st"
  by (simp_all add: persist_def)

lemma createSettings_inv: "createSettings stg site = Inr st \<Longrightarrow> store_inv st"
  by (auto simp: createSettings_def res_simps store_inv_def dest: mergeSiteDefaults_wf normalize_wf)

lemma update_cases:
  assumes "update patch st = Inr (st', calls, s)" and "store_inv st"
  obtains (ignored) "\<not> is_object patch" "st' = st" "calls = []" "s = current st"
  | (applied) cur where "is_object patch" "applyPatch (current st) patch = Inr cur"
      "st' = persist (st\<lparr>current := cur\<rparr>)" "calls = map (\<lambda>cb. (cb, cur)) (listeners st)" "s = cur"
proof (cases "is_object patch")
  case False
  with assms that(1) show ?thesis by (auto simp: update_def get_def store_inv_def)
next
  case True
  with assms obtain cur where cur: "applyPatch (current st) patch = Inr cur"
    and st': "st' = persist (st\<lparr>current := cur\<rparr>)" "calls = notify st'" "s = get st'"
    by (auto simp: update_def res_simps Let_def store_inv_def)
  have "settings_wf cur" using applyPatch_wf [OF cur] assms(2) by (simp add: store_inv_def)
  with st' have "calls = map (\<lambda>cb. (cb, cur)) (listeners st)" "s = cur"
    by (simp_all add: notify_def get_def Let_def)
  with that(2) True cur st'(1) show ?thesis by blast
qed

lemma update_inv: "update patch st = Inr (st', calls, s) \<Longrightarrow> store_inv st \<Longrightarrow> store_inv st'"
  by (erule (1) update_cases) (auto simp: store_inv_def dest: applyPatch_wf)

lemma resetDefaults_inv: "resetDefaults st = (st', calls, s) \<Longrightarrow> store_inv st \<Longrightarrow> store_inv st'"
  by (auto simp: resetDefaults_def Let_def store_inv_def)

lemma store_step_inv: "store_inv st \<Longrightarrow> store_step st ev st' \<Longrightarrow> store_inv st'"
proof (erule store_stepE)
  fix cb assume "store_inv st" "st' = onChange cb st"
  then show "store_inv st'" by (simp add: store_inv_def onChange_def)
next
  fix cb assume "store_inv st" "st' = unsubscribe cb st"
  then show "store_inv st'" by (simp add: store_inv_def unsubscribe_def)
next
  fix stg assume "store_inv st" "st' = st\<lparr>storage := stg\<rparr>"
  then show "store_inv st'" by (simp add: store_inv_def)
qed (auto intro: update_inv resetDefaults_inv)

interpretation settings_store: stepper store_init store_step store_inv
  by unfold_locales (auto simp: store_init_def intro: createSettings_inv store_step_inv)

section \<open>Operations\<close>

lemma createSettings_current:
  assumes "mergeSiteDefaults site = Inr eff"
  shows "createSettings stg site =
    (case loadStored stg of
       None \<Rightarrow> Inr \<lparr>current = eff, effectiveDefaults = eff, listeners = [], storage = stg\<rparr>
     | Some v \<Rightarrow> rbind (applyPatch eff v) (\<lambda>cur.
         Inr \<lparr>current = cur, effectiveDefaults = eff, listeners = [], storage = stg\<rparr>))"
proof -
  have v: "object_like v" if "loadStored stg = Some v" for v
    using that by (auto simp: loadStored_def object_like_def split: if_splits option.splits)
  show ?thesis
    using assms mergeSiteDefaults_wf [OF assms] v
    by (auto simp: createSettings_def normalize_def split: option.split)
qed

lemma loadStored_persisted:
  assumes "settings_wf s" and "has_getItem stg" and "\<not> getItem_throws stg" and "item stg = Some (stringify s)"
  shows "loadStored stg = Some (jval (settings_lit s))"
proof -
  have "stringify s \<noteq> []" by (simp add: stringify_def settings_lit_def)
  moreover have "is_object (jval (settings_lit s))" by (simp add: settings_lit_def is_object_def)
  ultimately show ?thesis
    using assms parse_stringify [OF assms(1)] by (simp add: loadStored_def)
qed

lemma reload_persisted:
  assumes "settings_wf s" and "has_getItem stg" and "\<not> getItem_throws stg" and "item stg = Some (stringify s)"
    and "mergeSiteDefaults site = Inr eff"
  shows "createSettings stg site =
    Inr \<lparr>current = s, effectiveDefaults = eff, listeners = [], storage = stg\<rparr>"
  using createSettings_current [OF assms(5), of stg] loadStored_persisted [OF assms(1-4)]
    applyPatch_stored [OF assms(1) mergeSiteDefaults_wf [OF assms(5)]] by simp

lemma mergeSiteDefaults_empty: "mergeSiteDefaults (JObj []) = Inr DEFAULTS"
proof -
  have "patch_categories (JObj []) cs = cs" for cs
    by (simp add: patch_categories_def has_prop_def)
  then show ?thesis
    by (simp add: mergeSiteDefaults_def object_like_def is_object_def applyPatch_eq patch_int_def
        patch_bool_def patch_view_def patch_host_def has_prop_def)
qed

definition empty_storage :: storage where
  "empty_storage = \<lparr>has_getItem = True, has_setItem = True, getItem_throws = False,
     setItem_throws = False, item = None\<rparr>"

lemma createSettings_empty:
  "createSettings empty_storage (JObj []) =
     Inr \<lparr>current = DEFAULTS, effectiveDefaults = DEFAULTS, listeners = [], storage = empty_storage\<rparr>"
  by (simp add: createSettings_current [OF mergeSiteDefaults_empty] loadStored_def empty_storage_def)

lemma store_reachable_empty:
  "reachable store_init store_step
     \<lparr>current = DEFAULTS, effectiveDefaults = DEFAULTS, listeners = [], storage = empty_storage\<rparr>"
  using createSettings_empty by (intro reach_init) (auto simp: store_init_def)

text \<open>Applying the same patch again changes nothing.\<close>

lemma patch_int_idem: "patch_int patch k lo hi v = Inr n \<Longrightarrow> patch_int patch k lo hi n = Inr n"
proof (cases "has_prop patch k")
  case True
  assume *: "patch_int patch k lo hi v = Inr n"
  with True obtain a where a: "to_number (get_prop patch k) = Inr a"
    by (auto simp: patch_int_def clampInt_def res_simps)
  with * True show ?thesis by (cases a) (auto simp: patch_int_def clampInt_def)
qed (simp add: patch_int_def)

lemma patch_bool_idem: "patch_bool patch k (patch_bool patch k b) = patch_bool patch k b"
  by (simp add: patch_bool_def)

lemma patch_view_idem: "patch_view patch (patch_view patch m) = patch_view patch m"
  by (simp add: patch_view_def)

lemma patch_host_idem: "patch_host patch (patch_host patch h) = patch_host patch h"
  by (simp add: patch_host_def)

text \<open>The fields spelled out.\<close>

lemma patch_int_exact:
  "patch_int patch k lo hi old = Inr n \<Longrightarrow>
     n = (if has_prop patch k then
       (case to_number (get_prop patch k) of Inr (Fin x) \<Rightarrow> min hi (max lo (js_trunc x)) | _ \<Rightarrow> old) else old)"
  by (auto simp: patch_int_def clampInt_def res_simps split: if_splits jsnum.split)

lemma patch_view_exact:
  "patch_view patch old = (if get_prop patch ''viewMode'' = JStr ''orbit'' then Orbit
     else if get_prop patch ''viewMode'' = JStr ''sat'' then Sat else old)"
  by (auto simp: patch_view_def has_prop_def get_prop_def split: option.splits)

lemma patch_host_exact:
  "patch_host patch old = (case get_prop patch ''host'' of JStr h \<Rightarrow> h | _ \<Rightarrow> old)"
  by (auto simp: patch_host_def has_prop_def get_prop_def is_string_def split: option.splits jsval.splits)

section \<open>Properties\<close>

text \<open>C2: What an update leaves is what the next page load gets: if the storage keeps and returns the
  item, a store created from it has exactly the settings after the update, whatever the site
  defaults have become meanwhile.\<close>

theorem update_survives_reload:
  assumes "reachable store_init store_step st" and "is_object patch"
    and "update patch st = Inr (st', calls, s)"
    and "has_getItem (storage st)" and "\<not> getItem_throws (storage st)"
    and "has_setItem (storage st)" and "\<not> setItem_throws (storage st)"
    and "mergeSiteDefaults site = Inr eff"
  shows "\<exists>st2. createSettings (storage st') site = Inr st2 \<and> current st2 = current st' \<and>
    current st2 = s \<and> effectiveDefaults st2 = eff"
proof -
  have inv: "store_inv st" by (rule settings_store.inv_reachable [OF assms(1)])
  from assms(3) inv obtain cur where cur: "applyPatch (current st) patch = Inr cur"
    and st': "st' = persist (st\<lparr>current := cur\<rparr>)" "s = cur"
    using assms(2) by (cases rule: update_cases) auto
  have "settings_wf cur" using cur inv by (auto simp: store_inv_def intro: applyPatch_wf)
  then have "createSettings (storage st') site =
      Inr \<lparr>current = cur, effectiveDefaults = eff, listeners = [], storage = storage st'\<rparr>"
    using assms(4-8) st'(1) by (intro reload_persisted) (simp_all add: persist_def)
  with st' show ?thesis by simp
qed

theorem update_survives_reload_witness:
  "\<exists>st' s st2. update (JObj [(''showTrails'', JBool True)])
      \<lparr>current = DEFAULTS, effectiveDefaults = DEFAULTS, listeners = [], storage = empty_storage\<rparr> =
      Inr (st', [], s) \<and> showTrails s \<and>
    createSettings (storage st') (JObj []) = Inr st2 \<and> current st2 = s"
proof -
  let ?st = "\<lparr>current = DEFAULTS, effectiveDefaults = DEFAULTS, listeners = [], storage = empty_storage\<rparr>"
  let ?p = "JObj [(''showTrails'', JBool True)]"
  have "applyPatch DEFAULTS ?p = Inr (DEFAULTS\<lparr>showTrails := True\<rparr>)"
    by (simp add: applyPatch_eq patch_int_def patch_bool_def patch_view_def patch_host_def
        patch_categories_def has_prop_def get_prop_def)
  moreover have "settings_wf (DEFAULTS\<lparr>showTrails := True\<rparr>)"
    using DEFAULTS_wf by (simp add: settings_wf_def)
  ultimately obtain st' where u: "update ?p ?st = Inr (st', [], DEFAULTS\<lparr>showTrails := True\<rparr>)"
    by (simp add: update_def is_object_def notify_def get_def Let_def)
  from update_survives_reload [OF store_reachable_empty _ u _ _ _ _ mergeSiteDefaults_empty]
  obtain st2 where "createSettings (storage st') (JObj []) = Inr st2"
    "current st2 = DEFAULTS\<lparr>showTrails := True\<rparr>"
    by (auto simp: is_object_def empty_storage_def)
  with u show ?thesis by fastforce
qed

text \<open>C26: In every store that can come about, from any storage contents, site defaults and sequence of
  operations (throwing ones included), the settings and the effective defaults are in range with
  exactly the six categories, a copy of the settings through JSON is the settings, and no listener
  is registered twice.\<close>

theorem store_always_valid:
  assumes "reachable store_init store_step st"
  shows "settings_wf (current st) \<and> settings_wf (effectiveDefaults st) \<and>
    get st = current st \<and> distinct (listeners st)"
  using settings_store.inv_reachable [OF assms] by (simp add: store_inv_def get_def)

theorem store_always_valid_witness:
  "get \<lparr>current = DEFAULTS, effectiveDefaults = DEFAULTS, listeners = [], storage = empty_storage\<rparr> = DEFAULTS"
  using store_always_valid [OF store_reachable_empty] by simp

text \<open>C27: A patch that does not throw leaves every field as follows.  A flag is the truth of the patch's
  value if it has one; the view is Orbit or Sat when the patch says so by name; the host is the
  patch's when that is a string; the trail length and the port are the patch's value as a number,
  truncated and clamped to 0..60 and 1..65535, when it has one that is finite; each category is the
  truth of the value in the patch's categories when these are an object that has it.  In every other
  case the field keeps its value.  Applying the patch again changes nothing.\<close>

theorem applyPatch_fields:
  assumes "applyPatch base patch = Inr s" and "settings_wf base"
  shows "showTrails s = (if has_prop patch ''showTrails'' then truthy (get_prop patch ''showTrails'') else showTrails base) \<and>
    showLabels s = (if has_prop patch ''showLabels'' then truthy (get_prop patch ''showLabels'') else showLabels base) \<and>
    showSky s = (if has_prop patch ''showSky'' then truthy (get_prop patch ''showSky'') else showSky base) \<and>
    viewMode s = (if get_prop patch ''viewMode'' = JStr ''orbit'' then Orbit
      else if get_prop patch ''viewMode'' = JStr ''sat'' then Sat else viewMode base) \<and>
    host s = (case get_prop patch ''host'' of JStr h \<Rightarrow> h | _ \<Rightarrow> host base) \<and>
    trailSeconds s = (if has_prop patch ''trailSeconds'' then
      (case to_number (get_prop patch ''trailSeconds'') of
         Inr (Fin x) \<Rightarrow> min 60 (max 0 (js_trunc x)) | _ \<Rightarrow> trailSeconds base) else trailSeconds base) \<and>
    port s = (if has_prop patch ''port'' then
      (case to_number (get_prop patch ''port'') of
         Inr (Fin x) \<Rightarrow> min 65535 (max 1 (js_trunc x)) | _ \<Rightarrow> port base) else port base) \<and>
    categories s = map (\<lambda>(k, b). (k,
      if is_object (get_prop patch ''categories'') \<and> has_prop (get_prop patch ''categories'') k
      then truthy (get_prop (get_prop patch ''categories'') k) else b)) (categories base) \<and>
    applyPatch s patch = Inr s"
proof -
  from assms(1) obtain ts p where
    ts: "patch_int patch ''trailSeconds'' 0 60 (trailSeconds base) = Inr ts" and
    p: "patch_int patch ''port'' 1 65535 (port base) = Inr p" and
    s: "s = \<lparr>showTrails = patch_bool patch ''showTrails'' (showTrails base), trailSeconds = ts,
          showLabels = patch_bool patch ''showLabels'' (showLabels base),
          showSky = patch_bool patch ''showSky'' (showSky base),
          viewMode = patch_view patch (viewMode base),
          categories = patch_categories patch (categories base),
          host = patch_host patch (host base), port = p\<rparr>"
    unfolding applyPatch_eq by blast
  have keys: "map fst (categories base) = category_names" "map fst (categories s) = category_names"
    using assms(2) applyPatch_wf [OF assms] by (simp_all add: settings_wf_def)
  have sf: "showTrails s = patch_bool patch ''showTrails'' (showTrails base)"
    "showLabels s = patch_bool patch ''showLabels'' (showLabels base)"
    "showSky s = patch_bool patch ''showSky'' (showSky base)" "trailSeconds s = ts" "port s = p"
    "viewMode s = patch_view patch (viewMode base)" "host s = patch_host patch (host base)"
    "categories s = patch_categories patch (categories base)"
    by (simp_all add: s)
  have c: "patch_categories patch cs = map (\<lambda>(k, b). (k,
      if is_object (get_prop patch ''categories'') \<and> has_prop (get_prop patch ''categories'') k
      then truthy (get_prop (get_prop patch ''categories'') k) else b)) cs"
    if "map fst cs = category_names" for cs
    using patch_categories_map [OF that, of patch] by (auto simp: patch_bool_def split_def)
  have "patch_categories patch (categories s) = categories s"
    by (subst (1) c [OF keys(2)], unfold sf(8) c [OF keys(1)]) (simp add: split_def)
  then have "applyPatch s patch = Inr s"
    using patch_int_idem [OF ts] patch_int_idem [OF p]
    by (simp add: applyPatch_eq sf patch_bool_idem patch_view_idem patch_host_idem)
  with c [OF keys(1)] patch_int_exact [OF ts] patch_int_exact [OF p] show ?thesis
    by (simp add: sf patch_bool_def patch_view_exact patch_host_exact)
qed

theorem applyPatch_fields_witness:
  "\<exists>s. applyPatch DEFAULTS (JObj [(''trailSeconds'', JNum (Fin 99)), (''viewMode'', JStr ''sat''),
      (''host'', JNull), (''port'', JStr ''x''), (''showSky'', JNull)]) = Inr s \<and>
    trailSeconds s = 60 \<and> viewMode s = Sat \<and> host s = [] \<and> port s = 8765 \<and> \<not> showSky s \<and> \<not> showTrails s"
proof -
  let ?patch = "JObj [(''trailSeconds'', JNum (Fin 99)), (''viewMode'', JStr ''sat''),
      (''host'', JNull), (''port'', JStr ''x''), (''showSky'', JNull)]"
  have "string_to_number ''x'' = NaN" by code_simp
  then have x: "to_number (JStr ''x'') = Inr NaN" by simp
  obtain s where s: "applyPatch DEFAULTS ?patch = Inr s"
    using x by (cases "applyPatch DEFAULTS ?patch")
      (simp_all add: applyPatch_def patch_int_def clampInt_def has_prop_def get_prop_def Let_def)
  from applyPatch_fields [OF s DEFAULTS_wf] s x show ?thesis
    by (simp add: has_prop_def get_prop_def DEFAULTS_def js_trunc_def)
qed

text \<open>A successful update with an object tells every listener, once each and in the order they
  registered, the settings it leaves, which it also returns; with anything else it does nothing.\<close>

theorem update_notifies:
  assumes "reachable store_init store_step st" and "update patch st = Inr (st', calls, s)"
  shows "s = current st' \<and> listeners st' = listeners st \<and> effectiveDefaults st' = effectiveDefaults st \<and>
    (if is_object patch
     then applyPatch (current st) patch = Inr s \<and> calls = map (\<lambda>cb. (cb, s)) (listeners st)
     else st' = st \<and> calls = [])"
  using assms(2) settings_store.inv_reachable [OF assms(1)]
  by (cases rule: update_cases) auto

theorem update_notifies_witness:
  "\<exists>st' s. update (JObj [])
      \<lparr>current = DEFAULTS, effectiveDefaults = DEFAULTS, listeners = [7, 3], storage = empty_storage\<rparr> =
    Inr (st', [(7, s), (3, s)], s) \<and> s = current st'"
proof -
  let ?init = "\<lparr>current = DEFAULTS, effectiveDefaults = DEFAULTS, listeners = [], storage = empty_storage\<rparr>"
  let ?st = "\<lparr>current = DEFAULTS, effectiveDefaults = DEFAULTS, listeners = [7, 3], storage = empty_storage\<rparr>"
  have "reachable store_init store_step (onChange 3 (onChange 7 ?init))"
    by (rule reach_step [OF reach_step [OF store_reachable_empty step_subscribe] step_subscribe])
  then have r: "reachable store_init store_step ?st" by (simp add: onChange_def)
  have "applyPatch DEFAULTS (JObj []) = Inr DEFAULTS"
    using mergeSiteDefaults_empty by (simp add: mergeSiteDefaults_def object_like_def is_object_def)
  then obtain st' calls s where u: "update (JObj []) ?st = Inr (st', calls, s)"
    by (simp add: update_def is_object_def Let_def)
  from update_notifies [OF r u] u show ?thesis by (simp add: is_object_def)
qed

text \<open>Resetting goes back to the built-in defaults overridden by the site's, whatever the user
  changed and stored; it does not depend on the state of the storage.\<close>

theorem reset_restores_defaults:
  assumes "createSettings stg site = Inr st0" and "steps store_step st0 evs st"
    and "resetDefaults st = (st', calls, s)"
  shows "mergeSiteDefaults site = Inr s \<and> current st' = s \<and> calls = map (\<lambda>cb. (cb, s)) (listeners st)"
proof -
  have st0: "store_inv st0" "mergeSiteDefaults site = Inr (effectiveDefaults st0)"
    using assms(1) createSettings_inv [OF assms(1)] by (auto simp: createSettings_def res_simps)
  have "effectiveDefaults st = effectiveDefaults st0 \<and> store_inv st"
    using assms(2) st0(1)
  proof (induction rule: steps.induct)
    case (steps_Cons s e t es u)
    have "effectiveDefaults t = effectiveDefaults s"
      using steps_Cons.hyps(1) steps_Cons.prems
      by (auto elim!: store_stepE elim: update_cases
          simp: resetDefaults_def onChange_def unsubscribe_def Let_def)
    with steps_Cons settings_store.inv_step show ?case by metis
  qed simp
  with assms(3) st0(2) show ?thesis
    by (auto simp: resetDefaults_def store_inv_def notify_def get_def Let_def)
qed

theorem reset_restores_defaults_witness:
  "\<exists>st' s. resetDefaults
      \<lparr>current = DEFAULTS, effectiveDefaults = DEFAULTS, listeners = [4], storage = empty_storage\<rparr> =
    (st', [(4, s)], s) \<and> s = DEFAULTS"
proof -
  let ?st = "\<lparr>current = DEFAULTS, effectiveDefaults = DEFAULTS, listeners = [4], storage = empty_storage\<rparr>"
  have s: "steps store_step
      \<lparr>current = DEFAULTS, effectiveDefaults = DEFAULTS, listeners = [], storage = empty_storage\<rparr>
      [Subscribe 4] ?st"
    using step_subscribe [of "\<lparr>current = DEFAULTS, effectiveDefaults = DEFAULTS, listeners = [], storage = empty_storage\<rparr>" 4]
    by (auto simp: onChange_def intro: steps_Cons steps_Nil)
  obtain st' calls s where r: "resetDefaults ?st = (st', calls, s)" by (cases "resetDefaults ?st") auto
  from reset_restores_defaults [OF createSettings_empty s r] mergeSiteDefaults_empty r
  show ?thesis by auto
qed

text \<open>A numeric setting that is an object without a primitive form.\<close>

definition bad_number :: "jsval \<Rightarrow> bool" where
  "bad_number v \<longleftrightarrow>
     (\<exists>k \<in> {''trailSeconds'', ''port''}. has_prop v k \<and> text_throws (get_prop v k))"

text \<open>C28: Creating the store throws exactly when a text conversion throws that the clamping of
  \<open>trailSeconds\<close> or \<open>port\<close> makes: of the site defaults, or else of the stored settings.\<close>

theorem createSettings_throws:
  "createSettings stg site = Inl e \<longleftrightarrow>
     object_like site \<and> bad_number site \<or>
     (case loadStored stg of Some v \<Rightarrow> bad_number v | None \<Rightarrow> False)"
proof (cases "mergeSiteDefaults site")
  case (Inl e')
  moreover have "e' = e" by (cases e; cases e') simp
  ultimately show ?thesis
    by (auto simp: createSettings_def mergeSiteDefaults_def applyPatch_throws bad_number_def split: if_splits)
next
  case (Inr eff)
  then have "\<not> (object_like site \<and> bad_number site)"
    using applyPatch_throws [of DEFAULTS site e]
    by (auto simp: mergeSiteDefaults_def bad_number_def split: if_splits)
  then show ?thesis
    by (auto simp: createSettings_current [OF Inr] res_simps applyPatch_throws bad_number_def
        split: option.split)
qed

text \<open>A stored item that makes it throw.\<close>

lemma stored_item_throws:
  "createSettings (empty_storage\<lparr>item := Some ''{\"port\":{\"toString\":true}}''\<rparr>) (JObj []) = Inl TypeError"
proof -
  have "json_parse ''{\"port\":{\"toString\":true}}'' = Some (JObj [(''port'', JObj [(''toString'', JBool True)])])"
    by code_simp
  then show ?thesis
    by (simp add: createSettings_current [OF mergeSiteDefaults_empty] loadStored_def empty_storage_def
        is_object_def res_simps applyPatch_throws has_prop_def get_prop_def)
qed

end
