(* ===== verification/Ws_Protocol.thy ===== *)
theory Ws_Protocol
  imports Json_Text
begin

text \<open>
  frontend/js/net.js, first half: the messages of the WebSocket protocol.  A parsed message
  is a value of \<open>message\<close>; a violation is a constructor of \<open>parse_err\<close>, which stands for the
  text of the thrown \<open>Error\<close>.  The checks come in the order of the code.
\<close>

section \<open>Messages\<close>

record hello =
  protocolVersion :: real
  hello_serverTime :: string
  broadcastHz :: real
  limits :: jsval

record sat_state =
  sat_id :: real
  sat_seq :: real
  sat_pos :: vec3
  sat_vel :: vec3

record tracked =
  obj_id :: real
  cat :: string
  obj_pos :: vec3
  obj_vel :: "vec3 option"
  conf :: real
  intensity :: real
  obj_flags :: real

record trail_point =
  tp_id :: real
  tp_t :: real
  tp_pos :: vec3

record state_msg =
  serverTime :: string
  lastDataTime :: "string option"
  satellite :: "sat_state option"
  objects :: "tracked list"
  stats :: jsval
  trailPoints :: "trail_point list"

datatype message = Hello hello | State state_msg

datatype parse_err =
    InvalidJson
  | NotAnObject
  | MissingType
  | UnknownType string
  | UnsupportedProtocol jsval
  | HelloServerTime
  | HelloBroadcastHz
  | HelloLimits
  | StateServerTime
  | StateLastDataTime
  | SatelliteNotObject
  | SatelliteIdSeq
  | SatellitePos
  | SatelliteVel
  | ObjectsNotArray
  | ObjectRow nat
  | ObjectId nat
  | ObjectCat nat
  | ObjectPos nat
  | ObjectVelMixed nat
  | ObjectVel nat
  | ObjectConf nat
  | ObjectIntensity nat
  | ObjectFlags nat
  | StateStats
  | TrailPointsNotArray
  | TrailPointRow nat

definition CATEGORY_NAMES :: "(int \<times> string) list" where
  "CATEGORY_NAMES = [(0, ''unknown''), (1, ''debris''), (2, ''star''), (3, ''comet''),
     (4, ''satellite''), (5, ''groundHot'')]"

section \<open>Checks\<close>

definition isFiniteNumber :: "jsval \<Rightarrow> bool" where
  "isFiniteNumber v = (case v of JNum n \<Rightarrow> is_finite_num n | _ \<Rightarrow> False)"

definition isNumberArray3 :: "jsval \<Rightarrow> bool" where
  "isNumberArray3 v \<longleftrightarrow> is_array v \<and> length (the_arr v) = 3 \<and> list_all isFiniteNumber (the_arr v)"

definition isNumberArray5 :: "jsval \<Rightarrow> bool" where
  "isNumberArray5 v \<longleftrightarrow> is_array v \<and> length (the_arr v) = 5 \<and> list_all isFiniteNumber (the_arr v)"

definition isPlainObject :: "jsval \<Rightarrow> bool" where
  "isPlainObject v = (case v of JObj _ \<Rightarrow> True | _ \<Rightarrow> False)"

text \<open>\<open>Number.isInteger\<close> of any value.\<close>

definition is_integer_value :: "jsval \<Rightarrow> bool" where
  "is_integer_value v = (case v of JNum n \<Rightarrow> num_is_integer n | _ \<Rightarrow> False)"

text \<open>Three numbers of an array, under the test that they are there.\<close>

definition vec_at :: "jsval list \<Rightarrow> nat \<Rightarrow> vec3" where
  "vec_at r i = (the_real (r ! i), the_real (r ! (i + 1)), the_real (r ! (i + 2)))"

section \<open>Parsing\<close>

text \<open>\<open>CATEGORY_NAMES[cat] || 'unknown'\<close>.\<close>

definition category_name :: "real \<Rightarrow> string" where
  "category_name c = (case map_of CATEGORY_NAMES \<lfloor>c\<rfloor> of Some n \<Rightarrow> n | None \<Rightarrow> ''unknown'')"

definition parseObjectRow :: "nat \<Rightarrow> jsval \<Rightarrow> parse_err + tracked" where
  "parseObjectRow index row =
     (if \<not> is_array row \<or> length (the_arr row) \<noteq> 11 then Inl (ObjectRow index)
      else let r = the_arr row in
        if \<not> isFiniteNumber (r ! 0) then Inl (ObjectId index)
        else if \<not> is_integer_value (r ! 1) then Inl (ObjectCat index)
        else if \<not> list_all isFiniteNumber [r ! 2, r ! 3, r ! 4] then Inl (ObjectPos index)
        else rbind
          (if r ! 5 = JNull then
             if r ! 6 \<noteq> JNull \<or> r ! 7 \<noteq> JNull then Inl (ObjectVelMixed index) else Inr None
           else if \<not> list_all isFiniteNumber [r ! 5, r ! 6, r ! 7] then Inl (ObjectVel index)
           else Inr (Some (vec_at r 5)))
          (\<lambda>vel.
            if \<not> isFiniteNumber (r ! 8) then Inl (ObjectConf index)
            else if \<not> isFiniteNumber (r ! 9) then Inl (ObjectIntensity index)
            else if \<not> isFiniteNumber (r ! 10) then Inl (ObjectFlags index)
            else Inr \<lparr>obj_id = the_real (r ! 0), cat = category_name (the_real (r ! 1)),
              obj_pos = vec_at r 2, obj_vel = vel, conf = the_real (r ! 8),
              intensity = the_real (r ! 9), obj_flags = the_real (r ! 10)\<rparr>))"

definition parseTrailPointRow :: "nat \<Rightarrow> jsval \<Rightarrow> parse_err + trail_point" where
  "parseTrailPointRow index row =
     (if \<not> isNumberArray5 row then Inl (TrailPointRow index)
      else let r = the_arr row in
        Inr \<lparr>tp_id = the_real (r ! 0), tp_t = the_real (r ! 1), tp_pos = vec_at r 2\<rparr>)"

definition parseTrailPoints :: "jsval \<Rightarrow> parse_err + trail_point list" where
  "parseTrailPoints v =
     (if v = JUndef then Inr []
      else if \<not> is_array v then Inl TrailPointsNotArray
      else map_indexed 0 parseTrailPointRow (the_arr v))"

definition parseSatellite :: "jsval \<Rightarrow> parse_err + sat_state option" where
  "parseSatellite sat =
     (if sat = JNull \<or> sat = JUndef then Inr None
      else if \<not> isPlainObject sat then Inl SatelliteNotObject
      else if \<not> isFiniteNumber (get_prop sat ''id'') \<or> \<not> isFiniteNumber (get_prop sat ''seq'')
        then Inl SatelliteIdSeq
      else if \<not> isNumberArray3 (get_prop sat ''pos'') then Inl SatellitePos
      else if \<not> isNumberArray3 (get_prop sat ''vel'') then Inl SatelliteVel
      else Inr (Some \<lparr>sat_id = the_real (get_prop sat ''id''), sat_seq = the_real (get_prop sat ''seq''),
        sat_pos = vec_at (the_arr (get_prop sat ''pos'')) 0,
        sat_vel = vec_at (the_arr (get_prop sat ''vel'')) 0\<rparr>))"

definition parseState :: "jsval \<Rightarrow> parse_err + message" where
  "parseState msg =
     (if \<not> is_string (get_prop msg ''serverTime'') then Inl StateServerTime
      else if get_prop msg ''lastDataTime'' \<noteq> JNull \<and> \<not> is_string (get_prop msg ''lastDataTime'')
        then Inl StateLastDataTime
      else rbind (parseSatellite (get_prop msg ''satellite'')) (\<lambda>sat.
        if \<not> is_array (get_prop msg ''objects'') then Inl ObjectsNotArray
        else rbind (map_indexed 0 parseObjectRow (the_arr (get_prop msg ''objects''))) (\<lambda>objs.
          if \<not> isPlainObject (get_prop msg ''stats'') then Inl StateStats
          else rbind (parseTrailPoints (get_prop msg ''trailPoints'')) (\<lambda>pts.
            Inr (State \<lparr>serverTime = the_str (get_prop msg ''serverTime''),
              lastDataTime = (if get_prop msg ''lastDataTime'' = JNull then None
                else Some (the_str (get_prop msg ''lastDataTime''))),
              satellite = sat, objects = objs, stats = get_prop msg ''stats'',
              trailPoints = pts\<rparr>)))))"

definition parseHello :: "jsval \<Rightarrow> parse_err + message" where
  "parseHello msg =
     (if get_prop msg ''protocolVersion'' \<noteq> JNum (Fin 1)
        then Inl (UnsupportedProtocol (get_prop msg ''protocolVersion''))
      else if \<not> is_string (get_prop msg ''serverTime'') then Inl HelloServerTime
      else if \<not> isFiniteNumber (get_prop msg ''broadcastHz'') then Inl HelloBroadcastHz
      else if \<not> isPlainObject (get_prop msg ''limits'') then Inl HelloLimits
      else Inr (Hello \<lparr>protocolVersion = the_real (get_prop msg ''protocolVersion''),
        hello_serverTime = the_str (get_prop msg ''serverTime''),
        broadcastHz = the_real (get_prop msg ''broadcastHz''),
        limits = get_prop msg ''limits''\<rparr>))"

text \<open>\<open>parseStateMessage\<close> of the value \<open>JSON.parse\<close> gave, and of the text.\<close>

definition parse_message :: "jsval \<Rightarrow> parse_err + message" where
  "parse_message msg =
     (if \<not> isPlainObject msg then Inl NotAnObject
      else if \<not> is_string (get_prop msg ''type'') then Inl MissingType
      else if get_prop msg ''type'' = JStr ''hello'' then parseHello msg
      else if get_prop msg ''type'' = JStr ''state'' then parseState msg
      else Inl (UnknownType (the_str (get_prop msg ''type''))))"

definition parseStateMessage :: "string \<Rightarrow> parse_err + message" where
  "parseStateMessage txt =
     (case json_parse txt of None \<Rightarrow> Inl InvalidJson | Some msg \<Rightarrow> parse_message msg)"

section \<open>Facts\<close>

lemma isFiniteNumber_iff: "isFiniteNumber v \<longleftrightarrow> (\<exists>x. v = JNum (Fin x))"
  by (cases v) (auto simp: isFiniteNumber_def is_finite_num_iff)

lemma is_integer_value_iff: "is_integer_value v \<longleftrightarrow> (\<exists>i. v = JNum (Fin (of_int i)))"
  by (cases v) (auto simp: is_integer_value_def num_is_integer_def split: jsnum.splits elim: is_integralE)

lemma isPlainObject_iff: "isPlainObject v \<longleftrightarrow> (\<exists>kvs. v = JObj kvs)"
  by (cases v) (simp_all add: isPlainObject_def)

lemma CATEGORY_NAMES_keys: "fst ` set CATEGORY_NAMES = {0, 1, 2, 3, 4, 5}"
  by (simp add: CATEGORY_NAMES_def)

definition cat_names :: "string set" where
  "cat_names = snd ` set CATEGORY_NAMES"

lemma category_name_in: "category_name c \<in> cat_names"
proof (cases "map_of CATEGORY_NAMES \<lfloor>c\<rfloor>")
  case None
  then show ?thesis by (simp add: category_name_def cat_names_def CATEGORY_NAMES_def)
next
  case (Some n)
  then show ?thesis
    by (auto simp: category_name_def cat_names_def dest!: map_of_SomeD intro: rev_image_eqI)
qed

subsection \<open>Encoding\<close>

text \<open>The value a sender of the protocol puts on the wire for a message.\<close>

abbreviation num :: "real \<Rightarrow> jsval" where "num x \<equiv> JNum (Fin x)"

definition encode_vec :: "vec3 \<Rightarrow> jsval list" where
  "encode_vec p = (case p of (x, y, z) \<Rightarrow> [num x, num y, num z])"

definition category_code :: "string \<Rightarrow> real" where
  "category_code n = of_int (the (map_of (map (\<lambda>(i, n). (n, i)) CATEGORY_NAMES) n))"

definition encode_object :: "tracked \<Rightarrow> jsval" where
  "encode_object b = JArr ([num (obj_id b), num (category_code (cat b))] @ encode_vec (obj_pos b) @
     (case obj_vel b of None \<Rightarrow> [JNull, JNull, JNull] | Some v \<Rightarrow> encode_vec v) @
     [num (conf b), num (intensity b), num (obj_flags b)])"

definition encode_trail_point :: "trail_point \<Rightarrow> jsval" where
  "encode_trail_point p = JArr ([num (tp_id p), num (tp_t p)] @ encode_vec (tp_pos p))"

definition encode_satellite :: "sat_state option \<Rightarrow> jsval" where
  "encode_satellite sat = (case sat of None \<Rightarrow> JNull
    | Some s \<Rightarrow> JObj [(''id'', num (sat_id s)), (''seq'', num (sat_seq s)),
        (''pos'', JArr (encode_vec (sat_pos s))), (''vel'', JArr (encode_vec (sat_vel s)))])"

definition encode_state :: "state_msg \<Rightarrow> jsval" where
  "encode_state m = JObj
     [(''type'', JStr ''state''),
      (''serverTime'', JStr (serverTime m)),
      (''lastDataTime'', case lastDataTime m of None \<Rightarrow> JNull | Some t \<Rightarrow> JStr t),
      (''satellite'', encode_satellite (satellite m)),
      (''objects'', JArr (map encode_object (objects m))),
      (''stats'', stats m),
      (''trailPoints'', JArr (map encode_trail_point (trailPoints m)))]"

text \<open>What the type of a parsed state message leaves open.\<close>

definition state_ok :: "state_msg \<Rightarrow> bool" where
  "state_ok m \<longleftrightarrow> (\<forall>b \<in> set (objects m). cat b \<in> cat_names) \<and> isPlainObject (stats m)"

lemma category_code_name: "n \<in> cat_names \<Longrightarrow> category_name (category_code n) = n"
  by (auto simp: cat_names_def CATEGORY_NAMES_def category_code_def category_name_def)

lemma parse_encode_object: "cat b \<in> cat_names \<Longrightarrow> parseObjectRow i (encode_object b) = Inr b"
proof -
  assume "cat b \<in> cat_names"
  then have n: "category_name (category_code (cat b)) = cat b" by (rule category_code_name)
  have int: "is_integer_value (num (category_code (cat b)))"
    by (auto simp: is_integer_value_iff category_code_def)
  obtain x y z where p: "obj_pos b = (x, y, z)" by (cases "obj_pos b")
  show ?thesis
  proof (cases "obj_vel b")
    case None
    then show ?thesis using n int p
      by (cases b) (simp add: parseObjectRow_def encode_object_def encode_vec_def is_array_def
        isFiniteNumber_iff vec_at_def)
  next
    case (Some v)
    obtain vx vy vz where "v = (vx, vy, vz)" by (cases v)
    with Some show ?thesis using n int p
      by (cases b) (simp add: parseObjectRow_def encode_object_def encode_vec_def is_array_def
        isFiniteNumber_iff vec_at_def)
  qed
qed

lemma parse_encode_trail_point: "parseTrailPointRow i (encode_trail_point p) = Inr p"
  by (cases p; cases "tp_pos p") (simp add: parseTrailPointRow_def encode_trail_point_def
    encode_vec_def isNumberArray5_def is_array_def isFiniteNumber_iff vec_at_def)

lemma parse_encode_satellite: "parseSatellite (encode_satellite sat) = Inr sat"
proof (cases sat)
  case None
  then show ?thesis by (simp add: parseSatellite_def encode_satellite_def)
next
  case (Some s)
  then show ?thesis
    by (cases s; cases "sat_pos s"; cases "sat_vel s") (simp add: parseSatellite_def
      encode_satellite_def encode_vec_def isPlainObject_def isNumberArray3_def is_array_def
      isFiniteNumber_iff vec_at_def get_prop_def)
qed

lemma map_indexed_encode:
  "\<forall>x \<in> set xs. \<forall>i. f i (g x) = Inr x \<Longrightarrow> map_indexed j f (map g xs) = Inr xs"
  by (simp add: map_indexed_Inr_iff)

lemma get_encode_state:
  "get_prop (encode_state m) ''type'' = JStr ''state''"
  "get_prop (encode_state m) ''serverTime'' = JStr (serverTime m)"
  "get_prop (encode_state m) ''lastDataTime'' = (case lastDataTime m of None \<Rightarrow> JNull | Some t \<Rightarrow> JStr t)"
  "get_prop (encode_state m) ''satellite'' = encode_satellite (satellite m)"
  "get_prop (encode_state m) ''objects'' = JArr (map encode_object (objects m))"
  "get_prop (encode_state m) ''stats'' = stats m"
  "get_prop (encode_state m) ''trailPoints'' = JArr (map encode_trail_point (trailPoints m))"
  by (simp_all add: get_prop_def encode_state_def)

lemma parse_encode_state:
  assumes "state_ok m"
  shows "parse_message (encode_state m) = Inr (State m)"
proof -
  have obs: "map_indexed 0 parseObjectRow (map encode_object (objects m)) = Inr (objects m)"
    using assms by (intro map_indexed_encode) (simp add: state_ok_def parse_encode_object)
  have pts: "map_indexed 0 parseTrailPointRow (map encode_trail_point (trailPoints m)) =
      Inr (trailPoints m)"
    by (intro map_indexed_encode) (simp add: parse_encode_trail_point)
  have "isPlainObject (encode_state m)" by (simp add: encode_state_def isPlainObject_def)
  moreover have "isPlainObject (stats m)" using assms by (simp add: state_ok_def)
  ultimately show ?thesis using obs pts
    by (cases m) (simp add: parse_message_def parseState_def get_encode_state
      parse_encode_satellite parseTrailPoints_def is_string_def is_array_def
      split: option.split)
qed

subsection \<open>What an accepted message contains\<close>

lemma parseObjectRow_cat: "parseObjectRow i row = Inr b \<Longrightarrow> cat b \<in> cat_names"
  by (auto simp: parseObjectRow_def Let_def res_simps category_name_in split: if_splits)

lemma map_indexed_all:
  assumes "map_indexed i f xs = Inr ys" and "\<And>i x y. f i x = Inr y \<Longrightarrow> P y"
  shows "\<forall>y \<in> set ys. P y"
  using assms(1) by (auto simp: map_indexed_Inr_iff in_set_conv_nth) (metis assms(2))

lemma parse_message_State:
  assumes "parse_message msg = Inr (State m)"
  shows "map_indexed 0 parseObjectRow (the_arr (get_prop msg ''objects'')) = Inr (objects m)"
    and "isPlainObject (stats m)"
    and "parseTrailPoints (get_prop msg ''trailPoints'') = Inr (trailPoints m)"
    and "parseSatellite (get_prop msg ''satellite'') = Inr (satellite m)"
  using assms by (auto simp: parse_message_def parseState_def parseHello_def res_simps split: if_splits)

lemma parsed_state_ok: "parse_message msg = Inr (State m) \<Longrightarrow> state_ok m"
  using parse_message_State(1,2) [of msg m]
  by (auto simp: state_ok_def dest: map_indexed_all [where P = "\<lambda>b. cat b \<in> cat_names"]
      parseObjectRow_cat)

text \<open>The error of a row names the row.\<close>

definition row_error :: "nat \<Rightarrow> parse_err set" where
  "row_error i = {ObjectRow i, ObjectId i, ObjectCat i, ObjectPos i, ObjectVelMixed i, ObjectVel i,
     ObjectConf i, ObjectIntensity i, ObjectFlags i}"

lemma parseObjectRow_error: "parseObjectRow i row = Inl e \<Longrightarrow> e \<in> row_error i"
  by (auto simp: parseObjectRow_def row_error_def Let_def res_simps split: if_splits)

text \<open>The rows the protocol allows, whatever their index.\<close>

definition row_ok :: "jsval \<Rightarrow> bool" where
  "row_ok row \<longleftrightarrow> is_array row \<and> (let r = the_arr row in
     length r = 11 \<and> isFiniteNumber (r ! 0) \<and> is_integer_value (r ! 1) \<and>
     list_all isFiniteNumber [r ! 2, r ! 3, r ! 4] \<and>
     (list_all (\<lambda>v. v = JNull) [r ! 5, r ! 6, r ! 7] \<or> list_all isFiniteNumber [r ! 5, r ! 6, r ! 7]) \<and>
     list_all isFiniteNumber [r ! 8, r ! 9, r ! 10])"

lemma parseObjectRow_ok: "(\<exists>b. parseObjectRow i row = Inr b) \<longleftrightarrow> row_ok row"
proof -
  have "isFiniteNumber JNull = False" by (simp add: isFiniteNumber_def)
  then show ?thesis
    by (auto simp: parseObjectRow_def row_ok_def Let_def res_simps split: if_splits)
qed

text \<open>The checks \<open>parseState\<close> makes before it comes to the rows.\<close>

definition header_ok :: "jsval \<Rightarrow> bool" where
  "header_ok msg \<longleftrightarrow> is_string (get_prop msg ''serverTime'') \<and>
     (get_prop msg ''lastDataTime'' = JNull \<or> is_string (get_prop msg ''lastDataTime'')) \<and>
     (\<exists>sat. parseSatellite (get_prop msg ''satellite'') = Inr sat)"

lemma state_message: "get_prop msg ''type'' = JStr ''state'' \<Longrightarrow> parse_message msg = parseState msg"
  by (cases msg) (auto simp: parse_message_def isPlainObject_def is_string_def get_prop_def own_props_def)

lemma map_indexed_first:
  assumes "k < length xs" and "f (i + k) (xs ! k) = Inl e" and "\<forall>j < k. \<exists>y. f (i + j) (xs ! j) = Inr y"
  shows "map_indexed i f xs = Inl e"
  using assms
proof (induction xs arbitrary: i k)
  case (Cons x xs)
  show ?case
  proof (cases k)
    case 0
    with Cons.prems show ?thesis by simp
  next
    case (Suc m)
    have "map_indexed (Suc i) f xs = Inl e"
      using Cons.prems Suc by (intro Cons.IH [of m]) auto
    moreover obtain y where "f i x = Inr y" using Cons.prems(3) Suc by force
    ultimately show ?thesis by simp
  qed
qed simp

section \<open>Properties\<close>


text \<open>C30: A state message with a malformed object row is rejected as a whole: no message comes of it,
  whatever else it holds.  When the fields before the objects are in order, the error is the one of
  its first malformed row and names that row's index.  A row is malformed unless it has 11 elements,
  finite numbers for id, position, confidence, intensity and flags, an integer for the category,
  and three nulls or three finite numbers for the velocity.\<close>

theorem first_bad_row:
  assumes "json_parse txt = Some msg" and "get_prop msg ''type'' = JStr ''state''"
    and "get_prop msg ''objects'' = JArr rows"
    and "k < length rows" and "\<not> row_ok (rows ! k)" and "\<forall>j < k. row_ok (rows ! j)"
  shows "(\<exists>e. parseStateMessage txt = Inl e) \<and>
    (header_ok msg \<longrightarrow> (\<exists>e \<in> row_error k. parseObjectRow k (rows ! k) = Inl e \<and> parseStateMessage txt = Inl e))"
proof -
  obtain e where e: "parseObjectRow k (rows ! k) = Inl e"
    using assms(5) parseObjectRow_ok [of k "rows ! k"] by (cases "parseObjectRow k (rows ! k)") auto
  have rows: "map_indexed 0 parseObjectRow rows = Inl e"
    using assms(4,6) e parseObjectRow_ok by (intro map_indexed_first [of k]) auto
  have p: "parseStateMessage txt = parseState msg"
    using assms(1,2) by (simp add: parseStateMessage_def state_message)
  have "\<exists>e. parseState msg = Inl e"
    by (cases "parseSatellite (get_prop msg ''satellite'')") (simp_all add: parseState_def rows assms(3))
  moreover have "parseState msg = Inl e" if "header_ok msg"
    using that rows by (auto simp: parseState_def header_ok_def assms(3) is_array_def)
  ultimately show ?thesis using p e parseObjectRow_error [OF e] by auto
qed

theorem first_bad_row_witness:
  "parseStateMessage (''{\"type\":\"state\",\"serverTime\":\"\",\"lastDataTime\":null,\"objects\":[null]}'') = Inl (ObjectRow 0)"
proof -
  let ?txt = "''{\"type\":\"state\",\"serverTime\":\"\",\"lastDataTime\":null,\"objects\":[null]}''"
  let ?msg = "JObj [(''type'', JStr ''state''), (''serverTime'', JStr []), (''lastDataTime'', JNull), (''objects'', JArr [JNull])]"
  have "json_parse ?txt = Some ?msg" by code_simp
  moreover have "header_ok ?msg" by (simp add: header_ok_def get_prop_def is_string_def parseSatellite_def)
  moreover have "parseObjectRow 0 JNull = Inl (ObjectRow 0)" by (simp add: parseObjectRow_def is_array_def)
  ultimately show ?thesis
    using first_bad_row [of ?txt ?msg "[JNull]" 0] by (simp add: get_prop_def row_ok_def is_array_def)
qed

text \<open>Whether a row is accepted does not depend on which integer its category is: a category from 0 to
  5 gets its name and every other one is \<open>unknown\<close>, the rest of the row being parsed the same.\<close>

theorem any_integer_category:
  assumes "parseObjectRow k (JArr (x # num (of_int i) # rest)) = Inr b"
  shows "parseObjectRow k (JArr (x # num (of_int j) # rest)) =
    Inr (b\<lparr>cat := (if 0 \<le> j \<and> j \<le> 5 then the (map_of CATEGORY_NAMES j) else ''unknown'')\<rparr>)"
proof -
  have int: "is_integer_value (num (of_int n))" for n by (auto simp: is_integer_value_iff)
  have name: "category_name (of_int n) = (if 0 \<le> n \<and> n \<le> 5 then the (map_of CATEGORY_NAMES n) else ''unknown'')" for n
  proof -
    have "map_of CATEGORY_NAMES n \<noteq> None \<longleftrightarrow> 0 \<le> n \<and> n \<le> 5"
      unfolding map_of_eq_None_iff CATEGORY_NAMES_keys by auto
    then show ?thesis by (auto simp: category_name_def split: option.splits)
  qed
  have drop: "(x # num (of_int n) # rest) ! m = (x # num (of_int i) # rest) ! m" if "m \<noteq> 1" for n m
    using that by (cases m rule: nat.exhaust; simp add: nth_Cons') 
  have vec: "vec_at (x # num (of_int n) # rest) m = vec_at (x # num (of_int i) # rest) m" if "2 \<le> m" for n m
    using that by (simp add: vec_at_def drop)
  have "parseObjectRow k (JArr (x # num (of_int j) # rest)) = Inr (b\<lparr>cat := category_name (of_int j)\<rparr>)"
    using assms drop [of 0 j] drop [of 2 j] drop [of 3 j] drop [of 4 j] drop [of 5 j] drop [of 6 j]
      drop [of 7 j] drop [of 8 j] drop [of 9 j] drop [of 10 j] vec [of 2 j] vec [of 5 j]
    by (simp add: parseObjectRow_def Let_def is_array_def int res_simps split: if_splits) auto
  then show ?thesis by (simp add: name)
qed

theorem any_integer_category_witness:
  "\<exists>b. parseObjectRow 0 (JArr (num 7 # num (of_int 99) #
      [num 0, num 0, num 0, JNull, JNull, JNull, num 1, num 0, num 0])) = Inr b \<and> cat b = ''unknown''"
proof -
  have "is_integer_value (num (of_int 1))" by (auto simp: is_integer_value_iff intro: exI [of _ 1])
  then obtain b where "parseObjectRow 0 (JArr (num 7 # num (of_int 1) #
      [num 0, num 0, num 0, JNull, JNull, JNull, num 1, num 0, num 0])) = Inr b"
    by (simp add: parseObjectRow_def is_array_def isFiniteNumber_iff eval_nat_numeral)
  from any_integer_category [OF this, of 99] show ?thesis by simp
qed

end
