(* ===== verification/Ws_Connection.thy ===== *)
theory Ws_Connection
  imports Ws_Protocol Transition
begin

text \<open>
  frontend/js/net.js, second half: \<open>createConnection\<close>.  The closure's variables are the record
  \<open>conn\<close>; a handler returns the new record and the effects in the order the code has them.
  Sockets and timers are named by numbers handed out in order.  Whether the factory throws
  is an argument of the operations that may open a socket.  The callbacks do not call back
  into the connection.  The world around it keeps the pending timers and the sockets that
  neither side has closed.
\<close>

section \<open>State and effects\<close>

datatype status = Connecting | Open | Closed

datatype effect =
    EmitStatus status
  | OpenWs nat string
  | OpenFailed string
  | CloseWs nat
  | SetTimeout nat nat
  | ClearTimeout nat
  | CallHello hello
  | CallState state_msg
  | WarnParse parse_err

record conn =
  c_host :: string
  c_port :: int
  socket :: "nat option"
  reconnectTimer :: "nat option"
  backoffIndex :: nat
  stopped :: bool
  parseErrorCount :: nat
  next_socket :: nat
  next_timer :: nat

type_synonym 'a acting = "'a \<times> effect list"

definition BACKOFF_DELAYS_MS :: "nat list" where
  "BACKOFF_DELAYS_MS = [1000, 2000, 4000, 8000, 10000]"

definition createConnection :: "string \<Rightarrow> int \<Rightarrow> conn" where
  "createConnection h p = \<lparr>c_host = h, c_port = p, socket = None, reconnectTimer = None,
     backoffIndex = 0, stopped = True, parseErrorCount = 0, next_socket = 0, next_timer = 0\<rparr>"

section \<open>Opening and reconnecting\<close>

definition scheduleReconnect :: "conn \<Rightarrow> conn acting" where
  "scheduleReconnect c =
     (if stopped c then (c, [])
      else let delay = BACKOFF_DELAYS_MS ! min (backoffIndex c) (length BACKOFF_DELAYS_MS - 1);
               t = next_timer c
           in (c\<lparr>backoffIndex := backoffIndex c + 1, reconnectTimer := Some t, next_timer := t + 1\<rparr>,
               [SetTimeout t delay]))"

definition endpoint_url :: "string \<Rightarrow> int \<Rightarrow> string" where
  "endpoint_url h p = ''ws://'' @ h @ '':'' @ show_int p @ ''/''"

definition openSocket :: "bool \<Rightarrow> conn \<Rightarrow> conn acting" where
  "openSocket factory_ok c =
     (if stopped c then (c, [])
      else let url = endpoint_url (c_host c) (c_port c) in
        if \<not> factory_ok then
          let (c', es) = scheduleReconnect c in (c', [EmitStatus Connecting, OpenFailed url] @ es)
        else let ws = next_socket c in
          (c\<lparr>socket := Some ws, next_socket := ws + 1\<rparr>, [EmitStatus Connecting, OpenWs ws url]))"

definition timerFired :: "bool \<Rightarrow> conn \<Rightarrow> conn acting" where
  "timerFired factory_ok c = openSocket factory_ok (c\<lparr>reconnectTimer := None\<rparr>)"

section \<open>Socket events\<close>

definition onopen :: "nat \<Rightarrow> conn \<Rightarrow> conn acting" where
  "onopen ws c =
     (if socket c \<noteq> Some ws then (c, [])
      else (c\<lparr>backoffIndex := 0\<rparr>, [EmitStatus Open]))"

definition onmessage :: "nat \<Rightarrow> string \<Rightarrow> conn \<Rightarrow> conn acting" where
  "onmessage ws data c =
     (if socket c \<noteq> Some ws then (c, [])
      else case parseStateMessage data of
          Inl err \<Rightarrow> (c\<lparr>parseErrorCount := parseErrorCount c + 1\<rparr>, [WarnParse err])
        | Inr (Hello h) \<Rightarrow> (c, [CallHello h])
        | Inr (State m) \<Rightarrow> (c, [CallState m]))"

definition onclose :: "nat \<Rightarrow> conn \<Rightarrow> conn acting" where
  "onclose ws c =
     (if socket c \<noteq> Some ws then (c, [])
      else let (c', es) = scheduleReconnect (c\<lparr>socket := None\<rparr>)
           in (c', EmitStatus Closed # es))"

definition onerror :: "nat \<Rightarrow> conn \<Rightarrow> conn acting" where
  "onerror ws c = (c, [])"

section \<open>The interface\<close>

definition clear_timer :: "conn \<Rightarrow> conn acting" where
  "clear_timer c = (case reconnectTimer c of
      None \<Rightarrow> (c, [])
    | Some t \<Rightarrow> (c\<lparr>reconnectTimer := None\<rparr>, [ClearTimeout t]))"

definition drop_socket :: "conn \<Rightarrow> conn acting" where
  "drop_socket c = (case socket c of
      None \<Rightarrow> (c, [])
    | Some s \<Rightarrow> (c\<lparr>socket := None\<rparr>, [CloseWs s]))"

definition connect :: "bool \<Rightarrow> conn \<Rightarrow> conn acting" where
  "connect factory_ok c =
     (let (c1, es1) = clear_timer (c\<lparr>stopped := False, backoffIndex := 0\<rparr>);
          (c2, es2) = openSocket factory_ok c1
      in (c2, es1 @ es2))"

definition close :: "conn \<Rightarrow> conn acting" where
  "close c =
     (let (c1, es1) = clear_timer (c\<lparr>stopped := True\<rparr>);
          (c2, es2) = drop_socket c1
      in (c2, es1 @ es2))"

definition setEndpoint :: "string \<Rightarrow> int \<Rightarrow> bool \<Rightarrow> conn \<Rightarrow> conn acting" where
  "setEndpoint newHost newPort factory_ok c =
     (let (c1, es1) = clear_timer (c\<lparr>c_host := newHost, c_port := newPort\<rparr>);
          (c2, es2) = drop_socket c1;
          (c3, es3) = openSocket factory_ok (c2\<lparr>backoffIndex := 0, stopped := False\<rparr>)
      in (c3, es1 @ es2 @ es3))"

section \<open>The connection in its world\<close>

datatype conn_event =
    Connect bool
  | Close
  | SetEndpoint string int bool
  | TimerFired nat bool
  | WsOpen nat
  | WsMessage nat string
  | WsClose nat
  | WsError nat

definition handle :: "conn_event \<Rightarrow> conn \<Rightarrow> conn acting" where
  "handle ev c = (case ev of
      Connect ok \<Rightarrow> connect ok c
    | Close \<Rightarrow> close c
    | SetEndpoint h p ok \<Rightarrow> setEndpoint h p ok c
    | TimerFired t ok \<Rightarrow> timerFired ok c
    | WsOpen ws \<Rightarrow> onopen ws c
    | WsMessage ws data \<Rightarrow> onmessage ws data c
    | WsClose ws \<Rightarrow> onclose ws c
    | WsError ws \<Rightarrow> onerror ws c)"

text \<open>The runtime: timers that will fire, sockets that neither side has closed, and those that have
  fired their open event.\<close>

record world =
  the_conn :: conn
  pending :: "nat set"
  live :: "nat set"
  opened :: "nat set"

fun env_before :: "conn_event \<Rightarrow> world \<Rightarrow> world" where
  "env_before (TimerFired t ok) w = w\<lparr>pending := pending w - {t}\<rparr>"
| "env_before (WsOpen ws) w = w\<lparr>opened := insert ws (opened w)\<rparr>"
| "env_before (WsClose ws) w = w\<lparr>live := live w - {ws}\<rparr>"
| "env_before _ w = w"

fun apply_effect :: "effect \<Rightarrow> world \<Rightarrow> world" where
  "apply_effect (OpenWs ws url) w = w\<lparr>live := insert ws (live w)\<rparr>"
| "apply_effect (CloseWs ws) w = w\<lparr>live := live w - {ws}\<rparr>"
| "apply_effect (SetTimeout t delay) w = w\<lparr>pending := insert t (pending w)\<rparr>"
| "apply_effect (ClearTimeout t) w = w\<lparr>pending := pending w - {t}\<rparr>"
| "apply_effect _ w = w"

text \<open>An event may happen when its timer is pending or its socket exists; sockets may deliver
  events after they were closed.\<close>

fun enabled :: "conn_event \<Rightarrow> world \<Rightarrow> bool" where
  "enabled (TimerFired t ok) w \<longleftrightarrow> t \<in> pending w"
| "enabled (WsOpen ws) w \<longleftrightarrow> ws < next_socket (the_conn w)"
| "enabled (WsMessage ws data) w \<longleftrightarrow> ws < next_socket (the_conn w)"
| "enabled (WsClose ws) w \<longleftrightarrow> ws < next_socket (the_conn w)"
| "enabled (WsError ws) w \<longleftrightarrow> ws < next_socket (the_conn w)"
| "enabled _ w \<longleftrightarrow> True"

definition deliver :: "conn_event \<Rightarrow> world \<Rightarrow> world \<times> effect list" where
  "deliver ev w =
     (let (c', es) = handle ev (the_conn w)
      in (fold apply_effect es ((env_before ev w)\<lparr>the_conn := c'\<rparr>), es))"

inductive conn_step :: "world \<Rightarrow> conn_event \<times> effect list \<Rightarrow> world \<Rightarrow> bool" where
  conn_event: "enabled ev w \<Longrightarrow> deliver ev w = (w', es) \<Longrightarrow> conn_step w (ev, es) w'"

inductive_simps conn_step_iff: "conn_step w (ev, es) w'"
inductive_cases conn_stepE: "conn_step w e w'"

definition conn_start :: "world \<Rightarrow> bool" where
  "conn_start w \<longleftrightarrow> (\<exists>h p. w = \<lparr>the_conn = createConnection h p, pending = {}, live = {}, opened = {}\<rparr>)"

text \<open>The client's discipline: it calls \<open>connect()\<close> only while no socket is open.\<close>

inductive client_step :: "world \<Rightarrow> conn_event \<times> effect list \<Rightarrow> world \<Rightarrow> bool" where
  client_event: "conn_step w (ev, es) w' \<Longrightarrow>
    (\<exists>ok. ev = Connect ok) \<longrightarrow> socket (the_conn w) = None \<Longrightarrow> client_step w (ev, es) w'"

inductive_cases client_stepE: "client_step w e w'"

end
