(* ===== verification/Connection_Facts.thy ===== *)
theory Connection_Facts
  imports Ws_Connection
begin

text \<open>
  Correctness of the connection manager: as the client drives it, a running connection has
  either one open socket or one pending timer and a stopped one has neither; a closed
  connection stays quiet; events of sockets other than the current one do nothing; the
  delays grow by the documented backoff and are reset by an opened socket.
\<close>

section \<open>Handlers\<close>

lemmas handler_defs = openSocket_def scheduleReconnect_def timerFired_def connect_def close_def
  setEndpoint_def clear_timer_def drop_socket_def onopen_def onmessage_def onclose_def onerror_def

lemma backoff_delay:
  "BACKOFF_DELAYS_MS ! min n (length BACKOFF_DELAYS_MS - 1) = min (1000 * 2 ^ n) 10000"
proof -
  consider "n = 0" | "n = 1" | "n = 2" | "n = 3" | "4 \<le> n" by linarith
  then show ?thesis
  proof cases
    case 5
    then have "(2::nat) ^ 4 \<le> 2 ^ n" by (intro power_increasing) simp_all
    with 5 show ?thesis by (simp add: BACKOFF_DELAYS_MS_def)
  qed (simp_all add: BACKOFF_DELAYS_MS_def)
qed

lemma scheduleReconnect_eq:
  "scheduleReconnect c =
     (if stopped c then (c, [])
      else (c\<lparr>backoffIndex := Suc (backoffIndex c), reconnectTimer := Some (next_timer c),
              next_timer := Suc (next_timer c)\<rparr>,
            [SetTimeout (next_timer c) (min (1000 * 2 ^ backoffIndex c) 10000)]))"
  unfolding scheduleReconnect_def Let_def backoff_delay by simp

lemma openSocket_eq:
  "openSocket ok c =
     (if stopped c then (c, [])
      else if ok then
        (c\<lparr>socket := Some (next_socket c), next_socket := Suc (next_socket c)\<rparr>,
         [EmitStatus Connecting, OpenWs (next_socket c) (endpoint_url (c_host c) (c_port c))])
      else
        (c\<lparr>backoffIndex := Suc (backoffIndex c), reconnectTimer := Some (next_timer c),
           next_timer := Suc (next_timer c)\<rparr>,
         [EmitStatus Connecting, OpenFailed (endpoint_url (c_host c) (c_port c)),
          SetTimeout (next_timer c) (min (1000 * 2 ^ backoffIndex c) 10000)]))"
  by (simp add: openSocket_def scheduleReconnect_eq Let_def)

lemmas handler_simps = openSocket_eq scheduleReconnect_eq timerFired_def connect_def close_def
  setEndpoint_def clear_timer_def drop_socket_def onopen_def onmessage_def onclose_def onerror_def
  Let_def

section \<open>One socket or one timer\<close>

definition conn_inv :: "world \<Rightarrow> bool" where
  "conn_inv w \<longleftrightarrow>
     pending w = set_option (reconnectTimer (the_conn w)) \<and>
     live w = set_option (socket (the_conn w)) \<and>
     (if stopped (the_conn w)
      then socket (the_conn w) = None \<and> reconnectTimer (the_conn w) = None
      else (socket (the_conn w) = None) \<noteq> (reconnectTimer (the_conn w) = None)) \<and>
     (\<forall>s \<in> live w. s < next_socket (the_conn w)) \<and>
     (\<forall>t \<in> pending w. t < next_timer (the_conn w))"

lemma conn_inv_deliver:
  assumes "conn_inv w" and "enabled ev w" and "deliver ev w = (w', es)"
    and "(\<exists>ok. ev = Connect ok) \<longrightarrow> socket (the_conn w) = None"
  shows "conn_inv w'"
proof -
  obtain c p l q where w: "w = \<lparr>the_conn = c, pending = p, live = l, opened = q\<rparr>" by (cases w)
  note inv = assms(1) [unfolded conn_inv_def w, simplified]
  note d = assms(3) [symmetric, unfolded deliver_def handle_def w]
  show ?thesis
  proof (cases ev)
    case (Connect ok)
    with inv d assms(4) show ?thesis
      by (cases "reconnectTimer c"; cases ok)
        (auto simp: conn_inv_def handler_simps w split: if_splits)
  next
    case Close
    with inv d show ?thesis
      by (cases "reconnectTimer c"; cases "socket c")
        (auto simp: conn_inv_def handler_simps w split: if_splits)
  next
    case (SetEndpoint h po ok)
    with inv d show ?thesis
      by (cases "reconnectTimer c"; cases "socket c"; cases ok)
        (auto simp: conn_inv_def handler_simps w split: if_splits)
  next
    case (TimerFired t ok)
    with inv d assms(2) show ?thesis
      by (cases "socket c"; cases "stopped c"; cases ok)
        (auto simp: conn_inv_def handler_simps w split: if_splits)
  next
    case (WsOpen ws)
    with inv d show ?thesis by (auto simp: conn_inv_def handler_simps w split: if_splits)
  next
    case (WsMessage ws data)
    with inv d show ?thesis
      by (auto simp: conn_inv_def handler_simps w split: if_splits sum.splits message.splits)
  next
    case (WsClose ws)
    with inv d show ?thesis
      by (cases "socket c"; cases "stopped c")
        (auto simp: conn_inv_def handler_simps w split: if_splits)
  next
    case (WsError ws)
    with inv d show ?thesis by (auto simp: conn_inv_def handler_simps w)
  qed
qed

lemma conn_inv_start: "conn_start w \<Longrightarrow> conn_inv w"
  by (auto simp: conn_start_def conn_inv_def createConnection_def)

lemma conn_inv_step: "conn_inv w \<Longrightarrow> client_step w e w' \<Longrightarrow> conn_inv w'"
  by (auto elim!: client_stepE conn_stepE intro: conn_inv_deliver)

interpretation connection: stepper conn_start client_step conn_inv
  by unfold_locales (auto intro: conn_inv_start conn_inv_step)

section \<open>Quiet when closed\<close>

definition closed_conn :: "conn \<Rightarrow> bool" where
  "closed_conn c \<longleftrightarrow> stopped c \<and> socket c = None \<and> reconnectTimer c = None"

fun starts :: "conn_event \<Rightarrow> bool" where
  "starts (Connect ok) \<longleftrightarrow> True"
| "starts (SetEndpoint h p ok) \<longleftrightarrow> True"
| "starts _ \<longleftrightarrow> False"

lemma close_closed: "closed_conn (fst (close c))"
  by (auto simp: handler_simps closed_conn_def split: option.splits)

lemma closed_handle:
  assumes "closed_conn c" and "\<not> starts ev"
  shows "snd (handle ev c) = [] \<and> closed_conn (fst (handle ev c))"
  using assms by (cases ev) (auto simp: handle_def handler_simps closed_conn_def)

lemma the_conn_fold [simp]: "the_conn (fold apply_effect es w) = the_conn w"
proof (induction es arbitrary: w)
  case (Cons e es)
  have "the_conn (apply_effect e w) = the_conn w" by (cases e) simp_all
  with Cons show ?case by simp
qed simp

lemma deliver_handle:
  assumes "deliver ev w = (w', es)"
  shows "the_conn w' = fst (handle ev (the_conn w))" and "es = snd (handle ev (the_conn w))"
  using assms by (auto simp: deliver_def split: prod.splits)

lemma closed_steps:
  assumes "steps conn_step w evs w'" and "closed_conn (the_conn w)"
    and "\<forall>(ev, es) \<in> set evs. \<not> starts ev"
  shows "(\<forall>(ev, es) \<in> set evs. es = []) \<and> closed_conn (the_conn w')"
  using assms
proof (induction rule: steps.induct)
  case (steps_Cons s e t evs u)
  obtain ev es where e: "e = (ev, es)" by force
  with steps_Cons.hyps(1) have d: "deliver ev s = (t, es)" by (simp add: conn_step_iff)
  have "\<not> starts ev" using steps_Cons.prems(2) e by simp
  from closed_handle [OF steps_Cons.prems(1) this] deliver_handle [OF d]
  have "es = []" "closed_conn (the_conn t)" by simp_all
  with steps_Cons e show ?case by simp
qed simp

section \<open>Backoff\<close>

text \<open>The delay of the timer an event sets.\<close>

fun delays :: "effect list \<Rightarrow> nat list" where
  "delays [] = []"
| "delays (SetTimeout t d # es) = d # delays es"
| "delays (_ # es) = delays es"

lemma delays_append [simp]: "delays (xs @ ys) = delays xs @ delays ys"
  by (induction xs rule: delays.induct) auto

text \<open>A connection attempt has failed: the factory threw, or the current socket closed.\<close>

definition attempt_failed :: "effect list \<Rightarrow> bool" where
  "attempt_failed es \<longleftrightarrow> EmitStatus Closed \<in> set es \<or> (\<exists>url. OpenFailed url \<in> set es)"

text \<open>What counts the attempts anew: \<open>connect()\<close>, \<open>setEndpoint()\<close>, and a socket that opens.\<close>

definition new_start :: "conn_event \<times> effect list \<Rightarrow> bool" where
  "new_start e \<longleftrightarrow> starts (fst e) \<or> EmitStatus Open \<in> set (snd e)"

definition retry_delays :: "nat \<Rightarrow> effect list \<Rightarrow> nat list" where
  "retry_delays k es = (if attempt_failed es then [min (1000 * 2 ^ k) 10000] else [])"

lemma retry_handle:
  assumes "\<not> stopped c" and "\<not> new_start (ev, snd (handle ev c))" and "ev \<noteq> Close"
  shows "delays (snd (handle ev c)) = retry_delays (backoffIndex c) (snd (handle ev c)) \<and>
    backoffIndex (fst (handle ev c)) = backoffIndex c + (if attempt_failed (snd (handle ev c)) then 1 else 0) \<and>
    \<not> stopped (fst (handle ev c))"
  using assms
  by (cases ev) (auto simp: handle_def handler_simps retry_delays_def attempt_failed_def new_start_def
      split: if_splits sum.splits message.splits)

lemma start_handle:
  assumes "new_start (ev, snd (handle ev c))" and "stopped c \<Longrightarrow> socket c = None"
  shows "delays (snd (handle ev c)) = retry_delays 0 (snd (handle ev c)) \<and>
    backoffIndex (fst (handle ev c)) = (if attempt_failed (snd (handle ev c)) then 1 else 0) \<and>
    \<not> stopped (fst (handle ev c))"
  using assms
  by (cases ev) (auto simp: handle_def handler_simps retry_delays_def attempt_failed_def new_start_def
      split: if_splits option.splits sum.splits message.splits)

definition failures :: "(conn_event \<times> effect list) list \<Rightarrow> nat" where
  "failures evs = length (filter (\<lambda>e. attempt_failed (snd e)) evs)"

lemma client_step_handle:
  "client_step w (ev, es) w' \<Longrightarrow> the_conn w' = fst (handle ev (the_conn w)) \<and> es = snd (handle ev (the_conn w))"
  by (auto elim!: client_stepE conn_stepE dest: deliver_handle)

lemma backoff_upt:
  "map (\<lambda>i. min (1000 * 2 ^ (k + i)) 10000) [0..<Suc n] =
     min (1000 * 2 ^ k) 10000 # map (\<lambda>i. min (1000 * 2 ^ (Suc k + i)) (10000::nat)) [0..<n]"
  by (simp add: upt_conv_Cons map_Suc_upt [symmetric] comp_def del: upt_Suc)

lemma retry_steps:
  assumes "steps client_step w evs w'" and "\<not> stopped (the_conn w)"
    and "\<forall>e \<in> set evs. \<not> new_start e \<and> fst e \<noteq> Close"
  shows "delays (concat (map snd evs)) =
    map (\<lambda>i. min (1000 * 2 ^ (backoffIndex (the_conn w) + i)) 10000) [0..<failures evs]"
  using assms
proof (induction rule: steps.induct)
  case (steps_Nil s)
  then show ?case by (simp add: failures_def)
next
  case (steps_Cons s e t evs u)
  obtain ev es where e: "e = (ev, es)" by force
  note h = client_step_handle [OF steps_Cons.hyps(1) [unfolded e]]
  have ev: "\<not> new_start (ev, es)" "ev \<noteq> Close" using steps_Cons.prems(2) e by simp_all
  note r = retry_handle [of "the_conn s" ev, folded conjunct2 [OF h] conjunct1 [OF h], OF steps_Cons.prems(1) ev]
  have ih: "delays (concat (map snd evs)) =
      map (\<lambda>i. min (1000 * 2 ^ (backoffIndex (the_conn t) + i)) 10000) [0..<failures evs]"
    using steps_Cons.IH r steps_Cons.prems(2) by simp
  show ?case
  proof (cases "attempt_failed es")
    case True
    then show ?thesis
      using r ih backoff_upt [of "backoffIndex (the_conn s)" "failures evs"]
      by (simp add: e failures_def retry_delays_def del: upt_Suc)
  next
    case False
    then show ?thesis using r ih by (simp add: e failures_def retry_delays_def)
  qed
qed

section \<open>Status\<close>

text \<open>The status last emitted, and what it says of the connection.\<close>

definition status_after :: "effect list \<Rightarrow> status \<Rightarrow> status" where
  "status_after es s = fold (\<lambda>e s. case e of EmitStatus s' \<Rightarrow> s' | _ \<Rightarrow> s) es s"

definition status_ok :: "world \<Rightarrow> status \<Rightarrow> bool" where
  "status_ok w s \<longleftrightarrow> (\<forall>ws \<in> opened w. ws < next_socket (the_conn w)) \<and>
     (case socket (the_conn w) of
        Some ws \<Rightarrow> s = (if ws \<in> opened w then Open else Connecting)
      | None \<Rightarrow> s \<noteq> Open)"

lemma opened_fold [simp]: "opened (fold apply_effect es w) = opened w"
proof (induction es arbitrary: w)
  case (Cons e es)
  have "opened (apply_effect e w) = opened w" by (cases e) simp_all
  with Cons show ?case by simp
qed simp

lemma status_deliver:
  assumes "status_ok w s" and "enabled ev w" and "ev \<noteq> Close" and "deliver ev w = (w', es)"
    and "conn_inv w" and "(\<exists>ok. ev = Connect ok) \<longrightarrow> socket (the_conn w) = None"
  shows "status_ok w' (status_after es s)"
proof -
  obtain c p l q where w: "w = \<lparr>the_conn = c, pending = p, live = l, opened = q\<rparr>" by (cases w)
  note ok = assms(1) [unfolded status_ok_def w, simplified]
  note h = deliver_handle [OF assms(4), unfolded w, simplified]
  have o: "opened w' = (case ev of WsOpen ws \<Rightarrow> insert ws q | _ \<Rightarrow> q)"
    using assms(4) by (cases ev) (auto simp: deliver_def w split: prod.splits)
  show ?thesis
  proof (cases ev)
    case (SetEndpoint ho po b)
    with ok h o show ?thesis
      by (cases "reconnectTimer c"; cases "socket c"; cases b)
        (auto simp: status_ok_def status_after_def handle_def handler_simps)
  next
    case (Connect b)
    with ok h o assms(6) show ?thesis
      by (cases "reconnectTimer c"; cases b)
        (auto simp: status_ok_def status_after_def handle_def handler_simps w)
  next
    case (TimerFired t b)
    then have "socket c = None" using assms(2,5) by (auto simp: conn_inv_def w split: if_splits)
    with TimerFired ok h o show ?thesis
      by (cases "stopped c"; cases b)
        (auto simp: status_ok_def status_after_def handle_def handler_simps split: option.splits)
  next
    case (WsOpen ws)
    with ok h o assms(2) show ?thesis
      by (cases "socket c") (auto simp: status_ok_def status_after_def handle_def handler_simps w split: if_splits)
  next
    case (WsMessage ws data)
    with ok h o show ?thesis
      by (cases "socket c") (auto simp: status_ok_def status_after_def handle_def handler_simps
        split: sum.splits message.splits if_splits)
  next
    case (WsClose ws)
    with ok h o show ?thesis
      by (cases "socket c"; cases "stopped c")
        (auto simp: status_ok_def status_after_def handle_def handler_simps split: if_splits)
  next
    case (WsError ws)
    with ok h o show ?thesis
      by (cases "socket c") (auto simp: status_ok_def status_after_def handle_def handler_simps)
  qed (use assms(3) in simp)
qed

section \<open>Messages\<close>

text \<open>The frames \<open>frames\<close> arriving on socket \<open>ws\<close> one after the other.\<close>

definition receive :: "nat \<Rightarrow> string list \<Rightarrow> conn \<Rightarrow> conn acting" where
  "receive ws frames c =
     fold (\<lambda>data (c, es). let (c', es') = onmessage ws data c in (c', es @ es')) frames (c, [])"

definition outcome :: "string \<Rightarrow> effect" where
  "outcome data = (case parseStateMessage data of
      Inl err \<Rightarrow> WarnParse err
    | Inr (Hello h) \<Rightarrow> CallHello h
    | Inr (State m) \<Rightarrow> CallState m)"

definition bad_frames :: "string list \<Rightarrow> nat" where
  "bad_frames frames = length (filter (\<lambda>data. \<exists>err. parseStateMessage data = Inl err) frames)"

lemma onmessage_outcome:
  assumes "socket c = Some ws"
  shows "onmessage ws data c = (c\<lparr>parseErrorCount := parseErrorCount c + bad_frames [data]\<rparr>, [outcome data])"
  using assms by (auto simp: onmessage_def outcome_def bad_frames_def split: sum.split message.split)

lemma receive_from:
  assumes "socket c = Some ws"
  shows "fold (\<lambda>data (c, es). let (c', es') = onmessage ws data c in (c', es @ es')) frames (c, es) =
    (c\<lparr>parseErrorCount := parseErrorCount c + bad_frames frames\<rparr>, es @ map outcome frames)"
  using assms
proof (induction frames arbitrary: c es)
  case Nil
  then show ?case by (simp add: bad_frames_def)
next
  case (Cons data frames)
  have "bad_frames (data # frames) = bad_frames [data] + bad_frames frames"
    by (simp add: bad_frames_def)
  with Cons show ?case by (simp add: onmessage_outcome Let_def add.assoc)
qed

text \<open>A run from its events alone.\<close>

fun trace :: "conn_event list \<Rightarrow> world \<Rightarrow> (conn_event \<times> effect list) list" where
  "trace [] w = []"
| "trace (ev # evs) w = (ev, snd (deliver ev w)) # trace evs (fst (deliver ev w))"

fun allowed :: "conn_event list \<Rightarrow> world \<Rightarrow> bool" where
  "allowed [] w \<longleftrightarrow> True"
| "allowed (ev # evs) w \<longleftrightarrow> enabled ev w \<and> \<not> (\<exists>ok. ev = Connect ok) \<and> allowed evs (fst (deliver ev w))"

lemma steps_trace: "allowed evs w \<Longrightarrow> \<exists>w'. steps client_step w (trace evs w) w'"
proof (induction evs arbitrary: w)
  case (Cons ev evs)
  then obtain w' where "steps client_step (fst (deliver ev w)) (trace evs (fst (deliver ev w))) w'" by auto
  moreover have "client_step w (ev, snd (deliver ev w)) (fst (deliver ev w))"
    using Cons.prems by (intro client_event) (auto simp: conn_step_iff)
  ultimately show ?case by (auto intro: steps_Cons)
qed (auto intro: steps_Nil)

section \<open>Properties\<close>

lemma conn_start_reachable:
  "reachable conn_start client_step \<lparr>the_conn = createConnection h p, pending = {}, live = {}, opened = {}\<rparr>"
  by (rule reach_init) (auto simp: conn_start_def)

text \<open>C5: As the client drives it (\<open>connect()\<close> only without an open socket), a stopped connection has no
  open socket and no pending timer, and a running one has either exactly one open socket, the
  current one, or exactly one pending timer, the recorded one: it never leaks either and never
  gets stuck.\<close>

theorem one_socket_or_one_timer:
  assumes "reachable conn_start client_step w"
  shows "if stopped (the_conn w) then live w = {} \<and> pending w = {}
    else (\<exists>ws. socket (the_conn w) = Some ws \<and> live w = {ws} \<and> pending w = {}) \<or>
      (\<exists>t. reconnectTimer (the_conn w) = Some t \<and> live w = {} \<and> pending w = {t})"
  using connection.inv_reachable [OF assms] by (auto simp: conn_inv_def split: if_splits)

theorem one_socket_or_one_timer_witness:
  "live (fst (deliver (Connect True)
      \<lparr>the_conn = createConnection ''h'' 1, pending = {}, live = {}, opened = {}\<rparr>)) = {0}"
proof -
  let ?w0 = "\<lparr>the_conn = createConnection ''h'' 1, pending = {}, live = {}, opened = {}\<rparr>"
  obtain w es where d: "deliver (Connect True) ?w0 = (w, es)" by force
  have "client_step ?w0 (Connect True, es) w"
    using d by (auto simp: conn_step_iff createConnection_def intro!: client_event)
  then have "reachable conn_start client_step w" by (rule reach_step [OF conn_start_reachable])
  from one_socket_or_one_timer [OF this] d show ?thesis
    by (auto simp: deliver_def handle_def handler_simps createConnection_def)
qed

text \<open>C24: After \<open>close()\<close>, in any state and however the client called it before, nothing that happens has
  an effect until the next \<open>connect()\<close> or \<open>setEndpoint()\<close>: no status, no message, no timer, no
  socket.\<close>

theorem closed_is_quiet:
  assumes "deliver Close w = (w1, es1)" and "steps conn_step w1 evs w2"
    and "\<forall>(ev, es) \<in> set evs. \<not> starts ev"
  shows "(\<forall>(ev, es) \<in> set evs. es = []) \<and> stopped (the_conn w2) \<and> socket (the_conn w2) = None"
proof -
  have "closed_conn (the_conn w1)"
    using deliver_handle(1) [OF assms(1)] close_closed by (simp add: handle_def)
  from closed_steps [OF assms(2) this assms(3)] show ?thesis by (simp add: closed_conn_def)
qed

theorem closed_is_quiet_witness:
  "socket (the_conn (fst (deliver Close
     \<lparr>the_conn = (createConnection ''h'' 1)\<lparr>socket := Some 0, stopped := False, next_socket := 1\<rparr>,
       pending = {}, live = {0}, opened = {}\<rparr>))) = None"
proof -
  let ?w = "\<lparr>the_conn = (createConnection ''h'' 1)\<lparr>socket := Some 0, stopped := False, next_socket := 1\<rparr>,
       pending = {}, live = {0}, opened = {}\<rparr>"
  obtain w1 es1 where d: "deliver Close ?w = (w1, es1)" by force
  have "conn_step w1 (WsClose 0, []) (fst (deliver (WsClose 0) w1))"
    using d by (auto simp: conn_step_iff deliver_def handle_def handler_simps createConnection_def)
  then have "steps conn_step w1 [(WsClose 0, [])] (fst (deliver (WsClose 0) w1))"
    by (rule steps_Cons [OF _ steps_Nil])
  from closed_is_quiet [OF d this] closed_is_quiet [OF d steps_Nil] show ?thesis unfolding d by simp
qed

text \<open>An event of a socket that is not the current one changes nothing and has no effect.\<close>

theorem stale_socket_ignored:
  assumes "socket c \<noteq> Some ws"
  shows "handle (WsOpen ws) c = (c, []) \<and> handle (WsMessage ws data) c = (c, []) \<and>
    handle (WsClose ws) c = (c, []) \<and> handle (WsError ws) c = (c, [])"
  using assms by (simp add: handle_def handler_simps)

theorem stale_socket_ignored_witness:
  "handle (WsClose 3) (createConnection ''h'' 1) = (createConnection ''h'' 1, [])"
  using stale_socket_ignored [of "createConnection ''h'' 1" 3] by (simp add: createConnection_def)

text \<open>C25: From \<open>connect()\<close>, \<open>setEndpoint()\<close> or a socket that opens until the next of these or \<open>close()\<close>, whatever
  else happens, each failed attempt (the socket factory throws, or a socket that was created closes)
  sets exactly one timer, and their delays are 1, 2, 4, 8 and then always 10 seconds: nothing but an
  opened socket or a new call starts the sequence again, and each of them does.\<close>

theorem backoff_sequence:
  assumes "reachable conn_start client_step w" and "steps client_step w (e # evs) w'"
    and "new_start e" and "\<forall>e' \<in> set evs. \<not> new_start e' \<and> fst e' \<noteq> Close"
  shows "delays (concat (map snd (e # evs))) = map (\<lambda>i. min (1000 * 2 ^ i) 10000) [0..<failures (e # evs)]"
proof -
  obtain ev es where e: "e = (ev, es)" by force
  from assms(2) obtain v where v: "client_step w (ev, es) v" "steps client_step v evs w'" by (auto simp: e)
  note h = client_step_handle [OF v(1)]
  have "stopped (the_conn w) \<Longrightarrow> socket (the_conn w) = None"
    using connection.inv_reachable [OF assms(1)] by (simp add: conn_inv_def)
  with start_handle [of ev "the_conn w"] h assms(3) have start:
    "delays es = retry_delays 0 es" "backoffIndex (the_conn v) = (if attempt_failed es then 1 else 0)" "\<not> stopped (the_conn v)"
    by (auto simp: e)
  from retry_steps [OF v(2) start(3) assms(4)] show ?thesis
    using start(1,2) backoff_upt [of 0 "failures evs"]
    by (cases "attempt_failed es") (simp_all add: e failures_def retry_delays_def del: upt_Suc)
qed

theorem backoff_sequence_witness:
  "delays (concat (map snd (trace
      [SetEndpoint ''h'' 1 True, WsError 0, WsClose 0, TimerFired 0 False, TimerFired 1 True, WsClose 1]
      \<lparr>the_conn = createConnection ''h'' 1, pending = {}, live = {}, opened = {}\<rparr>))) = [1000, 2000, 4000]"
proof -
  let ?w = "\<lparr>the_conn = createConnection ''h'' 1, pending = {}, live = {}, opened = {}\<rparr>"
  let ?evs = "[WsError 0, WsClose 0, TimerFired 0 False, TimerFired 1 True, WsClose 1]"
  let ?all = "SetEndpoint ''h'' 1 True # ?evs"
  note eval = deliver_def handle_def handler_simps createConnection_def
  have "allowed ?all ?w" by (simp add: eval)
  then obtain w' where "steps client_step ?w (trace ?all ?w) w'" using steps_trace by blast
  then have st: "steps client_step ?w (hd (trace ?all ?w) # tl (trace ?all ?w)) w'" by simp
  have "new_start (hd (trace ?all ?w))" by (simp add: new_start_def)
  moreover have "\<forall>e' \<in> set (tl (trace ?all ?w)). \<not> new_start e' \<and> fst e' \<noteq> Close"
    by (simp add: eval new_start_def)
  moreover have "failures (trace ?all ?w) = 3" by (simp add: eval failures_def attempt_failed_def)
  ultimately show ?thesis
    using backoff_sequence [OF conn_start_reachable st] by (simp add: numeral_3_eq_3)
qed

text \<open>C23: Frames on the current socket are handed over one by one in order, hello and state messages to
  their callbacks; a frame that does not parse is only counted and warned of, and the connection
  goes on.\<close>

theorem frames_delivered:
  assumes "socket c = Some ws"
  shows "receive ws frames c =
    (c\<lparr>parseErrorCount := parseErrorCount c + bad_frames frames\<rparr>, map outcome frames)"
  unfolding receive_def receive_from [OF assms] by simp

theorem frames_delivered_witness:
  "parseErrorCount (fst (receive 0 [''nonsense'', ''[]''] ((createConnection ''h'' 1)\<lparr>socket := Some 0\<rparr>))) = 2"
proof -
  have "parseStateMessage ''nonsense'' = Inl InvalidJson" "parseStateMessage ''[]'' = Inl NotAnObject"
    by code_simp+
  then have "bad_frames [''nonsense'', ''[]''] = 2" by (simp add: bad_frames_def)
  then show ?thesis
    using frames_delivered [of "(createConnection ''h'' 1)\<lparr>socket := Some 0\<rparr>" 0 "[''nonsense'', ''[]'']"]
    by (simp add: createConnection_def)
qed

text \<open>Without the discipline: a second \<open>connect()\<close> while a socket is open leaves that socket open
  with nobody to close it.\<close>

lemma second_connect_leaks:
  "\<exists>w1 w2. steps conn_step \<lparr>the_conn = createConnection h p, pending = {}, live = {}, opened = {}\<rparr>
      [(Connect True, [EmitStatus Connecting, OpenWs 0 (endpoint_url h p)]),
       (Connect True, [EmitStatus Connecting, OpenWs 1 (endpoint_url h p)])] w2 \<and>
    live w2 = {0, 1} \<and> socket (the_conn w2) = Some 1"
proof -
  let ?w0 = "\<lparr>the_conn = createConnection h p, pending = {}, live = {}, opened = {}\<rparr>"
  let ?w1 = "fst (deliver (Connect True) ?w0)"
  let ?w2 = "fst (deliver (Connect True) ?w1)"
  have "conn_step ?w0 (Connect True, [EmitStatus Connecting, OpenWs 0 (endpoint_url h p)]) ?w1"
    by (simp add: conn_step_iff deliver_def handle_def handler_simps createConnection_def)
  moreover have "conn_step ?w1 (Connect True, [EmitStatus Connecting, OpenWs 1 (endpoint_url h p)]) ?w2"
    by (simp add: conn_step_iff deliver_def handle_def handler_simps createConnection_def)
  moreover have "live ?w2 = {0, 1} \<and> socket (the_conn ?w2) = Some 1"
    by (auto simp: deliver_def handle_def handler_simps createConnection_def)
  ultimately show ?thesis by (metis steps_Cons steps_Nil)
qed

end
