(* ===== verification/Client_Model.thy ===== *)
theory Client_Model
  imports Ws_Protocol Transition "HOL-Library.Multiset"
begin

text \<open>
  frontend/js/model.js: the client's view of the latest server state.  The closure's
  variables are the record \<open>client\<close>; \<open>lastAppliedAtMs\<close> is \<open>None\<close> until the first state.  The
  lemmas show the counts, the list rows and what a sequence of messages leaves.
\<close>

record client =
  m_satellite :: "sat_state option"
  m_objects :: "tracked list"
  m_lastDataTime :: "string option"
  m_serverTime :: "string option"
  m_stats :: "jsval option"
  m_trailPoints :: "trail_point list"
  lastAppliedAtMs :: "real option"

record snapshot =
  snap_satellite :: "sat_state option"
  snap_objects :: "tracked list"
  snap_lastDataTime :: "string option"
  snap_serverTime :: "string option"
  snap_trailPoints :: "trail_point list"

definition createModel :: client where
  "createModel = \<lparr>m_satellite = None, m_objects = [], m_lastDataTime = None, m_serverTime = None,
     m_stats = None, m_trailPoints = [], lastAppliedAtMs = None\<rparr>"

definition applyState :: "message \<Rightarrow> real \<Rightarrow> client \<Rightarrow> client" where
  "applyState msg nowMs c =
     (case msg of
        Hello h \<Rightarrow> c
      | State m \<Rightarrow> c\<lparr>m_satellite := satellite m, m_objects := objects m,
          m_lastDataTime := lastDataTime m, m_serverTime := Some (serverTime m),
          m_stats := Some (stats m), m_trailPoints := trailPoints m, lastAppliedAtMs := Some nowMs\<rparr>)"

definition getSnapshot :: "client \<Rightarrow> snapshot" where
  "getSnapshot c = \<lparr>snap_satellite = m_satellite c, snap_objects = m_objects c,
     snap_lastDataTime = m_lastDataTime c, snap_serverTime = m_serverTime c,
     snap_trailPoints = m_trailPoints c\<rparr>"

text \<open>The rows of the object list: a filter that is absent or empty lets everything through.
  \<open>Array.prototype.sort\<close> is stable.\<close>

definition getListRows :: "string option \<Rightarrow> nat \<Rightarrow> client \<Rightarrow> tracked list \<times> nat" where
  "getListRows f cap c =
     (let filtered = (case f of
            None \<Rightarrow> m_objects c
          | Some name \<Rightarrow> if name = [] then m_objects c else filter (\<lambda>b. cat b = name) (m_objects c));
          sorted = sort_key obj_id filtered
      in (take cap sorted, length sorted))"

definition emptyCounts :: "(string \<times> nat) list" where
  "emptyCounts = [(''debris'', 0), (''star'', 0), (''comet'', 0), (''satellite'', 0),
     (''groundHot'', 0), (''unknown'', 0), (''total'', 0)]"

definition incr :: "string \<Rightarrow> (string \<times> nat) list \<Rightarrow> (string \<times> nat) list" where
  "incr k counts = map (\<lambda>(k', n). (k', if k' = k then n + 1 else n)) counts"

definition count_object :: "tracked \<Rightarrow> (string \<times> nat) list \<Rightarrow> (string \<times> nat) list" where
  "count_object b counts =
     incr ''total'' (if map_of counts (cat b) \<noteq> None then incr (cat b) counts else counts)"

definition getCounts :: "client \<Rightarrow> (string \<times> nat) list" where
  "getCounts c = fold count_object (m_objects c) emptyCounts"

text \<open>\<open>None\<close> is \<open>Infinity\<close>.\<close>

definition secondsSinceLastState :: "real \<Rightarrow> client \<Rightarrow> real option" where
  "secondsSinceLastState nowMs c = map_option (\<lambda>t. (nowMs - t) / 1000) (lastAppliedAtMs c)"

section \<open>Counts\<close>

text \<open>The counter of one name, as the objects are gone through.\<close>

definition counter :: "string \<Rightarrow> tracked list \<Rightarrow> nat" where
  "counter k obs =
     (if k = ''total'' then length obs + length (filter (\<lambda>b. cat b = ''total'') obs)
      else length (filter (\<lambda>b. cat b = k) obs))"

definition count_names :: "string list" where
  "count_names = map fst emptyCounts"

lemma incr_keys [simp]: "map fst (incr k counts) = map fst counts"
  by (simp add: incr_def comp_def split_def)

lemma map_of_None_keys: "map_of kvs k = None \<longleftrightarrow> k \<notin> set (map fst kvs)"
  by (simp add: map_of_eq_None_iff)

lemma count_object_map:
  assumes "map fst counts = count_names"
  shows "count_object b counts =
    map (\<lambda>(k, n). (k, n + (if k = ''total'' then 1 else 0) + (if k = cat b then 1 else 0))) counts"
proof (cases "cat b \<in> set count_names")
  case True
  then have "map_of counts (cat b) \<noteq> None" using assms by (simp add: map_of_None_keys)
  then show ?thesis by (simp add: count_object_def incr_def comp_def split_def)
next
  case False
  then have "map_of counts (cat b) = None" using assms by (simp add: map_of_None_keys)
  moreover have "cat b \<noteq> k" if "(k, n) \<in> set counts" for k n
  proof -
    have "k \<in> set (map fst counts)" using that by force
    then have "k \<in> set count_names" by (simp only: assms)
    with False show ?thesis by metis
  qed
  ultimately show ?thesis by (force simp: count_object_def incr_def)
qed

lemma count_fold:
  assumes "map fst counts = count_names"
  shows "fold count_object obs counts = map (\<lambda>(k, n). (k, n + counter k obs)) counts"
  using assms
proof (induction obs arbitrary: counts)
  case Nil
  have "(\<lambda>(k, n). (k, n + counter k [])) = (\<lambda>x. x :: string \<times> nat)" by (auto simp: counter_def)
  then show ?case by simp
next
  case (Cons b obs)
  let ?one = "count_object b counts"
  have "map fst ?one = count_names"
    using Cons.prems by (simp add: count_object_map comp_def split_def)
  then have "fold count_object obs ?one = map (\<lambda>(k, n). (k, n + counter k obs)) ?one"
    by (rule Cons.IH)
  also have "\<dots> = map (\<lambda>(k, n). (k, n + counter k (b # obs))) counts"
    unfolding count_object_map [OF Cons.prems] by (auto simp: counter_def)
  finally show ?case by simp
qed

lemma getCounts_eq: "getCounts c = map (\<lambda>k. (k, counter k (m_objects c))) count_names"
  unfolding getCounts_def
  by (subst count_fold) (simp_all add: count_names_def emptyCounts_def)

text \<open>When every category is one of the parser's, the total is the number of objects and the
  sum of the other counts.\<close>

definition client_inv :: "client \<Rightarrow> bool" where
  "client_inv c \<longleftrightarrow> (\<forall>b \<in> set (m_objects c). cat b \<in> cat_names)"

lemma cat_names_eq: "cat_names = {''unknown'', ''debris'', ''star'', ''comet'', ''satellite'', ''groundHot''}"
  by (simp add: cat_names_def CATEGORY_NAMES_def)

lemma no_total:
  assumes "\<forall>b \<in> set obs. cat b \<in> cat_names"
  shows "counter ''total'' obs = length obs"
proof -
  have "filter (\<lambda>b. cat b = ''total'') obs = []"
    using assms by (auto simp: filter_empty_conv cat_names_eq)
  then show ?thesis by (simp add: counter_def)
qed

lemma counter_sum:
  assumes "\<forall>b \<in> set obs. cat b \<in> cat_names"
  shows "counter ''debris'' obs + counter ''star'' obs + counter ''comet'' obs +
    counter ''satellite'' obs + counter ''groundHot'' obs + counter ''unknown'' obs = length obs"
  using assms
proof (induction obs)
  case Nil
  then show ?case by (simp add: counter_def)
next
  case (Cons b obs)
  have "cat b \<in> cat_names" using Cons.prems by simp
  then have "cat b = ''unknown'' \<or> cat b = ''debris'' \<or> cat b = ''star'' \<or> cat b = ''comet'' \<or>
      cat b = ''satellite'' \<or> cat b = ''groundHot''"
    by (simp add: cat_names_eq)
  with Cons show ?case by (auto simp: counter_def)
qed

section \<open>Rows\<close>

definition selected_objects :: "string option \<Rightarrow> client \<Rightarrow> tracked list" where
  "selected_objects f c =
     filter (\<lambda>b. case f of None \<Rightarrow> True | Some x \<Rightarrow> x = [] \<or> cat b = x) (m_objects c)"

lemma getListRows_eq:
  "getListRows f cap c =
     (take cap (sort_key obj_id (selected_objects f c)), length (selected_objects f c))"
  by (simp add: getListRows_def selected_objects_def Let_def split: option.split)

section \<open>Messages\<close>

text \<open>The model driven by the connection: it gets the messages the parser accepted.\<close>

inductive client_apply :: "client \<Rightarrow> message \<times> real \<Rightarrow> client \<Rightarrow> bool" where
  apply_message: "parseStateMessage txt = Inr msg \<Longrightarrow> client_apply c (msg, now) (applyState msg now c)"

inductive_cases client_applyE: "client_apply c e c'"

definition client_start :: "client \<Rightarrow> bool" where
  "client_start c \<longleftrightarrow> c = createModel"

lemma parseStateMessage_State_ok: "parseStateMessage txt = Inr (State m) \<Longrightarrow> state_ok m"
  by (auto simp: parseStateMessage_def split: option.splits intro: parsed_state_ok)

lemma applyState_inv:
  "client_inv c \<Longrightarrow> parseStateMessage txt = Inr msg \<Longrightarrow> client_inv (applyState msg now c)"
  by (cases msg) (auto simp: applyState_def client_inv_def state_ok_def
      dest!: parseStateMessage_State_ok)

interpretation client_model: stepper client_start client_apply client_inv
proof unfold_locales
  fix c assume "client_start c"
  then show "client_inv c" by (simp add: client_start_def createModel_def client_inv_def)
qed (auto elim!: client_applyE intro: applyState_inv)

section \<open>Properties\<close>

lemma createModel_reachable: "reachable client_start client_apply createModel"
  by (rule reach_init) (simp add: client_start_def)

text \<open>In every model fed by the parser, the total is the number of objects and the sum of the six
  category counts, and each of these is the number of objects of that category.\<close>

theorem counts_add_up:
  assumes "reachable client_start client_apply c"
  shows "map_of (getCounts c) ''total'' = Some (length (m_objects c)) \<and>
    (\<forall>k \<in> cat_names. map_of (getCounts c) k = Some (length (filter (\<lambda>b. cat b = k) (m_objects c)))) \<and>
    (\<Sum>k \<in> cat_names. the (map_of (getCounts c) k)) = length (m_objects c)"
proof -
  have inv: "\<forall>b \<in> set (m_objects c). cat b \<in> cat_names"
    using client_model.inv_reachable [OF assms] by (simp add: client_inv_def)
  have look: "map_of (getCounts c) k = Some (counter k (m_objects c))" if "k \<in> set count_names" for k
    using that by (simp add: getCounts_eq map_of_map_restrict)
  have names: "set count_names = insert ''total'' cat_names"
    by (auto simp: count_names_def emptyCounts_def cat_names_eq)
  have "''total'' \<notin> cat_names" by (simp add: cat_names_eq)
  then have per: "map_of (getCounts c) k = Some (length (filter (\<lambda>b. cat b = k) (m_objects c)))"
    if "k \<in> cat_names" for k
    using that look [of k] names by (auto simp: counter_def)
  have "(\<Sum>k \<in> cat_names. the (map_of (getCounts c) k)) = (\<Sum>k \<in> cat_names. counter k (m_objects c))"
    using look names by (intro sum.cong) auto
  also have "\<dots> = length (m_objects c)"
    using counter_sum [OF inv] by (simp add: cat_names_eq)
  finally show ?thesis using look [of "''total''"] per names no_total [OF inv] by simp
qed

theorem counts_add_up_witness: "map_of (getCounts createModel) ''total'' = Some 0"
  using counts_add_up [OF createModel_reachable] by (simp add: createModel_def)

text \<open>The list shows the first \<open>cap\<close> of the objects that pass the filter, ordered by id, objects with
  the same id staying in the order of the message, and reports how many passed.\<close>

theorem list_rows:
  "snd (getListRows f cap c) = length (selected_objects f c) \<and>
   length (fst (getListRows f cap c)) = min cap (length (selected_objects f c)) \<and>
   sorted (map obj_id (fst (getListRows f cap c))) \<and>
   (\<exists>rest. mset (fst (getListRows f cap c) @ rest) = mset (selected_objects f c) \<and>
      sorted (map obj_id (fst (getListRows f cap c) @ rest)) \<and>
      (\<forall>i. filter (\<lambda>b. obj_id b = i) (fst (getListRows f cap c) @ rest) =
         filter (\<lambda>b. obj_id b = i) (selected_objects f c)))"
proof -
  let ?s = "sort_key obj_id (selected_objects f c)"
  have all: "take cap ?s @ drop cap ?s = ?s" by simp
  have "sorted (map obj_id (take cap ?s))"
    by (simp flip: take_map add: sorted_wrt_take)
  moreover have "filter (\<lambda>b. obj_id b = i) ?s = filter (\<lambda>b. obj_id b = i) (selected_objects f c)" for i
    using filter_sort [of "\<lambda>b. obj_id b = i" obj_id "selected_objects f c"] sort_key_stable by metis
  ultimately show ?thesis
    unfolding getListRows_eq fst_conv snd_conv
    by (intro conjI exI [of _ "drop cap ?s"]) (simp_all add: all)
qed

text \<open>The last state message of a sequence.\<close>

definition last_state :: "(message \<times> real) list \<Rightarrow> (state_msg \<times> real) option" where
  "last_state evs = fold (\<lambda>(msg, now) acc. case msg of State m \<Rightarrow> Some (m, now) | Hello h \<Rightarrow> acc) evs None"

text \<open>After any sequence of accepted messages the snapshot is that of the last state message, its
  trail points not accumulated; hello messages leave it alone.\<close>

theorem snapshot_is_last_state:
  assumes "steps client_apply createModel evs c"
  shows "case last_state evs of
      None \<Rightarrow> c = createModel \<and> secondsSinceLastState t c = None
    | Some (m, now) \<Rightarrow>
        getSnapshot c = \<lparr>snap_satellite = satellite m, snap_objects = objects m,
          snap_lastDataTime = lastDataTime m, snap_serverTime = Some (serverTime m),
          snap_trailPoints = trailPoints m\<rparr> \<and>
        secondsSinceLastState t c = Some ((t - now) / 1000)"
proof -
  define view where "view = (\<lambda>c acc. case acc of
      None \<Rightarrow> c = createModel
    | Some (m, now) \<Rightarrow> c = applyState (State m) now createModel)"
  have "steps client_apply c0 evs c \<Longrightarrow> view c0 acc \<Longrightarrow>
      view c (fold (\<lambda>(msg, now) acc. case msg of State m \<Rightarrow> Some (m, now) | Hello h \<Rightarrow> acc) evs acc)" for c0 acc
  proof (induction arbitrary: acc rule: steps.induct)
    case (steps_Cons s e t es u)
    from steps_Cons.hyps(1) obtain msg now where e: "e = (msg, now)" and t: "t = applyState msg now s"
      by (auto elim: client_applyE)
    have "view t (case msg of State m \<Rightarrow> Some (m, now) | Hello h \<Rightarrow> acc)"
      using steps_Cons.prems
      by (auto simp: t view_def applyState_def createModel_def split: message.splits option.splits)
    from steps_Cons.IH [OF this] show ?case by (simp add: e)
  qed simp
  from this [OF assms, of None] have "view c (last_state evs)"
    by (simp add: view_def last_state_def)
  then show ?thesis
    by (auto simp: view_def getSnapshot_def secondsSinceLastState_def applyState_def createModel_def
        split: option.splits)
qed

theorem snapshot_is_last_state_witness:
  "\<exists>c. steps client_apply createModel
      [(State \<lparr>serverTime = ''12:00'', lastDataTime = None, satellite = None, objects = [],
         stats = JObj [], trailPoints = []\<rparr>, 4000)] c \<and>
    snap_serverTime (getSnapshot c) = Some ''12:00'' \<and> secondsSinceLastState 5000 c = Some 1"
proof -
  let ?m = "\<lparr>serverTime = ''12:00'', lastDataTime = None, satellite = None, objects = [],
      stats = JObj [], trailPoints = []\<rparr>"
  have "parseStateMessage ''{\"type\":\"state\",\"serverTime\":\"12:00\",\"lastDataTime\":null,\"satellite\":null,\"objects\":[],\"stats\":{}}''
      = Inr (State ?m)"
    by code_simp
  then have "client_apply createModel (State ?m, 4000) (applyState (State ?m) 4000 createModel)"
    by (rule apply_message)
  then have "steps client_apply createModel [(State ?m, 4000)] (applyState (State ?m) 4000 createModel)"
    by (rule steps_Cons [OF _ steps_Nil])
  with snapshot_is_last_state [OF this, of 5000] show ?thesis
    by (intro exI [of _ "applyState (State ?m) 4000 createModel"]) (simp add: last_state_def)
qed

end
