(* ===== verification/App_Wiring.thy ===== *)
theory App_Wiring
  imports Renderer_Settings Settings_Facts Connection_Facts Client_Model
begin

text \<open>
  frontend/js/main.js: the wiring of the store, the connection, the model, the renderer's
  settings and the connection panel, and the click machine of \<open>wireOverlayPicking\<close>.  The
  store's listeners are those of \<open>createUi\<close> and of \<open>boot\<close>, in the order they are added.
\<close>

section \<open>Endpoints\<close>

text \<open>\<open>hostname\<close> is \<open>window.location.hostname\<close>.\<close>

definition resolveHost :: "string \<Rightarrow> settings \<Rightarrow> string" where
  "resolveHost hostname s =
     (if host s \<noteq> [] then host s else if hostname \<noteq> [] then hostname else ''127.0.0.1'')"

definition wsUrl :: "string \<Rightarrow> int \<Rightarrow> string" where
  "wsUrl h p = ''ws://'' @ h @ '':'' @ show_int p @ ''/''"

section \<open>The application\<close>

definition ui_listener :: nat where "ui_listener = 0"
definition main_listener :: nat where "main_listener = 1"

record app =
  a_hostname :: string
  a_store :: store
  a_model :: client
  a_world :: world
  a_renderer :: r_settings
  a_snapshot :: "snapshot option"
  currentHost :: string
  currentPort :: int
  shown_status :: status
  shown_url :: string

text \<open>The callbacks given to \<open>createConnection\<close>.\<close>

fun on_effect :: "real \<Rightarrow> effect \<Rightarrow> app \<Rightarrow> app" where
  "on_effect now (EmitStatus s) a =
     a\<lparr>shown_status := s, shown_url := wsUrl (currentHost a) (currentPort a)\<rparr>"
| "on_effect now (CallState m) a =
     (let model' = applyState (State m) now (a_model a)
      in a\<lparr>a_model := model', a_snapshot := Some (getSnapshot model')\<rparr>)"
| "on_effect now _ a = a"

definition conn_act :: "real \<Rightarrow> conn_event \<Rightarrow> app \<Rightarrow> app" where
  "conn_act now ev a =
     (let (w', es) = deliver ev (a_world a) in fold (on_effect now) es (a\<lparr>a_world := w'\<rparr>))"

definition change_endpoint :: "real \<Rightarrow> bool \<Rightarrow> string \<Rightarrow> int \<Rightarrow> app \<Rightarrow> app" where
  "change_endpoint now ok h p a =
     conn_act now (SetEndpoint h p ok) (a\<lparr>currentHost := h, currentPort := p\<rparr>)"

text \<open>The listener of \<open>boot\<close> on the settings store.\<close>

definition on_settings :: "real \<Rightarrow> bool \<Rightarrow> settings \<Rightarrow> app \<Rightarrow> app" where
  "on_settings now ok next a =
     (let a1 = a\<lparr>a_renderer := normalizeSettings (applyRendererSettings next)\<rparr>;
          resolved = resolveHost (a_hostname a1) next
      in if resolved \<noteq> currentHost a1 \<or> port next \<noteq> currentPort a1
         then change_endpoint now ok resolved (port next) a1 else a1)"

definition run_calls :: "real \<Rightarrow> bool \<Rightarrow> calls \<Rightarrow> app \<Rightarrow> app" where
  "run_calls now ok calls a =
     fold (\<lambda>(cb, s) a. if cb = main_listener then on_settings now ok s a else a) calls a"

definition onReconnect :: "real \<Rightarrow> bool \<Rightarrow> app \<Rightarrow> app" where
  "onReconnect now ok a =
     (let s = get (a_store a) in change_endpoint now ok (resolveHost (a_hostname a) s) (port s) a)"

definition boot :: "storage \<Rightarrow> jsval \<Rightarrow> string \<Rightarrow> bool \<Rightarrow> js_error + app" where
  "boot stg siteDefaults hostname ok =
     rbind (createSettings stg siteDefaults) (\<lambda>store0.
       let s = get store0;
           h = resolveHost hostname s;
           store1 = onChange main_listener (onChange ui_listener store0);
           a = \<lparr>a_hostname = hostname, a_store = store1, a_model = createModel,
                a_world = \<lparr>the_conn = createConnection h (port s), pending = {}, live = {}, opened = {}\<rparr>,
                a_renderer = normalizeSettings (applyRendererSettings s), a_snapshot = None,
                currentHost = h, currentPort = port s,
                shown_status = Connecting, shown_url = wsUrl h (port s)\<rparr>
       in Inr (conn_act 0 (Connect ok) a))"

section \<open>Running\<close>

datatype app_event =
    UserUpdate jsval bool
  | UserReset bool
  | UserReconnect bool
  | Network conn_event

fun network_event :: "conn_event \<Rightarrow> bool" where
  "network_event (TimerFired t ok) \<longleftrightarrow> True"
| "network_event (WsOpen ws) \<longleftrightarrow> True"
| "network_event (WsMessage ws data) \<longleftrightarrow> True"
| "network_event (WsClose ws) \<longleftrightarrow> True"
| "network_event (WsError ws) \<longleftrightarrow> True"
| "network_event _ \<longleftrightarrow> False"

inductive app_step :: "app \<Rightarrow> app_event \<times> real \<Rightarrow> app \<Rightarrow> bool" where
  app_update: "update patch (a_store a) = Inr (st', calls, s) \<Longrightarrow>
    app_step a (UserUpdate patch ok, now) (run_calls now ok calls (a\<lparr>a_store := st'\<rparr>))"
| app_update_throws: "update patch (a_store a) = Inl e \<Longrightarrow> app_step a (UserUpdate patch ok, now) a"
| app_reset: "resetDefaults (a_store a) = (st', calls, s) \<Longrightarrow>
    app_step a (UserReset ok, now) (run_calls now ok calls (a\<lparr>a_store := st'\<rparr>))"
| app_reconnect: "app_step a (UserReconnect ok, now) (onReconnect now ok a)"
| app_network: "network_event ev \<Longrightarrow> enabled ev (a_world a) \<Longrightarrow>
    app_step a (Network ev, now) (conn_act now ev a)"

inductive_cases app_stepE: "app_step a e a'"

definition app_start :: "app \<Rightarrow> bool" where
  "app_start a \<longleftrightarrow> (\<exists>stg site hostname ok. boot stg site hostname ok = Inr a)"

section \<open>Clicks\<close>

text \<open>\<open>wireOverlayPicking\<close>: positions are \<open>clientX\<close> and \<open>clientY\<close>.\<close>

record drag =
  downX :: real
  downY :: real
  dragging :: bool

definition PICK_DRAG_THRESHOLD_PX :: real where "PICK_DRAG_THRESHOLD_PX = 5"

definition drag_start :: drag where
  "drag_start = \<lparr>downX = 0, downY = 0, dragging = False\<rparr>"

definition pointerdown :: "real \<Rightarrow> real \<Rightarrow> drag \<Rightarrow> drag" where
  "pointerdown x y d = d\<lparr>downX := x, downY := y, dragging := False\<rparr>"

definition pointermove :: "real \<Rightarrow> real \<Rightarrow> drag \<Rightarrow> drag" where
  "pointermove x y d =
     (if \<bar>x - downX d\<bar> > PICK_DRAG_THRESHOLD_PX \<or> \<bar>y - downY d\<bar> > PICK_DRAG_THRESHOLD_PX
      then d\<lparr>dragging := True\<rparr> else d)"

text \<open>The point handed to \<open>renderer.pick\<close>, relative to the canvas at \<open>(left, top)\<close>; the
  renderer and the panel exist by the time a pointer event arrives.\<close>

definition pointerup :: "real \<Rightarrow> real \<Rightarrow> real \<Rightarrow> real \<Rightarrow> drag \<Rightarrow> (real \<times> real) option" where
  "pointerup rect_left rect_top x y d =
     (if dragging d then None else Some (x - rect_left, y - rect_top))"

end
