(* ===== verification/Toml_Parser.thy ===== *)
theory Toml_Parser
  imports Js_Value
begin

text \<open>
  frontend/js/toml.js: the TOML subset of the site configuration.  A position \<open>i\<close> in a line
  is represented by the rest of the line from \<open>i\<close>.  The state of the loop of \<open>parseToml\<close> is
  the current table name with the values read so far, in insertion order; an error carries
  the line number and a constructor in place of the message text.  The second half
  proves where errors are reported, what a result contains, and that every document
  printed in the subset is read back.
\<close>

section \<open>Errors\<close>

datatype value_err =
    UnterminatedEscape
  | UnsupportedEscape string
  | UnterminatedString
  | ArraysUnsupported
  | SingleQuoted
  | MissingValue
  | SignPosition
  | MultipleDots
  | DotDigits
  | UnsupportedValue string
  | NoDigits string
  | InvalidFloat string
  | InvalidInteger string

datatype line_err =
    MissingBracket
  | EmptyTableName
  | InvalidTableName string
  | TextAfterHeader
  | ExpectedKey
  | DottedKeys
  | ExpectedEquals string
  | MissingValueFor string
  | ValueErr value_err
  | TextAfterValue
  | DuplicateKey string

section \<open>Scanning\<close>

definition isBareKeyChar :: "char \<Rightarrow> bool" where
  "isBareKeyChar c \<longleftrightarrow>
     65 \<le> code c \<and> code c \<le> 90 \<or> 97 \<le> code c \<and> code c \<le> 122 \<or> is_digit c
     \<or> c = CHR ''_'' \<or> c = CHR ''-''"

definition isSpace :: "char \<Rightarrow> bool" where
  "isSpace c \<longleftrightarrow> c = CHR '' '' \<or> c = TAB"

definition skipSpace :: "string \<Rightarrow> string" where
  "skipSpace s = dropWhile isSpace s"

definition onlyTrailing :: "string \<Rightarrow> bool" where
  "onlyTrailing s \<longleftrightarrow> skipSpace s = [] \<or> hd (skipSpace s) = CHR ''#''"

text \<open>The first UTF-16 code unit of a string, for the text of an error.\<close>

definition first_unit :: "string \<Rightarrow> string" where
  "first_unit s = (case s of [] \<Rightarrow> [] | c # _ \<Rightarrow>
     take (if code c < 128 then 1 else if code c < 224 then 2 else 3) s)"

definition toml_escape :: "char \<Rightarrow> char option" where
  "toml_escape e =
     (if e = QUOTE then Some QUOTE
      else if e = BACKSLASH then Some BACKSLASH
      else if e = CHR ''n'' then Some LF
      else if e = CHR ''t'' then Some TAB
      else if e = CHR ''r'' then Some CR
      else None)"

text \<open>The loop of \<open>parseQuotedString\<close>, from just after the opening quote: the value and the
  rest after the closing quote.\<close>

fun parseQuotedString :: "string \<Rightarrow> value_err + (string \<times> string)" where
  "parseQuotedString [] = Inl UnterminatedString"
| "parseQuotedString (c # s) =
     (if c = QUOTE then Inr ([], s)
      else if c = BACKSLASH then
        (case s of
           [] \<Rightarrow> Inl UnterminatedEscape
         | e # s' \<Rightarrow>
             (case toml_escape e of
                None \<Rightarrow> Inl (UnsupportedEscape (first_unit s))
              | Some x \<Rightarrow> rbind (parseQuotedString s') (\<lambda>(t, r). Inr (x # t, r))))
      else rbind (parseQuotedString s) (\<lambda>(t, r). Inr (c # t, r)))"

text \<open>
  The character loop of \<open>parseScalar\<close>: \<open>prev\<close> is \<open>token[i - 1]\<close> (\<open>None\<close> at \<open>i = 0\<close>), the next
  character is the head of the rest.  The result is \<open>(hasDot, hasDigit)\<close>.
\<close>

fun scan_number :: "string \<Rightarrow> char option \<Rightarrow> bool \<Rightarrow> bool \<Rightarrow> string \<Rightarrow> value_err + (bool \<times> bool)" where
  "scan_number token prev hasDot hasDigit [] = Inr (hasDot, hasDigit)"
| "scan_number token prev hasDot hasDigit (c # s) =
     (if c = CHR ''+'' \<or> c = CHR ''-'' then
        if prev \<noteq> None then Inl SignPosition
        else scan_number token (Some c) hasDot hasDigit s
      else if c = CHR ''.'' then
        if hasDot then Inl MultipleDots
        else if prev = None \<or> s = [] \<or> \<not> is_digit (the prev) \<or> \<not> is_digit (hd s) then Inl DotDigits
        else scan_number token (Some c) True hasDigit s
      else if is_digit c then scan_number token (Some c) hasDot True s
      else Inl (UnsupportedValue token))"

definition parseScalar :: "string \<Rightarrow> value_err + jsval" where
  "parseScalar token =
     (if token = ''true'' \<or> token = ''false'' then Inr (JBool (token = ''true''))
      else if token = [] then Inl MissingValue
      else rbind (scan_number token None False False token) (\<lambda>(hasDot, hasDigit).
        if \<not> hasDigit then Inl (NoDigits token)
        else let v = string_to_number token in
          if hasDot then
            if \<not> is_finite_num v then Inl (InvalidFloat token) else Inr (JNum v)
          else
            if \<not> num_is_safe_integer v then Inl (InvalidInteger token) else Inr (JNum v)))"

section \<open>Lines\<close>

type_synonym toml_values = "(string \<times> jsval) list"
type_synonym toml_state = "string \<times> toml_values"

text \<open>The value of a \<open>key = value\<close> line, from its first character.\<close>

definition parse_value :: "string \<Rightarrow> value_err + (jsval \<times> string)" where
  "parse_value s =
     (let first = hd s in
      if first = QUOTE then rbind (parseQuotedString (tl s)) (\<lambda>(v, r). Inr (JStr v, r))
      else if first = CHR ''['' \<or> first = CHR ''{'' then Inl ArraysUnsupported
      else if first = CHR 0x27 then Inl SingleQuoted
      else let (token, r) = scan (\<lambda>c. \<not> isSpace c \<and> c \<noteq> CHR ''#'') s
           in rbind (parseScalar token) (\<lambda>v. Inr (v, r)))"

definition parse_header :: "string \<Rightarrow> line_err + string" where
  "parse_header s =
     (let (name, r) = scan (\<lambda>c. c \<noteq> CHR '']'') (tl s) in
      if r = [] then Inl MissingBracket
      else if name = [] then Inl EmptyTableName
      else if list_ex (\<lambda>c. \<not> isBareKeyChar c) name then Inl (InvalidTableName name)
      else if \<not> onlyTrailing (tl r) then Inl TextAfterHeader
      else Inr name)"

definition full_key :: "string \<Rightarrow> string \<Rightarrow> string" where
  "full_key table key = (if table = [] then key else table @ ''.'' @ key)"

definition parse_entry :: "toml_state \<Rightarrow> string \<Rightarrow> line_err + toml_state" where
  "parse_entry st s =
     (let (table, values) = st;
          (key, r) = scan isBareKeyChar s;
          r1 = skipSpace r;
          r2 = skipSpace (tl r1) in
      if key = [] then Inl ExpectedKey
      else if r1 = [] \<or> hd r1 \<noteq> CHR ''='' then
        if r1 \<noteq> [] \<and> hd r1 = CHR ''.'' then Inl DottedKeys else Inl (ExpectedEquals key)
      else if r2 = [] \<or> hd r2 = CHR ''#'' then Inl (MissingValueFor key)
      else case parse_value r2 of
          Inl e \<Rightarrow> Inl (ValueErr e)
        | Inr (value, r3) \<Rightarrow>
            if \<not> onlyTrailing r3 then Inl TextAfterValue
            else let full = full_key table key in
              if map_of values full \<noteq> None then Inl (DuplicateKey full)
              else Inr (table, values @ [(full, value)]))"

definition parse_line :: "toml_state \<Rightarrow> string \<Rightarrow> line_err + toml_state" where
  "parse_line st line =
     (let s = skipSpace line in
      if s = [] \<or> hd s = CHR ''#'' then Inr st
      else if hd s = CHR ''['' then rbind (parse_header s) (\<lambda>name. Inr (name, snd st))
      else parse_entry st s)"

section \<open>Texts\<close>

text \<open>\<open>text.replace(/\r\n/g, '\n')\<close> and \<open>split('\n')\<close>.\<close>

fun crlf_to_lf :: "string \<Rightarrow> string" where
  "crlf_to_lf [] = []"
| "crlf_to_lf [c] = [c]"
| "crlf_to_lf (c # d # s) =
     (if c = CR \<and> d = LF then LF # crlf_to_lf s else c # crlf_to_lf (d # s))"

fun split_on :: "char \<Rightarrow> string \<Rightarrow> string list" where
  "split_on d [] = [[]]"
| "split_on d (c # s) =
     (if c = d then [] # split_on d s
      else case split_on d s of [] \<Rightarrow> [[c]] | l # ls \<Rightarrow> (c # l) # ls)"

definition toml_lines :: "string \<Rightarrow> string list" where
  "toml_lines txt =
     (let normalized = crlf_to_lf txt; lines = split_on LF normalized in
      if lines \<noteq> [] \<and> last lines = [] \<and> normalized \<noteq> [] \<and> last normalized = LF
      then butlast lines else lines)"

definition strip_cr :: "string \<Rightarrow> string" where
  "strip_cr l = (if l \<noteq> [] \<and> last l = CR then butlast l else l)"

fun parse_lines :: "nat \<Rightarrow> toml_state \<Rightarrow> string list \<Rightarrow> (nat \<times> line_err) + toml_state" where
  "parse_lines lnum st [] = Inr st"
| "parse_lines lnum st (raw # rest) =
     (case parse_line st (strip_cr raw) of
        Inl e \<Rightarrow> Inl (lnum, e)
      | Inr st' \<Rightarrow> parse_lines (Suc lnum) st' rest)"

text \<open>The own-property order of an object built by \<open>Object.fromEntries\<close>: array indices first,
  ascending, then the other keys in insertion order.\<close>

definition is_array_index :: "string \<Rightarrow> bool" where
  "is_array_index k \<longleftrightarrow> k \<noteq> [] \<and> list_all is_digit k \<and> (hd k = CHR ''0'' \<longrightarrow> length k = 1)
     \<and> nat_of_digits k < 2 ^ 32 - 1"

definition from_entries :: "toml_values \<Rightarrow> toml_values" where
  "from_entries kvs =
     sort_key (\<lambda>kv. nat_of_digits (fst kv)) (filter (\<lambda>kv. is_array_index (fst kv)) kvs)
     @ filter (\<lambda>kv. \<not> is_array_index (fst kv)) kvs"

definition parseToml :: "string \<Rightarrow> (nat \<times> line_err) + toml_values" where
  "parseToml txt =
     rbind (parse_lines 1 ([], []) (toml_lines txt)) (\<lambda>(table, values). Inr (from_entries values))"

end
