(* ===== verification/Toml_Facts.thy ===== *)
theory Toml_Facts
  imports Toml_Parser
begin

text \<open>
  Correctness of the TOML subset parser: the line an error names is the first one that
  does not parse; the keys of a result are distinct and of one of the two documented
  shapes, its values are strings, booleans and finite numbers; and the parser reads back
  every document printed in the subset, whatever its line endings, comments and strings.
\<close>

section \<open>Error lines\<close>

lemma parse_lines_error:
  "parse_lines lnum st ls = Inl (n, e) \<Longrightarrow>
     lnum \<le> n \<and> n < lnum + length ls \<and>
     (\<exists>st'. parse_lines lnum st (take (n - lnum) ls) = Inr st' \<and>
        parse_line st' (strip_cr (ls ! (n - lnum))) = Inl e)"
proof (induction lnum st ls rule: parse_lines.induct)
  case (1 lnum st)
  then show ?case by simp
next
  case (2 lnum st raw rest)
  show ?case
  proof (cases "parse_line st (strip_cr raw)")
    case (Inl e')
    with 2(2) show ?thesis by simp
  next
    case (Inr st')
    with 2 have *: "Suc lnum \<le> n" "n < Suc lnum + length rest"
      "\<exists>st''. parse_lines (Suc lnum) st' (take (n - Suc lnum) rest) = Inr st'' \<and>
        parse_line st'' (strip_cr (rest ! (n - Suc lnum))) = Inl e" by auto
    then have "n - lnum = Suc (n - Suc lnum)" by simp
    with * Inr show ?thesis by simp
  qed
qed

lemma parse_lines_append:
  "parse_lines lnum st (xs @ ys) =
     (case parse_lines lnum st xs of
        Inl e \<Rightarrow> Inl e
      | Inr st' \<Rightarrow> parse_lines (lnum + length xs) st' ys)"
  by (induction lnum st xs rule: parse_lines.induct) (auto split: sum.splits)

section \<open>What a result contains\<close>

definition bare :: "string \<Rightarrow> bool" where
  "bare s \<longleftrightarrow> s \<noteq> [] \<and> (\<forall>c \<in> set s. isBareKeyChar c)"

definition toml_key :: "string \<Rightarrow> bool" where
  "toml_key k \<longleftrightarrow> bare k \<or> (\<exists>t q. bare t \<and> bare q \<and> k = t @ ''.'' @ q)"

definition toml_value :: "jsval \<Rightarrow> bool" where
  "toml_value v \<longleftrightarrow> (\<exists>s. v = JStr s) \<or> (\<exists>b. v = JBool b) \<or> (\<exists>x. v = JNum (Fin x))"

definition toml_inv :: "toml_state \<Rightarrow> bool" where
  "toml_inv st \<longleftrightarrow> (fst st = [] \<or> bare (fst st)) \<and> distinct (map fst (snd st)) \<and>
     (\<forall>(k, v) \<in> set (snd st). toml_key k \<and> toml_value v)"

lemma parseScalar_value: "parseScalar token = Inr v \<Longrightarrow> toml_value v"
  by (auto simp: parseScalar_def toml_value_def res_simps Let_def is_finite_num_iff
      num_is_safe_integer_def split: if_splits jsnum.splits)

lemma parse_value_value: "parse_value s = Inr (v, r) \<Longrightarrow> toml_value v"
  by (auto simp: parse_value_def Let_def res_simps split: if_splits prod.splits
      dest: parseScalar_value) (simp_all add: toml_value_def)

lemma parse_header_bare: "parse_header s = Inr name \<Longrightarrow> bare name"
  by (auto simp: parse_header_def Let_def bare_def list_ex_iff split: if_splits prod.splits)

lemma parse_entry_inv:
  assumes "parse_entry st s = Inr st'" and "toml_inv st"
  shows "toml_inv st'"
proof -
  obtain table vals where st: "st = (table, vals)" by force
  obtain key r where key: "scan isBareKeyChar s = (key, r)" by force
  from assms(1) obtain v r3 where v: "parse_value (skipSpace (tl (skipSpace r))) = Inr (v, r3)"
    and st': "st' = (table, vals @ [(full_key table key, v)])"
    and new: "map_of vals (full_key table key) = None" and ne: "key \<noteq> []"
    by (auto simp: parse_entry_def st key Let_def split: if_splits sum.splits)
  have "bare key" using scan_eqD [OF key] ne by (simp add: bare_def)
  moreover have "table = [] \<or> bare table" using assms(2) by (simp add: st toml_inv_def)
  ultimately have "toml_key (full_key table key)"
    by (auto simp: full_key_def toml_key_def)
  moreover have "full_key table key \<notin> fst ` set vals"
    using new by (simp add: map_of_eq_None_iff)
  ultimately show ?thesis
    using assms(2) parse_value_value [OF v] by (auto simp: st st' toml_inv_def)
qed

lemma parse_line_inv: "parse_line st line = Inr st' \<Longrightarrow> toml_inv st \<Longrightarrow> toml_inv st'"
  by (auto simp: parse_line_def Let_def res_simps split: if_splits
      intro: parse_entry_inv dest!: parse_header_bare) (simp add: toml_inv_def)

lemma parse_lines_inv: "parse_lines lnum st ls = Inr st' \<Longrightarrow> toml_inv st \<Longrightarrow> toml_inv st'"
  by (induction lnum st ls rule: parse_lines.induct)
    (auto split: sum.splits dest: parse_line_inv)

lemma set_from_entries [simp]: "set (from_entries kvs) = set kvs"
  by (auto simp: from_entries_def)

lemma distinct_from_entries: "distinct (map fst kvs) \<Longrightarrow> distinct (map fst (from_entries kvs))"
  by (auto simp: from_entries_def distinct_map inj_on_def distinct_sort)

lemma toml_inv_init [simp]: "toml_inv ([], [])"
  by (simp add: toml_inv_def)

lemma parseToml_entries:
  assumes "parseToml txt = Inr kvs"
  obtains table vals where "parse_lines 1 ([], []) (toml_lines txt) = Inr (table, vals)"
    and "kvs = from_entries vals" and "toml_inv (table, vals)"
  using assms parse_lines_inv [of 1 "([], [])" "toml_lines txt"]
  by (auto simp: parseToml_def res_simps)

section \<open>Splitting into lines\<close>

lemma split_on_nonempty [simp]: "split_on d s \<noteq> []"
  by (induction s) (auto split: list.splits)

lemma split_on_append:
  "d \<notin> set l \<Longrightarrow> split_on d (l @ d # s) = l # split_on d s"
  by (induction l) auto

lemma split_on_single: "d \<notin> set l \<Longrightarrow> split_on d l = [l]"
  by (induction l) auto

lemma crlf_no_cr: "CR \<notin> set s \<Longrightarrow> crlf_to_lf s = s"
  by (induction s rule: crlf_to_lf.induct) auto

lemma crlf_append:
  "CR \<notin> set l \<Longrightarrow> crlf_to_lf (l @ CR # LF # s) = l @ LF # crlf_to_lf s"
proof (induction l)
  case (Cons c l)
  then show ?case by (cases l) auto
qed simp

lemma crlf_append_lf:
  "CR \<notin> set l \<Longrightarrow> crlf_to_lf (l @ LF # s) = l @ LF # crlf_to_lf s"
proof (induction l)
  case Nil
  then show ?case by (cases s) auto
next
  case (Cons c l)
  then show ?case by (cases l) auto
qed

text \<open>A text whose lines each end in LF or in CRLF is split into exactly those lines.\<close>

fun ended :: "(string \<times> bool) list \<Rightarrow> string" where
  "ended [] = []"
| "ended ((l, cr) # ls) = l @ (if cr then [CR, LF] else [LF]) @ ended ls"

definition plain_lines :: "(string \<times> bool) list \<Rightarrow> bool" where
  "plain_lines ls \<longleftrightarrow> (\<forall>(l, cr) \<in> set ls. LF \<notin> set l \<and> CR \<notin> set l)"

lemma ended_eq_Nil [simp]: "ended ls = [] \<longleftrightarrow> ls = []"
  by (cases ls rule: ended.cases) auto

lemma last_ended: "(ls :: (string \<times> bool) list) \<noteq> [] \<Longrightarrow> last (ended (map (\<lambda>(l, cr). (l, False)) ls)) = LF"
  by (induction ls rule: ended.induct) auto

section \<open>Printed documents are read back\<close>

text \<open>
  The grammar of the subset, line by line, with everything a document may choose:
  indentation, the space around the equals sign and at the end of a line, comments, which
  characters of a string are escaped, signs, leading zeros, digits after the point, and
  whether the last line is ended.
\<close>

datatype str_piece = Raw char | Esc char

datatype toml_lit =
    TStr "str_piece list"
  | TBool bool
  | TInt string string
  | TFloat string string string

datatype toml_line =
    Blank string
  | Comment string string
  | Header string string "string \<times> string option"
  | Entry string string "string \<times> string" toml_lit "string \<times> string option"

definition escaped :: "char \<Rightarrow> char" where
  "escaped c = (if c = LF then CHR ''n'' else if c = TAB then CHR ''t'' else if c = CR then CHR ''r'' else c)"

fun print_piece :: "str_piece \<Rightarrow> string" where
  "print_piece (Raw c) = [c]"
| "print_piece (Esc c) = [BACKSLASH, escaped c]"

fun print_toml_lit :: "toml_lit \<Rightarrow> string" where
  "print_toml_lit (TStr ps) = QUOTE # concat (map print_piece ps) @ [QUOTE]"
| "print_toml_lit (TBool b) = (if b then ''true'' else ''false'')"
| "print_toml_lit (TInt sg ds) = sg @ ds"
| "print_toml_lit (TFloat sg ip fp) = sg @ ip @ CHR ''.'' # fp"

definition print_trail :: "string \<times> string option \<Rightarrow> string" where
  "print_trail tr = fst tr @ (case snd tr of None \<Rightarrow> [] | Some c \<Rightarrow> CHR ''#'' # c)"

fun print_line :: "toml_line \<Rightarrow> string" where
  "print_line (Blank w) = w"
| "print_line (Comment w c) = w @ CHR ''#'' # c"
| "print_line (Header w t tr) = w @ CHR ''['' # t @ CHR '']'' # print_trail tr"
| "print_line (Entry w k (w1, w2) l tr) = w @ k @ w1 @ CHR ''='' # w2 @ print_toml_lit l @ print_trail tr"

text \<open>A document: ended lines, each by LF or by CRLF, and a last one that is not ended.\<close>

definition print_doc :: "(toml_line \<times> bool) list \<Rightarrow> toml_line \<Rightarrow> string" where
  "print_doc items final = ended (map (\<lambda>(it, cr). (print_line it, cr)) items) @ print_line final"

text \<open>What the pieces of the grammar are, and the values they denote.\<close>

definition spaces :: "string \<Rightarrow> bool" where
  "spaces w \<longleftrightarrow> (\<forall>c \<in> set w. c = CHR '' '' \<or> c = TAB)"

definition in_line :: "string \<Rightarrow> bool" where
  "in_line s \<longleftrightarrow> LF \<notin> set s \<and> CR \<notin> set s"

definition digit_run :: "string \<Rightarrow> bool" where
  "digit_run ds \<longleftrightarrow> ds \<noteq> [] \<and> (\<forall>c \<in> set ds. is_digit c)"

fun trail_ok :: "string \<times> string option \<Rightarrow> bool" where
  "trail_ok (w, None) \<longleftrightarrow> spaces w"
| "trail_ok (w, Some c) \<longleftrightarrow> spaces w \<and> in_line c"

fun piece_ok :: "str_piece \<Rightarrow> bool" where
  "piece_ok (Raw c) \<longleftrightarrow> c \<notin> {QUOTE, BACKSLASH, LF, CR}"
| "piece_ok (Esc c) \<longleftrightarrow> c \<in> {QUOTE, BACKSLASH, LF, TAB, CR}"

fun piece_char :: "str_piece \<Rightarrow> char" where
  "piece_char (Raw c) = c"
| "piece_char (Esc c) = c"

fun lit_number :: "toml_lit \<Rightarrow> real" where
  "lit_number (TInt sg ds) = (if sg = ''-'' then - real (nat_of_digits ds) else real (nat_of_digits ds))"
| "lit_number (TFloat sg ip fp) =
     (if sg = ''-'' then - (real (nat_of_digits (ip @ fp)) / 10 ^ length fp)
      else real (nat_of_digits (ip @ fp)) / 10 ^ length fp)"
| "lit_number _ = 0"

fun lit_value :: "toml_lit \<Rightarrow> jsval" where
  "lit_value (TStr ps) = JStr (map piece_char ps)"
| "lit_value (TBool b) = JBool b"
| "lit_value l = JNum (Fin (lit_number l))"

fun lit_ok :: "toml_lit \<Rightarrow> bool" where
  "lit_ok (TStr ps) \<longleftrightarrow> (\<forall>p \<in> set ps. piece_ok p)"
| "lit_ok (TBool b) \<longleftrightarrow> True"
| "lit_ok (TInt sg ds) \<longleftrightarrow> sg \<in> {[], ''-'', ''+''} \<and> digit_run ds \<and> nat_of_digits ds < 2 ^ 53"
| "lit_ok (TFloat sg ip fp) \<longleftrightarrow> sg \<in> {[], ''-'', ''+''} \<and> digit_run ip \<and> digit_run fp \<and>
     real (nat_of_digits (ip @ fp)) / 10 ^ length fp < overflow_threshold"

fun line_ok :: "toml_line \<Rightarrow> bool" where
  "line_ok (Blank w) \<longleftrightarrow> spaces w"
| "line_ok (Comment w c) \<longleftrightarrow> spaces w \<and> in_line c"
| "line_ok (Header w t tr) \<longleftrightarrow> spaces w \<and> bare t \<and> trail_ok tr"
| "line_ok (Entry w k (w1, w2) l tr) \<longleftrightarrow> spaces w \<and> bare k \<and> spaces w1 \<and> spaces w2 \<and> lit_ok l \<and> trail_ok tr"

fun doc_step :: "toml_state \<Rightarrow> toml_line \<Rightarrow> toml_state" where
  "doc_step (t, vs) (Header w name tr) = (name, vs)"
| "doc_step (t, vs) (Entry w k ws l tr) = (t, vs @ [(full_key t k, lit_value l)])"
| "doc_step st _ = st"

definition doc_entries :: "toml_line list \<Rightarrow> toml_values" where
  "doc_entries items = snd (foldl doc_step ([], []) items)"

text \<open>Strings.\<close>

lemma parseQuotedString_piece:
  "piece_ok p \<Longrightarrow> parseQuotedString (print_piece p @ s) =
     rbind (parseQuotedString s) (\<lambda>(t, r). Inr (piece_char p # t, r))"
  by (cases p) (auto simp: escaped_def toml_escape_def)

lemma parseQuotedString_quoted:
  "\<forall>p \<in> set ps. piece_ok p \<Longrightarrow>
     parseQuotedString (concat (map print_piece ps) @ QUOTE # r) = Inr (map piece_char ps, r)"
  by (induction ps) (simp_all add: parseQuotedString_piece)

text \<open>Numbers.\<close>

lemma scan_number_digits:
  "\<forall>c \<in> set ds. is_digit c \<Longrightarrow>
     scan_number token prev dot dig (ds @ s) =
       scan_number token (if ds = [] then prev else Some (last ds)) dot (dig \<or> ds \<noteq> []) s"
  by (induction ds arbitrary: prev dig) (auto dest: digit_char_facts)

lemma digit_runD: "digit_run ds \<Longrightarrow> ds \<noteq> [] \<and> is_digit (hd ds) \<and> is_digit (last ds) \<and> (\<forall>c \<in> set ds. is_digit c)"
  by (simp add: digit_run_def)

lemma scan_number_lit:
  assumes "sg \<in> {[], ''-'', ''+''}" and "digit_run ip"
  shows "scan_number token None False False (sg @ ip) = Inr (False, True)"
    and "digit_run fp \<Longrightarrow> scan_number token None False False (sg @ ip @ CHR ''.'' # fp) = Inr (True, True)"
proof -
  have start: "scan_number token None False False (sg @ ip @ s) = scan_number token (Some (last ip)) False True s" for s
    using assms(1) digit_runD [OF assms(2)] by (auto simp: scan_number_digits)
  from start [of "[]"] show "scan_number token None False False (sg @ ip) = Inr (False, True)" by simp
  assume "digit_run fp"
  from digit_runD [OF this] digit_runD [OF assms(2)]
  show "scan_number token None False False (sg @ ip @ CHR ''.'' # fp) = Inr (True, True)"
    using scan_number_digits [of fp token "Some (CHR ''.'')" True True "[]"] by (simp add: start)
qed

lemma lit_chars:
  assumes "lit_ok l" and "\<nexists>ps. l = TStr ps" and "\<nexists>b. l = TBool b"
  shows "print_toml_lit l \<noteq> []" and "\<forall>c \<in> set (print_toml_lit l). is_digit c \<or> c \<in> {CHR ''-'', CHR ''+'', CHR ''.''}"
  using assms by (cases l; auto simp: digit_run_def)+

lemma number_char: "is_digit c \<or> c \<in> {CHR ''-'', CHR ''+'', CHR ''.''} \<Longrightarrow>
    \<not> isSpace c \<and> c \<notin> {CHR ''#'', LF, CR, QUOTE, CHR ''['', CHR ''{'', CHR 0x27, CHR ''e''}"
  by (auto simp: isSpace_def is_digit_def code_def)

lemma parseScalar_number:
  assumes "lit_ok l" and "\<nexists>ps. l = TStr ps" and "\<nexists>b. l = TBool b"
  shows "parseScalar (print_toml_lit l) = Inr (lit_value l)"
proof -
  have ne: "print_toml_lit l \<noteq> []" and chars: "\<forall>c \<in> set (print_toml_lit l). is_digit c \<or> c \<in> {CHR ''-'', CHR ''+'', CHR ''.''}"
    using lit_chars [OF assms] by auto
  have "CHR ''e'' \<notin> set (print_toml_lit l)" using chars number_char [of "CHR ''e''"] by blast
  then have words: "print_toml_lit l \<noteq> ''true''" "print_toml_lit l \<noteq> ''false''" by auto
  show ?thesis
  proof (cases l)
    case (TInt sg ds)
    then have ok: "sg \<in> {[], ''-'', ''+''}" "digit_run ds" "nat_of_digits ds < 2 ^ 53" using assms(1) by auto
    have num: "string_to_number (sg @ ds) = js_num (lit_number l)"
      using string_to_number_decimal [of ds "[]" 0 sg] ok digit_runD [OF ok(2)] by (simp add: TInt)
    have "real (nat_of_digits ds) \<le> real (2 ^ 53 - 1)" using ok(3) by (subst of_nat_le_iff) simp
    then have small: "\<bar>lit_number l\<bar> \<le> 2 ^ 53 - 1" by (simp add: TInt)
    have "is_integral (lit_number l)"
      using is_integral_of_int [of "int (nat_of_digits ds)"] is_integral_of_int [of "- int (nat_of_digits ds)"]
      by (simp add: TInt)
    then have "string_to_number (sg @ ds) = Fin (lit_number l)" "num_is_safe_integer (Fin (lit_number l))"
      using num small by (simp_all add: js_num_small num_is_safe_integer_def max_safe_integer_def)
    then show ?thesis
      using ne words scan_number_lit(1) [OF ok(1,2)] by (simp add: TInt parseScalar_def Let_def)
  next
    case (TFloat sg ip fp)
    then have ok: "sg \<in> {[], ''-'', ''+''}" "digit_run ip" "digit_run fp" using assms(1) by auto
    have "ip \<noteq> []" "fp \<noteq> []" "\<forall>c \<in> set (ip @ fp). is_digit c"
      using digit_runD [OF ok(2)] digit_runD [OF ok(3)] by auto
    then have num: "string_to_number (sg @ ip @ CHR ''.'' # fp) = js_num (lit_number l)"
      using string_to_number_decimal [OF _ refl _ ok(1), of ip fp] by (simp add: TFloat)
    have "\<bar>lit_number l\<bar> < overflow_threshold" using assms(1) by (simp add: TFloat)
    then have "string_to_number (sg @ ip @ CHR ''.'' # fp) = Fin (lit_number l)"
      using num by (simp add: js_num_eq_Fin)
    then show ?thesis
      using ne words scan_number_lit(2) [OF ok] by (simp add: TFloat parseScalar_def Let_def is_finite_num_def)
  qed (use assms in auto)
qed

text \<open>Spaces, and what may end a line.\<close>

lemma skipSpace_spaces [simp]: "spaces w \<Longrightarrow> skipSpace (w @ s) = skipSpace s"
  by (induction w) (auto simp: spaces_def skipSpace_def isSpace_def)

lemma skipSpace_plain [simp]: "\<not> isSpace c \<Longrightarrow> skipSpace (c # s) = c # s"
  by (simp add: skipSpace_def)

lemma skipSpace_Nil [simp]: "skipSpace [] = []"
  by (simp add: skipSpace_def)

lemma spaces_only: "spaces w \<Longrightarrow> skipSpace w = []"
  using skipSpace_spaces [of w "[]"] by simp

lemma onlyTrailing_trail: "trail_ok tr \<Longrightarrow> onlyTrailing (print_trail tr)"
  by (cases tr rule: trail_ok.cases) (simp_all add: onlyTrailing_def print_trail_def spaces_only isSpace_def)

lemma trail_hd: "trail_ok tr \<Longrightarrow> print_trail tr = [] \<or> isSpace (hd (print_trail tr)) \<or> hd (print_trail tr) = CHR ''#''"
  by (cases tr rule: trail_ok.cases; cases "fst tr") (auto simp: print_trail_def spaces_def isSpace_def)

lemma isBareKeyChar_facts:
  "isBareKeyChar c \<Longrightarrow> c \<noteq> CHR '']'' \<and> c \<noteq> CHR ''['' \<and> c \<noteq> CHR ''#'' \<and> c \<noteq> LF \<and> c \<noteq> CR \<and> \<not> isSpace c"
  by (auto simp: isBareKeyChar_def is_digit_def isSpace_def code_def)

lemma bare_in_line: "bare t \<Longrightarrow> in_line t"
  using isBareKeyChar_facts by (auto simp: bare_def in_line_def)

text \<open>The value of an entry, and the lines.\<close>

lemma parse_value_token:
  assumes "trail_ok tr" and "parseScalar t = Inr v" and "t \<noteq> []"
    and "\<forall>c \<in> set t. \<not> isSpace c \<and> c \<notin> {CHR ''#'', QUOTE, CHR ''['', CHR ''{'', CHR 0x27}"
  shows "parse_value (t @ print_trail tr) = Inr (v, print_trail tr)"
proof -
  have "scan (\<lambda>c. \<not> isSpace c \<and> c \<noteq> CHR ''#'') (t @ print_trail tr) = (t, print_trail tr)"
    using assms(4) trail_hd [OF assms(1)] by (intro scan_append) auto
  moreover have "hd (t @ print_trail tr) \<notin> {QUOTE, CHR ''['', CHR ''{'', CHR 0x27}"
    using assms(3,4) by (cases t) auto
  ultimately show ?thesis using assms(2) by (simp add: parse_value_def Let_def)
qed

lemma parse_value_print:
  assumes "lit_ok l" and "trail_ok tr"
  shows "parse_value (print_toml_lit l @ print_trail tr) = Inr (lit_value l, print_trail tr)"
proof (cases "\<exists>ps. l = TStr ps")
  case True
  then obtain ps where "l = TStr ps" by blast
  then show ?thesis
    using assms(1) parseQuotedString_quoted [of ps "print_trail tr"] by (simp add: parse_value_def)
next
  case False
  show ?thesis
  proof (cases "\<exists>b. l = TBool b")
    case True
    then obtain b where "l = TBool b" by blast
    then show ?thesis using assms
      by (intro parse_value_token) (auto simp: parseScalar_def isSpace_def)
  next
    case no_bool: False
    with False have "\<nexists>ps. l = TStr ps" "\<nexists>b. l = TBool b" by auto
    from lit_chars [OF assms(1) this] parseScalar_number [OF assms(1) this] show ?thesis
      using assms(2) number_char by (intro parse_value_token) blast+
  qed
qed

text \<open>The first character of a value neither ends the line nor is skipped.\<close>

lemma print_toml_lit_hd:
  assumes "lit_ok l"
  shows "\<exists>c s. print_toml_lit l = c # s \<and> \<not> isSpace c \<and> c \<noteq> CHR ''#''"
proof (cases "(\<exists>ps. l = TStr ps) \<or> (\<exists>b. l = TBool b)")
  case False
  then show ?thesis using lit_chars [OF assms] number_char by (cases "print_toml_lit l") auto
qed (auto simp: isSpace_def)

lemma parse_line_header:
  assumes "line_ok (Header w t tr)"
  shows "parse_line st (print_line (Header w t tr)) = Inr (t, snd st)"
proof -
  have t: "bare t" "spaces w" "trail_ok tr" using assms by auto
  have "scan (\<lambda>c. c \<noteq> CHR '']'') (t @ CHR '']'' # print_trail tr) = (t, CHR '']'' # print_trail tr)"
    using t(1) isBareKeyChar_facts by (intro scan_append) (auto simp: bare_def)
  moreover have "\<not> isSpace (CHR ''['')" by (simp add: isSpace_def)
  ultimately show ?thesis
    using t onlyTrailing_trail [OF t(3)]
    by (simp add: parse_line_def parse_header_def Let_def bare_def list_ex_iff)
qed

lemma parse_line_entry:
  assumes "line_ok (Entry w k (w1, w2) l tr)" and new: "map_of vs (full_key t k) = None"
  shows "parse_line (t, vs) (print_line (Entry w k (w1, w2) l tr)) =
    Inr (t, vs @ [(full_key t k, lit_value l)])"
proof -
  have ok: "spaces w" "bare k" "spaces w1" "spaces w2" "lit_ok l" "trail_ok tr" using assms(1) by auto
  then obtain c cs where cs: "k = c # cs" "isBareKeyChar c" by (cases k) (auto simp: bare_def)
  define val where "val = print_toml_lit l @ print_trail tr"
  define tail where "tail = w1 @ CHR ''='' # w2 @ val"
  have "\<not> isBareKeyChar (CHR ''='')" by (simp add: isBareKeyChar_def is_digit_def code_def)
  then have "\<not> isBareKeyChar (hd tail)"
    using ok(3) isBareKeyChar_facts by (cases w1) (auto simp: tail_def spaces_def isSpace_def)
  then have key: "scan isBareKeyChar (k @ tail) = (k, tail)"
    using ok(2) by (intro scan_append) (auto simp: bare_def)
  have val: "val \<noteq> []" "hd val \<noteq> CHR ''#''" "skipSpace val = val"
    using print_toml_lit_hd [OF ok(5)] by (auto simp: val_def)
  have eq: "skipSpace tail = CHR ''='' # w2 @ val" "skipSpace (w2 @ val) = val"
    using ok(3,4) val by (simp_all add: tail_def isSpace_def)
  have "parse_value val = Inr (lit_value l, print_trail tr)"
    unfolding val_def by (rule parse_value_print [OF ok(5,6)])
  then have "parse_entry (t, vs) (k @ tail) = Inr (t, vs @ [(full_key t k, lit_value l)])"
    using key ok(2) val new onlyTrailing_trail [OF ok(6)]
    by (simp add: parse_entry_def Let_def eq bare_def)
  then show ?thesis
    using ok(1) isBareKeyChar_facts [OF cs(2)] cs(1) by (simp add: parse_line_def tail_def val_def)
qed

text \<open>No printed line contains a line ending, so stripping a carriage return changes nothing.\<close>

lemma in_line_append [simp]: "in_line (s @ t) \<longleftrightarrow> in_line s \<and> in_line t"
  by (auto simp: in_line_def)

lemma in_line_Cons [simp]: "in_line (c # s) \<longleftrightarrow> c \<noteq> LF \<and> c \<noteq> CR \<and> in_line s"
  by (auto simp: in_line_def)

lemma in_line_Nil [simp]: "in_line []"
  by (simp add: in_line_def)

lemma spaces_in_line [simp]: "spaces w \<Longrightarrow> in_line w"
  by (induction w) (auto simp: spaces_def)

lemma trail_in_line: "trail_ok tr \<Longrightarrow> in_line (print_trail tr)"
  by (cases tr rule: trail_ok.cases) (auto simp: print_trail_def)

lemma piece_in_line: "piece_ok p \<Longrightarrow> in_line (print_piece p)"
  by (cases p) (auto simp: escaped_def)

lemma lit_in_line:
  assumes "lit_ok l"
  shows "in_line (print_toml_lit l)"
proof (cases "\<exists>ps. l = TStr ps")
  case True
  then obtain ps where ps: "l = TStr ps" by blast
  then have "\<forall>p \<in> set ps. piece_ok p" using assms by simp
  then have "in_line (concat (map print_piece ps))" by (induction ps) (simp_all add: piece_in_line)
  then show ?thesis by (simp add: ps)
next
  case no_str: False
  show ?thesis
  proof (cases "\<exists>b. l = TBool b")
    case False
    with no_str have "\<nexists>ps. l = TStr ps" "\<nexists>b. l = TBool b" by auto
    from lit_chars [OF assms this] number_char show ?thesis by (auto simp: in_line_def)
  qed auto
qed

lemma print_line_in_line: "line_ok it \<Longrightarrow> in_line (print_line it)"
  by (cases it rule: line_ok.cases) (simp_all add: trail_in_line bare_in_line lit_in_line)

lemma strip_cr_plain: "in_line l \<Longrightarrow> strip_cr l = l"
  by (auto simp: strip_cr_def in_line_def dest: last_in_set)

lemma parse_line_print:
  assumes "line_ok it" and "distinct (map fst (snd (doc_step st it)))"
  shows "parse_line st (strip_cr (print_line it)) = Inr (doc_step st it)"
proof -
  obtain t vs where st: "st = (t, vs)" by force
  have "parse_line st (print_line it) = Inr (doc_step st it)"
  proof (cases it rule: line_ok.cases)
    case (4 w k w1 w2 l tr)
    with assms show ?thesis
      using parse_line_entry [of w k w1 w2 l tr vs t] by (simp add: st map_of_eq_None_iff)
  next
    case (3 w n tr)
    with assms parse_line_header [of w n tr] show ?thesis by (simp add: st)
  qed (use assms(1) in \<open>simp_all add: parse_line_def isSpace_def st spaces_only\<close>)
  then show ?thesis using print_line_in_line [OF assms(1)] by (simp add: strip_cr_plain)
qed

lemma doc_step_prefix: "\<exists>ws. snd (foldl doc_step st items) = snd st @ ws"
proof (induction items arbitrary: st)
  case (Cons it items)
  have "\<exists>ws. snd (doc_step st it) = snd st @ ws"
    by (cases "(st, it)" rule: doc_step.cases) auto
  with Cons.IH [of "doc_step st it"] show ?case by auto
qed simp

lemma parse_lines_doc:
  assumes "\<forall>it \<in> set items. line_ok it" and "distinct (map fst (snd (foldl doc_step st items)))"
  shows "parse_lines lnum st (map print_line items) = Inr (foldl doc_step st items)"
  using assms
proof (induction items arbitrary: lnum st)
  case (Cons it items)
  have "distinct (map fst (snd (doc_step st it)))"
    using doc_step_prefix [of "doc_step st it" items] Cons.prems(2) by auto
  with Cons show ?case by (simp add: parse_line_print)
qed simp

text \<open>The lines of a printed document: a last line that is empty and not ended is no line.\<close>

lemma toml_lines_doc:
  assumes "plain_lines ls" and "in_line l"
  shows "toml_lines (ended ls @ l) = map fst ls @ (if l = [] \<and> ls \<noteq> [] then [] else [l])"
proof -
  have crlf: "crlf_to_lf (ended ls @ l) = ended (map (\<lambda>(l, cr). (l, False)) ls) @ l"
    using assms by (induction ls rule: ended.induct)
      (auto simp: plain_lines_def in_line_def crlf_append crlf_append_lf crlf_no_cr)
  have split: "split_on LF (ended (map (\<lambda>(l, cr). (l, False)) ls) @ l) = map fst ls @ [l]"
    using assms by (induction ls rule: ended.induct)
      (auto simp: plain_lines_def in_line_def split_on_append split_on_single)
  show ?thesis
    using assms(2) last_ended [of ls]
    by (auto simp: toml_lines_def crlf split in_line_def last_append butlast_append dest: last_in_set)
qed

section \<open>Properties\<close>

text \<open>C1: Every document of the subset that toml.js documents is read back: the values of the
  result are the values of its entries under their table names.  The document chooses the
  indentation of each line, the spaces and tabs around the equals sign and at the end of a line,
  the comments there and on lines of their own, which quoted, backslash, newline, tab and
  return characters of a string are escaped (a tab may also stand raw), signs, leading zeros,
  integers below 2^53 in magnitude, floats that are finite as doubles, the ending of each line
  (LF or CRLF) and whether the last line is ended at all.  No line contains a raw carriage
  return, and no key is given twice.\<close>

theorem toml_document_roundtrip:
  assumes "\<forall>(it, cr) \<in> set items. line_ok it" and "line_ok final"
    and "distinct (map fst (doc_entries (map fst items @ [final])))"
  shows "parseToml (print_doc items final) = Inr (from_entries (doc_entries (map fst items @ [final])))"
proof -
  let ?ls = "map (\<lambda>(it, cr). (print_line it, cr)) items" and ?all = "map fst items @ [final]"
  have "plain_lines ?ls"
    using assms(1) print_line_in_line by (fastforce simp: plain_lines_def in_line_def)
  then have lines: "toml_lines (print_doc items final) =
      map print_line (map fst items) @ (if print_line final = [] \<and> items \<noteq> [] then [] else [print_line final])"
    using toml_lines_doc [of ?ls "print_line final"] print_line_in_line [OF assms(2)]
    by (simp add: print_doc_def split_def comp_def)
  have blank: "doc_step st final = st" if "print_line final = []" for st
    using that by (cases "(st, final)" rule: doc_step.cases) auto
  have "parse_lines 1 ([], []) (map print_line ?all) = Inr (foldl doc_step ([], []) ?all)"
    using assms by (intro parse_lines_doc) (auto simp: doc_entries_def)
  moreover have "parse_lines 1 ([], []) (map print_line (map fst items)) = Inr (foldl doc_step ([], []) (map fst items))"
    if "print_line final = []"
    using assms that by (intro parse_lines_doc) (auto simp: doc_entries_def blank)
  ultimately show ?thesis
    by (auto simp: parseToml_def doc_entries_def split_def lines blank)
qed

theorem toml_document_roundtrip_witness:
  "parseToml (print_doc
      [(Comment ''  '' '' site'', False), (Header [] ''websocket'' ('' '', Some '' server''), True),
       (Entry '' '' ''host'' ('' '', '''') (TStr [Raw (CHR ''a''), Esc QUOTE, Raw (CHR ''#'')]) ('''', None), False),
       (Blank [TAB], True)]
      (Entry [] ''port'' ('' '', '' '') (TInt ''+'' ''08765'') ('''', Some ''p''))) =
    Inr (from_entries [(''websocket.host'', JStr [CHR ''a'', QUOTE, CHR ''#'']), (''websocket.port'', JNum (Fin 8765))])"
proof -
  let ?items = "[(Comment ''  '' '' site'', False), (Header [] ''websocket'' ('' '', Some '' server''), True),
       (Entry '' '' ''host'' ('' '', '''') (TStr [Raw (CHR ''a''), Esc QUOTE, Raw (CHR ''#'')]) ('''', None), False),
       (Blank [TAB], True)]"
  let ?final = "Entry [] ''port'' ('' '', '' '') (TInt ''+'' ''08765'') ('''', Some ''p'')"
  have eight: "nat_of_digits ''08765'' = 8765" by code_simp
  have "\<forall>(it, cr) \<in> set ?items. line_ok it" "line_ok ?final"
    by (simp_all add: bare_def isBareKeyChar_def is_digit_def code_def spaces_def in_line_def digit_run_def eight)
  moreover have entries: "doc_entries (map fst ?items @ [?final]) =
      [(''websocket.host'', JStr [CHR ''a'', QUOTE, CHR ''#'']), (''websocket.port'', JNum (Fin 8765))]"
    by (simp add: doc_entries_def full_key_def eight)
  moreover have "distinct (map fst (doc_entries (map fst ?items @ [?final])))" unfolding entries by simp
  ultimately show ?thesis
    using toml_document_roundtrip [of ?items ?final] by (simp only: entries)
qed

text \<open>C29: An error carries the number of a line of the text: the lines before it are accepted and
  it is the line the error is about.\<close>

theorem toml_error_line:
  assumes "parseToml txt = Inl (n, e)"
  shows "1 \<le> n \<and> n \<le> length (toml_lines txt) \<and>
    (\<exists>st. parse_lines 1 ([], []) (take (n - 1) (toml_lines txt)) = Inr st \<and>
      parse_line st (strip_cr (toml_lines txt ! (n - 1))) = Inl e)"
proof -
  from assms have "parse_lines 1 ([], []) (toml_lines txt) = Inl (n, e)"
    by (auto simp: parseToml_def res_simps)
  from parse_lines_error [OF this] show ?thesis by auto
qed

theorem toml_error_line_witness:
  "(2 :: nat) \<le> length (toml_lines (''# x'' @ LF # ''[oops''))"
proof -
  have "parseToml (''# x'' @ LF # ''[oops'') = Inl (2, MissingBracket)" by code_simp
  from toml_error_line [OF this] show ?thesis by simp
qed

text \<open>The keys of a result are distinct and bare, or bare with one table prefix; its values are
  strings, booleans and finite numbers.\<close>

theorem toml_result_shape:
  assumes "parseToml txt = Inr kvs"
  shows "distinct (map fst kvs) \<and> (\<forall>(k, v) \<in> set kvs. toml_key k \<and> toml_value v)"
  using assms by (elim parseToml_entries) (auto simp: toml_inv_def distinct_from_entries)

theorem toml_result_shape_witness:
  "toml_key ''t.a'' \<and> toml_value (JBool True)"
proof -
  have "parseToml (''[t]'' @ LF # ''a = true'') = Inr [(''t.a'', JBool True)]" by code_simp
  from toml_result_shape [OF this] show ?thesis by simp
qed

end
