(* ===== verification/Site_Config.thy ===== *)
theory Site_Config
  imports Toml_Facts "HOL-Library.AList"
begin

text \<open>
  frontend/js/site_config.js: the optional site-wide defaults.  The injected \<open>fetchFn\<close> is
  represented by what comes of calling it, the console by the list of warnings.  The loop
  over the parsed entries is a fold; the lemmas show that it stores exactly the valid
  entries and warns exactly once of each other one.
\<close>

section \<open>The schema\<close>

record schema_entry =
  entry_type :: string
  entry_min :: "real option"
  entry_max :: "real option"
  resultKey :: string

definition SITE_CONFIG_SCHEMA :: "(string \<times> schema_entry) list" where
  "SITE_CONFIG_SCHEMA =
    [(''websocket.host'',
        \<lparr>entry_type = ''string'', entry_min = None, entry_max = None, resultKey = ''host''\<rparr>),
     (''websocket.port'',
        \<lparr>entry_type = ''integer'', entry_min = Some 1, entry_max = Some 65535, resultKey = ''port''\<rparr>),
     (''display.show_trails'',
        \<lparr>entry_type = ''boolean'', entry_min = None, entry_max = None, resultKey = ''showTrails''\<rparr>),
     (''display.trail_seconds'',
        \<lparr>entry_type = ''integer'', entry_min = Some 0, entry_max = Some 60, resultKey = ''trailSeconds''\<rparr>),
     (''display.show_labels'',
        \<lparr>entry_type = ''boolean'', entry_min = None, entry_max = None, resultKey = ''showLabels''\<rparr>)]"

text \<open>\<open>SITE_CONFIG_SCHEMA[key]\<close>: an entry, something inherited from \<open>Object.prototype\<close> (a
  truthy value that is no entry: its \<open>type\<close> is \<open>undefined\<close>), or \<open>undefined\<close>.\<close>

datatype schema_lookup = Found schema_entry | Inherited | Missing

definition schema_at :: "string \<Rightarrow> schema_lookup" where
  "schema_at key =
     (case map_of SITE_CONFIG_SCHEMA key of
        Some e \<Rightarrow> Found e
      | None \<Rightarrow> if key \<in> set object_prototype_names then Inherited else Missing)"

text \<open>A comparison with an absent bound is a comparison with \<open>undefined\<close>, which is false.\<close>

definition isValidValue :: "schema_lookup \<Rightarrow> jsval \<Rightarrow> bool" where
  "isValidValue sl value =
     (case sl of
        Found e \<Rightarrow>
          if entry_type e = ''string'' then is_string value
          else if entry_type e = ''boolean'' then (case value of JBool _ \<Rightarrow> True | _ \<Rightarrow> False)
          else if entry_type e = ''integer'' then
            (case value of
               JNum n \<Rightarrow> num_is_integer n \<and>
                 (case (n, entry_min e, entry_max e) of
                    (Fin x, Some lo, Some hi) \<Rightarrow> lo \<le> x \<and> x \<le> hi
                  | _ \<Rightarrow> False)
             | _ \<Rightarrow> False)
          else False
      | _ \<Rightarrow> False)"

section \<open>Loading\<close>

datatype fetch_result =
    FetchRejects
  | NoResponse
  | ResponseNotOk
  | BodyRejects
  | Body string

datatype config_warning =
    ConfigIgnored nat line_err
  | UnknownKey string
  | InvalidValueFor string

text \<open>The result object and the warnings so far.\<close>

type_synonym site_config = "(string \<times> jsval) list \<times> config_warning list"

definition config_entry :: "string \<times> jsval \<Rightarrow> site_config \<Rightarrow> site_config" where
  "config_entry kv st =
     (case (kv, st) of ((key, value), (result, warnings)) \<Rightarrow>
        (case schema_at key of
           Missing \<Rightarrow> (result, warnings @ [UnknownKey key])
         | sl \<Rightarrow>
             if \<not> isValidValue sl value then (result, warnings @ [InvalidValueFor key])
             else (case sl of
                 Found e \<Rightarrow> (AList.update (resultKey e) value result, warnings)
               | _ \<Rightarrow> (result, warnings))))"

definition loadSiteConfig :: "fetch_result \<Rightarrow> site_config" where
  "loadSiteConfig fetched =
     (case fetched of
        Body txt \<Rightarrow>
          (case parseToml txt of
             Inl (lnum, e) \<Rightarrow> ([], [ConfigIgnored lnum e])
           | Inr entries \<Rightarrow> fold config_entry entries ([], []))
      | _ \<Rightarrow> ([], []))"

section \<open>What is stored, what is warned of\<close>

definition accepted :: "string \<times> jsval \<Rightarrow> bool" where
  "accepted kv \<longleftrightarrow> isValidValue (schema_at (fst kv)) (snd kv)"

definition stored_as :: "string \<times> jsval \<Rightarrow> string \<times> jsval" where
  "stored_as kv = (case schema_at (fst kv) of Found e \<Rightarrow> (resultKey e, snd kv) | _ \<Rightarrow> kv)"

definition warning_for :: "string \<times> jsval \<Rightarrow> config_warning" where
  "warning_for kv = (if schema_at (fst kv) = Missing then UnknownKey (fst kv) else InvalidValueFor (fst kv))"

lemma schema_keys: "distinct (map fst SITE_CONFIG_SCHEMA)"
  by (simp add: SITE_CONFIG_SCHEMA_def)

lemma schema_at_Found: "schema_at k = Found e \<longleftrightarrow> (k, e) \<in> set SITE_CONFIG_SCHEMA"
proof -
  have "schema_at k = Found e \<longleftrightarrow> map_of SITE_CONFIG_SCHEMA k = Some e"
    by (simp add: schema_at_def split: option.split)
  also have "\<dots> \<longleftrightarrow> (k, e) \<in> set SITE_CONFIG_SCHEMA"
    using schema_keys by (rule map_of_eq_Some_iff)
  finally show ?thesis .
qed

lemma schema_resultKey_inj:
  assumes "(k, e) \<in> set SITE_CONFIG_SCHEMA" and "(k', e') \<in> set SITE_CONFIG_SCHEMA"
    and "resultKey e = resultKey e'"
  shows "k = k'"
proof -
  have "distinct (map (\<lambda>(k, e). resultKey e) SITE_CONFIG_SCHEMA)"
    by (simp add: SITE_CONFIG_SCHEMA_def)
  then have "inj_on (\<lambda>(k, e). resultKey e) (set SITE_CONFIG_SCHEMA)"
    by (simp add: distinct_map)
  from inj_onD [OF this _ assms(1,2)] assms(3) show ?thesis by simp
qed

lemma accepted_Found:
  assumes "accepted kv"
  obtains e where "schema_at (fst kv) = Found e" and "stored_as kv = (resultKey e, snd kv)"
  using assms by (cases "schema_at (fst kv)") (auto simp: accepted_def isValidValue_def stored_as_def)

lemma config_entry_cases:
  "config_entry kv (result, warnings) =
     (if accepted kv then (AList.update (fst (stored_as kv)) (snd (stored_as kv)) result, warnings)
      else (result, warnings @ [warning_for kv]))"
  by (cases kv; cases "schema_at (fst kv)")
    (auto simp: config_entry_def accepted_def stored_as_def warning_for_def isValidValue_def)

lemma stored_as_inj:
  assumes "accepted kv" and "accepted kv'" and "fst (stored_as kv) = fst (stored_as kv')"
  shows "fst kv = fst kv'"
  using assms schema_resultKey_inj by (fastforce elim!: accepted_Found simp: schema_at_Found)

text \<open>The loop stores the accepted entries under their result keys and warns of the others,
  both in the order of the file.\<close>

lemma update_append_new: "k \<notin> fst ` set kvs \<Longrightarrow> AList.update k v kvs = kvs @ [(k, v)]"
  by (induction kvs) auto

lemma config_fold:
  assumes "distinct (map fst entries)"
    and "\<forall>kv \<in> set entries. accepted kv \<longrightarrow> fst (stored_as kv) \<notin> fst ` set result"
  shows "fold config_entry entries (result, warnings) =
    (result @ map stored_as (filter accepted entries),
     warnings @ map warning_for (filter (\<lambda>kv. \<not> accepted kv) entries))"
  using assms
proof (induction entries arbitrary: result warnings)
  case (Cons kv entries)
  show ?case
  proof (cases "accepted kv")
    case True
    then have "AList.update (fst (stored_as kv)) (snd (stored_as kv)) result = result @ [stored_as kv]"
      using Cons.prems(2) by (simp add: update_append_new)
    moreover have "fst (stored_as kv') \<noteq> fst (stored_as kv)"
      if "kv' \<in> set entries" "accepted kv'" for kv'
      using that Cons.prems(1) stored_as_inj [OF that(2) True] by (metis distinct.simps(2) image_eqI list.simps(9) set_map)
    ultimately show ?thesis using Cons True by (simp add: config_entry_cases)
  next
    case False
    with Cons show ?thesis by (simp add: config_entry_cases)
  qed
qed simp

lemma parseToml_distinct: "parseToml txt = Inr kvs \<Longrightarrow> distinct (map fst kvs)"
  by (elim parseToml_entries) (simp add: toml_inv_def distinct_from_entries)

lemma loadSiteConfig_Body:
  "parseToml txt = Inr entries \<Longrightarrow> loadSiteConfig (Body txt) =
     (map stored_as (filter accepted entries),
      map warning_for (filter (\<lambda>kv. \<not> accepted kv) entries))"
  by (simp add: loadSiteConfig_def config_fold parseToml_distinct)

text \<open>A value of each documented kind.\<close>

definition config_value_ok :: "string \<Rightarrow> jsval \<Rightarrow> bool" where
  "config_value_ok k v \<longleftrightarrow>
     k = ''host'' \<and> (\<exists>s. v = JStr s) \<or>
     k = ''port'' \<and> (\<exists>i. v = JNum (Fin (of_int i)) \<and> 1 \<le> i \<and> i \<le> 65535) \<or>
     k = ''trailSeconds'' \<and> (\<exists>i. v = JNum (Fin (of_int i)) \<and> 0 \<le> i \<and> i \<le> 60) \<or>
     k \<in> {''showTrails'', ''showLabels''} \<and> (\<exists>b. v = JBool b)"

lemma valid_string:
  "isValidValue (Found \<lparr>entry_type = ''string'', entry_min = lo, entry_max = hi, resultKey = k\<rparr>) v
    \<longleftrightarrow> (\<exists>s. v = JStr s)"
  by (simp add: isValidValue_def is_string_iff)

lemma valid_boolean:
  "isValidValue (Found \<lparr>entry_type = ''boolean'', entry_min = lo, entry_max = hi, resultKey = k\<rparr>) v
    \<longleftrightarrow> (\<exists>b. v = JBool b)"
  by (cases v) (simp_all add: isValidValue_def)

lemma valid_integer:
  "isValidValue (Found \<lparr>entry_type = ''integer'', entry_min = Some lo, entry_max = Some hi, resultKey = k\<rparr>) v
    \<longleftrightarrow> (\<exists>i. v = JNum (Fin (of_int i)) \<and> lo \<le> of_int i \<and> of_int i \<le> hi)"
  by (cases v) (auto simp: isValidValue_def num_is_integer_def split: jsnum.splits elim: is_integralE)

lemma accepted_ok:
  assumes "accepted kv"
  shows "config_value_ok (fst (stored_as kv)) (snd (stored_as kv))"
proof -
  from assms obtain e where e: "schema_at (fst kv) = Found e" "stored_as kv = (resultKey e, snd kv)"
    by (rule accepted_Found)
  then have "isValidValue (Found e) (snd kv)" using assms by (simp add: accepted_def)
  moreover have "(fst kv, e) \<in> set SITE_CONFIG_SCHEMA" using e by (simp add: schema_at_Found)
  ultimately have "config_value_ok (resultKey e) (snd kv)"
    unfolding SITE_CONFIG_SCHEMA_def
    by (auto simp: valid_string valid_boolean valid_integer config_value_ok_def)
  with e(2) show ?thesis by simp
qed

section \<open>Properties\<close>

text \<open>C14: When the file parses, every entry with a known key and a valid value is stored, under its
  result key and in the order of the file, and every other one is warned of once: as unknown if the
  schema has no such property, as invalid otherwise.  What is stored has distinct keys and is of the
  kind and in the range documented for its key.\<close>

theorem site_config_exact:
  assumes "parseToml txt = Inr entries"
  shows "loadSiteConfig (Body txt) =
      (map stored_as (filter accepted entries),
       map warning_for (filter (\<lambda>kv. \<not> accepted kv) entries)) \<and>
    distinct (map fst (fst (loadSiteConfig (Body txt)))) \<and>
    (\<forall>(k, v) \<in> set (fst (loadSiteConfig (Body txt))). config_value_ok k v)"
proof -
  have eq: "loadSiteConfig (Body txt) =
      (map stored_as (filter accepted entries),
       map warning_for (filter (\<lambda>kv. \<not> accepted kv) entries))"
    by (rule loadSiteConfig_Body [OF assms])
  have "inj_on fst (set entries)" using parseToml_distinct [OF assms] by (simp add: distinct_map)
  then have "inj_on (\<lambda>kv. fst (stored_as kv)) (set (filter accepted entries))"
    using stored_as_inj by (force simp: inj_on_def)
  moreover have "distinct entries" using parseToml_distinct [OF assms] by (simp add: distinct_map)
  ultimately show ?thesis
    by (auto simp: eq distinct_map comp_def) (metis accepted_ok fst_conv snd_conv)
qed

theorem site_config_exact_witness:
  "loadSiteConfig (Body (''[display]'' @ LF # ''show_labels = true'' @ LF # ''x = false'')) =
    ([(''showLabels'', JBool True)], [UnknownKey ''display.x''])"
proof -
  have "parseToml (''[display]'' @ LF # ''show_labels = true'' @ LF # ''x = false'') =
      Inr [(''display.show_labels'', JBool True), (''display.x'', JBool False)]" by code_simp
  from site_config_exact [OF this] show ?thesis
    by (simp add: accepted_def stored_as_def warning_for_def schema_at_def SITE_CONFIG_SCHEMA_def
        isValidValue_def object_prototype_names_def)
qed

text \<open>A key that \<open>Object.prototype\<close> defines is not in the schema, but is warned of as invalid.\<close>

lemma inherited_key_warning:
  "loadSiteConfig (Body ''toString = true'') = ([], [InvalidValueFor ''toString''])"
proof -
  have "parseToml ''toString = true'' = Inr [(''toString'', JBool True)]" by code_simp
  then show ?thesis
    by (simp add: loadSiteConfig_def config_entry_def schema_at_def SITE_CONFIG_SCHEMA_def
        isValidValue_def object_prototype_names_def)
qed

end
