(* ===== verification/App_Facts.thy ===== *)
theory App_Facts
  imports App_Wiring Site_Config
begin

text \<open>
  The invariant of the wired application: the renderer, the connection, the shown address
  and the settings agree after every user action and every network event.  What \<open>main.js\<close>
  relies on in the connection is the locale \<open>endpoint_client\<close>.
\<close>

section \<open>What the connection promises its client\<close>

locale endpoint_client =
  fixes endpoint :: "'c \<Rightarrow> string \<times> int"
    and set_endpoint :: "string \<Rightarrow> int \<Rightarrow> bool \<Rightarrow> 'c \<Rightarrow> 'c \<times> 'f list"
    and react :: "'ev \<Rightarrow> 'c \<Rightarrow> 'c \<times> 'f list"
    and announces :: "'f \<Rightarrow> bool"
  assumes endpoint_set: "endpoint (fst (set_endpoint h p ok c)) = (h, p)"
    and set_announces: "\<exists>f \<in> set (snd (set_endpoint h p ok c)). announces f"
    and endpoint_react: "endpoint (fst (react ev c)) = endpoint c"
begin

text \<open>A client that moves the connection only when its target changes keeps it on target.\<close>

definition follow :: "string \<times> int \<Rightarrow> bool \<Rightarrow> 'c \<Rightarrow> 'c \<times> 'f list" where
  "follow target ok c =
     (if endpoint c = target then (c, []) else set_endpoint (fst target) (snd target) ok c)"

lemma follow_target: "endpoint (fst (follow target ok c)) = target"
  by (simp add: follow_def endpoint_set)

lemma follow_reacts:
  "endpoint (fst (fold (\<lambda>ev acc. react ev (fst acc)) evs (follow target ok c))) = target"
proof -
  have "endpoint (fst (fold (\<lambda>ev acc. react ev (fst acc)) evs acc)) = endpoint (fst acc)" for acc
    by (induction evs arbitrary: acc) (simp_all add: endpoint_react)
  then show ?thesis by (simp add: follow_target)
qed

lemma follow_again: "follow target ok' (fst (follow target ok c)) = (fst (follow target ok c), [])"
  by (simp add: follow_def endpoint_set)

end

definition conn_endpoint :: "conn \<Rightarrow> string \<times> int" where
  "conn_endpoint c = (c_host c, c_port c)"

text \<open>The events that are not calls of \<open>setEndpoint\<close>.\<close>

definition react_conn :: "conn_event \<Rightarrow> conn \<Rightarrow> conn acting" where
  "react_conn ev c = (case ev of SetEndpoint h p ok \<Rightarrow> (c, []) | _ \<Rightarrow> handle ev c)"

definition announces_status :: "effect \<Rightarrow> bool" where
  "announces_status f \<longleftrightarrow> f = EmitStatus Connecting"

lemma conn_endpoint_handle:
  "conn_endpoint (fst (handle ev c)) =
     (case ev of SetEndpoint h p ok \<Rightarrow> (h, p) | _ \<Rightarrow> conn_endpoint c)"
  by (cases ev) (auto simp: handle_def handler_simps conn_endpoint_def
      split: option.split sum.split message.split)

interpretation ws_endpoint: endpoint_client conn_endpoint setEndpoint react_conn announces_status
proof unfold_locales
  show "conn_endpoint (fst (setEndpoint h p ok c)) = (h, p)" for h p ok c
    using conn_endpoint_handle [of "SetEndpoint h p ok" c] by (simp add: handle_def)
  show "\<exists>f \<in> set (snd (setEndpoint h p ok c)). announces_status f" for h p ok c
    by (auto simp: handler_simps announces_status_def split: option.split)
  show "conn_endpoint (fst (react_conn ev c)) = conn_endpoint c" for ev c
    using conn_endpoint_handle [of ev c] by (cases ev) (simp_all add: react_conn_def)
qed

section \<open>One connection event\<close>

lemma deliver_conn: "deliver ev w = (w', es) \<Longrightarrow> the_conn w' = fst (handle ev (the_conn w)) \<and>
    es = snd (handle ev (the_conn w))"
  using deliver_handle by blast

lemma on_effect_keeps:
  "a_store (on_effect now e a) = a_store a" "a_world (on_effect now e a) = a_world a"
  "a_renderer (on_effect now e a) = a_renderer a" "a_hostname (on_effect now e a) = a_hostname a"
  "currentHost (on_effect now e a) = currentHost a" "currentPort (on_effect now e a) = currentPort a"
  by (cases e; simp add: Let_def)+

lemma fold_on_effect_keeps:
  "a_store (fold (on_effect now) es a) = a_store a" "a_world (fold (on_effect now) es a) = a_world a"
  "a_renderer (fold (on_effect now) es a) = a_renderer a"
  "a_hostname (fold (on_effect now) es a) = a_hostname a"
  "currentHost (fold (on_effect now) es a) = currentHost a"
  "currentPort (fold (on_effect now) es a) = currentPort a"
  by (induction es arbitrary: a) (simp_all add: on_effect_keeps)

text \<open>The address shown is that of the current endpoint as soon as a status was emitted under
  it, and stays so.\<close>

lemma on_effect_url:
  "shown_url (on_effect now e a) =
     (if \<exists>s. e = EmitStatus s then wsUrl (currentHost a) (currentPort a) else shown_url a)"
  by (cases e) (simp_all add: Let_def)

lemma fold_on_effect_url:
  "shown_url (fold (on_effect now) es a) =
     (if \<exists>s. EmitStatus s \<in> set es then wsUrl (currentHost a) (currentPort a) else shown_url a)"
  by (induction es arbitrary: a) (auto simp: on_effect_url on_effect_keeps)

lemma conn_act_keeps:
  "a_store (conn_act now ev a) = a_store a" "a_renderer (conn_act now ev a) = a_renderer a"
  "a_hostname (conn_act now ev a) = a_hostname a" "currentHost (conn_act now ev a) = currentHost a"
  "currentPort (conn_act now ev a) = currentPort a"
  by (simp_all add: conn_act_def fold_on_effect_keeps split: prod.split)

lemma conn_act_world: "a_world (conn_act now ev a) = fst (deliver ev (a_world a))"
  by (simp add: conn_act_def fold_on_effect_keeps split: prod.split)

lemma conn_act_url:
  "shown_url (conn_act now ev a) =
     (if \<exists>s. EmitStatus s \<in> set (snd (deliver ev (a_world a)))
      then wsUrl (currentHost a) (currentPort a) else shown_url a)"
  by (simp add: conn_act_def fold_on_effect_url split: prod.split)

lemma deliver_endpoint:
  "conn_endpoint (the_conn (fst (deliver ev w))) =
     (case ev of SetEndpoint h p ok \<Rightarrow> (h, p) | _ \<Rightarrow> conn_endpoint (the_conn w))"
  using deliver_conn [of ev w] by (cases "deliver ev w") (simp add: conn_endpoint_handle)

lemma conn_act_endpoint:
  "conn_endpoint (the_conn (a_world (conn_act now ev a))) =
     (case ev of SetEndpoint h p ok \<Rightarrow> (h, p) | _ \<Rightarrow> conn_endpoint (the_conn (a_world a)))"
  by (simp add: conn_act_world deliver_endpoint)

section \<open>The invariant\<close>

definition endpoint_of :: "app \<Rightarrow> settings \<Rightarrow> string \<times> int" where
  "endpoint_of a s = (resolveHost (a_hostname a) s, port s)"

text \<open>Settings \<open>s\<close> are in force: in the renderer, on the wire and on the screen.\<close>

definition in_force :: "settings \<Rightarrow> app \<Rightarrow> bool" where
  "in_force s a \<longleftrightarrow>
     a_renderer a = normalizeSettings (applyRendererSettings s) \<and>
     (currentHost a, currentPort a) = endpoint_of a s \<and>
     conn_endpoint (the_conn (a_world a)) = (currentHost a, currentPort a) \<and>
     shown_url a = wsUrl (currentHost a) (currentPort a)"

text \<open>The connection is sound, and the status shown is the one of its socket.\<close>

definition conn_ok :: "app \<Rightarrow> bool" where
  "conn_ok a \<longleftrightarrow> conn_inv (a_world a) \<and> status_ok (a_world a) (shown_status a)"

definition app_inv :: "app \<Rightarrow> bool" where
  "app_inv a \<longleftrightarrow> store_inv (a_store a) \<and> listeners (a_store a) = [ui_listener, main_listener] \<and>
     conn_ok a \<and> in_force (current (a_store a)) a"

lemma fold_on_effect_status: "shown_status (fold (on_effect now) es a) = status_after es (shown_status a)"
proof (induction es arbitrary: a)
  case (Cons e es)
  then show ?case by (cases e) (simp_all add: status_after_def Let_def)
qed (simp add: status_after_def)

lemma conn_ok_other [simp]:
  "conn_ok (a\<lparr>a_store := st\<rparr>) = conn_ok a" "conn_ok (a\<lparr>a_renderer := r\<rparr>) = conn_ok a"
  "conn_ok (a\<lparr>currentHost := h, currentPort := p\<rparr>) = conn_ok a"
  by (simp_all add: conn_ok_def)

lemma conn_act_ok:
  assumes "conn_ok a" and "enabled ev (a_world a)" and "ev \<noteq> Close"
    and "(\<exists>ok. ev = Connect ok) \<longrightarrow> socket (the_conn (a_world a)) = None"
  shows "conn_ok (conn_act now ev a)"
proof -
  obtain w es where d: "deliver ev (a_world a) = (w, es)" by force
  have "shown_status (conn_act now ev a) = status_after es (shown_status a)"
    by (simp add: conn_act_def d fold_on_effect_status)
  moreover have "conn_inv w" "status_ok w (status_after es (shown_status a))"
    using assms d conn_inv_deliver status_deliver by (auto simp: conn_ok_def)
  ultimately show ?thesis by (simp add: conn_ok_def conn_act_world d)
qed

lemma change_endpoint_force:
  assumes "conn_ok a"
  shows "conn_ok (change_endpoint now ok h p a)"
    and "conn_endpoint (the_conn (a_world (change_endpoint now ok h p a))) = (h, p)"
    and "shown_url (change_endpoint now ok h p a) = wsUrl h p"
    and "(currentHost (change_endpoint now ok h p a), currentPort (change_endpoint now ok h p a)) = (h, p)"
    and "a_store (change_endpoint now ok h p a) = a_store a"
    and "a_renderer (change_endpoint now ok h p a) = a_renderer a"
    and "a_hostname (change_endpoint now ok h p a) = a_hostname a"
proof -
  show "conn_ok (change_endpoint now ok h p a)"
    unfolding change_endpoint_def using assms by (intro conn_act_ok) simp_all
  show "conn_endpoint (the_conn (a_world (change_endpoint now ok h p a))) = (h, p)"
    by (simp add: change_endpoint_def conn_act_endpoint)
  obtain w' es where d: "deliver (SetEndpoint h p ok) (a_world a) = (w', es)" by force
  have "EmitStatus Connecting \<in> set es"
    using deliver_conn [OF d] ws_endpoint.set_announces [of h p ok "the_conn (a_world a)"]
    by (auto simp: handle_def announces_status_def)
  then show "shown_url (change_endpoint now ok h p a) = wsUrl h p"
    by (auto simp: change_endpoint_def conn_act_url d)
qed (simp_all add: change_endpoint_def conn_act_keeps)

lemma on_settings_force:
  assumes "conn_ok a" and "in_force old a"
  shows "in_force s (on_settings now ok s a) \<and> conn_ok (on_settings now ok s a) \<and>
    a_store (on_settings now ok s a) = a_store a"
proof -
  define a1 where "a1 = a\<lparr>a_renderer := normalizeSettings (applyRendererSettings s)\<rparr>"
  have a1: "conn_ok a1" "a_store a1 = a_store a" "a_hostname a1 = a_hostname a"
    "conn_endpoint (the_conn (a_world a1)) = (currentHost a1, currentPort a1)"
    "shown_url a1 = wsUrl (currentHost a1) (currentPort a1)"
    using assms by (simp_all add: a1_def in_force_def)
  note cf = change_endpoint_force [OF a1(1)]
  show ?thesis
  proof (cases "(currentHost a1, currentPort a1) = endpoint_of a1 s")
    case True
    then have "on_settings now ok s a = a1"
      by (simp add: on_settings_def a1_def endpoint_of_def Let_def)
    with a1 True show ?thesis by (simp add: in_force_def endpoint_of_def) (simp add: a1_def)
  next
    case False
    then have eq: "on_settings now ok s a = change_endpoint now ok (resolveHost (a_hostname a1) s) (port s) a1"
      by (auto simp: on_settings_def a1_def endpoint_of_def Let_def)
    show ?thesis unfolding eq
      using cf a1 by (simp add: in_force_def endpoint_of_def) (simp add: a1_def)
  qed
qed

lemma run_calls_force:
  assumes "conn_ok a" and "in_force old a" and "listeners (a_store a) = [ui_listener, main_listener]"
  shows "in_force s (run_calls now ok (map (\<lambda>cb. (cb, s)) (listeners (a_store a))) a) \<and>
    conn_ok (run_calls now ok (map (\<lambda>cb. (cb, s)) (listeners (a_store a))) a) \<and>
    a_store (run_calls now ok (map (\<lambda>cb. (cb, s)) (listeners (a_store a))) a) = a_store a"
  using on_settings_force [OF assms(1,2), of s now ok]
  by (simp add: run_calls_def assms(3) ui_listener_def main_listener_def)

lemma in_force_store [simp]: "in_force s (a\<lparr>a_store := st\<rparr>) = in_force s a"
  by (simp add: in_force_def endpoint_of_def)

lemma app_inv_store_change:
  assumes "app_inv a" and "store_inv st'" and "listeners st' = listeners (a_store a)"
    and "calls = map (\<lambda>cb. (cb, current st')) (listeners st')"
  shows "app_inv (run_calls now ok calls (a\<lparr>a_store := st'\<rparr>))"
  using assms run_calls_force [of "a\<lparr>a_store := st'\<rparr>" "current (a_store a)" "current st'" now ok]
  by (simp add: app_inv_def)

lemma app_step_inv:
  assumes "app_inv a" and "app_step a e a'"
  shows "app_inv a'"
  using assms(2)
proof (rule app_stepE)
  fix patch st' calls s ok now
  assume *: "update patch (a_store a) = Inr (st', calls, s)"
    and a': "a' = run_calls now ok calls (a\<lparr>a_store := st'\<rparr>)"
  have inv: "store_inv (a_store a)" using assms(1) by (simp add: app_inv_def)
  from * inv show ?thesis
  proof (cases rule: update_cases)
    case ignored
    with a' assms(1) show ?thesis by (simp add: run_calls_def)
  next
    case (applied cur)
    with inv have "current st' = cur" by simp
    with applied a' app_inv_store_change [OF assms(1) update_inv [OF * inv]] show ?thesis by simp
  qed
next
  fix st' calls s ok now
  assume *: "resetDefaults (a_store a) = (st', calls, s)"
    and a': "a' = run_calls now ok calls (a\<lparr>a_store := st'\<rparr>)"
  have inv: "store_inv (a_store a)" using assms(1) by (simp add: app_inv_def)
  have st': "store_inv st'" by (rule resetDefaults_inv [OF * inv])
  have "listeners st' = listeners (a_store a)" "calls = map (\<lambda>cb. (cb, clone (current st'))) (listeners st')"
    using * by (auto simp: resetDefaults_def notify_def Let_def)
  with st' a' app_inv_store_change [OF assms(1) st'] show ?thesis by (simp add: store_inv_def)
next
  fix ok now assume a': "a' = onReconnect now ok a"
  have "get (a_store a) = current (a_store a)"
    using assms(1) by (simp add: app_inv_def store_inv_def get_def)
  with a' assms(1) change_endpoint_force [of a now ok] show ?thesis
    by (simp add: app_inv_def in_force_def endpoint_of_def onReconnect_def Let_def)
next
  fix ev now
  assume ev: "network_event ev" "enabled ev (a_world a)" and a': "a' = conn_act now ev a"
  have "conn_ok a'"
    unfolding a' using assms(1) ev by (intro conn_act_ok) (auto simp: app_inv_def)
  moreover have "conn_endpoint (the_conn (a_world a')) = conn_endpoint (the_conn (a_world a))"
    using ev(1) by (cases ev) (simp_all add: a' conn_act_endpoint)
  ultimately show ?thesis
    using assms(1) by (simp add: a' app_inv_def in_force_def endpoint_of_def conn_act_keeps conn_act_url)
qed (use assms(1) in simp)

lemma boot_inv:
  assumes "boot stg site hostname ok = Inr a"
  shows "app_inv a"
proof -
  from assms obtain st where st: "createSettings stg site = Inr st"
    by (auto simp: boot_def res_simps)
  have inv: "store_inv st" by (rule createSettings_inv [OF st])
  then have g: "get st = current st" by (simp add: get_def store_inv_def)
  have l: "listeners st = []" using st by (auto simp: createSettings_def res_simps)
  define h where "h = resolveHost hostname (current st)"
  define w where "w = \<lparr>the_conn = createConnection h (port (current st)), pending = {}, live = {}, opened = {}\<rparr>"
  have w: "conn_inv w" "socket (the_conn w) = None"
    "conn_endpoint (the_conn w) = (h, port (current st))"
    by (auto simp: w_def conn_start_def conn_endpoint_def createConnection_def intro!: conn_inv_start)
  have "store_inv (onChange main_listener (onChange ui_listener st))"
    using inv by (simp add: store_inv_def onChange_def)
  moreover have "current (onChange main_listener (onChange ui_listener st)) = current st"
    "listeners (onChange main_listener (onChange ui_listener st)) = [ui_listener, main_listener]"
    using l by (simp_all add: onChange_def ui_listener_def main_listener_def)
  moreover have "status_ok w Connecting" by (simp add: w_def status_ok_def createConnection_def)
  then have "a_world a' = w \<Longrightarrow> shown_status a' = Connecting \<Longrightarrow> conn_ok (conn_act 0 (Connect ok) a')" for a'
    using w by (intro conn_act_ok) (simp_all add: conn_ok_def)
  ultimately show ?thesis
    using assms st w g
    by (auto simp: boot_def Let_def app_inv_def in_force_def endpoint_of_def conn_act_keeps
        conn_act_world conn_act_url deliver_endpoint simp flip: h_def w_def)
qed

interpretation application: stepper app_start app_step app_inv
  by unfold_locales (auto simp: app_start_def intro: boot_inv app_step_inv)

section \<open>Clicks\<close>

definition far :: "real \<times> real \<Rightarrow> drag \<Rightarrow> bool" where
  "far p d \<longleftrightarrow> 5 < \<bar>fst p - downX d\<bar> \<or> 5 < \<bar>snd p - downY d\<bar>"

lemma pointermoves:
  "fold (\<lambda>(x, y). pointermove x y) moves d =
     d\<lparr>dragging := (dragging d \<or> (\<exists>p \<in> set moves. far p d))\<rparr>"
proof (induction moves arbitrary: d)
  case (Cons p moves)
  obtain x y where "p = (x, y)" by force
  then have "(\<lambda>(x, y). pointermove x y) p d = d\<lparr>dragging := (dragging d \<or> far p d)\<rparr>"
    by (simp add: pointermove_def PICK_DRAG_THRESHOLD_PX_def far_def)
  then show ?case by (simp add: Cons far_def)
qed simp

section \<open>Site configuration and settings\<close>

lemma loadSiteConfig_ok: "(k, v) \<in> set (fst (loadSiteConfig f)) \<Longrightarrow> config_value_ok k v"
proof (cases f)
  case (Body body)
  assume kv: "(k, v) \<in> set (fst (loadSiteConfig f))"
  show ?thesis
  proof (cases "parseToml body")
    case (Inl e)
    with kv Body show ?thesis by (simp add: loadSiteConfig_def split: prod.splits)
  next
    case (Inr entries)
    with kv Body obtain e where "accepted e" "(k, v) = stored_as e"
      by (auto simp: loadSiteConfig_Body)
    then show ?thesis using accepted_ok [of e] by (metis fst_conv snd_conv)
  qed
qed (simp_all add: loadSiteConfig_def)

lemma map_of_config:
  assumes "\<forall>(k, v) \<in> set res. config_value_ok k v"
  shows "map_of res k = Some v \<Longrightarrow> config_value_ok k v"
  using assms by (auto dest!: map_of_SomeD)

lemma config_keys:
  "config_value_ok k v \<Longrightarrow> k \<in> {''host'', ''port'', ''trailSeconds'', ''showTrails'', ''showLabels''}"
  by (auto simp: config_value_ok_def)

lemma config_fields:
  "config_value_ok ''host'' v \<longleftrightarrow> (\<exists>s. v = JStr s)"
  "config_value_ok ''showTrails'' v \<longleftrightarrow> (\<exists>b. v = JBool b)"
  "config_value_ok ''showLabels'' v \<longleftrightarrow> (\<exists>b. v = JBool b)"
  "config_value_ok ''port'' v \<longleftrightarrow> (\<exists>i. v = JNum (Fin (of_int i)) \<and> 1 \<le> i \<and> i \<le> 65535)"
  "config_value_ok ''trailSeconds'' v \<longleftrightarrow> (\<exists>i. v = JNum (Fin (of_int i)) \<and> 0 \<le> i \<and> i \<le> 60)"
  by (simp_all add: config_value_ok_def)

lemma settings_other:
  assumes "k \<notin> {''showTrails'', ''trailSeconds'', ''showLabels'', ''showSky'', ''viewMode'', ''categories'',
    ''host'', ''port''}"
  shows "get_prop (jval (settings_lit s)) k = JUndef"
  using assms by (simp add: get_prop_def settings_lit_def)

lemma merge_config:
  assumes ok: "\<forall>(k, v) \<in> set res. config_value_ok k v"
  obtains eff where "mergeSiteDefaults (JObj res) = Inr eff" and "settings_wf eff"
    and "\<And>k. get_prop (jval (settings_lit eff)) k =
      (case map_of res k of Some v \<Rightarrow> v | None \<Rightarrow> get_prop (jval (settings_lit DEFAULTS)) k)"
proof -
  let ?p = "JObj res"
  note v = map_of_config [OF ok]
  have none: "map_of res k = None" if "k \<in> {''showSky'', ''viewMode'', ''categories''}" for k
    using v [of k] config_keys [of k] that by (cases "map_of res k") auto
  define ts where "ts = (case map_of res ''trailSeconds'' of Some v \<Rightarrow> \<lfloor>the_real v\<rfloor> | None \<Rightarrow> trailSeconds DEFAULTS)"
  define po where "po = (case map_of res ''port'' of Some v \<Rightarrow> \<lfloor>the_real v\<rfloor> | None \<Rightarrow> port DEFAULTS)"
  have ts: "patch_int ?p ''trailSeconds'' 0 60 (trailSeconds DEFAULTS) = Inr ts"
  proof (cases "map_of res ''trailSeconds''")
    case (Some w)
    from v [OF Some] obtain i where "w = JNum (Fin (of_int i))" "0 \<le> i" "i \<le> 60"
      unfolding config_fields by blast
    with Some show ?thesis by (simp add: ts_def patch_int_def has_prop_def get_prop_def)
  qed (simp add: ts_def patch_int_def has_prop_def)
  have po: "patch_int ?p ''port'' 1 65535 (port DEFAULTS) = Inr po"
  proof (cases "map_of res ''port''")
    case (Some w)
    from v [OF Some] obtain i where "w = JNum (Fin (of_int i))" "1 \<le> i" "i \<le> 65535"
      unfolding config_fields by blast
    with Some show ?thesis by (simp add: po_def patch_int_def has_prop_def get_prop_def)
  qed (simp add: po_def patch_int_def has_prop_def)
  define eff where "eff = \<lparr>showTrails = patch_bool ?p ''showTrails'' (showTrails DEFAULTS), trailSeconds = ts,
    showLabels = patch_bool ?p ''showLabels'' (showLabels DEFAULTS),
    showSky = patch_bool ?p ''showSky'' (showSky DEFAULTS), viewMode = patch_view ?p (viewMode DEFAULTS),
    categories = patch_categories ?p (categories DEFAULTS), host = patch_host ?p (host DEFAULTS), port = po\<rparr>"
  have "applyPatch DEFAULTS ?p = Inr eff" using ts po by (simp add: applyPatch_eq eff_def)
  then have m: "mergeSiteDefaults ?p = Inr eff"
    by (simp add: mergeSiteDefaults_def object_like_def is_object_def)
  have wf: "settings_wf eff" by (rule mergeSiteDefaults_wf [OF m])
  have ef: "showTrails eff = patch_bool ?p ''showTrails'' (showTrails DEFAULTS)" "trailSeconds eff = ts"
    "showLabels eff = patch_bool ?p ''showLabels'' (showLabels DEFAULTS)"
    "host eff = patch_host ?p (host DEFAULTS)" "port eff = po"
    "showSky eff = showSky DEFAULTS" "viewMode eff = viewMode DEFAULTS"
    "categories eff = categories DEFAULTS"
    using none by (simp_all add: eff_def patch_bool_def patch_view_def patch_categories_def has_prop_def)
  note gp = get_prop_settings [OF wf] get_prop_settings [OF DEFAULTS_wf]
  have pb: "JBool (patch_bool ?p k b) = (case map_of res k of Some v \<Rightarrow> v | None \<Rightarrow> JBool b)"
    if "k \<in> {''showTrails'', ''showLabels''}" for k b
  proof (cases "map_of res k")
    case (Some w)
    from v [OF Some] that obtain c where "w = JBool c" by (auto simp: config_fields)
    with Some show ?thesis by (simp add: patch_bool_def has_prop_def get_prop_def)
  qed (simp add: patch_bool_def has_prop_def)
  have props: "get_prop (jval (settings_lit eff)) k =
      (case map_of res k of Some v \<Rightarrow> v | None \<Rightarrow> get_prop (jval (settings_lit DEFAULTS)) k)" for k
  proof (cases "map_of res k")
    case None
    show ?thesis
    proof (cases "k \<in> {''showTrails'', ''trailSeconds'', ''showLabels'', ''showSky'', ''viewMode'', ''categories'',
        ''host'', ''port''}")
      case True
      with None show ?thesis
        by (elim insertE emptyE) (simp_all add: gp ef pb ts_def po_def patch_host_def has_prop_def)
    qed (simp add: None settings_other)
  next
    case (Some w)
    note ok_w = v [OF Some]
    from config_keys [OF ok_w] show ?thesis
    proof (elim insertE emptyE)
      assume k: "k = ''host''"
      with ok_w obtain s where "w = JStr s" by (auto simp: config_fields)
      with Some k show ?thesis
        by (simp add: gp ef patch_host_def has_prop_def get_prop_def [of ?p] is_string_def)
    next
      assume k: "k = ''port''"
      with ok_w obtain i where "w = JNum (Fin (of_int i))" by (auto simp: config_fields)
      with Some k show ?thesis by (simp add: gp ef po_def)
    next
      assume k: "k = ''trailSeconds''"
      with ok_w obtain i where "w = JNum (Fin (of_int i))" by (auto simp: config_fields)
      with Some k show ?thesis by (simp add: gp ef ts_def)
    next
      assume k: "k = ''showTrails''"
      with Some pb [of k] show ?thesis by (simp add: gp ef)
    next
      assume k: "k = ''showLabels''"
      with Some pb [of k] show ?thesis by (simp add: gp ef)
    qed
  qed
  show ?thesis by (rule that [OF m wf props])
qed

section \<open>Properties\<close>

text \<open>Whatever becomes of fetching the site configuration, it never makes the settings store throw,
  and each property of the effective defaults is the configured value, unchanged by clamping, or the
  built-in default where the configuration has none.\<close>

theorem config_reaches_settings:
  "\<exists>eff. mergeSiteDefaults (JObj (fst (loadSiteConfig f))) = Inr eff \<and> settings_wf eff \<and>
    (\<forall>k. get_prop (jval (settings_lit eff)) k =
      (case map_of (fst (loadSiteConfig f)) k of
         Some v \<Rightarrow> v
       | None \<Rightarrow> get_prop (jval (settings_lit DEFAULTS)) k))"
proof -
  have "\<forall>(k, v) \<in> set (fst (loadSiteConfig f)). config_value_ok k v"
    using loadSiteConfig_ok by auto
  from merge_config [OF this] show ?thesis by metis
qed

text \<open>In every state of the running application, after any user actions, network events, reconnects
  and failures: the renderer has the store's settings, the connection's endpoint is the one those
  settings resolve to, the address shown is that endpoint's, and the connection has its one socket or
  one timer.\<close>

theorem settings_in_force:
  assumes "reachable app_start app_step a"
  shows "a_renderer a = normalizeSettings (applyRendererSettings (current (a_store a))) \<and>
    conn_endpoint (the_conn (a_world a)) =
      (resolveHost (a_hostname a) (current (a_store a)), port (current (a_store a))) \<and>
    shown_url a = endpoint_url (c_host (the_conn (a_world a))) (c_port (the_conn (a_world a))) \<and>
    conn_inv (a_world a) \<and> settings_wf (current (a_store a))"
  using application.inv_reachable [OF assms]
  by (auto simp: app_inv_def conn_ok_def in_force_def endpoint_of_def conn_endpoint_def store_inv_def wsUrl_def
      endpoint_url_def)

theorem settings_in_force_witness:
  "\<exists>a. boot empty_storage (JObj []) ''viewer.local'' True = Inr a \<and>
    shown_url a = ''ws://viewer.local:'' @ show_int 8765 @ ''/''"
proof -
  obtain a where a: "boot empty_storage (JObj []) ''viewer.local'' True = Inr a"
    by (simp add: boot_def createSettings_empty Let_def)
  then have r: "reachable app_start app_step a" by (intro reach_init) (auto simp: app_start_def)
  have st: "current (a_store a) = DEFAULTS" "a_hostname a = ''viewer.local''"
    using a by (auto simp: boot_def createSettings_empty Let_def conn_act_keeps onChange_def)
  from settings_in_force [OF r]
  have "conn_endpoint (the_conn (a_world a)) = (''viewer.local'', 8765)"
    by (simp add: st resolveHost_def DEFAULTS_def)
  with settings_in_force [OF r] a show ?thesis
    by (auto simp: conn_endpoint_def endpoint_url_def)
qed

text \<open>What the renderer makes of the settings it is handed is the settings: every field, with no
  clamping and no defaulting, for any settings the store can hold.\<close>

theorem renderer_sees_settings:
  assumes "settings_wf s"
  shows "normalizeSettings (applyRendererSettings s) =
    \<lparr>r_showTrails = showTrails s, r_trailSeconds = Fin (of_int (trailSeconds s)),
     r_showLabels = showLabels s, r_showSky = showSky s, r_viewMode = viewMode s,
     r_categories = categories s\<rparr>"
proof -
  have keys: "map fst (categories s) = category_names" and ts: "0 \<le> trailSeconds s" "trailSeconds s \<le> 60"
    using assms by (auto simp: settings_wf_def)
  have p: "get_prop (applyRendererSettings s) ''showTrails'' = JBool (showTrails s)"
    "get_prop (applyRendererSettings s) ''trailSeconds'' = JNum (Fin (of_int (trailSeconds s)))"
    "get_prop (applyRendererSettings s) ''showLabels'' = JBool (showLabels s)"
    "get_prop (applyRendererSettings s) ''showSky'' = JBool (showSky s)"
    "get_prop (applyRendererSettings s) ''categories'' = JObj (map (\<lambda>(k, b). (k, JBool b)) (categories s))"
    "get_prop (applyRendererSettings s) ''viewMode'' = JStr (view_name (viewMode s))"
    by (simp_all add: get_prop_def applyRendererSettings_def)
  have "(if viewMode s = Sat then Sat else Orbit) = viewMode s" by (cases "viewMode s") simp_all
  moreover have "clamp_num 0 60 (Fin (of_int (trailSeconds s))) = Fin (of_int (trailSeconds s))"
    using ts by (simp add: clamp_num_def)
  ultimately show ?thesis
    using normalize_categories [OF keys]
    by (simp add: normalizeSettings_def p Let_def category_names_def)
qed

theorem renderer_sees_settings_witness:
  "r_trailSeconds (normalizeSettings (applyRendererSettings DEFAULTS)) = Fin 30"
  using renderer_sees_settings [OF DEFAULTS_wf] by (simp add: DEFAULTS_def)

text \<open>Releasing the pointer picks exactly when, since it went down, it was never more than 5 pixels
  away horizontally or vertically, even if it came back; the picked point is relative to the
  canvas.\<close>

theorem click_or_drag:
  "pointerup rect_left rect_top x y (fold (\<lambda>(x, y). pointermove x y) moves (pointerdown x0 y0 d)) =
    (if \<exists>(mx, my) \<in> set moves. 5 < \<bar>mx - x0\<bar> \<or> 5 < \<bar>my - y0\<bar> then None
     else Some (x - rect_left, y - rect_top))"
  unfolding pointermoves
  by (simp add: pointerup_def pointerdown_def far_def split_def)

end
