(* ===== verification/Ui_Panel.thy ===== *)
theory Ui_Panel
  imports App_Wiring
begin

text \<open>
  frontend/js/ui.js: the left panel, the modals and the object list.  The closure's variables and
  the parts of the page it writes are the record \<open>ui\<close>; every element it looks up is in
  frontend/index.html, so the guards for absent ones are left out.  \<open>lastModel\<close> is the model as it
  was at the last \<open>updateData\<close>: main.js changes the model nowhere else.  A handler that calls the
  store runs the panel's own listener among the calls the store makes; the other calls and the
  callbacks are part of its result.
\<close>

section \<open>Texts\<close>

definition CATEGORY_LIST :: "string list" where
  "CATEGORY_LIST = [''debris'', ''star'', ''comet'', ''satellite'', ''groundHot'', ''unknown'']"

definition CATEGORY_LABEL :: "(string \<times> string) list" where
  "CATEGORY_LABEL = [(''debris'', ''Debris''), (''star'', ''Star''), (''comet'', ''Comet''),
     (''satellite'', ''Satellite''), (''groundHot'', ''Ground hot''), (''unknown'', ''Unknown'')]"

definition EARTH_RADIUS_KM :: real where "EARTH_RADIUS_KM = 6371"

definition EM_DASH :: string where "EM_DASH = [CHR 0xE2, CHR 0x80, CHR 0x94]"

definition STALE_THRESHOLD_S :: real where "STALE_THRESHOLD_S = 3"

text \<open>The text of an element.  \<open>NumText x\<close> is \<open>String(x)\<close> where it is not the digits of an integer.\<close>

datatype cell = Txt string | NumText real

definition num_text :: "real \<Rightarrow> cell" where
  "num_text x = (if of_int \<lfloor>x\<rfloor> = x \<and> \<bar>x\<bar> < 10 ^ 21 then Txt (show_int \<lfloor>x\<rfloor>) else NumText x)"

text \<open>\<open>x.toFixed(d)\<close> below \<open>10 ^ 21\<close>: the multiple of \<open>10 ^ (- d)\<close> nearest to \<open>|x|\<close>, the larger of two.\<close>

definition to_fixed :: "nat \<Rightarrow> real \<Rightarrow> string" where
  "to_fixed d x =
     (let s = show_nat (nat \<lfloor>\<bar>x\<bar> * 10 ^ d + 1 / 2\<rfloor>);
          padded = replicate (Suc d - length s) (CHR ''0'') @ s;
          k = length padded - d
      in (if x < 0 then ''-'' else []) @ take k padded @ (if d = 0 then [] else ''.'' @ drop k padded))"

definition fmtFixed :: "jsval \<Rightarrow> nat \<Rightarrow> cell" where
  "fmtFixed v digits =
     (case v of JNum (Fin x) \<Rightarrow> if \<bar>x\<bar> < 10 ^ 21 then Txt (to_fixed digits x) else num_text x
      | _ \<Rightarrow> Txt EM_DASH)"

definition fmtInt :: "jsval \<Rightarrow> cell" where
  "fmtInt v = (case v of JNum (Fin x) \<Rightarrow> num_text x | _ \<Rightarrow> Txt EM_DASH)"

section \<open>State\<close>

text \<open>The inputs of the settings form, a row of the object table, and the panel.\<close>

record form =
  f_showTrails :: bool
  f_trailSeconds :: string
  f_trailText :: string
  f_showLabels :: bool
  f_showSky :: bool
  f_categories :: "(string \<times> bool) list"
  f_host :: string
  f_port :: string

record object_tr =
  dataset_id :: real
  tr_selected :: bool
  tr_cells :: "cell list"

record ui =
  currentFilter :: "string option"
  ui_selectedId :: "real option"
  lastDataTimeIso :: "string option"
  lastModel :: "client option"
  panel_collapsed :: bool
  toggle_text :: string
  chips :: "(string \<times> bool) list"
  settings_open :: bool
  about_open :: bool
  view3d_active :: bool
  viewSat_active :: bool
  badge_hidden :: bool
  badge_text :: string
  the_form :: form
  stats_cells :: "cell list"
  sat_cells :: "cell list"
  counts_cells :: "(string \<times> string) list"
  objectRows :: "object_tr list"
  tableFooter :: string
  statusText :: string
  statusDot :: string
  wsUrl_text :: string
  lastDataTime_text :: string
  lastDataRelative :: string
  stale_hidden :: bool

section \<open>Filter chips and the object list\<close>

definition setFilter :: "string option \<Rightarrow> ui \<Rightarrow> ui" where
  "setFilter f u =
     (let cur = (if f = None \<or> f = Some [] then None else f)
      in u\<lparr>currentFilter := cur,
           chips := map (\<lambda>k. (k, k = (case cur of None \<Rightarrow> [] | Some x \<Rightarrow> x))) ([] # CATEGORY_LIST)\<rparr>)"

definition cat_label :: "string \<Rightarrow> string" where
  "cat_label k = (case map_of CATEGORY_LABEL k of Some l \<Rightarrow> l | None \<Rightarrow> k)"

definition make_tr :: "real option \<Rightarrow> tracked \<Rightarrow> object_tr" where
  "make_tr sel row = \<lparr>dataset_id = obj_id row, tr_selected = (Some (obj_id row) = sel),
     tr_cells = [num_text (obj_id row), Txt (cat_label (cat row)), num_text (conf row)]\<rparr>"

definition renderList :: "client \<Rightarrow> ui \<Rightarrow> ui" where
  "renderList model u =
     (let (rows, total) = getListRows (currentFilter u) 1000 model
      in u\<lparr>objectRows := map (make_tr (ui_selectedId u)) rows,
           tableFooter := ''showing '' @ show_nat (length rows) @ '' of '' @ show_nat total\<rparr>)"

definition chip_click :: "string option \<Rightarrow> ui \<Rightarrow> ui" where
  "chip_click f u =
     (let u' = setFilter f u in case lastModel u' of None \<Rightarrow> u' | Some m \<Rightarrow> renderList m u')"

definition ui_setSelected :: "real option \<Rightarrow> ui \<Rightarrow> ui" where
  "ui_setSelected i u =
     u\<lparr>ui_selectedId := i,
       objectRows := map (\<lambda>tr. tr\<lparr>tr_selected := (Some (dataset_id tr) = i)\<rparr>) (objectRows u)\<rparr>"

section \<open>View mode\<close>

definition currentViewMode :: "store \<Rightarrow> view_mode" where
  "currentViewMode st = (if viewMode (get st) = Sat then Sat else Orbit)"

definition badge_for :: "client option \<Rightarrow> string" where
  "badge_for m =
     (case m of
        Some c \<Rightarrow> if snap_satellite (getSnapshot c) \<noteq> None
          then ''SAT VIEW '' @ EM_DASH @ '' nadir, 170'' @ [CHR 0xC2, CHR 0xB0] @ '' FOV''
          else ''SAT VIEW '' @ EM_DASH @ '' awaiting satellite data''
      | None \<Rightarrow> ''SAT VIEW '' @ EM_DASH @ '' awaiting satellite data'')"

definition updateViewBadge :: "store \<Rightarrow> ui \<Rightarrow> ui" where
  "updateViewBadge st u =
     (if currentViewMode st \<noteq> Sat then u\<lparr>badge_hidden := True\<rparr>
      else u\<lparr>badge_text := badge_for (lastModel u), badge_hidden := False\<rparr>)"

definition updateViewToggle :: "store \<Rightarrow> ui \<Rightarrow> ui" where
  "updateViewToggle st u =
     updateViewBadge st (u\<lparr>view3d_active := (currentViewMode st = Orbit),
       viewSat_active := (currentViewMode st = Sat)\<rparr>)"

section \<open>Settings form and store\<close>

definition form_of :: "settings \<Rightarrow> form" where
  "form_of s = \<lparr>f_showTrails = showTrails s, f_trailSeconds = show_int (trailSeconds s),
     f_trailText = show_int (trailSeconds s), f_showLabels = showLabels s, f_showSky = showSky s,
     f_categories = map (\<lambda>k. (k, map_of (categories s) k = Some True)) CATEGORY_LIST,
     f_host = host s, f_port = show_int (port s)\<rparr>"

definition syncSettingsForm :: "store \<Rightarrow> ui \<Rightarrow> ui" where
  "syncSettingsForm st u = u\<lparr>the_form := form_of (get st)\<rparr>"

text \<open>The listener of \<open>createUi\<close>, and its runs among the calls of a notification.\<close>

definition ui_on_change :: "store \<Rightarrow> ui \<Rightarrow> ui" where
  "ui_on_change st u = updateViewToggle st (if settings_open u then syncSettingsForm st u else u)"

definition run_listener :: "store \<Rightarrow> calls \<Rightarrow> ui \<Rightarrow> ui" where
  "run_listener st calls u =
     fold (\<lambda>(cb, s) u. if cb = ui_listener then ui_on_change st u else u) calls u"

definition store_update :: "jsval \<Rightarrow> ui \<times> store \<Rightarrow> js_error + ((ui \<times> store) \<times> calls)" where
  "store_update patch p =
     rbind (update patch (snd p)) (\<lambda>(st', calls, s). Inr ((run_listener st' calls (fst p), st'), calls))"

section \<open>Status and data\<close>

fun status_name :: "status \<Rightarrow> string" where
  "status_name Connecting = ''connecting''"
| "status_name Open = ''open''"
| "status_name Closed = ''closed''"

definition updateConnection :: "status \<Rightarrow> string \<Rightarrow> ui \<Rightarrow> ui" where
  "updateConnection s url u =
     u\<lparr>statusText := status_name s, statusDot := ''status-'' @ status_name s,
       wsUrl_text := (if url = [] then EM_DASH else url)\<rparr>"

definition stats_row :: "jsval \<Rightarrow> cell list" where
  "stats_row sv =
     [fmtInt (get_prop sv ''udpReceived''), fmtInt (get_prop sv ''udpAccepted''),
      fmtInt (get_prop sv ''udpDropped''), fmtFixed (get_prop sv ''udpRateHz'') 2,
      fmtInt (get_prop sv ''wsClients''), fmtInt (get_prop sv ''objectCount''),
      fmtInt (get_prop sv ''broadcastSeq'')]"

text \<open>\<open>Math.sqrt(x ** 2 + y ** 2 + z ** 2) / 1000\<close>, where a sum that overflows is \<open>Infinity\<close>.\<close>

definition norm_km :: "vec3 \<Rightarrow> jsnum" where
  "norm_km v = (case v of (x, y, z) \<Rightarrow>
     case js_num (x\<^sup>2 + y\<^sup>2 + z\<^sup>2) of Fin q \<Rightarrow> Fin (sqrt q / 1000) | n \<Rightarrow> n)"

definition sat_row :: "sat_state option \<Rightarrow> cell list" where
  "sat_row sat =
     (case sat of
        None \<Rightarrow> replicate 7 (Txt EM_DASH)
      | Some s \<Rightarrow> (case sat_pos s of (x, y, z) \<Rightarrow>
          [fmtInt (JNum (Fin (sat_id s))), fmtInt (JNum (Fin (sat_seq s))),
           fmtFixed (JNum (Fin (x / 1000))) 1, fmtFixed (JNum (Fin (y / 1000))) 1,
           fmtFixed (JNum (Fin (z / 1000))) 1, fmtFixed (JNum (norm_km (sat_vel s))) 2,
           fmtFixed (JNum (case norm_km (sat_pos s) of Fin r \<Rightarrow> Fin (r - EARTH_RADIUS_KM) | n \<Rightarrow> n)) 1]))"

text \<open>\<open>date_parse\<close> stands for \<open>Date.parse\<close>, \<open>None\<close> for its \<open>NaN\<close>; \<open>dateNow\<close> is \<open>Date.now()\<close>.\<close>

definition updateDataTimeText :: "(string \<Rightarrow> real option) \<Rightarrow> real \<Rightarrow> ui \<Rightarrow> ui" where
  "updateDataTimeText date_parse dateNow u =
     (case lastDataTimeIso u of
        None \<Rightarrow> u\<lparr>lastDataTime_text := EM_DASH, lastDataRelative := []\<rparr>
      | Some stamp \<Rightarrow>
          if stamp = [] then u\<lparr>lastDataTime_text := EM_DASH, lastDataRelative := []\<rparr>
          else case date_parse stamp of
              None \<Rightarrow> u\<lparr>lastDataTime_text := stamp\<rparr>
            | Some dataMs \<Rightarrow> u\<lparr>lastDataTime_text := stamp, lastDataRelative :=
                ''('' @ to_fixed 1 (max 0 ((dateNow - dataMs) / 1000)) @ '' s ago)''\<rparr>)"

definition updateData :: "(string \<Rightarrow> real option) \<Rightarrow> real \<Rightarrow> store \<Rightarrow> client \<Rightarrow> ui \<Rightarrow> ui" where
  "updateData date_parse dateNow st model u =
     (let u1 = u\<lparr>lastModel := Some model\<rparr>;
          u2 = (case m_stats model of None \<Rightarrow> u1 | Some sv \<Rightarrow> u1\<lparr>stats_cells := stats_row sv\<rparr>);
          u3 = u2\<lparr>sat_cells := sat_row (snap_satellite (getSnapshot model)),
                  lastDataTimeIso := m_lastDataTime model\<rparr>;
          u4 = updateDataTimeText date_parse dateNow u3;
          u5 = u4\<lparr>counts_cells := map (\<lambda>k. (k, show_nat (the (map_of (getCounts model) k))))
                 (''total'' # CATEGORY_LIST)\<rparr>
      in renderList model (updateViewBadge st u5))"

definition tick :: "(string \<Rightarrow> real option) \<Rightarrow> real \<Rightarrow> real \<Rightarrow> ui \<Rightarrow> ui" where
  "tick date_parse dateNow nowMs u =
     (let u1 = updateDataTimeText date_parse dateNow u;
          stale = (case lastModel u1 of
              None \<Rightarrow> False
            | Some m \<Rightarrow> (case secondsSinceLastState nowMs m of
                  None \<Rightarrow> True
                | Some s \<Rightarrow> s > STALE_THRESHOLD_S))
      in u1\<lparr>stale_hidden := \<not> stale\<rparr>)"

section \<open>Modals and keys\<close>

datatype modal = SettingsModal | AboutModal

fun set_modal :: "modal \<Rightarrow> bool \<Rightarrow> ui \<Rightarrow> ui" where
  "set_modal SettingsModal b u = u\<lparr>settings_open := b\<rparr>"
| "set_modal AboutModal b u = u\<lparr>about_open := b\<rparr>"

definition openModal :: "modal \<Rightarrow> ui \<Rightarrow> ui" where "openModal m u = set_modal m True u"

definition closeModal :: "modal \<Rightarrow> ui \<Rightarrow> ui" where "closeModal m u = set_modal m False u"

definition closeAllModals :: "ui \<Rightarrow> ui" where
  "closeAllModals u = closeModal AboutModal (closeModal SettingsModal u)"

definition anyModalOpen :: "ui \<Rightarrow> bool" where
  "anyModalOpen u \<longleftrightarrow> settings_open u \<or> about_open u"

text \<open>Patches given to the store.\<close>

definition view_patch :: "view_mode \<Rightarrow> jsval" where
  "view_patch m = JObj [(''viewMode'', JStr (view_name m))]"

definition bool_patch :: "string \<Rightarrow> bool \<Rightarrow> jsval" where
  "bool_patch k b = JObj [(k, JBool b)]"

definition number_patch :: "string \<Rightarrow> string \<Rightarrow> jsval" where
  "number_patch k v = JObj [(k, JNum (string_to_number v))]"

text \<open>The value of an input of type number (index.html, \<open>settingPort\<close>): what was typed if it is a valid
  floating-point number of the HTML standard, and otherwise the empty string.\<close>

definition html_number :: "string \<Rightarrow> bool" where
  "html_number t \<longleftrightarrow>
     (let u = (if t \<noteq> [] \<and> hd t = CHR ''-'' then tl t else t);
          (ip, r) = scan is_digit u;
          point = (r \<noteq> [] \<and> hd r = CHR ''.'');
          (fp, r2) = (if point then scan is_digit (tl r) else ([], r))
      in (if point then fp \<noteq> [] else ip \<noteq> []) \<and>
         (case exp_part r2 of Some (ex, []) \<Rightarrow> True | _ \<Rightarrow> False))"

definition number_field :: "string \<Rightarrow> string" where
  "number_field t = (if html_number t then t else [])"

text \<open>\<open>tag\<close> is the tag name of the event's target, empty when it has none.\<close>

definition keydown :: "string \<Rightarrow> string \<Rightarrow> ui \<times> store \<Rightarrow> js_error + ((ui \<times> store) \<times> calls)" where
  "keydown key tag p =
     (let p1 = (if key = ''Escape'' then (closeAllModals (fst p), snd p) else p)
      in if key \<noteq> ''v'' then Inr (p1, [])
         else if tag = ''INPUT'' \<or> tag = ''TEXTAREA'' \<or> tag = ''SELECT'' then Inr (p1, [])
         else if anyModalOpen (fst p1) then Inr (p1, [])
         else store_update (view_patch (if currentViewMode (snd p1) = Sat then Orbit else Sat)) p1)"

section \<open>Handlers\<close>

text \<open>What the page, the connection and the timer send the panel.\<close>

datatype ui_event =
    ClickPanelToggle
  | ClickChip "string option"
  | ClickSettings
  | ClickAbout
  | ClickClose modal
  | ClickView view_mode
  | Keydown string string
  | ChangeFlag string bool
  | InputTrailSeconds string
  | ChangeCategory string bool
  | ChangeHost string
  | ChangePort string
  | ClickReconnect
  | ClickReset
  | ClickRow "real option"
  | CallSetSelected "real option"
  | CallUpdateConnection status string
  | CallUpdateData client real
  | CallTick real real

datatype ui_callback = OnSelect real | OnReconnect

definition panel_toggle :: "ui \<Rightarrow> ui" where
  "panel_toggle u =
     (let collapsed = (\<not> panel_collapsed u)
      in u\<lparr>panel_collapsed := collapsed,
           toggle_text := [CHR 0xE2, CHR 0x9D, if collapsed then CHR 0xAD else CHR 0xAC]\<rparr>)"

definition click_reset :: "ui \<times> store \<Rightarrow> (ui \<times> store) \<times> calls" where
  "click_reset p =
     (let (st', calls, s) = resetDefaults (snd p)
      in ((syncSettingsForm st' (run_listener st' calls (fst p)), st'), calls))"

definition input_trail :: "string \<Rightarrow> ui \<times> store \<Rightarrow> js_error + ((ui \<times> store) \<times> calls)" where
  "input_trail v p =
     (case p of (u, st) \<Rightarrow>
        store_update (number_patch ''trailSeconds'' v)
          (u\<lparr>the_form := (the_form u)\<lparr>f_trailSeconds := v, f_trailText := v\<rparr>\<rparr>, st))"

text \<open>The inputs of the form already hold what was entered when their event fires.\<close>

definition enter_flag :: "string \<Rightarrow> bool \<Rightarrow> form \<Rightarrow> form" where
  "enter_flag k b f =
     (if k = ''showTrails'' then f\<lparr>f_showTrails := b\<rparr>
      else if k = ''showLabels'' then f\<lparr>f_showLabels := b\<rparr>
      else f\<lparr>f_showSky := b\<rparr>)"

definition enter_category :: "string \<Rightarrow> bool \<Rightarrow> form \<Rightarrow> form" where
  "enter_category k b f =
     f\<lparr>f_categories := map (\<lambda>(k', b'). (k', if k' = k then b else b')) (f_categories f)\<rparr>"

fun ui_event_ok :: "ui_event \<Rightarrow> bool" where
  "ui_event_ok (ChangeFlag k b) \<longleftrightarrow> k \<in> {''showTrails'', ''showLabels'', ''showSky''}"
| "ui_event_ok (ChangeCategory k b) \<longleftrightarrow> k \<in> set CATEGORY_LIST"
| "ui_event_ok (ClickChip (Some k)) \<longleftrightarrow> k \<in> set CATEGORY_LIST"
| "ui_event_ok _ \<longleftrightarrow> True"

definition quiet :: "ui \<times> store \<Rightarrow> js_error + ((ui \<times> store) \<times> calls)" where
  "quiet p = Inr (p, [])"

fun ui_handle :: "(string \<Rightarrow> real option) \<Rightarrow> ui_event \<Rightarrow> ui \<times> store \<Rightarrow> js_error + ((ui \<times> store) \<times> calls)" where
  "ui_handle dp ClickPanelToggle (u, st) = quiet (panel_toggle u, st)"
| "ui_handle dp (ClickChip f) (u, st) = quiet (chip_click f u, st)"
| "ui_handle dp ClickSettings (u, st) = quiet (openModal SettingsModal (syncSettingsForm st u), st)"
| "ui_handle dp ClickAbout (u, st) = quiet (openModal AboutModal u, st)"
| "ui_handle dp (ClickClose m) (u, st) = quiet (closeModal m u, st)"
| "ui_handle dp (ClickView m) p = store_update (view_patch m) p"
| "ui_handle dp (Keydown key tag) p = keydown key tag p"
| "ui_handle dp (ChangeFlag k b) (u, st) =
     store_update (bool_patch k b) (u\<lparr>the_form := enter_flag k b (the_form u)\<rparr>, st)"
| "ui_handle dp (InputTrailSeconds v) p = input_trail v p"
| "ui_handle dp (ChangeCategory k b) (u, st) =
     store_update (JObj [(''categories'', bool_patch k b)])
       (u\<lparr>the_form := enter_category k b (the_form u)\<rparr>, st)"
| "ui_handle dp (ChangeHost v) (u, st) =
     store_update (JObj [(''host'', JStr v)]) (u\<lparr>the_form := (the_form u)\<lparr>f_host := v\<rparr>\<rparr>, st)"
| "ui_handle dp (ChangePort v) (u, st) =
     (let value = number_field v
      in store_update (number_patch ''port'' value) (u\<lparr>the_form := (the_form u)\<lparr>f_port := value\<rparr>\<rparr>, st))"
| "ui_handle dp ClickReconnect p = quiet p"
| "ui_handle dp ClickReset p = Inr (click_reset p)"
| "ui_handle dp (ClickRow i) (u, st) =
     quiet (case i of None \<Rightarrow> u | Some x \<Rightarrow> ui_setSelected (Some x) u, st)"
| "ui_handle dp (CallSetSelected i) (u, st) = quiet (ui_setSelected i u, st)"
| "ui_handle dp (CallUpdateConnection s url) (u, st) = quiet (updateConnection s url u, st)"
| "ui_handle dp (CallUpdateData m now) (u, st) = quiet (updateData dp now st m u, st)"
| "ui_handle dp (CallTick now nowMs) (u, st) = quiet (tick dp now nowMs u, st)"

text \<open>The callbacks an event makes after its handler has run.\<close>

fun ui_callbacks :: "ui_event \<Rightarrow> ui_callback list" where
  "ui_callbacks ClickReconnect = [OnReconnect]"
| "ui_callbacks (ClickRow (Some i)) = [OnSelect i]"
| "ui_callbacks _ = []"

section \<open>Creation\<close>

text \<open>The page as frontend/index.html has it, and what \<open>createUi\<close> makes of it.\<close>

definition page :: ui where
  "page = \<lparr>currentFilter = None, ui_selectedId = None, lastDataTimeIso = None, lastModel = None,
     panel_collapsed = False, toggle_text = [CHR 0xE2, CHR 0x9F, CHR 0xA8],
     chips = map (\<lambda>k. (k, k = [])) ([] # CATEGORY_LIST),
     settings_open = False, about_open = False, view3d_active = False, viewSat_active = False,
     badge_hidden = True, badge_text = [],
     the_form = \<lparr>f_showTrails = False, f_trailSeconds = ''30'', f_trailText = ''30'',
       f_showLabels = False, f_showSky = False, f_categories = map (\<lambda>k. (k, False)) CATEGORY_LIST,
       f_host = [], f_port = []\<rparr>,
     stats_cells = replicate 7 (Txt EM_DASH), sat_cells = replicate 7 (Txt EM_DASH),
     counts_cells = map (\<lambda>k. (k, ''0'')) (''total'' # CATEGORY_LIST),
     objectRows = [], tableFooter = ''showing 0 of 0'', statusText = ''closed'',
     statusDot = ''status-closed'', wsUrl_text = EM_DASH, lastDataTime_text = EM_DASH,
     lastDataRelative = [], stale_hidden = True\<rparr>"

definition createUi :: "store \<Rightarrow> ui \<times> store" where
  "createUi st =
     (let st' = onChange ui_listener st
      in (updateViewToggle st' (setFilter None (syncSettingsForm st' page)), st'))"

text \<open>The panel as a machine; \<open>AddListener\<close> is another listener of the store.\<close>

datatype panel_event = Ui ui_event | AddListener nat

inductive panel_step :: "(string \<Rightarrow> real option) \<Rightarrow> ui \<times> store \<Rightarrow> panel_event \<Rightarrow> ui \<times> store \<Rightarrow> bool"
  for dp where
  panel_ui: "ui_event_ok ev \<Longrightarrow> ui_handle dp ev p = Inr (p', calls) \<Longrightarrow> panel_step dp p (Ui ev) p'"
| panel_listen: "panel_step dp (u, st) (AddListener cb) (u, onChange cb st)"

inductive_cases panel_stepE: "panel_step dp p ev p'"

definition panel_start :: "ui \<times> store \<Rightarrow> bool" where
  "panel_start p \<longleftrightarrow> (\<exists>stg site st. createSettings stg site = Inr st \<and> p = createUi st)"

end
