(* ===== verification/Ui_Facts.thy ===== *)
theory Ui_Facts
  imports Ui_Panel
begin

text \<open>
  The panel of frontend/js/ui.js: it never throws, what it shows is the store's settings and the
  model's objects in every state it can get to, and the numbers it prints are the ones it is given.
\<close>

section \<open>The listener\<close>

lemma currentViewMode_eq [simp]: "store_inv st \<Longrightarrow> currentViewMode st = viewMode (current st)"
  by (cases "viewMode (current st)") (simp_all add: currentViewMode_def get_def store_inv_def)

lemma get_current: "store_inv st \<Longrightarrow> get st = current st"
  by (simp add: get_def store_inv_def)

lemmas view_simps = updateViewToggle_def updateViewBadge_def

lemma ui_on_change_again: "ui_on_change st (ui_on_change st u) = ui_on_change st u"
  by (simp add: ui_on_change_def view_simps syncSettingsForm_def)

lemma run_listener_eq:
  "run_listener st (map (\<lambda>cb. (cb, s)) ls) u = (if ui_listener \<in> set ls then ui_on_change st u else u)"
  unfolding run_listener_def
  by (induction ls arbitrary: u) (auto simp: ui_on_change_again)

text \<open>What the listener leaves alone.\<close>

lemma ui_on_change_keeps:
  "lastModel (ui_on_change st u) = lastModel u" "currentFilter (ui_on_change st u) = currentFilter u"
  "ui_selectedId (ui_on_change st u) = ui_selectedId u" "objectRows (ui_on_change st u) = objectRows u"
  "tableFooter (ui_on_change st u) = tableFooter u" "chips (ui_on_change st u) = chips u"
  "settings_open (ui_on_change st u) = settings_open u" "about_open (ui_on_change st u) = about_open u"
  by (simp_all add: ui_on_change_def view_simps syncSettingsForm_def)

section \<open>Invariant\<close>

definition chips_for :: "string option \<Rightarrow> (string \<times> bool) list" where
  "chips_for f = map (\<lambda>k. (k, Some k = f \<or> k = [] \<and> f = None)) ([] # CATEGORY_LIST)"

definition mode_shown :: "ui \<Rightarrow> settings \<Rightarrow> bool" where
  "mode_shown u s \<longleftrightarrow> view3d_active u = (viewMode s = Orbit) \<and> viewSat_active u = (viewMode s = Sat) \<and>
     badge_hidden u = (viewMode s = Orbit) \<and> (viewMode s = Sat \<longrightarrow> badge_text u = badge_for (lastModel u))"

definition form_shown :: "ui \<Rightarrow> settings \<Rightarrow> bool" where
  "form_shown u s \<longleftrightarrow> (settings_open u \<longrightarrow> the_form u = form_of s)"

definition list_shown :: "ui \<Rightarrow> bool" where
  "list_shown u \<longleftrightarrow>
     (lastModel u = None \<longrightarrow> objectRows u = []) \<and>
     (\<forall>m. lastModel u = Some m \<longrightarrow>
        objectRows u = map (make_tr (ui_selectedId u)) (fst (getListRows (currentFilter u) 1000 m)) \<and>
        tableFooter u = ''showing '' @ show_nat (length (objectRows u)) @ '' of '' @
          show_nat (snd (getListRows (currentFilter u) 1000 m)))"

definition chips_shown :: "ui \<Rightarrow> bool" where
  "chips_shown u \<longleftrightarrow> chips u = chips_for (currentFilter u) \<and>
     (\<forall>k. currentFilter u = Some k \<longrightarrow> k \<in> set CATEGORY_LIST)"

definition panel_inv :: "ui \<times> store \<Rightarrow> bool" where
  "panel_inv p \<longleftrightarrow> (case p of (u, st) \<Rightarrow>
     store_inv st \<and> ui_listener \<in> set (listeners st) \<and> mode_shown u (current st) \<and>
     form_shown u (current st) \<and> list_shown u \<and> chips_shown u)"

lemmas shown_defs = mode_shown_def form_shown_def list_shown_def chips_shown_def

lemma ui_on_change_form:
  "ui_on_change st u =
     updateViewToggle st (u\<lparr>the_form := if settings_open u then form_of (get st) else the_form u\<rparr>)"
  by (simp add: ui_on_change_def syncSettingsForm_def)

lemma updateViewToggle_shown: "store_inv st \<Longrightarrow> mode_shown (updateViewToggle st u) (current st)"
  by (cases "viewMode (current st)") (simp_all add: mode_shown_def view_simps)

lemma updateViewToggle_keeps:
  "the_form (updateViewToggle st u) = the_form u" "settings_open (updateViewToggle st u) = settings_open u"
  by (simp_all add: view_simps)

lemma ui_on_change_shown:
  assumes "store_inv st"
  shows "mode_shown (ui_on_change st u) (current st)" and "form_shown (ui_on_change st u) (current st)"
    and "list_shown (ui_on_change st u) = list_shown u"
proof -
  show "mode_shown (ui_on_change st u) (current st)" "form_shown (ui_on_change st u) (current st)"
    using assms
    by (simp_all add: ui_on_change_form updateViewToggle_shown form_shown_def updateViewToggle_keeps get_current)
qed (simp add: list_shown_def ui_on_change_keeps)

text \<open>A change of the store brings a panel that listens up to date, whatever its inputs held.\<close>

lemma listened_inv:
  assumes "store_inv st" and "ui_listener \<in> set (listeners st)" and "list_shown u"
    and "chips_shown u"
  shows "panel_inv (ui_on_change st u, st)"
  using assms by (simp add: panel_inv_def ui_on_change_shown chips_shown_def ui_on_change_keeps)

section \<open>Patches the panel makes\<close>

lemma one_key_patch:
  assumes "\<not> text_throws v"
  shows "\<exists>s. applyPatch base (JObj [(k, v)]) = Inr s"
proof (cases "applyPatch base (JObj [(k, v)])")
  case (Inl e)
  with assms show ?thesis by (auto simp: applyPatch_throws has_prop_def get_prop_def split: if_splits)
qed simp

lemma store_update_inv:
  assumes "store_update patch (u, st) = Inr (p', calls)" and "is_object patch" and "store_inv st"
    and "ui_listener \<in> set (listeners st)" and "list_shown u" and "chips_shown u"
  shows "panel_inv p'" and "applyPatch (current st) patch = Inr (current (snd p'))"
    and "fst p' = ui_on_change (snd p') u"
proof -
  from assms(1) obtain st' s where up: "update patch st = Inr (st', calls, s)"
    and p': "p' = (run_listener st' calls u, st')" by (auto simp: store_update_def res_simps)
  from up assms(3) have "applyPatch (current st) patch = Inr (current st') \<and>
      calls = map (\<lambda>cb. (cb, current st')) (listeners st) \<and> listeners st' = listeners st"
    by (cases rule: update_cases) (use assms(2) in auto)
  moreover have "store_inv st'" by (rule update_inv [OF up assms(3)])
  ultimately show "panel_inv p'" "applyPatch (current st) patch = Inr (current (snd p'))"
    "fst p' = ui_on_change (snd p') u"
    using assms(4-6) by (simp_all add: p' run_listener_eq listened_inv)
qed

lemma store_update_one_key:
  assumes "store_inv st" and "\<not> text_throws v"
  shows "\<exists>p' calls. store_update (JObj [(k, v)]) (u, st) = Inr (p', calls)"
proof -
  obtain s where "applyPatch (current st) (JObj [(k, v)]) = Inr s" using one_key_patch [OF assms(2)] by blast
  with assms(1) show ?thesis
    by (auto simp: store_update_def update_def is_object_def store_inv_def Let_def)
qed

lemma patch_objects [simp]:
  "is_object (view_patch m)" "is_object (bool_patch k b)" "is_object (number_patch k v)"
  "is_object (JObj kvs)"
  by (simp_all add: view_patch_def bool_patch_def number_patch_def is_object_def)

text \<open>The inputs are not part of what the rest of the panel shows.\<close>

lemma the_form_shown [simp]:
  "list_shown (u\<lparr>the_form := f\<rparr>) = list_shown u" "chips_shown (u\<lparr>the_form := f\<rparr>) = chips_shown u"
  "mode_shown (u\<lparr>the_form := f\<rparr>) s = mode_shown u s"
  by (simp_all add: shown_defs)

text \<open>The events that change the store: the panel as the handler gives it to the store, and the patch.\<close>

fun ui_patch :: "ui_event \<Rightarrow> ui \<times> store \<Rightarrow> (ui \<times> jsval) option" where
  "ui_patch (ClickView m) (u, st) = Some (u, view_patch m)"
| "ui_patch (Keydown key tag) (u, st) =
     (if key = ''v'' \<and> tag \<notin> {''INPUT'', ''TEXTAREA'', ''SELECT''} \<and> \<not> anyModalOpen u
      then Some (u, view_patch (if currentViewMode st = Sat then Orbit else Sat)) else None)"
| "ui_patch (ChangeFlag k b) (u, st) = Some (u\<lparr>the_form := enter_flag k b (the_form u)\<rparr>, bool_patch k b)"
| "ui_patch (InputTrailSeconds v) (u, st) =
     Some (u\<lparr>the_form := (the_form u)\<lparr>f_trailSeconds := v, f_trailText := v\<rparr>\<rparr>, number_patch ''trailSeconds'' v)"
| "ui_patch (ChangeCategory k b) (u, st) =
     Some (u\<lparr>the_form := enter_category k b (the_form u)\<rparr>, JObj [(''categories'', bool_patch k b)])"
| "ui_patch (ChangeHost v) (u, st) =
     Some (u\<lparr>the_form := (the_form u)\<lparr>f_host := v\<rparr>\<rparr>, JObj [(''host'', JStr v)])"
| "ui_patch (ChangePort v) (u, st) =
     Some (u\<lparr>the_form := (the_form u)\<lparr>f_port := number_field v\<rparr>\<rparr>, number_patch ''port'' (number_field v))"
| "ui_patch _ p = None"

lemma ui_patch_handle:
  assumes "ui_patch ev (u, st) = Some (u1, patch)"
  shows "ui_handle dp ev (u, st) = store_update patch (u1, st)"
  using assms
  by (cases ev) (auto simp: keydown_def input_trail_def split: if_splits)

lemma ui_patch_form:
  assumes "ui_patch ev (u, st) = Some (u1, patch)"
  shows "\<exists>f. u1 = u\<lparr>the_form := f\<rparr>"
proof -
  have same: "\<exists>f. v = v\<lparr>the_form := f\<rparr>" for v :: ui by (rule exI [of _ "the_form v"]) simp
  from assms show ?thesis by (cases ev) (auto split: if_splits intro: same)
qed

lemma text_throws_one: "text_throws (JObj [(k, v)]) \<longleftrightarrow> k = ''toString''"
  by simp

lemma category_texts: "k \<in> set CATEGORY_LIST \<Longrightarrow> k \<noteq> ''toString''"
  by (auto simp: CATEGORY_LIST_def)

text \<open>Each patch has one key, and no conversion of its value throws.\<close>

lemma ui_patch_one_key:
  assumes "ui_patch ev (u, st) = Some (u1, patch)" and "ui_event_ok ev"
  shows "\<exists>k v. patch = JObj [(k, v)] \<and> \<not> text_throws v"
  using assms
  by (cases ev) (auto simp: view_patch_def bool_patch_def number_patch_def dest: category_texts split: if_splits)

text \<open>The other events leave the settings alone, but for the reset.\<close>

lemma ui_quiet_handle:
  assumes "ui_patch ev (u, st) = None" and "ev \<noteq> ClickReset"
  shows "\<exists>u'. ui_handle dp ev (u, st) = Inr ((u', st), [])"
  using assms
  by (cases ev) (auto simp: quiet_def keydown_def Let_def anyModalOpen_def closeAllModals_def closeModal_def split: if_splits)

lemma ui_handle_total:
  assumes "store_inv st" and "ui_event_ok ev"
  shows "\<exists>r. ui_handle dp ev (u, st) = Inr r"
proof (cases "ui_patch ev (u, st)")
  case None
  with ui_quiet_handle [OF None, of dp] show ?thesis by (cases "ev = ClickReset") auto
next
  case (Some q)
  then obtain u1 patch where q: "ui_patch ev (u, st) = Some (u1, patch)" by (cases q) auto
  from ui_patch_one_key [OF q assms(2)] obtain k v where "patch = JObj [(k, v)]" "\<not> text_throws v" by blast
  with store_update_one_key [OF assms(1), of v k u1] show ?thesis
    by (auto simp: ui_patch_handle [OF q])
qed

section \<open>Every event keeps the invariant\<close>

lemma setFilter_chips: "ui_event_ok (ClickChip f) \<Longrightarrow> chips_shown (setFilter f u)"
  by (cases f) (auto simp: setFilter_def chips_shown_def chips_for_def Let_def CATEGORY_LIST_def)

lemma setFilter_keeps:
  "lastModel (setFilter f u) = lastModel u" "objectRows (setFilter f u) = objectRows u"
  "settings_open (setFilter f u) = settings_open u" "the_form (setFilter f u) = the_form u"
  "mode_shown (setFilter f u) s = mode_shown u s"
  by (simp_all add: setFilter_def Let_def mode_shown_def)

lemma renderList_keeps:
  "lastModel (renderList m u) = lastModel u" "currentFilter (renderList m u) = currentFilter u"
  "settings_open (renderList m u) = settings_open u" "the_form (renderList m u) = the_form u"
  "chips_shown (renderList m u) = chips_shown u" "mode_shown (renderList m u) s = mode_shown u s"
  by (simp_all add: renderList_def Let_def mode_shown_def chips_shown_def split: prod.split)

lemma renderList_shown: "lastModel u = Some m \<Longrightarrow> list_shown (renderList m u)"
  by (simp add: list_shown_def renderList_def Let_def split: prod.split)

lemma chip_click_inv: "panel_inv (u, st) \<Longrightarrow> ui_event_ok (ClickChip f) \<Longrightarrow> panel_inv (chip_click f u, st)"
  by (cases "lastModel u")
    (simp_all add: panel_inv_def chip_click_def Let_def setFilter_keeps setFilter_chips renderList_keeps
      renderList_shown form_shown_def, simp add: list_shown_def setFilter_keeps)

lemma make_tr_selected: "(make_tr sel b)\<lparr>tr_selected := (Some (dataset_id (make_tr sel b)) = i)\<rparr> = make_tr i b"
  by (simp add: make_tr_def)

lemma select_inv: "panel_inv (u, st) \<Longrightarrow> panel_inv (ui_setSelected i u, st)"
  by (auto simp: panel_inv_def ui_setSelected_def shown_defs comp_def make_tr_selected)

lemma updateDataTimeText_keeps:
  "lastModel (updateDataTimeText dp now u) = lastModel u"
  "currentFilter (updateDataTimeText dp now u) = currentFilter u"
  "ui_selectedId (updateDataTimeText dp now u) = ui_selectedId u"
  "objectRows (updateDataTimeText dp now u) = objectRows u"
  "tableFooter (updateDataTimeText dp now u) = tableFooter u"
  "settings_open (updateDataTimeText dp now u) = settings_open u"
  "the_form (updateDataTimeText dp now u) = the_form u" "chips (updateDataTimeText dp now u) = chips u"
  "view3d_active (updateDataTimeText dp now u) = view3d_active u"
  "viewSat_active (updateDataTimeText dp now u) = viewSat_active u"
  "badge_hidden (updateDataTimeText dp now u) = badge_hidden u"
  "badge_text (updateDataTimeText dp now u) = badge_text u"
  by (simp_all add: updateDataTimeText_def split: option.split)

lemma tick_inv: "panel_inv (u, st) \<Longrightarrow> panel_inv (tick dp now nowMs u, st)"
  by (simp add: panel_inv_def tick_def shown_defs Let_def updateDataTimeText_keeps)

text \<open>New data: the toggle buttons stay, the badge and the list follow the new model.\<close>

lemma updateViewBadge_keeps:
  "lastModel (updateViewBadge st u) = lastModel u" "currentFilter (updateViewBadge st u) = currentFilter u"
  "settings_open (updateViewBadge st u) = settings_open u" "the_form (updateViewBadge st u) = the_form u"
  "chips_shown (updateViewBadge st u) = chips_shown u"
  by (simp_all add: updateViewBadge_def chips_shown_def)

lemma updateViewBadge_shown:
  "store_inv st \<Longrightarrow> view3d_active u = (viewMode (current st) = Orbit) \<Longrightarrow>
     viewSat_active u = (viewMode (current st) = Sat) \<Longrightarrow> mode_shown (updateViewBadge st u) (current st)"
  by (cases "viewMode (current st)") (simp_all add: mode_shown_def updateViewBadge_def)

lemma updateData_eq:
  "\<exists>u'. updateData dp now st m u = renderList m (updateViewBadge st u') \<and> lastModel u' = Some m \<and>
     currentFilter u' = currentFilter u \<and> settings_open u' = settings_open u \<and> the_form u' = the_form u \<and>
     chips u' = chips u \<and> view3d_active u' = view3d_active u \<and> viewSat_active u' = viewSat_active u"
  by (intro exI conjI, unfold updateData_def Let_def, rule refl)
    (simp_all add: updateDataTimeText_keeps split: option.split)

lemma updateData_inv:
  assumes "panel_inv (u, st)"
  shows "panel_inv (updateData dp now st m u, st)"
proof -
  obtain u' where u': "updateData dp now st m u = renderList m (updateViewBadge st u')" "lastModel u' = Some m"
    "currentFilter u' = currentFilter u" "settings_open u' = settings_open u" "the_form u' = the_form u"
    "chips u' = chips u" "view3d_active u' = view3d_active u" "viewSat_active u' = viewSat_active u"
    using updateData_eq [of dp now st m u] by blast
  moreover have "mode_shown (updateViewBadge st u') (current st)"
    using assms u' by (intro updateViewBadge_shown) (simp_all add: panel_inv_def mode_shown_def)
  ultimately show ?thesis
    using assms by (simp add: panel_inv_def renderList_keeps renderList_shown updateViewBadge_keeps form_shown_def)
      (simp add: chips_shown_def)
qed

lemma modal_inv:
  "panel_inv (u, st) \<Longrightarrow> panel_inv (closeModal m u, st)"
  "panel_inv (u, st) \<Longrightarrow> panel_inv (openModal AboutModal u, st)"
  "panel_inv (u, st) \<Longrightarrow> panel_inv (openModal SettingsModal (syncSettingsForm st u), st)"
proof -
  assume inv: "panel_inv (u, st)"
  then show "panel_inv (closeModal m u, st)"
    by (cases m) (simp_all add: panel_inv_def closeModal_def shown_defs)
  from inv show "panel_inv (openModal AboutModal u, st)"
    by (simp add: panel_inv_def openModal_def shown_defs)
  from inv show "panel_inv (openModal SettingsModal (syncSettingsForm st u), st)"
    by (simp add: panel_inv_def openModal_def shown_defs syncSettingsForm_def get_current)
qed

lemma reset_inv:
  assumes "panel_inv (u, st)"
  shows "panel_inv (fst (click_reset (u, st)))"
proof -
  obtain st' calls s where r: "resetDefaults st = (st', calls, s)" by (cases "resetDefaults st") auto
  have inv: "store_inv st" and l: "ui_listener \<in> set (listeners st)" using assms by (simp_all add: panel_inv_def)
  have st': "store_inv st'" by (rule resetDefaults_inv [OF r inv])
  have "listeners st' = listeners st" "calls = map (\<lambda>cb. (cb, clone (current st'))) (listeners st')"
    using r by (auto simp: resetDefaults_def notify_def Let_def)
  then have "panel_inv (run_listener st' calls u, st')"
    using assms st' l by (simp add: run_listener_eq listened_inv panel_inv_def [of "(u, st)"])
  then show ?thesis
    using st' by (simp add: click_reset_def r panel_inv_def syncSettingsForm_def get_current shown_defs)
qed

lemma ui_handle_inv:
  assumes "panel_inv (u, st)" and "ui_event_ok ev" and "ui_handle dp ev (u, st) = Inr (p', calls)"
  shows "panel_inv p'"
proof (cases "ui_patch ev (u, st)")
  case (Some q)
  then obtain u1 patch where q: "ui_patch ev (u, st) = Some (u1, patch)" by (cases q) auto
  from ui_patch_one_key [OF q assms(2)] have "is_object patch" by auto
  moreover obtain f where "u1 = u\<lparr>the_form := f\<rparr>" using ui_patch_form [OF q] by blast
  ultimately show ?thesis
    using assms store_update_inv(1) [of patch u1 st p' calls] by (simp add: ui_patch_handle [OF q] panel_inv_def)
next
  case None
  have closed: "panel_inv (closeAllModals u, st)"
    using assms(1) by (simp add: closeAllModals_def modal_inv)
  have toggle: "panel_inv (panel_toggle u, st)" "panel_inv (updateConnection s url u, st)" for s url
    using assms(1) by (simp_all add: panel_inv_def shown_defs panel_toggle_def updateConnection_def Let_def)
  from None assms closed toggle show ?thesis
    by (cases ev) (auto simp: quiet_def keydown_def Let_def anyModalOpen_def closeAllModals_def
        modal_inv chip_click_inv select_inv updateData_inv tick_inv
        dest: reset_inv split: if_splits option.splits)
qed

lemma createUi_inv:
  assumes "createSettings stg site = Inr st"
  shows "panel_inv (createUi st)"
proof -
  have "store_inv (onChange ui_listener st)"
    using createSettings_inv [OF assms] by (simp add: store_inv_def onChange_def)
  then show ?thesis
    by (simp add: createUi_def Let_def panel_inv_def updateViewToggle_shown updateViewToggle_keeps form_shown_def)
      (simp add: view_simps list_shown_def setFilter_keeps chips_shown_def setFilter_def chips_for_def CATEGORY_LIST_def
        syncSettingsForm_def page_def onChange_def)
qed

lemma listen_inv: "panel_inv (u, st) \<Longrightarrow> panel_inv (u, onChange cb st)"
  by (simp add: panel_inv_def store_inv_def onChange_def)

interpretation panel: stepper panel_start "panel_step dp" panel_inv
proof unfold_locales
  fix p assume "panel_start p"
  then show "panel_inv p" by (auto simp: panel_start_def intro: createUi_inv)
next
  fix p ev p' assume "panel_inv p" and "panel_step dp p ev p'"
  then show "panel_inv p'"
    by (cases p) (auto elim!: panel_stepE intro: ui_handle_inv listen_inv)
qed

section \<open>What each event does to the settings\<close>

text \<open>A number for a field with limits; one that is not finite changes nothing.\<close>

definition typed :: "int \<Rightarrow> int \<Rightarrow> string \<Rightarrow> int \<Rightarrow> int" where
  "typed lo hi v old = (case string_to_number v of Fin x \<Rightarrow> min hi (max lo (js_trunc x)) | _ \<Rightarrow> old)"

text \<open>The settings after an event, as a user of the panel would put it.\<close>

definition toggles :: "string \<Rightarrow> string \<Rightarrow> ui \<Rightarrow> bool" where
  "toggles key tag u \<longleftrightarrow> key = ''v'' \<and> tag \<notin> {''INPUT'', ''TEXTAREA'', ''SELECT''} \<and>
     \<not> settings_open u \<and> \<not> about_open u"

fun settings_after :: "ui_event \<Rightarrow> ui \<times> store \<Rightarrow> settings" where
  "settings_after (ClickView m) (u, st) = (current st)\<lparr>viewMode := m\<rparr>"
| "settings_after (Keydown key tag) (u, st) =
     (if toggles key tag u
      then (current st)\<lparr>viewMode := (case viewMode (current st) of Sat \<Rightarrow> Orbit | Orbit \<Rightarrow> Sat)\<rparr> else current st)"
| "settings_after (ChangeFlag k b) (u, st) =
     (if k = ''showTrails'' then (current st)\<lparr>showTrails := b\<rparr>
      else if k = ''showLabels'' then (current st)\<lparr>showLabels := b\<rparr> else (current st)\<lparr>showSky := b\<rparr>)"
| "settings_after (InputTrailSeconds v) (u, st) =
     (current st)\<lparr>trailSeconds := typed 0 60 v (trailSeconds (current st))\<rparr>"
| "settings_after (ChangeCategory k b) (u, st) =
     (current st)\<lparr>categories := map (\<lambda>(k', b'). (k', if k' = k then b else b')) (categories (current st))\<rparr>"
| "settings_after (ChangeHost v) (u, st) = (current st)\<lparr>host := v\<rparr>"
| "settings_after (ChangePort v) (u, st) =
     (current st)\<lparr>port := (if html_number v then typed 1 65535 v (port (current st)) else 1)\<rparr>"
| "settings_after ClickReset (u, st) = effectiveDefaults st"
| "settings_after _ (u, st) = current st"

lemmas patch_defs = patch_bool_def patch_int_def patch_view_def patch_host_def has_prop_def get_prop_def

lemma clampInt_number: "clampInt (JNum (string_to_number v)) lo hi old = Inr (typed lo hi v old)"
  by (simp add: clampInt_def typed_def split: jsnum.split)

lemma view_patch_applied: "applyPatch s (view_patch m) = Inr (s\<lparr>viewMode := m\<rparr>)"
  by (cases s; cases m) (simp_all add: applyPatch_eq view_patch_def patch_defs patch_categories_def)

lemma number_patch_applied:
  "applyPatch s (number_patch ''trailSeconds'' v) = Inr (s\<lparr>trailSeconds := typed 0 60 v (trailSeconds s)\<rparr>)"
  "applyPatch s (number_patch ''port'' v) = Inr (s\<lparr>port := typed 1 65535 v (port s)\<rparr>)"
  by (cases s; simp add: applyPatch_eq number_patch_def patch_defs patch_categories_def clampInt_number)+

lemma typed_empty: "typed 1 65535 [] old = 1"
  by (simp add: typed_def string_to_number_def js_trim_plain js_trunc_def)

lemma port_field: "typed 1 65535 (number_field v) old = (if html_number v then typed 1 65535 v old else 1)"
  by (simp add: number_field_def typed_empty)

lemma host_patch_applied: "applyPatch s (JObj [(''host'', JStr v)]) = Inr (s\<lparr>host := v\<rparr>)"
  by (cases s) (simp add: applyPatch_eq patch_defs patch_categories_def is_string_def)

lemma flag_patch_applied:
  "applyPatch s (bool_patch ''showTrails'' b) = Inr (s\<lparr>showTrails := b\<rparr>)"
  "applyPatch s (bool_patch ''showLabels'' b) = Inr (s\<lparr>showLabels := b\<rparr>)"
  "applyPatch s (bool_patch ''showSky'' b) = Inr (s\<lparr>showSky := b\<rparr>)"
  by (cases s; simp add: applyPatch_eq bool_patch_def patch_defs patch_categories_def)+

lemma category_patch_applied:
  assumes "settings_wf s"
  shows "applyPatch s (JObj [(''categories'', bool_patch k b)]) =
    Inr (s\<lparr>categories := map (\<lambda>(k', b'). (k', if k' = k then b else b')) (categories s)\<rparr>)"
proof -
  have "map fst (categories s) = category_names" using assms by (simp add: settings_wf_def)
  then have "patch_categories (JObj [(''categories'', bool_patch k b)]) (categories s) =
      map (\<lambda>(k', b'). (k', if k' = k then b else b')) (categories s)"
    by (auto simp: patch_categories_map patch_defs bool_patch_def is_object_def)
  then show ?thesis by (cases s) (simp add: applyPatch_eq patch_defs)
qed

lemma ui_patch_settings:
  assumes "ui_patch ev (u, st) = Some (u1, patch)" and "ui_event_ok ev" and "store_inv st"
  shows "applyPatch (current st) patch = Inr (settings_after ev (u, st))"
  using assms
  by (cases ev)
    (auto simp: view_patch_applied number_patch_applied port_field host_patch_applied flag_patch_applied
      category_patch_applied toggles_def anyModalOpen_def store_inv_def split: if_splits view_mode.splits)

section \<open>Numbers\<close>

lemma leading_zeros: "nat_of_digits (replicate n (CHR ''0'') @ s) = nat_of_digits s"
proof (induction n)
  case (Suc n)
  have "digit_val (CHR ''0'') = 0" by (simp add: digit_val_def code_def)
  with Suc show ?case by (simp add: nat_of_digits_def)
qed simp

lemma to_fixed_digits:
  obtains ip fp where "to_fixed d x = (if x < 0 then ''-'' else []) @ ip @ (if d = 0 then [] else CHR ''.'' # fp)"
    and "ip \<noteq> []" and "length fp = d" and "\<forall>c \<in> set (ip @ fp). is_digit c"
    and "nat_of_digits (ip @ fp) = nat \<lfloor>\<bar>x\<bar> * 10 ^ d + 1 / 2\<rfloor>"
proof -
  define s where "s = show_nat (nat \<lfloor>\<bar>x\<bar> * 10 ^ d + 1 / 2\<rfloor>)"
  define p where "p = replicate (Suc d - length s) (CHR ''0'') @ s"
  let ?k = "length p - d"
  have len: "Suc d \<le> length p" by (simp add: p_def)
  have "is_digit (CHR ''0'')" by (simp add: is_digit_def code_def)
  then have digits: "\<forall>c \<in> set p. is_digit c" using show_nat_digits by (auto simp: p_def s_def)
  have val: "nat_of_digits p = nat \<lfloor>\<bar>x\<bar> * 10 ^ d + 1 / 2\<rfloor>"
    unfolding p_def leading_zeros by (simp add: s_def)
  show ?thesis
  proof (rule that)
    show "to_fixed d x = (if x < 0 then ''-'' else []) @ take ?k p @ (if d = 0 then [] else CHR ''.'' # drop ?k p)"
      unfolding to_fixed_def Let_def s_def [symmetric] p_def [symmetric] append.simps ..
    show "take ?k p \<noteq> []" and "length (drop ?k p) = d" using len by auto
    show "\<forall>c \<in> set (take ?k p @ drop ?k p). is_digit c" using digits by simp
    show "nat_of_digits (take ?k p @ drop ?k p) = nat \<lfloor>\<bar>x\<bar> * 10 ^ d + 1 / 2\<rfloor>" using val by simp
  qed
qed

text \<open>What HTML takes for a number is a number to JavaScript, though it may be too large for a double.\<close>

lemma exp_part_chars: "exp_part s = Some (ex, []) \<Longrightarrow> \<forall>c \<in> set s. number_char c"
proof (cases s)
  case (Cons c cs)
  assume e: "exp_part s = Some (ex, [])"
  define ds where "ds = (if cs \<noteq> [] \<and> (hd cs = CHR ''-'' \<or> hd cs = CHR ''+'') then tl cs else cs)"
  obtain d r where d: "scan is_digit ds = (d, r)" by force
  from e have c: "c = CHR ''e'' \<or> c = CHR ''E''" and "r = []"
    by (auto simp: exp_part_def Cons Let_def d simp flip: ds_def split: if_splits)
  with scan_eqD [OF d] have "\<forall>x \<in> set ds. is_digit x" by auto
  then have "\<forall>x \<in> set cs. number_char x"
    by (cases cs) (auto simp: ds_def number_char_def split: if_splits)
  with c show ?thesis by (auto simp: Cons number_char_def)
qed simp

lemma html_number_finite:
  assumes "html_number t"
  shows "\<exists>y. string_to_number t = js_num y"
proof -
  define sg where "sg = (if t \<noteq> [] \<and> hd t = CHR ''-'' then ''-'' else [])"
  define u where "u = (if t \<noteq> [] \<and> hd t = CHR ''-'' then tl t else t)"
  obtain ip r where ip: "scan is_digit u = (ip, r)" by force
  define point where "point = (r \<noteq> [] \<and> hd r = CHR ''.'')"
  obtain fp r2 where fp: "(if point then scan is_digit (tl r) else ([], r)) = (fp, r2)" by force
  from assms obtain ex where ok: "if point then fp \<noteq> [] else ip \<noteq> []" and ex: "exp_part r2 = Some (ex, [])"
    unfolding html_number_def Let_def u_def [symmetric] ip prod.case point_def [symmetric] fp
    by (auto split: option.splits list.splits)
  have dec: "unsigned_decimal u = Some (dec_value ip fp ex)"
    using ip fp ok ex unfolding unsigned_decimal_def Let_def point_def by (auto split: if_splits)
  have u: "u = ip @ r" "\<forall>c \<in> set ip. is_digit c" using scan_eqD [OF ip] by auto
  have rest: "\<forall>c \<in> set r2. number_char c" using exp_part_chars [OF ex] .
  have r: "\<forall>c \<in> set r. number_char c"
  proof (cases point)
    case True
    then obtain r' where "r = CHR ''.'' # r'" by (cases r) (auto simp: point_def)
    moreover from this have "r' = fp @ r2" "\<forall>c \<in> set fp. is_digit c"
      using scan_eqD [of is_digit r' fp r2] fp True by auto
    ultimately show ?thesis using rest by (auto simp: number_char_def)
  qed (use fp rest in simp)
  have "u \<noteq> []" using ok u by (auto simp: point_def split: if_splits)
  moreover have "\<forall>c \<in> set u. number_char c" using u r by (auto simp: number_char_def)
  moreover have "hd u \<notin> {CHR ''-'', CHR ''+''}"
  proof (cases ip)
    case (Cons c cs)
    with u digit_char_facts [of c] show ?thesis by simp
  qed (use ok u in \<open>auto simp: point_def split: if_splits\<close>)
  moreover have "sg \<in> {[], ''-'', ''+''}" by (simp add: sg_def)
  moreover have "t = sg @ u" by (cases t) (auto simp: u_def sg_def)
  ultimately show ?thesis using string_to_number_signed [OF _ _ _ _ dec, of sg] by blast
qed

section \<open>Properties\<close>

lemma reachable_panel:
  assumes "reachable panel_start (panel_step dp) (u, st)"
  shows "panel_inv (u, st)"
  by (rule panel.inv_reachable [OF assms])

lemma to_fixed_number:
  "\<exists>y. string_to_number (to_fixed d x) = js_num y \<and> \<bar>y - x\<bar> \<le> 1 / 2 / 10 ^ d"
proof -
  obtain ip fp where t: "to_fixed d x = (if x < 0 then ''-'' else []) @ ip @ (if d = 0 then [] else CHR ''.'' # fp)"
    and ds: "ip \<noteq> []" "length fp = d" "\<forall>c \<in> set (ip @ fp). is_digit c"
    and n: "nat_of_digits (ip @ fp) = nat \<lfloor>\<bar>x\<bar> * 10 ^ d + 1 / 2\<rfloor>"
    by (rule to_fixed_digits)
  let ?q = "real (nat \<lfloor>\<bar>x\<bar> * 10 ^ d + 1 / 2\<rfloor>)"
  have "0 \<le> \<bar>x\<bar> * 10 ^ d" by simp
  then have "?q = of_int \<lfloor>\<bar>x\<bar> * 10 ^ d + 1 / 2\<rfloor>" by (simp add: of_nat_nat)
  then have "\<bar>?q - \<bar>x\<bar> * 10 ^ d\<bar> \<le> 1 / 2" by linarith
  then have "\<bar>?q - \<bar>x\<bar> * 10 ^ d\<bar> / 10 ^ d \<le> 1 / 2 / 10 ^ d" by (rule divide_right_mono) simp
  moreover have "\<bar>?q - \<bar>x\<bar> * 10 ^ d\<bar> / 10 ^ d = \<bar>(?q - \<bar>x\<bar> * 10 ^ d) / 10 ^ d\<bar>" by (simp add: abs_divide)
  moreover have "(?q - \<bar>x\<bar> * 10 ^ d) / 10 ^ d = ?q / 10 ^ d - \<bar>x\<bar>" by (simp add: diff_divide_distrib)
  ultimately have near: "\<bar>?q / 10 ^ d - \<bar>x\<bar>\<bar> \<le> 1 / 2 / 10 ^ d" by (simp only:)
  let ?y = "if x < 0 then - (?q / 10 ^ d) else ?q / 10 ^ d"
  have "string_to_number (to_fixed d x) = js_num ?y"
    unfolding t n [symmetric] using string_to_number_decimal [OF ds, of "if x < 0 then ''-'' else []"] by simp
  moreover have "\<bar>(if x < 0 then - a else a) - x\<bar> = \<bar>a - \<bar>x\<bar>\<bar>" for a :: real by (cases "x < 0") simp_all
  then have "\<bar>?y - x\<bar> \<le> 1 / 2 / 10 ^ d" using near by (simp only:)
  ultimately show ?thesis by blast
qed

text \<open>The panel on the default settings.\<close>

definition default_store :: store where
  "default_store = \<lparr>current = DEFAULTS, effectiveDefaults = DEFAULTS, listeners = [], storage = empty_storage\<rparr>"

lemma default_panel: "reachable panel_start (panel_step dp) (createUi default_store)"
  using createSettings_empty by (intro reach_init) (auto simp: panel_start_def default_store_def)

text \<open>Whatever the user, the connection and the timer do, the panel shows the settings in force: the view
  buttons and the badge are those of the view mode, the badge says whether the model has a satellite, an open
  settings form holds exactly the store's settings, and exactly the chip of the filter is active.\<close>

theorem panel_shows_settings:
  assumes "reachable panel_start (panel_step dp) (u, st)"
  shows "view3d_active u = (viewMode (get st) = Orbit) \<and> viewSat_active u = (viewMode (get st) = Sat) \<and>
    badge_hidden u = (viewMode (get st) = Orbit) \<and> (\<not> badge_hidden u \<longrightarrow> badge_text u = badge_for (lastModel u)) \<and>
    (settings_open u \<longrightarrow> the_form u = form_of (get st)) \<and>
    filter snd (chips u) = [(case currentFilter u of None \<Rightarrow> [] | Some k \<Rightarrow> k, True)]"
proof -
  have inv: "panel_inv (u, st)" by (rule reachable_panel [OF assms])
  have "filter snd (chips_for f) = [(case f of None \<Rightarrow> [] | Some k \<Rightarrow> k, True)]"
    if "\<forall>k. f = Some k \<longrightarrow> k \<in> set CATEGORY_LIST" for f
    using that by (cases f) (auto simp: chips_for_def CATEGORY_LIST_def)
  with inv have "filter snd (chips u) = [(case currentFilter u of None \<Rightarrow> [] | Some k \<Rightarrow> k, True)]"
    by (simp add: panel_inv_def chips_shown_def)
  with inv show ?thesis
    by (cases "viewMode (current st)") (simp_all add: panel_inv_def mode_shown_def form_shown_def get_current)
qed

theorem panel_shows_settings_witness:
  "\<exists>u st. createUi default_store = (u, st) \<and> view3d_active u \<and> badge_hidden u"
proof -
  obtain u st where c: "createUi default_store = (u, st)" by (cases "createUi default_store")
  then have "viewMode (get st) = Orbit"
    by (auto simp: createUi_def default_store_def onChange_def get_def DEFAULTS_def Let_def
        simp flip: DEFAULTS_def) (simp add: DEFAULTS_def)
  with c panel_shows_settings [of undefined u st] default_panel [of undefined] show ?thesis by auto
qed

text \<open>The object table is always that of the last model under the current filter: its rows are the first
  1000 of the filtered objects by id, exactly the selected object's rows are marked, and the footer counts
  both; before the first data there are no rows.\<close>

theorem table_shows_model:
  assumes "reachable panel_start (panel_step dp) (u, st)"
  shows "case lastModel u of
      None \<Rightarrow> objectRows u = []
    | Some m \<Rightarrow> (let (rows, total) = getListRows (currentFilter u) 1000 m in
        map dataset_id (objectRows u) = map obj_id rows \<and>
        map tr_selected (objectRows u) = map (\<lambda>b. ui_selectedId u = Some (obj_id b)) rows \<and>
        map tr_cells (objectRows u) =
          map (\<lambda>b. [num_text (obj_id b), Txt (cat_label (cat b)), num_text (conf b)]) rows \<and>
        length (objectRows u) \<le> 1000 \<and>
        tableFooter u = ''showing '' @ show_nat (length rows) @ '' of '' @ show_nat total)"
  using reachable_panel [OF assms]
  by (auto simp: panel_inv_def list_shown_def make_tr_def getListRows_eq comp_def split: option.split)

theorem table_shows_model_witness:
  "\<exists>u st. createUi default_store = (u, st) \<and> objectRows u = []"
proof -
  obtain u st where c: "createUi default_store = (u, st)" by (cases "createUi default_store")
  then have "lastModel u = None"
    by (auto simp: createUi_def Let_def view_simps setFilter_def syncSettingsForm_def page_def split: if_splits)
  with c table_shows_model [of "\<lambda>s. None" u st] default_panel [of "\<lambda>s. None"] show ?thesis by auto
qed

text \<open>C33: Every event the page can send is handled without an exception, and changes the settings exactly as
  its name says.  The trail slider sets the trail length to its value, as a number brought into 0 to 60.
  The port field, an input of type number, hands over what was typed only if HTML takes it for a
  number: then the port is that number brought into 1 to 65535, or stays if it is too large for a
  double; when the field is empty or holds anything else the handler gets the empty string, whose
  number is 0, and the port becomes 1.  The key of the view toggle acts only outside of text fields
  and with no modal open.\<close>

theorem events_change_settings:
  assumes "reachable panel_start (panel_step dp) (u, st)" and "ui_event_ok ev"
  shows "\<exists>u' st' calls. ui_handle dp ev (u, st) = Inr ((u', st'), calls) \<and>
    current st' = settings_after ev (u, st) \<and> panel_inv (u', st')"
proof -
  have inv: "panel_inv (u, st)" by (rule reachable_panel [OF assms(1)])
  then have st: "store_inv st" by (simp add: panel_inv_def)
  obtain u' st' calls where h: "ui_handle dp ev (u, st) = Inr ((u', st'), calls)"
    using ui_handle_total [OF st assms(2), of dp u] by (auto simp: split_paired_Ex)
  have "current st' = settings_after ev (u, st)"
  proof (cases "ui_patch ev (u, st)")
    case (Some q)
    then obtain u1 patch where q: "ui_patch ev (u, st) = Some (u1, patch)" by (cases q) auto
    from ui_patch_one_key [OF q assms(2)] have "is_object patch" by auto
    moreover obtain f where "u1 = u\<lparr>the_form := f\<rparr>" using ui_patch_form [OF q] by blast
    ultimately show ?thesis
      using h inv store_update_inv(2) [of patch u1 st "(u', st')" calls] ui_patch_settings [OF q assms(2) st]
      by (simp add: ui_patch_handle [OF q] panel_inv_def)
  next
    case None
    show ?thesis
    proof (cases "ev = ClickReset")
      case True
      with h st show ?thesis
        by (auto simp: click_reset_def resetDefaults_def Let_def store_inv_def)
    next
      case False
      with ui_quiet_handle [OF None, of dp] h have "st' = st" by auto
      with None False show ?thesis by (cases ev) (auto simp: toggles_def anyModalOpen_def split: if_splits)
    qed
  qed
  with h ui_handle_inv [OF inv assms(2) h] show ?thesis by blast
qed

theorem events_change_settings_witness:
  "\<exists>u st u' st' calls. createUi default_store = (u, st) \<and>
     ui_handle (\<lambda>s. None) (ChangePort ''abc'') (u, st) = Inr ((u', st'), calls) \<and> port (current st') = 1"
proof -
  obtain u st where c: "createUi default_store = (u, st)" by (cases "createUi default_store")
  have "\<not> html_number ''abc''" by code_simp
  with c events_change_settings [of "\<lambda>s. None" u st "ChangePort ''abc''"] default_panel [of "\<lambda>s. None"]
  show ?thesis by fastforce
qed

text \<open>A number the panel prints with \<open>d\<close> decimals reads back as a number within half a unit of the last
  decimal.\<close>

theorem printed_number_close:
  assumes "fmtFixed (JNum (Fin x)) d = Txt t"
  shows "\<exists>y. string_to_number t = js_num y \<and> \<bar>y - x\<bar> \<le> 1 / 2 / 10 ^ d"
proof (cases "\<bar>x\<bar> < 10 ^ 21")
  case True
  with assms to_fixed_number [of d x] show ?thesis by (auto simp: fmtFixed_def)
next
  case False
  with assms show ?thesis by (simp add: fmtFixed_def num_text_def)
qed

theorem printed_number_close_witness:
  "to_fixed 1 (- 1 / 25) = ''-0.0'' \<and> (\<exists>y. string_to_number ''-0.0'' = js_num y \<and> \<bar>y - (- 1 / 25)\<bar> \<le> 1 / 20)"
proof -
  have z: "show_nat 0 = ''0''" by (rule show_nat_0)
  have t: "to_fixed 1 (- 1 / 25) = ''-0.0''" by (simp add: to_fixed_def Let_def z)
  then have "fmtFixed (JNum (Fin (- 1 / 25))) 1 = Txt ''-0.0''" by (simp add: fmtFixed_def)
  from printed_number_close [OF this] t show ?thesis by simp
qed

end
