(* ===== verification/Whole_Page.thy ===== *)
theory Whole_Page
  imports App_Facts Ui_Facts
begin

text \<open>
  frontend/js/main.js with the panel of ui.js: \<open>boot\<close> wires both, so the connection's callbacks
  also draw the panel and the panel's store updates also reach the listener of \<open>boot\<close>.  The state
  is a pair of the panel and the application of App_Wiring, whose store the panel uses.
\<close>

section \<open>Callbacks of the connection\<close>

text \<open>What the callbacks given to \<open>createConnection\<close> do to the panel; \<open>a\<close> is the application after
  them.\<close>

fun ui_effect :: "(string \<Rightarrow> real option) \<Rightarrow> real \<Rightarrow> effect \<Rightarrow> app \<Rightarrow> ui \<Rightarrow> ui" where
  "ui_effect dp dateNow (EmitStatus s) a u = updateConnection s (wsUrl (currentHost a) (currentPort a)) u"
| "ui_effect dp dateNow (CallState m) a u = updateData dp dateNow (a_store a) (a_model a) u"
| "ui_effect dp dateNow _ a u = u"

definition page_effect :: "(string \<Rightarrow> real option) \<Rightarrow> real \<Rightarrow> real \<Rightarrow> effect \<Rightarrow> ui \<times> app \<Rightarrow> ui \<times> app" where
  "page_effect dp dateNow now e p =
     (let a' = on_effect now e (snd p) in (ui_effect dp dateNow e a' (fst p), a'))"

definition page_conn :: "(string \<Rightarrow> real option) \<Rightarrow> real \<Rightarrow> real \<Rightarrow> conn_event \<Rightarrow> ui \<times> app \<Rightarrow> ui \<times> app" where
  "page_conn dp dateNow now ev p =
     (let (w', es) = deliver ev (a_world (snd p))
      in fold (page_effect dp dateNow now) es (fst p, (snd p)\<lparr>a_world := w'\<rparr>))"

definition page_endpoint :: "(string \<Rightarrow> real option) \<Rightarrow> real \<Rightarrow> real \<Rightarrow> bool \<Rightarrow> string \<Rightarrow> int \<Rightarrow> ui \<times> app \<Rightarrow> ui \<times> app" where
  "page_endpoint dp dateNow now ok h p q =
     page_conn dp dateNow now (SetEndpoint h p ok) (fst q, (snd q)\<lparr>currentHost := h, currentPort := p\<rparr>)"

section \<open>Listeners and callbacks of the panel\<close>

definition page_settings :: "(string \<Rightarrow> real option) \<Rightarrow> real \<Rightarrow> real \<Rightarrow> bool \<Rightarrow> settings \<Rightarrow> ui \<times> app \<Rightarrow> ui \<times> app" where
  "page_settings dp dateNow now ok next q =
     (let a1 = (snd q)\<lparr>a_renderer := normalizeSettings (applyRendererSettings next)\<rparr>;
          resolved = resolveHost (a_hostname a1) next
      in if resolved \<noteq> currentHost a1 \<or> port next \<noteq> currentPort a1
         then page_endpoint dp dateNow now ok resolved (port next) (fst q, a1) else (fst q, a1))"

text \<open>The panel's own listener has run in its handler; the form and the shown address are separate
  parts of the page, so the order of the two listeners does not matter.\<close>

definition page_calls :: "(string \<Rightarrow> real option) \<Rightarrow> real \<Rightarrow> real \<Rightarrow> bool \<Rightarrow> calls \<Rightarrow> ui \<times> app \<Rightarrow> ui \<times> app" where
  "page_calls dp dateNow now ok calls q =
     fold (\<lambda>(cb, s) q. if cb = main_listener then page_settings dp dateNow now ok s q else q) calls q"

definition page_reconnect :: "(string \<Rightarrow> real option) \<Rightarrow> real \<Rightarrow> real \<Rightarrow> bool \<Rightarrow> ui \<times> app \<Rightarrow> ui \<times> app" where
  "page_reconnect dp dateNow now ok q =
     (let s = get (a_store (snd q))
      in page_endpoint dp dateNow now ok (resolveHost (a_hostname (snd q)) s) (port s) q)"

definition run_callback :: "(string \<Rightarrow> real option) \<Rightarrow> real \<Rightarrow> real \<Rightarrow> bool \<Rightarrow> ui_callback \<Rightarrow> ui \<times> app \<Rightarrow> ui \<times> app" where
  "run_callback dp dateNow now ok cb q =
     (case cb of OnReconnect \<Rightarrow> page_reconnect dp dateNow now ok q | OnSelect i \<Rightarrow> q)"

section \<open>Boot and steps\<close>

definition page_boot :: "(string \<Rightarrow> real option) \<Rightarrow> storage \<Rightarrow> jsval \<Rightarrow> string \<Rightarrow> bool \<Rightarrow> js_error + (ui \<times> app)" where
  "page_boot dp stg siteDefaults hostname ok =
     rbind (createSettings stg siteDefaults) (\<lambda>store0.
       let s = get store0;
           h = resolveHost hostname s;
           (u, store1) = createUi store0;
           store2 = onChange main_listener store1;
           u1 = updateConnection Connecting (wsUrl h (port s)) u;
           a = \<lparr>a_hostname = hostname, a_store = store2, a_model = createModel,
                a_world = \<lparr>the_conn = createConnection h (port s), pending = {}, live = {}, opened = {}\<rparr>,
                a_renderer = normalizeSettings (applyRendererSettings s), a_snapshot = None,
                currentHost = h, currentPort = port s,
                shown_status = Connecting, shown_url = wsUrl h (port s)\<rparr>
       in Inr (page_conn dp 0 0 (Connect ok) (u1, a)))"

text \<open>The panel's events but for those the connection's callbacks stand for.\<close>

fun page_event :: "ui_event \<Rightarrow> bool" where
  "page_event (CallUpdateConnection s url) \<longleftrightarrow> False"
| "page_event (CallUpdateData m now) \<longleftrightarrow> False"
| "page_event ev \<longleftrightarrow> ui_event_ok ev"

datatype whole_event = PageUi ui_event bool | PageNet conn_event

inductive page_step :: "(string \<Rightarrow> real option) \<Rightarrow> ui \<times> app \<Rightarrow> whole_event \<times> real \<times> real \<Rightarrow> ui \<times> app \<Rightarrow> bool"
  for dp where
  page_ui: "page_event ev \<Longrightarrow> ui_handle dp ev (u, a_store a) = Inr ((u', st'), calls) \<Longrightarrow>
    page_step dp (u, a) (PageUi ev ok, dateNow, now)
      (fold (run_callback dp dateNow now ok) (ui_callbacks ev)
        (page_calls dp dateNow now ok calls (u', a\<lparr>a_store := st'\<rparr>)))"
| page_net: "network_event ev \<Longrightarrow> enabled ev (a_world a) \<Longrightarrow>
    page_step dp (u, a) (PageNet ev, dateNow, now) (page_conn dp dateNow now ev (u, a))"

inductive_cases page_stepE: "page_step dp p e p'"

definition page_start :: "(string \<Rightarrow> real option) \<Rightarrow> ui \<times> app \<Rightarrow> bool" where
  "page_start dp p \<longleftrightarrow> (\<exists>stg site hostname ok. page_boot dp stg site hostname ok = Inr p)"

section \<open>The application inside\<close>

lemma page_effect_app [simp]: "snd (page_effect dp dn now e p) = on_effect now e (snd p)"
  by (simp add: page_effect_def Let_def)

lemma page_effects_app: "snd (fold (page_effect dp dn now) es p) = fold (on_effect now) es (snd p)"
  by (induction es arbitrary: p) simp_all

lemma page_conn_app [simp]: "snd (page_conn dp dn now ev p) = conn_act now ev (snd p)"
  by (simp add: page_conn_def conn_act_def page_effects_app split: prod.split)

lemma page_endpoint_app [simp]: "snd (page_endpoint dp dn now ok h p q) = change_endpoint now ok h p (snd q)"
  by (simp add: page_endpoint_def change_endpoint_def)

lemma page_settings_app [simp]: "snd (page_settings dp dn now ok s q) = on_settings now ok s (snd q)"
  by (simp add: page_settings_def on_settings_def Let_def)

lemma page_calls_app [simp]: "snd (page_calls dp dn now ok calls q) = run_calls now ok calls (snd q)"
  unfolding page_calls_def run_calls_def by (induction calls arbitrary: q) (auto split: prod.split)

lemma page_reconnect_app [simp]: "snd (page_reconnect dp dn now ok q) = onReconnect now ok (snd q)"
  by (simp add: page_reconnect_def onReconnect_def Let_def)

section \<open>What the panel shows of the application\<close>

definition reflects :: "ui \<times> app \<Rightarrow> bool" where
  "reflects p \<longleftrightarrow> (case p of (u, a) \<Rightarrow>
     panel_inv (u, a_store a) \<and> statusText u = status_name (shown_status a) \<and> wsUrl_text u = shown_url a \<and>
     lastModel u = map_option (\<lambda>s. a_model a) (a_snapshot a) \<and>
     (\<forall>s. a_snapshot a = Some s \<longrightarrow> s = getSnapshot (a_model a)))"

lemma wsUrl_nonempty [simp]: "wsUrl h p \<noteq> []"
  by (simp add: wsUrl_def)

lemma updateConnection_inv: "panel_inv (u, st) \<Longrightarrow> panel_inv (updateConnection s url u, st)"
  by (simp add: panel_inv_def shown_defs updateConnection_def)

lemma updateData_shows:
  "lastModel (updateData dp now st m u) = Some m" "statusText (updateData dp now st m u) = statusText u"
  "wsUrl_text (updateData dp now st m u) = wsUrl_text u"
  by (simp_all add: updateData_def Let_def renderList_def updateViewBadge_def updateDataTimeText_def
      split: option.split prod.split)

lemma page_effect_reflects: "reflects p \<Longrightarrow> reflects (page_effect dp dn now e p)"
proof (cases p; cases e)
  fix u a s assume p: "p = (u, a)" "e = EmitStatus s" and r: "reflects p"
  from r p(1) have "panel_inv (updateConnection s (wsUrl (currentHost a) (currentPort a)) u, a_store a)"
    by (intro updateConnection_inv) (simp add: reflects_def)
  moreover have "lastModel (updateConnection s url u) = lastModel u" for url by (simp add: updateConnection_def)
  ultimately show ?thesis using r p
    by (simp add: reflects_def page_effect_def) (simp add: updateConnection_def)
next
  fix u a m assume p: "p = (u, a)" "e = CallState m" and r: "reflects p"
  let ?m = "applyState (State m) now (a_model a)"
  from r p(1) have "panel_inv (updateData dp dn (a_store a) ?m u, a_store a)"
    by (intro updateData_inv) (simp add: reflects_def)
  then show ?thesis using r p by (simp add: reflects_def page_effect_def updateData_shows Let_def)
qed (simp_all add: page_effect_def)

lemma page_effects_reflects: "reflects p \<Longrightarrow> reflects (fold (page_effect dp dn now) es p)"
  by (erule fold_keeps) (rule page_effect_reflects)

lemma reflects_other [simp]:
  "reflects (u, a\<lparr>a_world := w\<rparr>) = reflects (u, a)" "reflects (u, a\<lparr>a_renderer := r\<rparr>) = reflects (u, a)"
  "reflects (u, a\<lparr>currentHost := h, currentPort := p\<rparr>) = reflects (u, a)"
  by (simp_all add: reflects_def)

lemma page_conn_reflects: "reflects p \<Longrightarrow> reflects (page_conn dp dn now ev p)"
  by (cases p) (auto simp: page_conn_def intro!: page_effects_reflects split: prod.split)

lemma page_endpoint_reflects: "reflects q \<Longrightarrow> reflects (page_endpoint dp dn now ok h p q)"
  by (cases q) (auto simp: page_endpoint_def intro!: page_conn_reflects)

lemma page_settings_reflects: "reflects q \<Longrightarrow> reflects (page_settings dp dn now ok s q)"
  by (cases q) (auto simp: page_settings_def Let_def intro!: page_endpoint_reflects)

lemma page_calls_reflects: "reflects q \<Longrightarrow> reflects (page_calls dp dn now ok calls q)"
  unfolding page_calls_def by (erule fold_keeps) (auto intro: page_settings_reflects)

lemma callbacks_reflects: "reflects q \<Longrightarrow> reflects (fold (run_callback dp dn now ok) cbs q)"
  by (erule fold_keeps)
    (simp add: run_callback_def page_reconnect_def Let_def page_endpoint_reflects split: ui_callback.split)

section \<open>The invariant of the page\<close>

text \<open>Panel events leave the shown connection and the model alone.\<close>

lemma ui_on_change_other:
  "statusText (ui_on_change st u) = statusText u" "wsUrl_text (ui_on_change st u) = wsUrl_text u"
  by (simp_all add: ui_on_change_def view_simps syncSettingsForm_def)

lemma run_listener_other:
  "statusText (run_listener st calls u) = statusText u" "wsUrl_text (run_listener st calls u) = wsUrl_text u"
  "lastModel (run_listener st calls u) = lastModel u"
  unfolding run_listener_def
  by (induction calls arbitrary: u) (auto simp: ui_on_change_other ui_on_change_keeps)

lemma set_modal_other:
  "statusText (set_modal m b u) = statusText u" "wsUrl_text (set_modal m b u) = wsUrl_text u"
  "lastModel (set_modal m b u) = lastModel u"
  by (cases m; simp)+

lemma ui_handle_other:
  assumes "page_event ev" and "ui_handle dp ev (u, st) = Inr ((u', st'), calls)"
  shows "statusText u' = statusText u \<and> wsUrl_text u' = wsUrl_text u \<and> lastModel u' = lastModel u"
proof (cases "ui_patch ev (u, st)")
  case (Some q)
  then obtain u1 patch where q: "ui_patch ev (u, st) = Some (u1, patch)" by (cases q) auto
  then obtain f where f: "u1 = u\<lparr>the_form := f\<rparr>" using ui_patch_form by blast
  from assms(2) q obtain st2 calls2 where "u' = run_listener st2 calls2 u1"
    by (auto simp: ui_patch_handle store_update_def res_simps)
  then show ?thesis by (simp add: run_listener_other f)
next
  case None
  then show ?thesis
    using assms
    by (cases ev) (auto simp: quiet_def keydown_def Let_def anyModalOpen_def closeAllModals_def closeModal_def
        openModal_def set_modal_other panel_toggle_def chip_click_def setFilter_def renderList_def ui_setSelected_def
        syncSettingsForm_def tick_def updateDataTimeText_def click_reset_def run_listener_other
        split: if_splits option.splits prod.splits modal.splits)
qed

lemma page_event_ok: "page_event ev \<Longrightarrow> ui_event_ok ev"
  by (cases ev) auto

text \<open>For the application, a panel event is an update, a reset or nothing.\<close>

lemma ui_handle_app_step:
  assumes "app_inv a" and "ui_event_ok ev" and "ui_handle dp ev (u, a_store a) = Inr ((u', st'), calls)"
  shows "app_inv (run_calls now ok calls (a\<lparr>a_store := st'\<rparr>))"
proof (cases "ui_patch ev (u, a_store a)")
  case (Some q)
  then obtain u1 patch where q: "ui_patch ev (u, a_store a) = Some (u1, patch)" by (cases q) auto
  with assms(3) obtain s where "update patch (a_store a) = Inr (st', calls, s)"
    by (auto simp: ui_patch_handle store_update_def res_simps)
  then have "app_step a (UserUpdate patch ok, now) (run_calls now ok calls (a\<lparr>a_store := st'\<rparr>))"
    by (rule app_update)
  with assms(1) show ?thesis by (rule app_step_inv)
next
  case None
  show ?thesis
  proof (cases "ev = ClickReset")
    case True
    with assms(3) obtain s where "resetDefaults (a_store a) = (st', calls, s)"
      by (auto simp: click_reset_def split: prod.splits)
    then have "app_step a (UserReset ok, now) (run_calls now ok calls (a\<lparr>a_store := st'\<rparr>))"
      by (rule app_reset)
    with assms(1) show ?thesis by (rule app_step_inv)
  next
    case False
    with ui_quiet_handle [OF None, of dp] assms(3) have "st' = a_store a" "calls = []" by auto
    with assms(1) show ?thesis by (simp add: run_calls_def)
  qed
qed

definition page_inv :: "ui \<times> app \<Rightarrow> bool" where
  "page_inv p \<longleftrightarrow> app_inv (snd p) \<and> reflects p"

lemma reconnect_inv: "app_inv a \<Longrightarrow> app_inv (onReconnect now ok a)"
  by (rule app_step_inv [OF _ app_reconnect])

lemma callbacks_app:
  assumes "app_inv (snd q)"
  shows "app_inv (snd (fold (run_callback dp dn now ok) cbs q))"
  using assms
  by (rule fold_keeps) (auto simp: run_callback_def reconnect_inv split: ui_callback.split)

lemma page_step_inv:
  assumes "page_inv p" and "page_step dp p e p'"
  shows "page_inv p'"
  using assms(2)
proof (rule page_stepE)
  fix ev u a u' st' calls ok dn now
  assume p: "p = (u, a)" and ev: "page_event ev" and h: "ui_handle dp ev (u, a_store a) = Inr ((u', st'), calls)"
    and p': "p' = fold (run_callback dp dn now ok) (ui_callbacks ev)
      (page_calls dp dn now ok calls (u', a\<lparr>a_store := st'\<rparr>))"
  from assms(1) p have r: "reflects (u, a)" and inv: "app_inv a" by (simp_all add: page_inv_def)
  then have "panel_inv (u', st')"
    using ui_handle_inv [OF _ page_event_ok [OF ev] h] by (simp add: reflects_def)
  with r ui_handle_other [OF ev h] have "reflects (u', a\<lparr>a_store := st'\<rparr>)" by (simp add: reflects_def)
  then have "reflects p'" unfolding p' by (intro callbacks_reflects page_calls_reflects)
  moreover have "app_inv (snd p')"
    unfolding p' using ui_handle_app_step [OF inv page_event_ok [OF ev] h] by (intro callbacks_app) simp
  ultimately show ?thesis by (simp add: page_inv_def)
next
  fix ev a u dn now
  assume p: "p = (u, a)" and ev: "network_event ev" "enabled ev (a_world a)"
    and p': "p' = page_conn dp dn now ev (u, a)"
  from assms(1) p have "reflects (u, a)" and inv: "app_inv a" by (simp_all add: page_inv_def)
  moreover have "app_inv (conn_act now ev a)" by (rule app_step_inv [OF inv app_network [OF ev]])
  ultimately show ?thesis by (simp add: p' page_inv_def page_conn_reflects)
qed

lemma page_boot_app: "map_sum id snd (page_boot dp stg site hostname ok) = boot stg site hostname ok"
proof (cases "createSettings stg site")
  case (Inr st)
  obtain u st1 where c: "createUi st = (u, st1)" by (cases "createUi st")
  then have "st1 = onChange ui_listener st" by (auto simp: createUi_def Let_def)
  with Inr c show ?thesis by (simp add: page_boot_def boot_def Let_def)
qed (simp add: page_boot_def boot_def)

lemma page_boot_inv:
  assumes "page_boot dp stg site hostname ok = Inr p"
  shows "page_inv p"
proof -
  have "boot stg site hostname ok = Inr (snd p)" using page_boot_app [of dp stg site hostname ok] assms by simp
  then have app: "app_inv (snd p)" by (rule boot_inv)
  from assms obtain st where st: "createSettings stg site = Inr st" by (auto simp: page_boot_def res_simps)
  obtain u st1 where c: "createUi st = (u, st1)" by (cases "createUi st")
  have "panel_inv (u, st1)" using createUi_inv [OF st] c by simp
  then have "panel_inv (updateConnection s url u, onChange main_listener st1)" for s url
    by (intro updateConnection_inv listen_inv)
  moreover have "lastModel u = None"
    using c by (auto simp: createUi_def Let_def view_simps setFilter_def syncSettingsForm_def page_def split: if_splits)
  moreover
  let ?h = "resolveHost hostname (get st)" and ?port = "port (get st)"
  let ?a = "\<lparr>a_hostname = hostname, a_store = onChange main_listener st1, a_model = createModel,
      a_world = \<lparr>the_conn = createConnection ?h ?port, pending = {}, live = {}, opened = {}\<rparr>,
      a_renderer = normalizeSettings (applyRendererSettings (get st)), a_snapshot = None,
      currentHost = ?h, currentPort = ?port, shown_status = Connecting, shown_url = wsUrl ?h ?port\<rparr>"
  have "p = page_conn dp 0 0 (Connect ok) (updateConnection Connecting (wsUrl ?h ?port) u, ?a)"
    using assms by (simp add: page_boot_def st c Let_def)
  ultimately have "reflects p"
    by (auto simp: reflects_def [of "(updateConnection Connecting (wsUrl ?h ?port) u, ?a)"] intro!: page_conn_reflects)
      (simp_all add: updateConnection_def)
  with app show ?thesis by (simp add: page_inv_def)
qed

interpretation whole_page: stepper "page_start dp" "page_step dp" page_inv
  by unfold_locales (auto simp: page_start_def intro: page_boot_inv page_step_inv)

end
