(* ===== verification/Math3.thy ===== *)
theory Math3
  imports Js_Value
begin

text \<open>
  frontend/js/math3.js: column-major 4x4 matrices and 3-vectors, over the reals (the rounding
  of doubles and of \<open>Float32Array\<close> is not modelled).  A matrix is the list of its 16 elements,
  row \<open>r\<close> and column \<open>c\<close> at index \<open>c * 4 + r\<close>.  A length-3 vector handed to \<open>transform\<close> gets
  \<open>w = 1\<close> by the caller \<open>transform\<close>, a length-4 one goes to \<open>transform4\<close>.
\<close>

type_synonym mat4 = "real list"
type_synonym vec4 = "real \<times> real \<times> real \<times> real"

named_theorems vec_defs \<open>components of vectors\<close>

section \<open>Definitions\<close>

definition hypot3 :: "real \<Rightarrow> real \<Rightarrow> real \<Rightarrow> real" where
  "hypot3 x y z = sqrt (x\<^sup>2 + y\<^sup>2 + z\<^sup>2)"

definition mat_identity :: mat4 where
  "mat_identity = [1, 0, 0, 0,  0, 1, 0, 0,  0, 0, 1, 0,  0, 0, 0, 1]"

definition multiply :: "mat4 \<Rightarrow> mat4 \<Rightarrow> mat4" where
  "multiply a b = concat (map (\<lambda>c. map (\<lambda>r.
     a ! (0 * 4 + r) * b ! (c * 4 + 0) + a ! (1 * 4 + r) * b ! (c * 4 + 1) +
     a ! (2 * 4 + r) * b ! (c * 4 + 2) + a ! (3 * 4 + r) * b ! (c * 4 + 3)) [0, 1, 2, 3]) [0, 1, 2, 3])"

definition perspective :: "real \<Rightarrow> real \<Rightarrow> real \<Rightarrow> real \<Rightarrow> mat4" where
  "perspective fovyRad aspect near far =
     (let f = 1 / tan (fovyRad / 2); nf = 1 / (near - far)
      in [f / aspect, 0, 0, 0,  0, f, 0, 0,  0, 0, (far + near) * nf, -1,
          0, 0, 2 * far * near * nf, 0])"

definition lookAt :: "vec3 \<Rightarrow> vec3 \<Rightarrow> vec3 \<Rightarrow> mat4" where
  "lookAt eye center up =
     (case (eye, center, up) of ((ex, ey, ez), (cx, cy, cz), (ux, uy, uz)) \<Rightarrow>
       let zx0 = ex - cx; zy0 = ey - cy; zz0 = ez - cz;
           zl = (if hypot3 zx0 zy0 zz0 = 0 then 1 else hypot3 zx0 zy0 zz0);
           zx = zx0 / zl; zy = zy0 / zl; zz = zz0 / zl;
           xx0 = uy * zz - uz * zy; xy0 = uz * zx - ux * zz; xz0 = ux * zy - uy * zx;
           xl = (if hypot3 xx0 xy0 xz0 = 0 then 1 else hypot3 xx0 xy0 xz0);
           xx = xx0 / xl; xy = xy0 / xl; xz = xz0 / xl;
           yx = zy * xz - zz * xy; yy = zz * xx - zx * xz; yz = zx * xy - zy * xx
       in [xx, yx, zx, 0,  xy, yy, zy, 0,  xz, yz, zz, 0,
           - (xx * ex + xy * ey + xz * ez), - (yx * ex + yy * ey + yz * ez),
           - (zx * ex + zy * ey + zz * ez), 1])"

definition transform4 :: "mat4 \<Rightarrow> vec4 \<Rightarrow> vec4" where
  "transform4 m v = (case v of (x, y, z, w) \<Rightarrow>
     (m ! 0 * x + m ! 4 * y + m ! 8 * z + m ! 12 * w,
      m ! 1 * x + m ! 5 * y + m ! 9 * z + m ! 13 * w,
      m ! 2 * x + m ! 6 * y + m ! 10 * z + m ! 14 * w,
      m ! 3 * x + m ! 7 * y + m ! 11 * z + m ! 15 * w))"

definition transform :: "mat4 \<Rightarrow> vec3 \<Rightarrow> vec4" where
  "transform m v = (case v of (x, y, z) \<Rightarrow> transform4 m (x, y, z, 1))"

definition vlen :: "vec3 \<Rightarrow> real" where
  [vec_defs]: "vlen v = (case v of (x, y, z) \<Rightarrow> hypot3 x y z)"

definition dot :: "vec3 \<Rightarrow> vec3 \<Rightarrow> real" where
  [vec_defs]: "dot a b = (case (a, b) of ((ax, ay, az), (bx, by, bz)) \<Rightarrow> ax * bx + ay * by + az * bz)"

definition cross :: "vec3 \<Rightarrow> vec3 \<Rightarrow> vec3" where
  [vec_defs]: "cross a b = (case (a, b) of ((ax, ay, az), (bx, by, bz)) \<Rightarrow>
     (ay * bz - az * by, az * bx - ax * bz, ax * by - ay * bx))"

definition vnormalize :: "vec3 \<Rightarrow> vec3" where
  "vnormalize v = (case v of (x, y, z) \<Rightarrow>
     let l = hypot3 x y z in if l = 0 then (0, 0, 0) else (x / l, y / l, z / l))"

definition vadd :: "vec3 \<Rightarrow> vec3 \<Rightarrow> vec3" where
  [vec_defs]: "vadd a b = (case (a, b) of ((ax, ay, az), (bx, by, bz)) \<Rightarrow> (ax + bx, ay + by, az + bz))"

definition vsub :: "vec3 \<Rightarrow> vec3 \<Rightarrow> vec3" where
  [vec_defs]: "vsub a b = (case (a, b) of ((ax, ay, az), (bx, by, bz)) \<Rightarrow> (ax - bx, ay - by, az - bz))"

definition vscale :: "vec3 \<Rightarrow> real \<Rightarrow> vec3" where
  [vec_defs]: "vscale v s = (case v of (x, y, z) \<Rightarrow> (x * s, y * s, z * s))"

definition occludedBySphere :: "vec3 \<Rightarrow> real \<Rightarrow> real \<Rightarrow> real \<Rightarrow> real \<Rightarrow> bool" where
  "occludedBySphere eye px py pz r =
     (case eye of (ex, ey, ez) \<Rightarrow>
       let dx = px - ex; dy = py - ey; dz = pz - ez;
           a = dx * dx + dy * dy + dz * dz
       in if a = 0 then False
          else let b = ex * dx + ey * dy + ez * dz;
                   c = ex * ex + ey * ey + ez * ez - r * r;
                   disc = b * b - a * c
               in if disc \<le> 0 then False
                  else let t = (- b - sqrt disc) / a in 0 < t \<and> t < 1)"

section \<open>Vectors\<close>

lemma hypot3_ge_0 [simp]: "0 \<le> hypot3 x y z"
  by (simp add: hypot3_def)

lemma hypot3_eq_0 [simp]: "hypot3 x y z = 0 \<longleftrightarrow> x = 0 \<and> y = 0 \<and> z = 0"
  by (simp add: hypot3_def add_nonneg_eq_0_iff)

lemma hypot3_pos: "\<not> (x = 0 \<and> y = 0 \<and> z = 0) \<Longrightarrow> 0 < hypot3 x y z"
  using hypot3_ge_0 [of x y z] hypot3_eq_0 [of x y z] by linarith

lemma hypot3_sq: "(hypot3 x y z)\<^sup>2 = x\<^sup>2 + y\<^sup>2 + z\<^sup>2"
  by (simp add: hypot3_def)

lemma hypot3_scale: "hypot3 (x * s) (y * s) (z * s) = \<bar>s\<bar> * hypot3 x y z"
proof -
  have "(x * s)\<^sup>2 + (y * s)\<^sup>2 + (z * s)\<^sup>2 = s\<^sup>2 * (x\<^sup>2 + y\<^sup>2 + z\<^sup>2)"
    by (simp add: power_mult_distrib algebra_simps)
  then show ?thesis by (simp add: hypot3_def real_sqrt_mult)
qed

lemma vlen_ge_0 [simp]: "0 \<le> vlen v"
  by (cases v) (simp add: vlen_def)

lemma vlen_sq: "(vlen v)\<^sup>2 = dot v v"
  by (cases v) (simp add: vlen_def dot_def hypot3_sq, simp add: power2_eq_square)

lemma vlen_scale: "vlen (vscale v s) = \<bar>s\<bar> * vlen v"
  by (cases v) (simp add: vlen_def vscale_def hypot3_scale)

lemma vlen_eq_0 [simp]: "vlen v = 0 \<longleftrightarrow> v = (0, 0, 0)"
  by (cases v) (auto simp: vlen_def)

lemma vnormalize_eq: "vlen v \<noteq> 0 \<Longrightarrow> vnormalize v = vscale v (1 / vlen v)"
  by (cases v) (simp add: vnormalize_def vlen_def vscale_def Let_def)

lemma vlen_vnormalize: "vlen v \<noteq> 0 \<Longrightarrow> vlen (vnormalize v) = 1"
  using vlen_ge_0 [of v] by (simp add: vnormalize_eq vlen_scale del: vlen_eq_0)

lemma vlen_one_sq: "vlen v = 1 \<Longrightarrow> dot v v = 1"
  using vlen_sq [of v] by simp

section \<open>Matrices\<close>

lemma transform4_multiply: "transform4 (multiply a b) v = transform4 a (transform4 b v)"
  by (cases v) (simp add: transform4_def multiply_def numeral_2_eq_2 algebra_simps)

lemma multiply_assoc: "multiply (multiply a b) c = multiply a (multiply b c)"
  by (simp add: multiply_def numeral_2_eq_2 algebra_simps)

lemma transform4_identity [simp]: "transform4 mat_identity v = v"
  by (cases v) (simp add: transform4_def mat_identity_def)

text \<open>The camera axes of \<open>lookAt\<close>, as vectors.\<close>

definition cam_z :: "vec3 \<Rightarrow> vec3 \<Rightarrow> vec3" where
  "cam_z eye center = vnormalize (vsub eye center)"

definition cam_x :: "vec3 \<Rightarrow> vec3 \<Rightarrow> vec3 \<Rightarrow> vec3" where
  "cam_x eye center up = vnormalize (cross up (cam_z eye center))"

definition cam_y :: "vec3 \<Rightarrow> vec3 \<Rightarrow> vec3 \<Rightarrow> vec3" where
  "cam_y eye center up = cross (cam_z eye center) (cam_x eye center up)"

text \<open>The view is determined when the eye is not at the centre and \<open>up\<close> is not along the line
  of sight.\<close>

definition view_ok :: "vec3 \<Rightarrow> vec3 \<Rightarrow> vec3 \<Rightarrow> bool" where
  "view_ok eye center up \<longleftrightarrow> eye \<noteq> center \<and> cross up (cam_z eye center) \<noteq> (0, 0, 0)"

lemma lookAt_axes:
  assumes "view_ok eye center up"
  shows "transform (lookAt eye center up) p =
    (case (cam_x eye center up, cam_y eye center up, cam_z eye center, vsub p eye) of (x, y, z, d) \<Rightarrow>
       (dot x d, dot y d, dot z d, 1))"
proof -
  obtain ex ey ez where e: "eye = (ex, ey, ez)" by (cases eye)
  obtain cx cy cz where c: "center = (cx, cy, cz)" by (cases center)
  obtain ux uy uz where u: "up = (ux, uy, uz)" by (cases up)
  obtain px py pz where p: "p = (px, py, pz)" by (cases p)
  have l: "hypot3 (ex - cx) (ey - cy) (ez - cz) \<noteq> 0"
    using assms by (auto simp: view_ok_def e c)
  obtain zx zy zz where z: "cam_z eye center = (zx, zy, zz)" by (cases "cam_z eye center")
  have zdef: "zx = (ex - cx) / hypot3 (ex - cx) (ey - cy) (ez - cz)"
    "zy = (ey - cy) / hypot3 (ex - cx) (ey - cy) (ez - cz)"
    "zz = (ez - cz) / hypot3 (ex - cx) (ey - cy) (ez - cz)"
    using z l by (simp_all add: cam_z_def vnormalize_def vsub_def e c Let_def del: hypot3_eq_0)
  let ?h = "hypot3 (uy * zz - uz * zy) (uz * zx - ux * zz) (ux * zy - uy * zx)"
  have h: "?h \<noteq> 0" using assms by (auto simp: view_ok_def z u cross_def)
  obtain xx xy xz where x: "cam_x eye center up = (xx, xy, xz)" by (cases "cam_x eye center up")
  have xdef: "xx = (uy * zz - uz * zy) / ?h" "xy = (uz * zx - ux * zz) / ?h" "xz = (ux * zy - uy * zx) / ?h"
    using x h by (simp_all add: cam_x_def z vnormalize_def cross_def u Let_def del: hypot3_eq_0)
  have y: "cam_y eye center up = (zy * xz - zz * xy, zz * xx - zx * xz, zx * xy - zy * xx)"
    by (simp add: cam_y_def z x cross_def)
  have m: "lookAt eye center up =
    [xx, zy * xz - zz * xy, zx, 0,  xy, zz * xx - zx * xz, zy, 0,  xz, zx * xy - zy * xx, zz, 0,
     - (xx * ex + xy * ey + xz * ez),
     - ((zy * xz - zz * xy) * ex + (zz * xx - zx * xz) * ey + (zx * xy - zy * xx) * ez),
     - (zx * ex + zy * ey + zz * ez), 1]"
    by (simp only: lookAt_def e c u prod.case Let_def l h if_False zdef [symmetric] xdef [symmetric])
  show ?thesis unfolding m x y z
    by (simp add: p e vsub_def dot_def transform_def transform4_def algebra_simps)
qed

lemma dot_cross_self: "dot a (cross b a) = 0" "dot (cross b a) a = 0" "dot b (cross b a) = 0"
  by (cases a; cases b; simp add: vec_defs algebra_simps)+

lemma dot_commute: "dot a b = dot b a"
  by (cases a; cases b) (simp add: vec_defs)

lemma dot_scale: "dot a (vscale b s) = s * dot a b" "dot (vscale a s) b = s * dot a b"
  by (cases a; cases b; simp add: vec_defs algebra_simps)+

lemma lagrange: "dot (cross a b) (cross a b) = dot a a * dot b b - (dot a b)\<^sup>2"
  by (cases a; cases b) (simp add: vec_defs algebra_simps power2_eq_square)

text \<open>The axes are orthonormal.\<close>

lemma cam_axes:
  assumes "view_ok eye center up"
  shows "dot (cam_x eye center up) (cam_x eye center up) = 1"
    and "dot (cam_y eye center up) (cam_y eye center up) = 1"
    and "dot (cam_z eye center) (cam_z eye center) = 1"
    and "dot (cam_x eye center up) (cam_z eye center) = 0"
proof -
  let ?x = "cam_x eye center up" and ?z = "cam_z eye center"
  have "vsub eye center \<noteq> (0, 0, 0)"
    using assms by (cases eye; cases center) (auto simp: view_ok_def vsub_def)
  then have "vlen ?z = 1" unfolding cam_z_def by (intro vlen_vnormalize) simp
  then show z: "dot ?z ?z = 1" by (rule vlen_one_sq)
  have n: "vlen (cross up ?z) \<noteq> 0" using assms by (simp add: view_ok_def)
  then show x: "dot ?x ?x = 1" unfolding cam_x_def by (intro vlen_one_sq vlen_vnormalize)
  show xz: "dot ?x ?z = 0"
    unfolding cam_x_def vnormalize_eq [OF n] by (simp add: dot_scale dot_cross_self)
  show "dot (cam_y eye center up) (cam_y eye center up) = 1"
    unfolding cam_y_def lagrange using x z xz by (simp add: dot_commute)
qed

text \<open>Coordinates along orthonormal axes keep the length.\<close>

lemma coordinates_length:
  assumes "dot x x = 1" and "dot z z = 1" and "dot x z = 0"
  shows "(dot x d)\<^sup>2 + (dot (cross z x) d)\<^sup>2 + (dot z d)\<^sup>2 = dot d d"
proof -
  obtain x1 x2 x3 where x: "x = (x1, x2, x3)" by (cases x)
  obtain z1 z2 z3 where z: "z = (z1, z2, z3)" by (cases z)
  obtain d1 d2 d3 where d: "d = (d1, d2, d3)" by (cases d)
  have gram: "(dot (cross z x) d)\<^sup>2 = dot z z * (dot x x * dot d d - (dot x d)\<^sup>2)
      - dot z x * (dot z x * dot d d - dot x d * dot z d)
      + dot z d * (dot z x * dot x d - dot x x * dot z d)"
    by (simp add: x z d vec_defs power2_eq_square) algebra
  show ?thesis
    unfolding gram using assms by (simp add: dot_commute [of z x] power2_eq_square)
qed

definition vdist :: "vec3 \<Rightarrow> vec3 \<Rightarrow> real" where
  "vdist p q = vlen (vsub p q)"

definition view_xyz :: "vec4 \<Rightarrow> vec3" where
  "view_xyz v = (case v of (x, y, z, w) \<Rightarrow> (x, y, z))"

lemma dot_vsub: "dot a (vsub p q) = dot a p - dot a q"
  by (cases a; cases p; cases q) (simp add: vec_defs algebra_simps)

lemma lookAt_isometry:
  assumes "view_ok eye center up"
  shows "vdist (view_xyz (transform (lookAt eye center up) p)) (view_xyz (transform (lookAt eye center up) q))
    = vdist p q"
proof -
  let ?x = "cam_x eye center up" and ?y = "cam_y eye center up" and ?z = "cam_z eye center"
  have p: "view_xyz (transform (lookAt eye center up) p) =
      (dot ?x (vsub p eye), dot ?y (vsub p eye), dot ?z (vsub p eye))" for p
    by (simp add: lookAt_axes [OF assms] view_xyz_def)
  have "dot a (vsub p eye) - dot a (vsub q eye) = dot a (vsub p q)" for a
    by (simp add: dot_vsub)
  then have "(vdist (view_xyz (transform (lookAt eye center up) p))
        (view_xyz (transform (lookAt eye center up) q)))\<^sup>2 =
      (dot ?x (vsub p q))\<^sup>2 + (dot ?y (vsub p q))\<^sup>2 + (dot ?z (vsub p q))\<^sup>2"
    by (simp add: p vdist_def vsub_def [of "(_, _, _)"] vlen_def hypot3_sq)
  also have "\<dots> = (vdist p q)\<^sup>2"
    using coordinates_length [OF cam_axes(1) [OF assms] cam_axes(3) [OF assms] cam_axes(4) [OF assms]]
    by (simp add: cam_y_def vdist_def vlen_sq)
  finally show ?thesis by (simp add: vdist_def power2_eq_iff_nonneg)
qed

text \<open>The near plane goes to depth -1 and the far plane to depth 1.\<close>

lemma perspective_depth:
  assumes "near \<noteq> far" and "z \<noteq> 0"
  shows "transform (perspective fovy aspect near far) (x, y, - z) =
    (x / (tan (fovy / 2) * aspect), y / tan (fovy / 2),
     (far + near) * z / (far - near) - 2 * far * near / (far - near), z)"
proof -
  have "near - far \<noteq> 0" "far - near \<noteq> 0" using assms by simp_all
  then show ?thesis
    by (simp add: transform_def transform4_def perspective_def Let_def divide_simps) (simp add: algebra_simps)
qed

section \<open>Occlusion\<close>

text \<open>The point at parameter \<open>t\<close> of the segment from \<open>e\<close> to \<open>p\<close>.\<close>

definition along :: "vec3 \<Rightarrow> vec3 \<Rightarrow> real \<Rightarrow> vec3" where
  "along e p t = vadd e (vscale (vsub p e) t)"

lemma along_sq:
  "(vlen (along e p t))\<^sup>2 = dot (vsub p e) (vsub p e) * t\<^sup>2 + 2 * dot e (vsub p e) * t + dot e e"
  unfolding vlen_sq
  by (cases e; cases p) (simp add: along_def vec_defs power2_eq_square algebra_simps)

lemma quadratic_factor:
  assumes "(0::real) < a" and "0 \<le> b * b - a * c"
  shows "a * t\<^sup>2 + 2 * b * t + c =
    a * ((t - (- b - sqrt (b * b - a * c)) / a) * (t - (- b + sqrt (b * b - a * c)) / a))"
proof -
  let ?s = "sqrt (b * b - a * c)"
  have s: "?s * ?s = b * b - a * c" using assms(2) by simp
  have "a * ((t - (- b - ?s) / a) * (t - (- b + ?s) / a)) = (a * t + b + ?s) * (a * t + b - ?s) / a"
    using assms(1) by (simp add: field_simps)
  also have "\<dots> = ((a * t + b)\<^sup>2 - ?s * ?s) / a" by (simp add: algebra_simps power2_eq_square)
  also have "\<dots> = a * t\<^sup>2 + 2 * b * t + c"
    using assms(1) unfolding s by (simp add: field_simps power2_eq_square)
  finally show ?thesis by simp
qed

lemma occludedBySphere_iff_entry:
  assumes "0 \<le> r"
  shows "occludedBySphere e (fst p) (fst (snd p)) (snd (snd p)) r \<longleftrightarrow>
    (let a = dot (vsub p e) (vsub p e); b = dot e (vsub p e); c = dot e e - r\<^sup>2;
         t = (- b - sqrt (b * b - a * c)) / a
     in 0 < a \<and> 0 < b * b - a * c \<and> 0 < t \<and> t < 1)"
proof -
  have "0 \<le> dot (vsub p e) (vsub p e)" by (simp flip: vlen_sq)
  then show ?thesis
    unfolding occludedBySphere_def Let_def
    by (cases e; cases p) (simp add: dot_def vsub_def power2_eq_square less_le)
qed

text \<open>Seen from outside the sphere, a point is reported hidden exactly when the segment to it
  passes through the open ball.\<close>

lemma occluded_outside:
  assumes r: "0 \<le> r" and out: "r < vlen e"
  shows "occludedBySphere e (fst p) (fst (snd p)) (snd (snd p)) r \<longleftrightarrow>
    (\<exists>t. 0 < t \<and> t < 1 \<and> vlen (along e p t) < r)"
    (is "?occ \<longleftrightarrow> ?through")
proof -
  define a b c where "a = dot (vsub p e) (vsub p e)" and "b = dot e (vsub p e)" and "c = dot e e - r\<^sup>2"
  define s where "s = sqrt (b * b - a * c)"
  have a0: "0 \<le> a" by (simp add: a_def flip: vlen_sq)
  have c0: "0 < c" using power_strict_mono [OF out r, of 2] by (simp add: c_def vlen_sq)
  have inside: "vlen (along e p t) < r \<longleftrightarrow> a * t\<^sup>2 + 2 * b * t + c < 0" for t
  proof -
    have "vlen (along e p t) < r \<longleftrightarrow> (vlen (along e p t))\<^sup>2 < r\<^sup>2"
      using r by (auto intro: power_strict_mono power2_less_imp_less)
    then show ?thesis by (simp add: along_sq a_def b_def c_def algebra_simps)
  qed
  have occ: "?occ \<longleftrightarrow> 0 < a \<and> 0 < b * b - a * c \<and> 0 < (- b - s) / a \<and> (- b - s) / a < 1"
    using occludedBySphere_iff_entry [OF r, of e p] by (simp add: a_def b_def c_def s_def Let_def)
  show ?thesis
  proof
    assume ?occ
    then have *: "0 < a" "0 < b * b - a * c" "0 < (- b - s) / a" "(- b - s) / a < 1"
      using occ by simp_all
    have s: "0 < s" using *(2) by (simp add: s_def)
    let ?t1 = "(- b - s) / a" and ?t2 = "(- b + s) / a"
    have lt: "?t1 < ?t2" using s *(1) by (simp add: divide_strict_right_mono)
    then obtain t where t: "?t1 < t" "t < min ?t2 1" using *(4) dense [of ?t1 "min ?t2 1"] by auto
    then have "(t - ?t1) * (t - ?t2) < 0" by (intro mult_pos_neg) auto
    then have "a * t\<^sup>2 + 2 * b * t + c < 0"
      using quadratic_factor [of a b c t] * by (simp add: s_def mult_pos_neg)
    with t *(3) inside show ?through by (intro exI [of _ t]) auto
  next
    assume ?through
    then obtain t where t: "0 < t" "t < 1" and q: "a * t\<^sup>2 + 2 * b * t + c < 0"
      using inside by blast
    have "b < 0"
    proof (rule ccontr)
      assume "\<not> b < 0"
      then have "0 \<le> a * t\<^sup>2 + 2 * b * t + c" using a0 c0 t by (simp add: less_imp_le)
      with q show False by simp
    qed
    have "a \<noteq> 0"
    proof
      assume "a = 0"
      then have "vsub p e = (0, 0, 0)" using vlen_sq [of "vsub p e"] by (simp add: a_def)
      then have "b = 0" by (cases e) (simp add: b_def dot_def)
      with \<open>b < 0\<close> show False by simp
    qed
    with a0 have a: "0 < a" by simp
    have "a * (a * t\<^sup>2 + 2 * b * t + c) = (a * t + b)\<^sup>2 - (b * b - a * c)"
      by (simp add: power2_eq_square algebra_simps)
    moreover have "a * (a * t\<^sup>2 + 2 * b * t + c) < 0" using a q by (simp add: mult_pos_neg)
    ultimately have d: "(a * t + b)\<^sup>2 < b * b - a * c" by simp
    moreover have "0 \<le> (a * t + b)\<^sup>2" by simp
    ultimately have disc: "0 < b * b - a * c" by linarith
    have "\<bar>a * t + b\<bar> < s" using real_sqrt_less_mono [OF d] by (simp add: s_def)
    then have "- b - s < a * t" by linarith
    then have less: "(- b - s) / a < t" using a by (simp add: divide_less_eq mult.commute)
    have "b * b - a * c < b * b" using a c0 by simp
    then have "s < sqrt (b * b)" unfolding s_def by (rule real_sqrt_less_mono)
    then have "s < - b" using \<open>b < 0\<close> by simp
    then have "0 < (- b - s) / a" using a by simp
    with a disc less t(2) show ?occ unfolding occ by linarith
  qed
qed

section \<open>Properties\<close>

text \<open>C31: For an eye outside the sphere, a point counts as occluded exactly when some point strictly
  between the eye and it is inside the sphere: neither a point in front of the globe nor one beside it
  is ever hidden.\<close>

theorem occlusion_exact:
  assumes "0 \<le> r" and "r < vlen eye"
  shows "occludedBySphere eye px py pz r \<longleftrightarrow>
    (\<exists>t. 0 < t \<and> t < 1 \<and> vlen (vadd eye (vscale (vsub (px, py, pz) eye) t)) < r)"
  using occluded_outside [OF assms, of "(px, py, pz)"] by (simp add: along_def)

theorem occlusion_exact_witness:
  "occludedBySphere (25, 0, 0) (- 25) 0 0 6"
proof -
  have "vlen (25, 0, 0) = 25" by (simp add: vlen_def hypot3_def)
  moreover have "vlen (vadd (25, 0, 0) (vscale (vsub (- 25, 0, 0) (25, 0, 0)) (1 / 2))) < 6"
    by (simp add: vec_defs hypot3_def)
  then have "\<exists>t. 0 < t \<and> t < 1 \<and> vlen (vadd (25, 0, 0) (vscale (vsub (- 25, 0, 0) (25, 0, 0)) t)) < 6"
    by (intro exI [of _ "1 / 2"]) simp
  ultimately show ?thesis using occlusion_exact [of 6 "(25, 0, 0)" "- 25" 0 0] by simp
qed

end
