(* ===== verification/Renderer_Trails.thy ===== *)
theory Renderer_Trails
  imports Renderer_Settings Math3 Client_Model "HOL-Library.AList"
begin

text \<open>
  frontend/js/renderer.js: the object points and the trails.  Scene positions are in units of
  1000 km; the trails are an association list in the insertion order of the source's \<open>Map\<close>.
  \<open>date_parse\<close> stands for \<open>Date.parse\<close>, which is implementation-defined beyond the ISO
  format (\<open>None\<close> is \<open>NaN\<close>).  The GL buffers are the lists of what is uploaded to them.
\<close>

section \<open>Positions\<close>

definition SCALE :: real where "SCALE = 1 / 10 ^ 6"
definition EARTH_R :: real where "EARTH_R = 6371 / 1000"
definition SHELL :: real where "SHELL = 120"

definition worldFromMeters :: "vec3 \<Rightarrow> vec3" where
  "worldFromMeters pos =
     (case pos of (px, py, pz) \<Rightarrow>
       let x = px * SCALE; y = py * SCALE; z = pz * SCALE; len = hypot3 x y z
       in if len > SHELL then let s = SHELL / len in (x * s, y * s, z * s) else (x, y, z))"

section \<open>Categories\<close>

type_synonym rgb = "real \<times> real \<times> real"

record cat_def =
  cat_color :: rgb
  cat_size :: real
  cat_icon :: nat

definition ICONS :: "(string \<times> nat) list" where
  "ICONS = [(''debris'', 0), (''star'', 1), (''comet'', 2), (''satellite'', 3), (''groundHot'', 4),
     (''satMarker'', 5), (''skyDot'', 6), (''unknown'', 7)]"

definition icon :: "string \<Rightarrow> nat" where
  "icon k = the (map_of ICONS k)"

definition CAT :: "(string \<times> cat_def) list" where
  "CAT =
    [(''debris'', \<lparr>cat_color = (170 / 255, 178 / 255, 189 / 255), cat_size = 10, cat_icon = icon ''debris''\<rparr>),
     (''star'', \<lparr>cat_color = (1, 1, 1), cat_size = 9, cat_icon = icon ''star''\<rparr>),
     (''comet'', \<lparr>cat_color = (111 / 255, 211 / 255, 1), cat_size = 14, cat_icon = icon ''comet''\<rparr>),
     (''satellite'', \<lparr>cat_color = (88 / 255, 214 / 255, 141 / 255), cat_size = 14, cat_icon = icon ''satellite''\<rparr>),
     (''groundHot'', \<lparr>cat_color = (1, 5647 / 10000, 251 / 1000), cat_size = 13, cat_icon = icon ''groundHot''\<rparr>),
     (''unknown'', \<lparr>cat_color = (199 / 255, 146 / 255, 234 / 255), cat_size = 12, cat_icon = icon ''unknown''\<rparr>)]"

definition SAT_COLOR :: rgb where "SAT_COLOR = (1, 8353 / 10000, 2902 / 10000)"

definition GH_LO :: rgb where "GH_LO = (1, 5647 / 10000, 251 / 1000)"
definition GH_HI :: rgb where "GH_HI = (1, 1882 / 10000, 1255 / 10000)"

definition groundHotColor :: "real \<Rightarrow> rgb" where
  "groundHotColor k =
     (let t0 = (k - 300) / (2000 - 300); t = (if t0 < 0 then 0 else if t0 > 1 then 1 else t0)
      in case (GH_LO, GH_HI) of ((l0, l1, l2), (h0, h1, h2)) \<Rightarrow>
        (l0 + (h0 - l0) * t, l1 + (h1 - l1) * t, l2 + (h2 - l2) * t))"

section \<open>Object points\<close>

definition MAX_OBJECTS :: nat where "MAX_OBJECTS = 5000"

record point_row =
  row_id :: real
  row_cat :: string
  row_pos :: vec3
  row_color :: rgb
  row_size :: real
  row_icon :: nat

definition object_row :: "cat_def \<Rightarrow> tracked \<Rightarrow> point_row" where
  "object_row d b = \<lparr>row_id = obj_id b, row_cat = cat b, row_pos = worldFromMeters (obj_pos b),
     row_color = (if cat b = ''groundHot'' then groundHotColor (intensity b) else cat_color d),
     row_size = cat_size d, row_icon = cat_icon d\<rparr>"

text \<open>The loop of \<open>rebuildObjectBuffer\<close> after \<open>n\<close> rows.\<close>

fun object_rows :: "r_settings \<Rightarrow> nat \<Rightarrow> tracked list \<Rightarrow> point_row list" where
  "object_rows s n [] = []"
| "object_rows s n (b # bs) =
     (if \<not> n < MAX_OBJECTS then []
      else case map_of CAT (cat b) of
          None \<Rightarrow> object_rows s n bs
        | Some d \<Rightarrow>
            if map_of (r_categories s) (cat b) = Some False then object_rows s n bs
            else object_row d b # object_rows s (n + 1) bs)"

definition rebuildObjectBuffer :: "r_settings \<Rightarrow> snapshot option \<Rightarrow> point_row list" where
  "rebuildObjectBuffer s snap = (case snap of None \<Rightarrow> [] | Some sn \<Rightarrow> object_rows s 0 (snap_objects sn))"

section \<open>Trails\<close>

definition TRAIL_CAP :: nat where "TRAIL_CAP = 64"
definition SERVER_TRAIL_CAP :: nat where "SERVER_TRAIL_CAP = 512"

datatype trail_key = ObjKey real | SatKey real

record sample =
  s_t :: real
  s_pos :: vec3

record trail =
  trail_cat :: "string option"
  samples :: "sample list"
  server :: bool

type_synonym trails = "(trail_key \<times> trail) list"

text \<open>\<open>t.s.push(p); if (t.s.length > cap) t.s.shift()\<close>.\<close>

definition push_capped :: "nat \<Rightarrow> sample \<Rightarrow> sample list \<Rightarrow> sample list" where
  "push_capped cap p s = (let s' = s @ [p] in if length s' > cap then tl s' else s')"

definition new_trail :: "string option \<Rightarrow> trail" where
  "new_trail c = \<lparr>trail_cat = c, samples = [], server = False\<rparr>"

definition cat_by_id :: "tracked list \<Rightarrow> real \<Rightarrow> string option" where
  "cat_by_id obs i = map_of (rev (map (\<lambda>b. (obj_id b, cat b)) obs)) i"

definition append_server :: "(real \<Rightarrow> string option) \<Rightarrow> real \<Rightarrow> real \<Rightarrow> trail_point \<Rightarrow> trails \<Rightarrow> trails" where
  "append_server catById nowMs serverTimeMs p ts =
     (let t = map_of ts (ObjKey (tp_id p));
          c = (case catById (tp_id p) of Some k \<Rightarrow> Some k
               | None \<Rightarrow> (case t of Some tr \<Rightarrow> trail_cat tr | None \<Rightarrow> None))
      in case c of
          None \<Rightarrow> ts
        | Some k \<Rightarrow>
            if map_of CAT k = None then ts
            else let tMs = nowMs - (serverTimeMs - tp_t p * 1000)
              in if (\<exists>tr. t = Some tr \<and> samples tr \<noteq> [] \<and> tMs \<le> s_t (last (samples tr))) then ts
                 else let tr = (case t of Some tr \<Rightarrow> tr | None \<Rightarrow> new_trail (Some k))
                   in AList.update (ObjKey (tp_id p))
                        (tr\<lparr>trail_cat := Some k, server := True,
                            samples := push_capped SERVER_TRAIL_CAP
                              \<lparr>s_t = tMs, s_pos = worldFromMeters (tp_pos p)\<rparr> (samples tr)\<rparr>) ts)"

definition append_object :: "real \<Rightarrow> tracked \<Rightarrow> trails \<Rightarrow> trails" where
  "append_object nowMs b ts =
     (if map_of CAT (cat b) = None then ts
      else let existing = map_of ts (ObjKey (obj_id b))
        in if (\<exists>tr. existing = Some tr \<and> server tr) then ts
           else let tr = (case existing of Some tr \<Rightarrow> tr | None \<Rightarrow> new_trail (Some (cat b)))
             in AList.update (ObjKey (obj_id b))
                  (tr\<lparr>trail_cat := Some (cat b),
                      samples := push_capped TRAIL_CAP
                        \<lparr>s_t = nowMs, s_pos = worldFromMeters (obj_pos b)\<rparr> (samples tr)\<rparr>) ts)"

definition append_satellite :: "real \<Rightarrow> sat_state \<Rightarrow> trails \<Rightarrow> trails" where
  "append_satellite nowMs s ts =
     (let key = SatKey (sat_id s);
          tr = (case map_of ts key of Some tr \<Rightarrow> tr | None \<Rightarrow> new_trail None)
      in AList.update key
           (tr\<lparr>samples := push_capped TRAIL_CAP
              \<lparr>s_t = nowMs, s_pos = worldFromMeters (sat_pos s)\<rparr> (samples tr)\<rparr>) ts)"

definition stale_trail :: "real \<Rightarrow> trail \<Rightarrow> bool" where
  "stale_trail nowMs tr \<longleftrightarrow> samples tr = [] \<or> nowMs - s_t (last (samples tr)) > 65000"

definition appendTrails :: "(string \<Rightarrow> real option) \<Rightarrow> snapshot option \<Rightarrow> real \<Rightarrow> trails \<Rightarrow> trails" where
  "appendTrails date_parse snap nowMs ts =
     (let ts' = (case snap of
            None \<Rightarrow> ts
          | Some sn \<Rightarrow>
              let catById = cat_by_id (snap_objects sn);
                  serverTimeMs = (case snap_serverTime sn of
                      None \<Rightarrow> None
                    | Some st \<Rightarrow> if st = [] then None else date_parse st);
                  ts1 = (case serverTimeMs of
                      None \<Rightarrow> ts
                    | Some stm \<Rightarrow> fold (append_server catById nowMs stm) (snap_trailPoints sn) ts);
                  ts2 = fold (append_object nowMs) (snap_objects sn) ts1
              in (case snap_satellite sn of None \<Rightarrow> ts2 | Some s \<Rightarrow> append_satellite nowMs s ts2))
      in filter (\<lambda>(k, tr). \<not> stale_trail nowMs tr) ts')"

section \<open>The trail buffer\<close>

definition trailColorFor :: "string option \<Rightarrow> rgb" where
  "trailColorFor c = (case c of
      None \<Rightarrow> SAT_COLOR
    | Some k \<Rightarrow> (case map_of CAT k of Some d \<Rightarrow> cat_color d | None \<Rightarrow> (1, 1, 1)))"

record trail_vertex =
  v_pos :: vec3
  v_color :: rgb
  v_alpha :: real

text \<open>A pair of consecutive samples is drawn unless the newer one is too old or they coincide.\<close>

definition seg_drawn :: "real \<Rightarrow> real \<Rightarrow> sample \<Rightarrow> sample \<Rightarrow> bool" where
  "seg_drawn ref secs a b \<longleftrightarrow>
     \<not> (ref - s_t b) / 1000 > secs \<and>
     \<not> (case (s_pos a, s_pos b) of ((ax, ay, az), (bx, by', bz)) \<Rightarrow>
          (bx - ax) * (bx - ax) + (by' - ay) * (by' - ay) + (bz - az) * (bz - az) < 1 / 10 ^ 8)"

definition clamp01 :: "real \<Rightarrow> real" where
  "clamp01 a = (if a < 0 then 0 else if a > 1 then 1 else a)"

definition trail_shown :: "r_settings \<Rightarrow> trail_key \<times> trail \<Rightarrow> bool" where
  "trail_shown s kt = (case kt of (k, tr) \<Rightarrow>
     \<not> (r_viewMode s = Sat \<and> (\<exists>i. k = SatKey i)) \<and> catVisible s (trail_cat tr))"

text \<open>First pass: how many segments.\<close>

fun count_segments :: "real \<Rightarrow> real \<Rightarrow> sample list \<Rightarrow> nat" where
  "count_segments ref secs (a # b # s) =
     (if seg_drawn ref secs a b then 1 else 0) + count_segments ref secs (b # s)"
| "count_segments ref secs _ = 0"

definition total_segments :: "r_settings \<Rightarrow> real \<Rightarrow> real \<Rightarrow> trails \<Rightarrow> nat" where
  "total_segments s ref secs ts =
     sum_list (map (\<lambda>kt. if trail_shown s kt then count_segments ref secs (samples (snd kt)) else 0) ts)"

text \<open>Second pass: two vertices per segment.\<close>

definition fade :: "real \<Rightarrow> real \<Rightarrow> sample \<Rightarrow> real" where
  "fade ref secs a = clamp01 (1 - (ref - s_t a) / 1000 / secs)"

fun segment_vertices :: "real \<Rightarrow> real \<Rightarrow> rgb \<Rightarrow> sample list \<Rightarrow> trail_vertex list" where
  "segment_vertices ref secs col (a # b # s) =
     (if seg_drawn ref secs a b then
        [\<lparr>v_pos = s_pos a, v_color = col, v_alpha = fade ref secs a\<rparr>,
         \<lparr>v_pos = s_pos b, v_color = col, v_alpha = fade ref secs b\<rparr>]
      else []) @ segment_vertices ref secs col (b # s)"
| "segment_vertices ref secs col _ = []"

definition trail_vertices :: "r_settings \<Rightarrow> real \<Rightarrow> real \<Rightarrow> trails \<Rightarrow> trail_vertex list" where
  "trail_vertices s ref secs ts =
     concat (map (\<lambda>kt. if trail_shown s kt
       then segment_vertices ref secs (trailColorFor (trail_cat (snd kt))) (samples (snd kt)) else []) ts)"

text \<open>The capacity of the array, doubled until the floats fit.\<close>

function grow :: "nat \<Rightarrow> nat \<Rightarrow> nat" where
  "grow cap needed = (if cap = 0 \<or> \<not> cap < needed then cap else grow (cap * 2) needed)"
  by pat_completeness auto
termination by (relation "measure (\<lambda>(cap, needed). needed - cap)") auto

declare grow.simps [simp del]

record trail_buffer =
  tb_capacity :: nat
  tb_vertCount :: nat
  tb_vertices :: "trail_vertex list"

definition rebuildTrailBuffer :: "r_settings \<Rightarrow> real \<Rightarrow> trails \<Rightarrow> trail_buffer \<Rightarrow> trail_buffer" where
  "rebuildTrailBuffer s lastSnapNow ts tb =
     (case r_trailSeconds s of
        Fin secs \<Rightarrow>
          if \<not> r_showTrails s \<or> \<not> secs > 0 then tb\<lparr>tb_vertCount := 0\<rparr>
          else let segCount = total_segments s lastSnapNow secs ts
            in if segCount = 0 then tb\<lparr>tb_vertCount := 0\<rparr>
               else let floatsNeeded = segCount * 2 * 7
                 in tb\<lparr>tb_capacity :=
                      (if tb_capacity tb < floatsNeeded then grow (tb_capacity tb) floatsNeeded
                       else tb_capacity tb),
                    tb_vertCount := segCount * 2,
                    tb_vertices := trail_vertices s lastSnapNow secs ts\<rparr>
      | _ \<Rightarrow> tb\<lparr>tb_vertCount := 0\<rparr>)"

end
