(* ===== verification/Cameras.thy ===== *)
theory Cameras
  imports Math3 Transition
begin

text \<open>
  frontend/js/camera.js and frontend/js/sat_camera.js: the orbit camera as a machine of pointer
  and wheel events, the view from the satellite, and the equidistant fisheye projection
  with its GLSL twin (\<open>FISHEYE_GLSL\<close> of frontend/js/renderer.js).  The lemmas show that both
  views are rigid motions that are never degenerate, and that the two projections agree.
\<close>

section \<open>The orbit camera\<close>

definition DEG :: real where "DEG = pi / 180"

definition PITCH_LIMIT :: real where "PITCH_LIMIT = 89 * DEG"

record camera_options =
  opt_target :: "vec3 option"
  opt_minDistance :: "real option"
  opt_maxDistance :: "real option"
  opt_rotateSpeed :: "real option"
  opt_zoomSpeed :: "real option"
  opt_yaw :: "real option"
  opt_pitch :: "real option"
  opt_distance :: "real option"

record camera =
  cam_target :: vec3
  minD :: real
  maxD :: real
  rotSpeed :: real
  zoomSpeed :: real
  yaw :: real
  pitch :: real
  distance :: real
  o_dragging :: bool
  lastX :: real
  lastY :: real
  activePointer :: "int option"

definition or_else :: "'a option \<Rightarrow> 'a \<Rightarrow> 'a" where
  "or_else v d = (case v of Some x \<Rightarrow> x | None \<Rightarrow> d)"

definition clampDist :: "real \<Rightarrow> real \<Rightarrow> real \<Rightarrow> real" where
  "clampDist lo hi d = max lo (min hi d)"

definition clampPitch :: "real \<Rightarrow> real" where
  "clampPitch p = max (- PITCH_LIMIT) (min PITCH_LIMIT p)"

definition createCamera :: "camera_options \<Rightarrow> camera" where
  "createCamera opts =
     (let lo = or_else (opt_minDistance opts) 8; hi = or_else (opt_maxDistance opts) 200
      in \<lparr>cam_target = or_else (opt_target opts) (0, 0, 0), minD = lo, maxD = hi,
          rotSpeed = or_else (opt_rotateSpeed opts) (5 / 1000),
          zoomSpeed = or_else (opt_zoomSpeed opts) (15 / 10000),
          yaw = or_else (opt_yaw opts) 0, pitch = or_else (opt_pitch opts) (20 * DEG),
          distance = clampDist lo hi (or_else (opt_distance opts) 25),
          o_dragging = False, lastX = 0, lastY = 0, activePointer = None\<rparr>)"

definition onDown :: "real \<Rightarrow> real \<Rightarrow> int \<Rightarrow> camera \<Rightarrow> camera" where
  "onDown x y pid c = c\<lparr>o_dragging := True, lastX := x, lastY := y, activePointer := Some pid\<rparr>"

definition onMove :: "real \<Rightarrow> real \<Rightarrow> camera \<Rightarrow> camera" where
  "onMove x y c =
     (if \<not> o_dragging c then c
      else let dx = x - lastX c; dy = y - lastY c
           in c\<lparr>lastX := x, lastY := y, yaw := yaw c - dx * rotSpeed c,
                pitch := clampPitch (pitch c + dy * rotSpeed c)\<rparr>)"

definition onUp :: "camera \<Rightarrow> camera" where
  "onUp c = c\<lparr>o_dragging := False, activePointer := None\<rparr>"

definition onWheel :: "real \<Rightarrow> camera \<Rightarrow> camera" where
  "onWheel deltaY c =
     c\<lparr>distance := clampDist (minD c) (maxD c) (distance c * exp (deltaY * zoomSpeed c))\<rparr>"

definition setDistance :: "real \<Rightarrow> camera \<Rightarrow> camera" where
  "setDistance d c = c\<lparr>distance := clampDist (minD c) (maxD c) d\<rparr>"

definition getEye :: "camera \<Rightarrow> vec3" where
  "getEye c =
     (case cam_target c of (tx, ty, tz) \<Rightarrow>
       (tx + distance c * cos (pitch c) * cos (yaw c),
        ty + distance c * cos (pitch c) * sin (yaw c),
        tz + distance c * sin (pitch c)))"

definition getViewMatrix :: "camera \<Rightarrow> mat4" where
  "getViewMatrix c = lookAt (getEye c) (cam_target c) (0, 0, 1)"

datatype camera_event =
    CamDown real real int
  | CamMove real real
  | CamUp
  | CamWheel real
  | CamSetDistance real

text \<open>The listeners a camera adds to its element, which \<open>dispose\<close> removes again.\<close>

datatype camera_handler = HandleDown | HandleMove | HandleUp | HandleWheel

definition camera_listeners :: "(string \<times> camera_handler) list" where
  "camera_listeners = [(''pointerdown'', HandleDown), (''pointermove'', HandleMove), (''pointerup'', HandleUp),
     (''pointercancel'', HandleUp), (''wheel'', HandleWheel)]"

definition dispose :: "(string \<times> camera_handler) list \<Rightarrow> (string \<times> camera_handler) list" where
  "dispose = fold remove1 [(''pointerdown'', HandleDown), (''pointermove'', HandleMove), (''pointerup'', HandleUp),
     (''pointercancel'', HandleUp), (''wheel'', HandleWheel)]"

lemma dispose_removes: "set ls \<inter> set camera_listeners = {} \<Longrightarrow> dispose (ls @ camera_listeners) = ls"
  by (auto simp: dispose_def camera_listeners_def remove1_append)

inductive camera_step :: "camera \<Rightarrow> camera_event \<Rightarrow> camera \<Rightarrow> bool" where
  cam_down: "camera_step c (CamDown x y pid) (onDown x y pid c)"
| cam_move: "camera_step c (CamMove x y) (onMove x y c)"
| cam_up: "camera_step c CamUp (onUp c)"
| cam_wheel: "camera_step c (CamWheel dy) (onWheel dy c)"
| cam_distance: "camera_step c (CamSetDistance d) (setDistance d c)"

inductive_cases camera_stepE: "camera_step c e c'"

text \<open>A camera made with sensible options: a positive range of distances and no initial pitch
  beyond the limit.\<close>

definition options_ok :: "camera_options \<Rightarrow> bool" where
  "options_ok opts \<longleftrightarrow>
     0 < or_else (opt_minDistance opts) 8 \<and>
     or_else (opt_minDistance opts) 8 \<le> or_else (opt_maxDistance opts) 200 \<and>
     \<bar>or_else (opt_pitch opts) (20 * DEG)\<bar> \<le> PITCH_LIMIT"

definition camera_start :: "camera \<Rightarrow> bool" where
  "camera_start c \<longleftrightarrow> (\<exists>opts. options_ok opts \<and> c = createCamera opts)"

definition camera_inv :: "camera \<Rightarrow> bool" where
  "camera_inv c \<longleftrightarrow> 0 < minD c \<and> minD c \<le> maxD c \<and> minD c \<le> distance c \<and> distance c \<le> maxD c \<and>
     \<bar>pitch c\<bar> \<le> PITCH_LIMIT"

lemma PITCH_LIMIT_bounds: "0 < PITCH_LIMIT" "PITCH_LIMIT < pi / 2"
  by (simp_all add: PITCH_LIMIT_def DEG_def)

lemma clampPitch_range [simp]: "\<bar>clampPitch p\<bar> \<le> PITCH_LIMIT"
  using PITCH_LIMIT_bounds(1) by (auto simp: clampPitch_def)

interpretation orbit_camera: stepper camera_start camera_step camera_inv
proof unfold_locales
  fix c assume "camera_start c"
  then show "camera_inv c"
    by (auto simp: camera_start_def options_ok_def createCamera_def camera_inv_def clampDist_def Let_def)
next
  fix c e c' assume "camera_inv c" "camera_step c e c'"
  then show "camera_inv c'"
    by (auto elim!: camera_stepE simp: camera_inv_def onDown_def onMove_def onUp_def onWheel_def
        setDistance_def clampDist_def Let_def)
qed

lemma eye_distance:
  assumes "0 \<le> distance c"
  shows "vdist (getEye c) (cam_target c) = distance c"
proof -
  obtain tx ty tz where t: "cam_target c = (tx, ty, tz)" by (cases "cam_target c")
  let ?a = "distance c * cos (pitch c) * cos (yaw c)" and ?b = "distance c * cos (pitch c) * sin (yaw c)"
    and ?c = "distance c * sin (pitch c)"
  have sq: "?a\<^sup>2 + ?b\<^sup>2 + ?c\<^sup>2 =
      (distance c)\<^sup>2 * ((cos (pitch c))\<^sup>2 * ((cos (yaw c))\<^sup>2 + (sin (yaw c))\<^sup>2) + (sin (pitch c))\<^sup>2)"
    by (simp only: power_mult_distrib distrib_left mult.assoc)
  have "vdist (getEye c) (cam_target c) = sqrt (?a\<^sup>2 + ?b\<^sup>2 + ?c\<^sup>2)"
    by (simp only: vdist_def getEye_def t vsub_def vlen_def hypot3_def prod.case add_diff_cancel_left')
  also have "\<dots> = distance c"
    unfolding sq using assms by (simp only: sin_cos_squared_add2 mult_1_right real_sqrt_abs abs_of_nonneg)
  finally show ?thesis .
qed

lemma orbit_view_ok:
  assumes "camera_inv c"
  shows "view_ok (getEye c) (cam_target c) (0, 0, 1)"
proof -
  obtain tx ty tz where t: "cam_target c = (tx, ty, tz)" by (cases "cam_target c")
  have d: "0 < distance c" using assms by (simp add: camera_inv_def)
  have "- (pi / 2) < pitch c" "pitch c < pi / 2"
    using assms PITCH_LIMIT_bounds by (auto simp: camera_inv_def)
  then have cp: "0 < cos (pitch c)" by (rule cos_gt_zero_pi)
  have dist: "vdist (getEye c) (cam_target c) = distance c" using d by (simp add: eye_distance)
  have ne: "getEye c \<noteq> cam_target c"
  proof
    assume "getEye c = cam_target c"
    then have "vdist (getEye c) (cam_target c) = 0" by (simp add: vdist_def vsub_def t)
    with dist d show False by simp
  qed
  have "vlen (vsub (getEye c) (cam_target c)) = distance c" using dist by (simp add: vdist_def)
  with d have "cam_z (getEye c) (cam_target c) =
      (cos (pitch c) * cos (yaw c), cos (pitch c) * sin (yaw c), sin (pitch c))"
    by (simp add: cam_z_def vnormalize_eq) (simp add: vscale_def vsub_def getEye_def t)
  then have "cross (0, 0, 1) (cam_z (getEye c) (cam_target c)) =
      (- (cos (pitch c) * sin (yaw c)), cos (pitch c) * cos (yaw c), 0)"
    by (simp add: cross_def)
  moreover have "\<not> (sin (yaw c) = 0 \<and> cos (yaw c) = 0)"
    using sin_zero_abs_cos_one [of "yaw c"] by auto
  ultimately show ?thesis using ne cp by (auto simp: view_ok_def)
qed

text \<open>While a pointer is down, the yaw depends only on where the drag started and is now.\<close>

lemma drag_lastX:
  "o_dragging c \<Longrightarrow> lastX (fold (\<lambda>(x, y). onMove x y) moves c) =
     (if moves = [] then lastX c else fst (last moves))"
proof (induction moves arbitrary: c)
  case (Cons p moves)
  obtain x y where p: "p = (x, y)" by force
  have "o_dragging (onMove x y c)" "lastX (onMove x y c) = x"
    using Cons.prems by (simp_all add: onMove_def Let_def)
  with Cons.IH [of "onMove x y c"] show ?case by (simp add: p)
qed simp

lemma drag_yaw:
  "o_dragging c \<Longrightarrow> yaw (fold (\<lambda>(x, y). onMove x y) moves c) =
     yaw c - (lastX (fold (\<lambda>(x, y). onMove x y) moves c) - lastX c) * rotSpeed c"
proof (induction moves arbitrary: c)
  case (Cons p moves)
  obtain x y where p: "p = (x, y)" by force
  have "o_dragging (onMove x y c)" "rotSpeed (onMove x y c) = rotSpeed c" "lastX (onMove x y c) = x"
    "yaw (onMove x y c) = yaw c - (x - lastX c) * rotSpeed c"
    using Cons.prems by (simp_all add: onMove_def Let_def)
  with Cons.IH [of "onMove x y c"] show ?case by (simp add: p algebra_simps)
qed simp

section \<open>The satellite camera\<close>

definition SAT_FOV_DEG :: real where "SAT_FOV_DEG = 170"
definition SAT_NEAR :: real where "SAT_NEAR = 5 / 100"
definition SAT_FAR :: real where "SAT_FAR = 1000"

definition clamp :: "real \<Rightarrow> real \<Rightarrow> real \<Rightarrow> real" where
  "clamp x lo hi = max lo (min hi x)"

definition perp :: "vec3 \<Rightarrow> vec3 \<Rightarrow> vec3" where
  "perp v f = vsub v (vscale f (dot v f))"

definition sat_up :: "vec3 \<Rightarrow> vec3 option \<Rightarrow> vec3" where
  "sat_up f velUnits =
     (let up0 = (case velUnits of Some v \<Rightarrow> perp v f | None \<Rightarrow> (0, 0, 0));
          up1 = (if vlen up0 < 1 / 10 ^ 6 then perp (0, 0, 1) f else up0);
          up2 = (if vlen up1 < 1 / 10 ^ 6 then perp (1, 0, 0) f else up1)
      in vnormalize up2)"

definition satViewMatrix :: "vec3 option \<Rightarrow> vec3 option \<Rightarrow> mat4 option" where
  "satViewMatrix posUnits velUnits =
     (case posUnits of
        None \<Rightarrow> None
      | Some eye \<Rightarrow>
          if \<not> 1 / 10 ^ 9 \<le> vlen eye then None
          else let f = vnormalize (vscale eye (- 1))
               in Some (lookAt eye (0, 0, 0) (sat_up f velUnits)))"

record ndc =
  ndc_x :: real
  ndc_y :: real
  ndc_depth :: real
  ndc_theta :: real

definition fisheyeProjectNdc :: "mat4 \<Rightarrow> vec3 \<Rightarrow> real \<Rightarrow> real \<Rightarrow> ndc option" where
  "fisheyeProjectNdc viewMatrix worldPoint aspect fovDeg =
     (let thetaMax = fovDeg / 2 * DEG;
          v = view_xyz (transform viewMatrix worldPoint);
          rho = vlen v
      in if rho < 1 / 10 ^ 9 then None
         else case vscale v (1 / rho) of (dx, dy, dz) \<Rightarrow>
           let theta = arccos (clamp (- dz) (- 1) 1);
               depth = clamp ((rho - SAT_NEAR) / (SAT_FAR - SAT_NEAR)) 0 1 * 2 - 1;
               pLen = hypot3 dx dy 0
           in if pLen < 1 / 10 ^ 6 then
                if theta > pi / 2 then None
                else Some \<lparr>ndc_x = 0, ndc_y = 0, ndc_depth = depth, ndc_theta = theta\<rparr>
              else let r = theta / thetaMax
                   in Some \<lparr>ndc_x = r * (dx / pLen) / aspect, ndc_y = r * (dy / pLen),
                        ndc_depth = depth, ndc_theta = theta\<rparr>)"

text \<open>The GLSL function, its literal \<open>1.5707963\<close> included.\<close>

definition fisheyePosition :: "vec4 \<Rightarrow> real \<Rightarrow> real \<Rightarrow> real \<times> real \<Rightarrow> vec4" where
  "fisheyePosition viewPos thetaMax aspect depthRange =
     (let v = view_xyz viewPos; rho = vlen v
      in if rho < 1 / 10 ^ 9 then (0, 0, - 3, 1)
         else case (v, depthRange) of ((vx, vy, vz), (near, far)) \<Rightarrow>
           let dx = vx / rho; dy = vy / rho; dz = vz / rho;
               theta = arccos (clamp (- dz) (- 1) 1);
               depth = clamp ((rho - near) / (far - near)) 0 1 * 2 - 1;
               pLen = sqrt (dx\<^sup>2 + dy\<^sup>2)
           in if pLen < 1 / 10 ^ 6 then
                if theta > 15707963 / 10000000 then (0, 0, - 3, 1) else (0, 0, depth, 1)
              else let r = theta / thetaMax
                   in (r * (dx / pLen) / aspect, r * (dy / pLen), depth, 1))"

section \<open>The view from the satellite\<close>

lemma perp_sq: "dot f f = 1 \<Longrightarrow> dot (perp v f) (perp v f) = dot v v - (dot v f)\<^sup>2"
  by (simp add: perp_def dot_vsub dot_commute [of "vsub _ _"] dot_scale dot_commute [of f v]
      power2_eq_square)

lemma perp_dot: "dot f f = 1 \<Longrightarrow> dot (perp v f) f = 0"
  by (simp add: perp_def dot_vsub dot_commute [of "vsub _ _"] dot_scale dot_commute [of f v])

text \<open>Of north and +X at least one is far from the line of sight.\<close>

lemma fallback_long:
  assumes f: "dot f f = 1" and north: "vlen (perp (0, 0, 1) f) < 1 / 10 ^ 6"
  shows "1 / 10 ^ 6 \<le> vlen (perp (1, 0, 0) f)"
proof -
  obtain fx fy fz where fd: "f = (fx, fy, fz)" by (cases f)
  have "(vlen (perp (0, 0, 1) f))\<^sup>2 = 1 - fz\<^sup>2" "(vlen (perp (1, 0, 0) f))\<^sup>2 = 1 - fx\<^sup>2"
    by (simp_all add: vlen_sq perp_sq [OF f]) (simp_all add: dot_def fd)
  moreover have "(vlen (perp (0, 0, 1) f))\<^sup>2 < (1 / 10 ^ 6)\<^sup>2"
    using north by (intro power_strict_mono) simp_all
  moreover have "fx\<^sup>2 + fy\<^sup>2 + fz\<^sup>2 = 1" using f by (simp add: dot_def fd power2_eq_square)
  moreover have "((1 :: real) / 10 ^ 6)\<^sup>2 = 1 / 1000000000000" by (simp add: power_divide)
  ultimately have "(1 / 10 ^ 6)\<^sup>2 \<le> (vlen (perp (1, 0, 0) f))\<^sup>2"
    using zero_le_power2 [of fy] by linarith
  then show ?thesis by (rule power2_le_imp_le) simp
qed

lemma sat_up_unit:
  assumes f: "dot f f = 1"
  shows "dot (sat_up f vel) (sat_up f vel) = 1 \<and> dot (sat_up f vel) f = 0"
proof -
  define up0 where "up0 = (case vel of Some v \<Rightarrow> perp v f | None \<Rightarrow> (0, 0, 0))"
  define up1 where "up1 = (if vlen up0 < 1 / 10 ^ 6 then perp (0, 0, 1) f else up0)"
  define up2 where "up2 = (if vlen up1 < 1 / 10 ^ 6 then perp (1, 0, 0) f else up1)"
  have up: "sat_up f vel = vnormalize up2"
    by (simp only: sat_up_def Let_def up0_def up1_def up2_def)
  have up0: "dot up0 f = 0"
    by (cases vel) (simp_all add: up0_def perp_dot [OF f], simp add: dot_def split: prod.split)
  have "1 / 10 ^ 6 \<le> vlen up2"
    using fallback_long [OF f] by (auto simp: up2_def up1_def not_less)
  then have l: "vlen up2 \<noteq> 0" by (smt (verit) divide_pos_pos zero_less_power)
  have "dot up2 f = 0" using up0 by (simp add: up2_def up1_def perp_dot [OF f])
  then have "dot (vnormalize up2) f = 0" unfolding vnormalize_eq [OF l] by (simp add: dot_scale)
  with l show ?thesis by (simp add: up vlen_one_sq vlen_vnormalize del: vlen_eq_0)
qed

lemma satViewMatrix_None: "satViewMatrix (Some p) v = None \<longleftrightarrow> vlen p < 1 / 10 ^ 9"
  by (simp add: satViewMatrix_def Let_def not_le)

lemma satViewMatrix_view:
  assumes "satViewMatrix (Some p) v = Some m"
  obtains up where "m = lookAt p (0, 0, 0) up" and "view_ok p (0, 0, 0) up"
    and "1 / 10 ^ 9 \<le> vlen p"
proof -
  define f where "f = vnormalize (vscale p (- 1))"
  from assms have m: "m = lookAt p (0, 0, 0) (sat_up f v)" and p: "1 / 10 ^ 9 \<le> vlen p"
    by (auto simp: satViewMatrix_def f_def Let_def split: if_splits)
  have l: "vlen p \<noteq> 0" using p by (smt (verit) divide_pos_pos zero_less_power)
  then have l': "vlen (vscale p (- 1)) \<noteq> 0" by (simp add: vlen_scale del: vlen_eq_0)
  have f: "dot f f = 1" unfolding f_def by (intro vlen_one_sq vlen_vnormalize l')
  have z: "cam_z p (0, 0, 0) = vscale f (- 1)"
  proof -
    have "vsub p (0, 0, 0) = p" by (cases p) (simp add: vsub_def)
    then show ?thesis using l l'
      by (simp add: cam_z_def f_def vnormalize_eq vlen_scale del: vlen_eq_0)
        (cases p, simp add: vscale_def)
  qed
  have "dot (cross (sat_up f v) (vscale f (- 1))) (cross (sat_up f v) (vscale f (- 1))) = 1"
    unfolding lagrange using sat_up_unit [OF f, of v] f by (simp add: dot_scale)
  then have "cross (sat_up f v) (cam_z p (0, 0, 0)) \<noteq> (0, 0, 0)"
    unfolding z by (auto simp: dot_def)
  moreover have "p \<noteq> (0, 0, 0)" using l by auto
  ultimately show ?thesis using that m p by (simp add: view_ok_def)
qed

text \<open>The centre of the Earth is straight ahead.\<close>

lemma lookAt_center:
  assumes "view_ok eye center up"
  shows "view_xyz (transform (lookAt eye center up) center) = (0, 0, - vdist eye center)"
proof -
  let ?z = "cam_z eye center"
  have l: "vlen (vsub eye center) \<noteq> 0"
    using assms by (cases eye; cases center) (auto simp: view_ok_def vsub_def)
  have "vsub center eye = vscale ?z (- vdist eye center)"
    unfolding cam_z_def vnormalize_eq [OF l] using l
    by (cases eye; cases center) (simp add: vdist_def vscale_def vsub_def)
  then show ?thesis
    using cam_axes(3,4) [OF assms]
    by (simp add: lookAt_axes [OF assms] view_xyz_def dot_scale cam_y_def dot_cross_self
        dot_commute [of "cross _ _"])
qed

section \<open>The fisheye projection\<close>

lemma clamp_range: "lo \<le> hi \<Longrightarrow> lo \<le> clamp x lo hi \<and> clamp x lo hi \<le> hi"
  by (simp add: clamp_def)

lemma hypot2_sq: "(hypot3 x y 0)\<^sup>2 = x\<^sup>2 + y\<^sup>2"
  by (simp add: hypot3_sq)

text \<open>A unit direction close to the axis is close to angle 0 or to angle \<open>pi\<close>.\<close>

lemma near_axis:
  assumes "dx\<^sup>2 + dy\<^sup>2 + dz\<^sup>2 = 1" and "hypot3 dx dy 0 < 1 / 10 ^ 6"
  shows "(0 < dz \<longrightarrow> 5 * pi / 6 < arccos (clamp (- dz) (- 1) 1)) \<and>
    (\<not> 0 < dz \<longrightarrow> arccos (clamp (- dz) (- 1) 1) < pi / 6)"
proof -
  have "(hypot3 dx dy 0)\<^sup>2 < (1 / 10 ^ 6)\<^sup>2" using assms(2) by (intro power_strict_mono) simp_all
  moreover have "((1 :: real) / 10 ^ 6)\<^sup>2 = 1 / 1000000000000" by (simp add: power_divide)
  ultimately have "(9 / 10)\<^sup>2 < dz\<^sup>2"
    using assms(1) hypot2_sq [of dx dy] by (simp add: power_divide)
  then have "(9 / 10)\<^sup>2 < \<bar>dz\<bar>\<^sup>2" by simp
  then have big: "9 / 10 < \<bar>dz\<bar>" by (rule power_less_imp_less_base) simp
  have "dz\<^sup>2 \<le> 1" using assms(1) zero_le_power2 [of dx] zero_le_power2 [of dy] by linarith
  then have le: "\<bar>dz\<bar> \<le> 1" by (simp add: abs_square_le_1)
  then have cl: "clamp (- dz) (- 1) 1 = - dz" by (auto simp: clamp_def)
  have "sqrt 3 < 18 / 10" by (rule real_less_lsqrt) (simp_all add: power_divide)
  then have c30: "cos (pi / 6) < 9 / 10" by (simp add: cos_30)
  have "cos (5 * pi / 6) = cos (pi - pi / 6)" by (rule arg_cong [of _ _ cos]) simp
  also have "\<dots> = - cos (pi / 6)" by (rule cos_pi_minus)
  finally have "cos (5 * pi / 6) = - cos (pi / 6)" .
  with c30 have c150: "- (9 / 10) < cos (5 * pi / 6)" by linarith
  have a: "arccos (cos (5 * pi / 6)) = 5 * pi / 6" "arccos (cos (pi / 6)) = pi / 6"
    by (simp_all add: arccos_cos)
  show ?thesis unfolding cl
  proof (intro conjI impI)
    assume "0 < dz"
    then have "arccos (cos (5 * pi / 6)) < arccos (- dz)"
      using big le c150 by (subst arccos_less_mono) auto
    then show "5 * pi / 6 < arccos (- dz)" by (simp add: a)
  next
    assume "\<not> 0 < dz"
    then have "arccos (- dz) < arccos (cos (pi / 6))"
      using big le c30 by (subst arccos_less_mono) auto
    then show "arccos (- dz) < pi / 6" by (simp add: a)
  qed
qed

text \<open>The unit direction of a point that is not at the eye.\<close>

lemma direction_unit:
  assumes "vlen v \<noteq> 0" and "vscale v (1 / vlen v) = (dx, dy, dz)"
  shows "dx\<^sup>2 + dy\<^sup>2 + dz\<^sup>2 = 1"
proof -
  have "vlen (vscale v (1 / vlen v)) = 1"
    using assms(1) vlen_ge_0 [of v] by (simp add: vlen_scale del: vlen_eq_0)
  then have "dot (dx, dy, dz) (dx, dy, dz) = 1" unfolding assms(2) by (rule vlen_one_sq)
  then show ?thesis by (simp add: dot_def power2_eq_square)
qed

text \<open>The GLSL function and its CPU mirror agree on every point.\<close>

lemma fisheye_agree:
  "fisheyePosition (transform m p) (fov / 2 * DEG) aspect (SAT_NEAR, SAT_FAR) =
     (case fisheyeProjectNdc m p aspect fov of
        None \<Rightarrow> (0, 0, - 3, 1)
      | Some q \<Rightarrow> (ndc_x q, ndc_y q, ndc_depth q, 1))"
proof -
  obtain vx vy vz where v: "view_xyz (transform m p) = (vx, vy, vz)" by (cases "view_xyz (transform m p)")
  let ?rho = "vlen (vx, vy, vz)"
  show ?thesis
  proof (cases "?rho < 1 / 10 ^ 9")
    case True
    then show ?thesis by (simp add: fisheyePosition_def fisheyeProjectNdc_def v Let_def)
  next
    case False
    then have rho: "?rho \<noteq> 0" by (smt (verit) divide_pos_pos zero_less_power)
    let ?dx = "vx / ?rho" and ?dy = "vy / ?rho" and ?dz = "vz / ?rho"
    have dir: "vscale (vx, vy, vz) (1 / ?rho) = (?dx, ?dy, ?dz)" by (simp add: vscale_def)
    have unit: "?dx\<^sup>2 + ?dy\<^sup>2 + ?dz\<^sup>2 = 1" by (rule direction_unit [OF rho dir])
    have plen: "hypot3 ?dx ?dy 0 = sqrt (?dx\<^sup>2 + ?dy\<^sup>2)" by (simp add: hypot3_def)
    let ?th = "arccos (clamp (- ?dz) (- 1) 1)"
    have side: "pi / 2 < ?th \<longleftrightarrow> 15707963 / 10000000 < ?th" if "hypot3 ?dx ?dy 0 < 1 / 10 ^ 6"
      using near_axis [OF unit that] pi_ge_two pi_less_4 by (cases "0 < ?dz") auto
    show ?thesis
    proof (cases "hypot3 ?dx ?dy 0 < 1 / 10 ^ 6")
      case True
      then show ?thesis using False side [OF True]
        by (simp add: fisheyePosition_def fisheyeProjectNdc_def v dir Let_def flip: plen)
    next
      case far: False
      then show ?thesis using False
        by (simp add: fisheyePosition_def fisheyeProjectNdc_def v dir Let_def flip: plen)
    qed
  qed
qed

lemma fisheye_range:
  assumes "fisheyeProjectNdc m p aspect fov = Some q" and "aspect \<noteq> 0"
  shows "0 \<le> ndc_theta q \<and> ndc_theta q \<le> pi \<and> - 1 \<le> ndc_depth q \<and> ndc_depth q \<le> 1 \<and>
    ((ndc_x q * aspect)\<^sup>2 + (ndc_y q)\<^sup>2 = (ndc_theta q / (fov / 2 * DEG))\<^sup>2 \<or>
     ndc_x q = 0 \<and> ndc_y q = 0 \<and> ndc_theta q < pi / 6)"
proof -
  define v where "v = view_xyz (transform m p)"
  have "\<not> vlen v < 1 / 10 ^ 9"
    using assms(1) by (auto simp: fisheyeProjectNdc_def v_def Let_def split: if_splits)
  then have rho: "vlen v \<noteq> 0" by (smt (verit) divide_pos_pos zero_less_power)
  obtain dx dy dz where dir: "vscale v (1 / vlen v) = (dx, dy, dz)" by (cases "vscale v (1 / vlen v)")
  have unit: "dx\<^sup>2 + dy\<^sup>2 + dz\<^sup>2 = 1" by (rule direction_unit [OF rho dir])
  define th where "th = arccos (clamp (- dz) (- 1) 1)"
  define l where "l = hypot3 dx dy 0"
  define dep where "dep = clamp ((vlen v - SAT_NEAR) / (SAT_FAR - SAT_NEAR)) 0 1 * 2 - 1"
  have th: "0 \<le> th" "th \<le> pi"
    using clamp_range [of "- 1" 1 "- dz"] by (simp_all add: th_def arccos_lbound arccos_ubound)
  have dep: "- 1 \<le> dep" "dep \<le> 1"
    using clamp_range [of 0 1 "(vlen v - SAT_NEAR) / (SAT_FAR - SAT_NEAR)"] by (simp_all add: dep_def)
  have q: "if l < 1 / 10 ^ 6 then th \<le> pi / 2 \<and> q = \<lparr>ndc_x = 0, ndc_y = 0, ndc_depth = dep, ndc_theta = th\<rparr>
     else q = \<lparr>ndc_x = th / (fov / 2 * DEG) * (dx / l) / aspect, ndc_y = th / (fov / 2 * DEG) * (dy / l),
        ndc_depth = dep, ndc_theta = th\<rparr>"
    using assms(1) unfolding fisheyeProjectNdc_def v_def [symmetric] Let_def dir prod.case
      th_def [symmetric] l_def [symmetric] dep_def [symmetric]
    by (auto split: if_splits)
  show ?thesis
  proof (cases "l < 1 / 10 ^ 6")
    case True
    with near_axis [OF unit] have "0 < dz \<longrightarrow> 5 * pi / 6 < th" "\<not> 0 < dz \<longrightarrow> th < pi / 6"
      by (simp_all add: l_def th_def)
    with True q th dep show ?thesis by (cases "0 < dz") auto
  next
    case False
    have "l \<noteq> 0" using False by (smt (verit) divide_pos_pos zero_less_power)
    have "(dx / l)\<^sup>2 + (dy / l)\<^sup>2 = (dx\<^sup>2 + dy\<^sup>2) / l\<^sup>2" by (simp add: power_divide add_divide_distrib)
    also have "\<dots> = 1" using \<open>l \<noteq> 0\<close> hypot2_sq [of dx dy] by (simp add: l_def)
    finally have one: "(dx / l)\<^sup>2 + (dy / l)\<^sup>2 = 1" .
    let ?k = "th / (fov / 2 * DEG)"
    have "(?k * (dx / l))\<^sup>2 + (?k * (dy / l))\<^sup>2 = ?k\<^sup>2 * ((dx / l)\<^sup>2 + (dy / l)\<^sup>2)"
      by (simp only: power_mult_distrib distrib_left)
    with one have "(?k * (dx / l))\<^sup>2 + (?k * (dy / l))\<^sup>2 = ?k\<^sup>2" by simp
    moreover have "q = \<lparr>ndc_x = ?k * (dx / l) / aspect, ndc_y = ?k * (dy / l), ndc_depth = dep, ndc_theta = th\<rparr>"
      using q False by simp
    moreover from this have "ndc_x q * aspect = ?k * (dx / l)" "ndc_y q = ?k * (dy / l)"
      using assms(2) by simp_all
    ultimately have "(ndc_x q * aspect)\<^sup>2 + (ndc_y q)\<^sup>2 = ?k\<^sup>2" by (simp only:)
    moreover have "ndc_theta q = th" "ndc_depth q = dep" using q False by simp_all
    ultimately show ?thesis using th dep by (simp only: simp_thms)
  qed
qed

section \<open>Properties\<close>

text \<open>The vertex shader's fisheye and the CPU mirror that picking and labels use put every point at the
  same place, for every view, aspect and field of view: the shader parks exactly the points the CPU
  reports as having no place.\<close>

theorem fisheye_matches_shader:
  "fisheyePosition (transform m p) (fov / 2 * DEG) aspect (SAT_NEAR, SAT_FAR) =
     (case fisheyeProjectNdc m p aspect fov of
        None \<Rightarrow> (0, 0, - 3, 1)
      | Some q \<Rightarrow> (ndc_x q, ndc_y q, ndc_depth q, 1))"
  by (rule fisheye_agree)

text \<open>For every satellite position and velocity, a missing, zero or radial velocity included, the
  satellite's view exists unless the satellite is at the centre of the Earth, and then it is a rigid
  motion with the centre of the Earth straight ahead.\<close>

theorem sat_view_total:
  "case satViewMatrix (Some p) vel of
     None \<Rightarrow> vlen p < 1 / 10 ^ 9
   | Some m \<Rightarrow> 1 / 10 ^ 9 \<le> vlen p \<and>
       vdist (view_xyz (transform m a)) (view_xyz (transform m b)) = vdist a b \<and>
       view_xyz (transform m (0, 0, 0)) = (0, 0, - vlen p)"
proof (cases "satViewMatrix (Some p) vel")
  case None
  then have "vlen p < 1 / 10 ^ 9" by (simp only: satViewMatrix_None)
  with None show ?thesis by (simp only: option.case)
next
  case (Some m)
  have "vsub p (0, 0, 0) = p" by (cases p) (simp add: vsub_def)
  with Some show ?thesis
    by (auto elim!: satViewMatrix_view simp: lookAt_isometry lookAt_center vdist_def [of p])
qed

text \<open>A drag turns the orbit camera by where the pointer is, not by how it got there: the yaw depends
  only on the distance from where it went down, the distance to the Earth does not change, and once
  it is released moves do nothing.\<close>

theorem drag_turns:
  "yaw (fold (\<lambda>(x, y). onMove x y) moves (onDown x0 y0 pid c)) =
     yaw c - ((if moves = [] then x0 else fst (last moves)) - x0) * rotSpeed c \<and>
   distance (fold (\<lambda>(x, y). onMove x y) moves (onDown x0 y0 pid c)) = distance c \<and>
   onMove x y (onUp c) = onUp c"
proof -
  have "distance (fold (\<lambda>(x, y). onMove x y) moves c') = distance c'" for c'
    by (induction moves arbitrary: c') (auto simp: onMove_def Let_def)
  then show ?thesis
    using drag_yaw [of "onDown x0 y0 pid c" moves] drag_lastX [of "onDown x0 y0 pid c" moves]
    by (simp add: onDown_def onUp_def) (simp add: onMove_def)
qed

end
