(* ===== verification/Sun.thy ===== *)
theory Sun
  imports Cameras Settings_Store
begin

text \<open>
  frontend/js/sun.js, and the conversions it shares with sky.js: angles wrapped to a turn, the
  polar form that \<open>Math.atan2\<close> and \<open>Math.asin\<close> recover, and the rotation of the Earth.  The
  property is that the code computes the unit vector of the closed formulae.
\<close>

section \<open>Angles\<close>

text \<open>\<open>%\<close> on numbers, and \<open>Math.atan2\<close>.\<close>

definition js_rem :: "real \<Rightarrow> real \<Rightarrow> real" where
  "js_rem a b = a - b * of_int (js_trunc (a / b))"

definition js_atan2 :: "real \<Rightarrow> real \<Rightarrow> real" where
  "js_atan2 y x =
     (if x > 0 then arctan (y / x)
      else if x < 0 then (if y \<ge> 0 then arctan (y / x) + pi else arctan (y / x) - pi)
      else if y > 0 then pi / 2 else if y < 0 then - (pi / 2) else 0)"

definition wrapDeg :: "real \<Rightarrow> real" where
  "wrapDeg d = (let r = js_rem d 360 in if r < 0 then r + 360 else r)"

definition sun_lambda :: "real \<Rightarrow> real" where
  "sun_lambda n =
     (let L = wrapDeg (280.460 + 0.9856474 * n) * DEG;
          g = wrapDeg (357.528 + 0.9856003 * n) * DEG
      in L + (1.915 * sin g + 0.020 * sin (2 * g)) * DEG)"

definition sun_eps :: "real \<Rightarrow> real" where
  "sun_eps n = (23.439 - 0.0000004 * n) * DEG"

definition days_since_J2000 :: "real \<Rightarrow> real" where
  "days_since_J2000 ms = ms / 86400000 + 2440587.5 - 2451545"

definition sunDirectionEcef :: "real \<Rightarrow> vec3" where
  "sunDirectionEcef ms =
     (let n = days_since_J2000 ms;
          lambda = sun_lambda n;
          eps = sun_eps n;
          ra = js_atan2 (cos eps * sin lambda) (cos lambda);
          dec = arcsin (sin eps * sin lambda);
          gmst = wrapDeg (280.46061837 + 360.98564736629 * n) * DEG;
          h = ra - gmst;
          cd = cos dec;
          x = cd * cos h; y = cd * sin h; z = sin dec;
          len = (if hypot3 x y z = 0 then 1 else hypot3 x y z)
      in (x / len, y / len, z / len))"

section \<open>The Sun's direction\<close>

lemma wrapDeg_range: "0 \<le> wrapDeg d \<and> wrapDeg d < 360"
proof -
  have rem: "js_rem d 360 = 360 * (d / 360 - of_int (js_trunc (d / 360)))" by (simp add: js_rem_def)
  show ?thesis
  proof (cases "0 \<le> d / 360")
    case True
    then have "js_trunc (d / 360) = \<lfloor>d / 360\<rfloor>" by (simp add: js_trunc_def)
    then show ?thesis unfolding wrapDeg_def Let_def rem
      using floor_correct [of "d / 360"] by simp linarith
  next
    case False
    then have "js_trunc (d / 360) = \<lceil>d / 360\<rceil>" by (simp add: js_trunc_def)
    then show ?thesis unfolding wrapDeg_def Let_def rem
      using ceiling_correct [of "d / 360"] by simp linarith
  qed
qed

lemma wrapDeg_turns: "\<exists>k :: int. wrapDeg d = d + 360 * of_int k"
proof -
  have "wrapDeg d = d + 360 * of_int (- js_trunc (d / 360)) \<or>
      wrapDeg d = d + 360 * of_int (1 - js_trunc (d / 360))"
    by (simp add: wrapDeg_def js_rem_def Let_def algebra_simps)
  then show ?thesis by blast
qed

lemma js_atan2_polar:
  "sqrt (x\<^sup>2 + y\<^sup>2) * cos (js_atan2 y x) = x \<and> sqrt (x\<^sup>2 + y\<^sup>2) * sin (js_atan2 y x) = y"
proof (cases "x = 0")
  case True
  then show ?thesis by (auto simp: js_atan2_def)
next
  case False
  then have "x\<^sup>2 + y\<^sup>2 = x\<^sup>2 * (1 + (y / x)\<^sup>2)" by (simp add: power_divide distrib_left)
  then have r: "sqrt (x\<^sup>2 + y\<^sup>2) = \<bar>x\<bar> * sqrt (1 + (y / x)\<^sup>2)" by (simp add: real_sqrt_mult)
  have s: "sqrt (1 + (y / x)\<^sup>2) \<noteq> 0" by (simp add: add_nonneg_eq_0_iff)
  have c: "cos (js_atan2 y x) = (if 0 < x then 1 else - 1) / sqrt (1 + (y / x)\<^sup>2)"
    "sin (js_atan2 y x) = (if 0 < x then 1 else - 1) * (y / x) / sqrt (1 + (y / x)\<^sup>2)"
    using False by (auto simp: js_atan2_def cos_arctan sin_arctan cos_diff sin_diff)
  show ?thesis unfolding r c using False s by (cases "0 < x") simp_all
qed

text \<open>A unit vector, taken apart into right ascension and declination and put together after a
  rotation by \<open>w\<close> about the polar axis.\<close>

lemma polar_rotate:
  assumes "x\<^sup>2 + y\<^sup>2 + z\<^sup>2 = 1"
  shows "sin (arcsin z) = z"
    and "cos (arcsin z) * cos (js_atan2 y x - w) = x * cos w + y * sin w"
    and "cos (arcsin z) * sin (js_atan2 y x - w) = y * cos w - x * sin w"
    and "hypot3 (x * cos w + y * sin w) (y * cos w - x * sin w) z = 1"
proof -
  have "z\<^sup>2 \<le> 1" using assms zero_le_power2 [of x] zero_le_power2 [of y] by linarith
  then have z: "\<bar>z\<bar> \<le> 1" by (simp add: abs_square_le_1)
  then show "sin (arcsin z) = z" by (simp add: abs_le_iff)
  have "cos (arcsin z) = sqrt (1 - z\<^sup>2)" using z by (simp add: abs_le_iff cos_arcsin)
  moreover have "1 - z\<^sup>2 = x\<^sup>2 + y\<^sup>2" using assms by simp
  ultimately have polar: "cos (arcsin z) * cos (js_atan2 y x) = x" "cos (arcsin z) * sin (js_atan2 y x) = y"
    using js_atan2_polar [of x y] by simp_all
  show "cos (arcsin z) * cos (js_atan2 y x - w) = x * cos w + y * sin w"
    "cos (arcsin z) * sin (js_atan2 y x - w) = y * cos w - x * sin w"
    unfolding cos_diff sin_diff distrib_left right_diff_distrib mult.assoc [symmetric] polar by simp_all
  have "(x * c + y * s)\<^sup>2 + (y * c - x * s)\<^sup>2 = (x\<^sup>2 + y\<^sup>2) * (s\<^sup>2 + c\<^sup>2)" for s c :: real
    by (simp add: power2_eq_square algebra_simps)
  from this [of "cos w" "sin w"]
  have "(x * cos w + y * sin w)\<^sup>2 + (y * cos w - x * sin w)\<^sup>2 = x\<^sup>2 + y\<^sup>2" by simp
  with assms show "hypot3 (x * cos w + y * sin w) (y * cos w - x * sin w) z = 1"
    by (simp add: hypot3_def)
qed

text \<open>Wrapping the angles does not change the direction.\<close>

lemma wrapDeg_trig:
  "cos (wrapDeg d * DEG + a) = cos (d * DEG + a) \<and> sin (wrapDeg d * DEG + a) = sin (d * DEG + a)"
proof -
  obtain k :: int where "wrapDeg d = d + 360 * of_int k" using wrapDeg_turns by blast
  then have "wrapDeg d * DEG + a = (d * DEG + a) + 2 * pi * of_int k"
    by (simp add: DEG_def algebra_simps)
  then show ?thesis
    by (simp add: cos_add sin_add cos_int_2pin sin_int_2pin)
qed

lemma wrapDeg_sin: "sin (wrapDeg d * DEG) = sin (d * DEG)" "cos (wrapDeg d * DEG) = cos (d * DEG)"
  using wrapDeg_trig [of d 0] by simp_all

lemma wrapDeg_sin2: "sin (2 * (wrapDeg d * DEG)) = sin (2 * (d * DEG))"
  by (simp only: sin_double wrapDeg_sin)

section \<open>Properties\<close>

text \<open>C32: The Sun's direction, for any time, is the unit vector of the Almanac's formulae without any
  wrapping of angles or inverse functions: the ecliptic direction turned by the obliquity and then by
  the Earth's rotation.\<close>

theorem sun_direction:
  "(let n = ms / 86400000 + 2440587.5 - 2451545;
       g = (357.528 + 0.9856003 * n) * DEG;
       lam = (280.460 + 0.9856474 * n) * DEG + (1.915 * sin g + 0.020 * sin (2 * g)) * DEG;
       eps = (23.439 - 0.0000004 * n) * DEG;
       th = (280.46061837 + 360.98564736629 * n) * DEG
     in sunDirectionEcef ms =
        (cos lam * cos th + cos eps * sin lam * sin th,
         cos eps * sin lam * cos th - cos lam * sin th, sin eps * sin lam)) \<and>
   vlen (sunDirectionEcef ms) = 1"
proof -
  define n where "n = days_since_J2000 ms"
  define g where "g = (357.528 + 0.9856003 * n) * DEG"
  define lam where "lam = (280.460 + 0.9856474 * n) * DEG + (1.915 * sin g + 0.020 * sin (2 * g)) * DEG"
  define th where "th = (280.46061837 + 360.98564736629 * n) * DEG"
  define w where "w = wrapDeg (280.46061837 + 360.98564736629 * n) * DEG"
  have n: "n = ms / 86400000 + 2440587.5 - 2451545" by (simp add: n_def days_since_J2000_def)
  have eps: "sun_eps n = (23.439 - 0.0000004 * n) * DEG" by (simp add: sun_eps_def)
  have "cos (sun_lambda n) = cos lam \<and> sin (sun_lambda n) = sin lam"
  proof -
    have "sun_lambda n = wrapDeg (280.460 + 0.9856474 * n) * DEG + (1.915 * sin g + 0.020 * sin (2 * g)) * DEG"
      by (simp add: sun_lambda_def Let_def g_def wrapDeg_sin wrapDeg_sin2)
    then show ?thesis by (simp only: lam_def wrapDeg_trig)
  qed
  then have lam: "cos (sun_lambda n) = cos lam" "sin (sun_lambda n) = sin lam" by blast+
  have w: "cos w = cos th" "sin w = sin th" by (simp_all only: w_def th_def wrapDeg_sin)
  have "(cos lam)\<^sup>2 + (cos (sun_eps n) * sin lam)\<^sup>2 + (sin (sun_eps n) * sin lam)\<^sup>2 =
      (cos lam)\<^sup>2 + (sin lam)\<^sup>2 * ((sin (sun_eps n))\<^sup>2 + (cos (sun_eps n))\<^sup>2)"
    by (simp only: power_mult_distrib distrib_left distrib_right ac_simps)
  then have "(cos lam)\<^sup>2 + (cos (sun_eps n) * sin lam)\<^sup>2 + (sin (sun_eps n) * sin lam)\<^sup>2 = 1" by simp
  note polar = polar_rotate(1) [OF this] polar_rotate(2-4) [OF this, of w]
  let ?ra = "js_atan2 (cos (sun_eps n) * sin lam) (cos lam)" and ?dec = "arcsin (sin (sun_eps n) * sin lam)"
  have "sunDirectionEcef ms =
      (let x = cos ?dec * cos (?ra - w); y = cos ?dec * sin (?ra - w); z = sin ?dec;
           len = (if hypot3 x y z = 0 then 1 else hypot3 x y z)
       in (x / len, y / len, z / len))"
    by (simp only: sunDirectionEcef_def Let_def lam w_def flip: n_def)
  then have "sunDirectionEcef ms =
      (cos lam * cos th + cos (sun_eps n) * sin lam * sin th,
       cos (sun_eps n) * sin lam * cos th - cos lam * sin th, sin (sun_eps n) * sin lam)"
    and "vlen (sunDirectionEcef ms) = 1"
    using polar by (simp_all add: w vlen_def del: hypot3_eq_0)
  then show ?thesis by (simp only: Let_def simp_thms flip: n g_def lam_def th_def eps)
qed

end
