(* ===== verification/Star_Catalog.thy ===== *)
theory Star_Catalog
  imports Complex_Main
begin

text \<open>
  frontend/js/star_catalog.js: the built-in catalog, in the file's order and in three pieces: the
  bright stars of the whole sky, and the two halves of the constellations.  Right ascension
  and declination are in degrees.
\<close>

record star =
  ra :: real
  dec :: real
  mag :: real
  star_name :: string

definition bright_stars :: "star list" where
  "bright_stars =
    [\<lparr>ra = 101.2871, dec = - 16.7161, mag = - 1.46, star_name = ''Sirius''\<rparr>,
     \<lparr>ra = 95.9880, dec = - 52.6956, mag = - 0.74, star_name = ''Canopus''\<rparr>,
     \<lparr>ra = 219.9021, dec = - 60.8340, mag = - 0.27, star_name = ''Rigil Kentaurus''\<rparr>,
     \<lparr>ra = 213.9154, dec = 19.1825, mag = - 0.05, star_name = ''Arcturus''\<rparr>,
     \<lparr>ra = 279.2347, dec = 38.7837, mag = 0.03, star_name = ''Vega''\<rparr>,
     \<lparr>ra = 79.1723, dec = 45.9980, mag = 0.08, star_name = ''Capella''\<rparr>,
     \<lparr>ra = 78.6345, dec = - 8.2016, mag = 0.18, star_name = ''Rigel''\<rparr>,
     \<lparr>ra = 114.8255, dec = 5.2250, mag = 0.34, star_name = ''Procyon''\<rparr>,
     \<lparr>ra = 88.7929, dec = 7.4071, mag = 0.42, star_name = ''Betelgeuse''\<rparr>,
     \<lparr>ra = 24.4285, dec = - 57.2368, mag = 0.46, star_name = ''Achernar''\<rparr>,
     \<lparr>ra = 210.9558, dec = - 60.3730, mag = 0.61, star_name = ''Hadar''\<rparr>,
     \<lparr>ra = 297.6958, dec = 8.8683, mag = 0.76, star_name = ''Altair''\<rparr>,
     \<lparr>ra = 186.6496, dec = - 63.0991, mag = 0.77, star_name = ''Acrux''\<rparr>,
     \<lparr>ra = 68.9802, dec = 16.5093, mag = 0.85, star_name = ''Aldebaran''\<rparr>,
     \<lparr>ra = 201.2983, dec = - 11.1614, mag = 0.97, star_name = ''Spica''\<rparr>,
     \<lparr>ra = 247.3521, dec = - 26.4319, mag = 1.06, star_name = ''Antares''\<rparr>,
     \<lparr>ra = 116.3289, dec = 28.0262, mag = 1.14, star_name = ''Pollux''\<rparr>,
     \<lparr>ra = 344.4127, dec = - 29.6222, mag = 1.16, star_name = ''Fomalhaut''\<rparr>,
     \<lparr>ra = 310.3580, dec = 45.2803, mag = 1.25, star_name = ''Deneb''\<rparr>,
     \<lparr>ra = 191.9304, dec = - 59.6889, mag = 1.25, star_name = ''Mimosa''\<rparr>,
     \<lparr>ra = 152.0930, dec = 11.9672, mag = 1.35, star_name = ''Regulus''\<rparr>,
     \<lparr>ra = 104.6563, dec = - 28.9722, mag = 1.50, star_name = ''Adhara''\<rparr>,
     \<lparr>ra = 113.6495, dec = 31.8883, mag = 1.58, star_name = ''Castor''\<rparr>,
     \<lparr>ra = 187.7915, dec = - 57.1133, mag = 1.63, star_name = ''Gacrux''\<rparr>,
     \<lparr>ra = 263.4022, dec = - 37.1038, mag = 1.62, star_name = ''Shaula''\<rparr>,
     \<lparr>ra = 81.2828, dec = 6.3497, mag = 1.64, star_name = ''Bellatrix''\<rparr>,
     \<lparr>ra = 81.5730, dec = 28.6075, mag = 1.65, star_name = ''Elnath''\<rparr>,
     \<lparr>ra = 138.3010, dec = - 69.7172, mag = 1.68, star_name = ''Miaplacidus''\<rparr>,
     \<lparr>ra = 84.0534, dec = - 1.2019, mag = 1.69, star_name = ''Alnilam''\<rparr>,
     \<lparr>ra = 332.0584, dec = - 46.9611, mag = 1.73, star_name = ''Alnair''\<rparr>,
     \<lparr>ra = 85.1897, dec = - 1.9426, mag = 1.74, star_name = ''Alnitak''\<rparr>,
     \<lparr>ra = 193.5073, dec = 55.9598, mag = 1.77, star_name = ''Alioth''\<rparr>,
     \<lparr>ra = 122.3830, dec = - 47.3365, mag = 1.78, star_name = ''Regor''\<rparr>,
     \<lparr>ra = 51.0808, dec = 49.8612, mag = 1.79, star_name = ''Mirfak''\<rparr>,
     \<lparr>ra = 165.9319, dec = 61.7511, mag = 1.79, star_name = ''Dubhe''\<rparr>,
     \<lparr>ra = 107.0979, dec = - 26.3932, mag = 1.83, star_name = ''Wezen''\<rparr>,
     \<lparr>ra = 276.0430, dec = - 34.3846, mag = 1.85, star_name = ''Kaus Australis''\<rparr>,
     \<lparr>ra = 206.8852, dec = 49.3133, mag = 1.86, star_name = ''Alkaid''\<rparr>,
     \<lparr>ra = 264.3297, dec = - 42.9978, mag = 1.86, star_name = ''Sargas''\<rparr>,
     \<lparr>ra = 125.6285, dec = - 59.5095, mag = 1.86, star_name = ''Avior''\<rparr>,
     \<lparr>ra = 89.8822, dec = 44.9474, mag = 1.90, star_name = ''Menkalinan''\<rparr>,
     \<lparr>ra = 252.1662, dec = - 69.0277, mag = 1.91, star_name = ''Atria''\<rparr>,
     \<lparr>ra = 99.4279, dec = 16.3993, mag = 1.93, star_name = ''Alhena''\<rparr>,
     \<lparr>ra = 306.4120, dec = - 56.7350, mag = 1.94, star_name = ''Peacock''\<rparr>,
     \<lparr>ra = 131.1758, dec = - 54.7086, mag = 1.96, star_name = ''Alsephina''\<rparr>,
     \<lparr>ra = 95.6749, dec = - 17.9559, mag = 1.98, star_name = ''Mirzam''\<rparr>,
     \<lparr>ra = 141.8968, dec = - 8.6586, mag = 1.98, star_name = ''Alphard''\<rparr>,
     \<lparr>ra = 37.9529, dec = 89.2641, mag = 1.98, star_name = ''Polaris''\<rparr>,
     \<lparr>ra = 31.7934, dec = 23.4624, mag = 2.00, star_name = ''Hamal''\<rparr>,
     \<lparr>ra = 154.9931, dec = 19.8415, mag = 2.01, star_name = ''Algieba''\<rparr>,
     \<lparr>ra = 10.8974, dec = - 17.9866, mag = 2.04, star_name = ''Diphda''\<rparr>,
     \<lparr>ra = 200.9814, dec = 54.9254, mag = 2.04, star_name = ''Mizar''\<rparr>,
     \<lparr>ra = 283.8163, dec = - 26.2967, mag = 2.05, star_name = ''Nunki''\<rparr>,
     \<lparr>ra = 210.9581, dec = - 36.3700, mag = 2.06, star_name = ''Menkent''\<rparr>,
     \<lparr>ra = 2.0969, dec = 29.0904, mag = 2.06, star_name = ''Alpheratz''\<rparr>,
     \<lparr>ra = 86.9391, dec = - 9.6696, mag = 2.06, star_name = ''Saiph''\<rparr>,
     \<lparr>ra = 222.6764, dec = 74.1555, mag = 2.07, star_name = ''Kochab''\<rparr>,
     \<lparr>ra = 263.7328, dec = 12.5601, mag = 2.08, star_name = ''Rasalhague''\<rparr>,
     \<lparr>ra = 47.0422, dec = 40.9556, mag = 2.12, star_name = ''Algol''\<rparr>,
     \<lparr>ra = 30.9748, dec = 42.3297, mag = 2.10, star_name = ''Almach''\<rparr>,
     \<lparr>ra = 177.2649, dec = 14.5721, mag = 2.14, star_name = ''Denebola''\<rparr>,
     \<lparr>ra = 340.6667, dec = - 46.8846, mag = 2.11, star_name = ''Tiaki''\<rparr>,
     \<lparr>ra = 189.2966, dec = - 48.9598, mag = 2.17, star_name = ''Muhlifain''\<rparr>,
     \<lparr>ra = 120.8961, dec = - 40.0032, mag = 2.21, star_name = ''Naos''\<rparr>,
     \<lparr>ra = 139.2725, dec = - 59.2750, mag = 2.21, star_name = ''Aspidiske''\<rparr>,
     \<lparr>ra = 233.6717, dec = 26.7147, mag = 2.23, star_name = ''Alphecca''\<rparr>,
     \<lparr>ra = 136.9990, dec = - 43.4326, mag = 2.21, star_name = ''Suhail''\<rparr>,
     \<lparr>ra = 17.4330, dec = 35.6206, mag = 2.07, star_name = ''Mirach''\<rparr>,
     \<lparr>ra = 305.5571, dec = 40.2567, mag = 2.23, star_name = ''Sadr''\<rparr>,
     \<lparr>ra = 269.1516, dec = 51.4889, mag = 2.23, star_name = ''Eltanin''\<rparr>,
     \<lparr>ra = 10.1268, dec = 56.5373, mag = 2.24, star_name = ''Schedar''\<rparr>,
     \<lparr>ra = 83.0016, dec = - 0.2991, mag = 2.25, star_name = ''Mintaka''\<rparr>,
     \<lparr>ra = 2.2945, dec = 59.1498, mag = 2.27, star_name = ''Caph''\<rparr>,
     \<lparr>ra = 240.0834, dec = - 22.6217, mag = 2.29, star_name = ''Dschubba''\<rparr>,
     \<lparr>ra = 253.4644, dec = - 34.2933, mag = 2.29, star_name = ''Larawag''\<rparr>,
     \<lparr>ra = 6.5708, dec = - 42.3061, mag = 2.40, star_name = ''Ankaa''\<rparr>,
     \<lparr>ra = 326.0463, dec = 9.8750, mag = 2.40, star_name = ''Enif''\<rparr>,
     \<lparr>ra = 345.9436, dec = 28.0828, mag = 2.42, star_name = ''Scheat''\<rparr>,
     \<lparr>ra = 258.6618, dec = - 15.7249, mag = 2.43, star_name = ''Sabik''\<rparr>,
     \<lparr>ra = 178.4577, dec = 53.6948, mag = 2.44, star_name = ''Phecda''\<rparr>,
     \<lparr>ra = 111.7873, dec = - 29.3031, mag = 2.45, star_name = ''Aludra''\<rparr>,
     \<lparr>ra = 140.5284, dec = - 55.0106, mag = 2.47, star_name = ''Markeb''\<rparr>,
     \<lparr>ra = 319.6449, dec = 62.5854, mag = 2.44, star_name = ''Alderamin''\<rparr>,
     \<lparr>ra = 346.1900, dec = 15.2053, mag = 2.49, star_name = ''Markab''\<rparr>,
     \<lparr>ra = 305.2569, dec = 33.9702, mag = 2.46, star_name = ''Aljanah''\<rparr>,
     \<lparr>ra = 241.3592, dec = - 19.8054, mag = 2.56, star_name = ''Acrab''\<rparr>,
     \<lparr>ra = 183.9516, dec = - 17.5419, mag = 2.59, star_name = ''Gienah''\<rparr>,
     \<lparr>ra = 168.5270, dec = 20.5237, mag = 2.56, star_name = ''Zosma''\<rparr>,
     \<lparr>ra = 165.4603, dec = 56.3824, mag = 2.37, star_name = ''Merak''\<rparr>,
     \<lparr>ra = 262.6082, dec = 52.3013, mag = 2.79, star_name = ''Rastaban''\<rparr>,
     \<lparr>ra = 188.5966, dec = - 23.3964, mag = 2.65, star_name = ''Kraz''\<rparr>,
     \<lparr>ra = 271.4520, dec = - 30.4241, mag = 2.98, star_name = ''Alnasl''\<rparr>,
     \<lparr>ra = 265.8682, dec = 4.5674, mag = 2.76, star_name = ''Cebalrai''\<rparr>,
     \<lparr>ra = 240.0994, dec = - 3.6944, mag = 2.73, star_name = ''Yed Prior''\<rparr>,
     \<lparr>ra = 21.4538, dec = 60.2352, mag = 2.68, star_name = ''Ruchbah''\<rparr>,
     \<lparr>ra = 274.4067, dec = - 25.4217, mag = 2.82, star_name = ''Kaus Borealis''\<rparr>,
     \<lparr>ra = 222.7196, dec = - 16.0418, mag = 2.75, star_name = ''Zubenelgenubi''\<rparr>,
     \<lparr>ra = 229.2518, dec = - 9.3827, mag = 2.61, star_name = ''Zubeneschamali''\<rparr>,
     \<lparr>ra = 236.0669, dec = 6.4256, mag = 2.63, star_name = ''Unukalhai''\<rparr>,
     \<lparr>ra = 28.6600, dec = 20.8082, mag = 2.64, star_name = ''Sheratan''\<rparr>]"

definition constellation_stars_1 :: "star list" where
  "constellation_stars_1 =
    [\<lparr>ra = 154.2765, dec = 41.4995, mag = 3.05, star_name = ''Tania Australis''\<rparr>,
     \<lparr>ra = 183.8565, dec = 57.0326, mag = 3.32, star_name = ''Megrez''\<rparr>,
     \<lparr>ra = 230.1819, dec = 71.8340, mag = 3.05, star_name = ''Pherkad''\<rparr>,
     \<lparr>ra = 56.8712, dec = 24.1050, mag = 2.87, star_name = ''Alcyone''\<rparr>,
     \<lparr>ra = 57.2879, dec = 24.0533, mag = 3.62, star_name = ''Atlas''\<rparr>,
     \<lparr>ra = 56.2179, dec = 24.1133, mag = 3.70, star_name = ''Electra''\<rparr>,
     \<lparr>ra = 56.4544, dec = 24.3678, mag = 3.86, star_name = ''Maia''\<rparr>,
     \<lparr>ra = 14.1772, dec = 60.7167, mag = 2.47, star_name = ''Gamma Cassiopeiae''\<rparr>,
     \<lparr>ra = 28.5988, dec = 63.6701, mag = 3.35, star_name = ''Segin''\<rparr>,
     \<lparr>ra = 83.7842, dec = 9.9342, mag = 3.39, star_name = ''Meissa''\<rparr>,
     \<lparr>ra = 83.8583, dec = - 5.9099, mag = 2.77, star_name = ''Hatysa''\<rparr>,
     \<lparr>ra = 183.7863, dec = - 58.7489, mag = 2.79, star_name = ''Delta Crucis''\<rparr>,
     \<lparr>ra = 183.1596, dec = - 60.4011, mag = 3.59, star_name = ''Epsilon Crucis''\<rparr>,
     \<lparr>ra = 240.1268, dec = - 26.1141, mag = 2.89, star_name = ''Pi Scorpii''\<rparr>,
     \<lparr>ra = 244.5842, dec = - 25.5928, mag = 2.89, star_name = ''Sigma Scorpii''\<rparr>,
     \<lparr>ra = 248.9698, dec = - 28.2162, mag = 2.82, star_name = ''Tau Scorpii''\<rparr>,
     \<lparr>ra = 266.8958, dec = - 40.1275, mag = 3.03, star_name = ''Iota1 Scorpii''\<rparr>,
     \<lparr>ra = 252.9667, dec = - 38.0473, mag = 3.00, star_name = ''Mu1 Scorpii''\<rparr>,
     \<lparr>ra = 254.2857, dec = - 42.3617, mag = 3.62, star_name = ''Zeta2 Scorpii''\<rparr>,
     \<lparr>ra = 265.6217, dec = - 39.0300, mag = 2.41, star_name = ''Girtab''\<rparr>,
     \<lparr>ra = 296.2437, dec = 45.1310, mag = 2.87, star_name = ''Delta Cygni''\<rparr>,
     \<lparr>ra = 292.6804, dec = 27.9597, mag = 3.08, star_name = ''Albireo''\<rparr>,
     \<lparr>ra = 298.8280, dec = 10.6133, mag = 2.72, star_name = ''Tarazed''\<rparr>,
     \<lparr>ra = 296.5647, dec = 6.4067, mag = 3.71, star_name = ''Alshain''\<rparr>,
     \<lparr>ra = 282.5199, dec = 33.3627, mag = 3.45, star_name = ''Sheliak''\<rparr>,
     \<lparr>ra = 284.7359, dec = 32.6896, mag = 3.24, star_name = ''Sulafat''\<rparr>,
     \<lparr>ra = 154.1719, dec = 23.4174, mag = 3.44, star_name = ''Adhafera''\<rparr>,
     \<lparr>ra = 148.1747, dec = 26.0071, mag = 3.88, star_name = ''Rasalas''\<rparr>,
     \<lparr>ra = 148.9548, dec = 23.7742, mag = 2.98, star_name = ''Ras Elased Australis''\<rparr>,
     \<lparr>ra = 168.4986, dec = 15.4295, mag = 3.34, star_name = ''Chertan''\<rparr>,
     \<lparr>ra = 84.4125, dec = 21.1425, mag = 3.03, star_name = ''Zeta Tauri''\<rparr>,
     \<lparr>ra = 60.1708, dec = 12.4903, mag = 3.47, star_name = ''Lambda Tauri''\<rparr>,
     \<lparr>ra = 67.1542, dec = 19.1806, mag = 3.53, star_name = ''Ain''\<rparr>,
     \<lparr>ra = 64.9500, dec = 15.6278, mag = 3.65, star_name = ''Hyadum I''\<rparr>,
     \<lparr>ra = 65.7333, dec = 17.5425, mag = 3.76, star_name = ''Hyadum II''\<rparr>,
     \<lparr>ra = 67.1667, dec = 15.8708, mag = 3.40, star_name = ''Theta2 Tauri''\<rparr>,
     \<lparr>ra = 110.0304, dec = 21.9825, mag = 3.53, star_name = ''Wasat''\<rparr>,
     \<lparr>ra = 100.9830, dec = 25.1311, mag = 3.06, star_name = ''Mebsuta''\<rparr>,
     \<lparr>ra = 102.7130, dec = 20.5704, mag = 3.79, star_name = ''Mekbuda''\<rparr>,
     \<lparr>ra = 95.7404, dec = 22.5136, mag = 3.31, star_name = ''Propus''\<rparr>,
     \<lparr>ra = 93.7181, dec = 22.5137, mag = 2.88, star_name = ''Tejat''\<rparr>,
     \<lparr>ra = 95.6875, dec = - 30.0631, mag = 3.02, star_name = ''Furud''\<rparr>,
     \<lparr>ra = 100.9829, dec = - 23.8332, mag = 3.02, star_name = ''Omicron2 Canis Majoris''\<rparr>,
     \<lparr>ra = 111.7871, dec = 8.2893, mag = 2.90, star_name = ''Gomeisa''\<rparr>,
     \<lparr>ra = 89.9302, dec = 37.2124, mag = 2.62, star_name = ''Mahasim''\<rparr>,
     \<lparr>ra = 74.2377, dec = 33.1660, mag = 2.69, star_name = ''Hassaleh''\<rparr>,
     \<lparr>ra = 78.4844, dec = 43.8232, mag = 2.99, star_name = ''Almaaz''\<rparr>,
     \<lparr>ra = 75.6197, dec = 41.0757, mag = 3.75, star_name = ''Saclateni''\<rparr>,
     \<lparr>ra = 58.5333, dec = 31.8836, mag = 2.85, star_name = ''Zeta Persei''\<rparr>,
     \<lparr>ra = 59.6222, dec = 40.0100, mag = 2.89, star_name = ''Epsilon Persei''\<rparr>,
     \<lparr>ra = 47.7876, dec = 53.5062, mag = 2.93, star_name = ''Gamma Persei''\<rparr>,
     \<lparr>ra = 61.1671, dec = 47.7877, mag = 3.01, star_name = ''Delta Persei''\<rparr>,
     \<lparr>ra = 12.3348, dec = 30.8611, mag = 3.28, star_name = ''Delta Andromedae''\<rparr>]"

definition constellation_stars_2 :: "star list" where
  "constellation_stars_2 =
    [\<lparr>ra = 3.3086, dec = 15.1836, mag = 2.83, star_name = ''Algenib''\<rparr>,
     \<lparr>ra = 344.4123, dec = 10.8313, mag = 3.40, star_name = ''Homam''\<rparr>,
     \<lparr>ra = 340.1665, dec = 30.2213, mag = 2.94, star_name = ''Matar''\<rparr>,
     \<lparr>ra = 325.0501, dec = 6.1979, mag = 3.53, star_name = ''Biham''\<rparr>,
     \<lparr>ra = 221.2467, dec = 27.0742, mag = 2.35, star_name = ''Izar''\<rparr>,
     \<lparr>ra = 208.6714, dec = 18.3979, mag = 2.68, star_name = ''Muphrid''\<rparr>,
     \<lparr>ra = 218.0207, dec = 38.3082, mag = 3.03, star_name = ''Seginus''\<rparr>,
     \<lparr>ra = 224.7367, dec = 40.3906, mag = 3.50, star_name = ''Nekkar''\<rparr>,
     \<lparr>ra = 221.2506, dec = 33.3151, mag = 3.48, star_name = ''Delta Bootis''\<rparr>,
     \<lparr>ra = 177.6749, dec = 1.7644, mag = 3.60, star_name = ''Zavijava''\<rparr>,
     \<lparr>ra = 190.4152, dec = - 1.4494, mag = 2.74, star_name = ''Porrima''\<rparr>,
     \<lparr>ra = 193.9007, dec = 3.3976, mag = 3.38, star_name = ''Minelauva''\<rparr>,
     \<lparr>ra = 195.5439, dec = 10.9591, mag = 2.83, star_name = ''Vindemiatrix''\<rparr>,
     \<lparr>ra = 201.6229, dec = - 0.5959, mag = 3.37, star_name = ''Heze''\<rparr>,
     \<lparr>ra = 225.1706, dec = - 25.2817, mag = 3.29, star_name = ''Brachium''\<rparr>,
     \<lparr>ra = 238.5511, dec = - 4.6928, mag = 3.24, star_name = ''Yed Posterior''\<rparr>,
     \<lparr>ra = 249.2897, dec = - 10.5672, mag = 2.56, star_name = ''Zeta Ophiuchi''\<rparr>,
     \<lparr>ra = 300.1798, dec = - 29.8801, mag = 2.60, star_name = ''Ascella''\<rparr>,
     \<lparr>ra = 289.0989, dec = - 26.9905, mag = 3.17, star_name = ''Phi Sagittarii''\<rparr>,
     \<lparr>ra = 326.7602, dec = - 16.1273, mag = 2.87, star_name = ''Deneb Algedi''\<rparr>,
     \<lparr>ra = 305.2529, dec = - 14.7814, mag = 3.05, star_name = ''Dabih''\<rparr>,
     \<lparr>ra = 322.8897, dec = - 5.5711, mag = 2.87, star_name = ''Sadalsuud''\<rparr>,
     \<lparr>ra = 331.4451, dec = - 0.3199, mag = 2.95, star_name = ''Sadalmelik''\<rparr>,
     \<lparr>ra = 343.1543, dec = - 15.8207, mag = 3.27, star_name = ''Skat''\<rparr>,
     \<lparr>ra = 204.9719, dec = - 53.4664, mag = 2.30, star_name = ''Epsilon Centauri''\<rparr>,
     \<lparr>ra = 210.0980, dec = - 42.0996, mag = 2.31, star_name = ''Eta Centauri''\<rparr>,
     \<lparr>ra = 189.6472, dec = - 47.2884, mag = 2.55, star_name = ''Zeta Centauri''\<rparr>,
     \<lparr>ra = 190.3717, dec = - 50.7222, mag = 2.58, star_name = ''Delta Centauri''\<rparr>,
     \<lparr>ra = 139.9319, dec = - 64.9856, mag = 2.92, star_name = ''Upsilon Carinae''\<rparr>,
     \<lparr>ra = 121.7987, dec = - 24.3042, mag = 2.83, star_name = ''Tureis''\<rparr>,
     \<lparr>ra = 109.2857, dec = - 37.0972, mag = 2.70, star_name = ''Ahadi''\<rparr>,
     \<lparr>ra = 187.4634, dec = - 16.5153, mag = 2.94, star_name = ''Algorab''\<rparr>,
     \<lparr>ra = 183.7799, dec = - 22.6202, mag = 3.00, star_name = ''Minkar''\<rparr>,
     \<lparr>ra = 211.0973, dec = 64.3758, mag = 3.65, star_name = ''Thuban''\<rparr>,
     \<lparr>ra = 354.8367, dec = 77.6320, mag = 3.21, star_name = ''Errai''\<rparr>,
     \<lparr>ra = 84.9117, dec = - 34.0742, mag = 2.65, star_name = ''Phact''\<rparr>,
     \<lparr>ra = 89.0083, dec = - 35.7683, mag = 3.12, star_name = ''Wazn''\<rparr>,
     \<lparr>ra = 83.1827, dec = - 17.8224, mag = 2.58, star_name = ''Arneb''\<rparr>,
     \<lparr>ra = 82.0613, dec = - 20.7594, mag = 2.81, star_name = ''Nihal''\<rparr>,
     \<lparr>ra = 45.5699, dec = 4.0900, mag = 2.54, star_name = ''Menkar''\<rparr>,
     \<lparr>ra = 76.9629, dec = - 5.0862, mag = 2.79, star_name = ''Cursa''\<rparr>,
     \<lparr>ra = 59.5072, dec = - 13.5087, mag = 2.95, star_name = ''Zaurak''\<rparr>,
     \<lparr>ra = 44.5652, dec = - 40.3047, mag = 2.88, star_name = ''Acamar''\<rparr>,
     \<lparr>ra = 194.0068, dec = 38.3186, mag = 2.90, star_name = ''Cor Caroli''\<rparr>,
     \<lparr>ra = 309.3877, dec = 15.9121, mag = 3.77, star_name = ''Sualocin''\<rparr>,
     \<lparr>ra = 308.8006, dec = 14.5951, mag = 3.63, star_name = ''Rotanev''\<rparr>]"

definition STAR_CATALOG :: "star list" where
  "STAR_CATALOG = bright_stars @ constellation_stars_1 @ constellation_stars_2"

definition STAR_COUNT :: nat where
  "STAR_COUNT = length STAR_CATALOG"

text \<open>What the file documents of each entry.\<close>

definition star_ok :: "star \<Rightarrow> bool" where
  "star_ok s \<longleftrightarrow> 0 \<le> ra s \<and> ra s < 360 \<and> - 90 \<le> dec s \<and> dec s \<le> 90 \<and> mag s \<le> 3.9 \<and> star_name s \<noteq> []"

lemma pieces_ok: "list_all star_ok bright_stars" "list_all star_ok constellation_stars_1" "list_all star_ok constellation_stars_2"
  by (simp_all add: bright_stars_def constellation_stars_1_def constellation_stars_2_def star_ok_def)

lemma catalog_ok: "s \<in> set STAR_CATALOG \<Longrightarrow> star_ok s"
  using pieces_ok by (auto simp: STAR_CATALOG_def list_all_iff)

lemma STAR_COUNT_eq: "STAR_COUNT = 199"
  by (simp add: STAR_COUNT_def STAR_CATALOG_def bright_stars_def constellation_stars_1_def constellation_stars_2_def)

end
