(* ===== verification/Sky.thy ===== *)
theory Sky
  imports Sun Star_Catalog
begin

text \<open>
  frontend/js/sky.js: sidereal time, the Moon, the five naked-eye planets and the stars, as
  directions in the Earth-fixed frame, over exact reals.  Times are Unix milliseconds
  (\<open>toMs\<close> is the identity on them).
\<close>

section \<open>Angles and frames\<close>

definition wrapDeg180 :: "real \<Rightarrow> real" where
  "wrapDeg180 d = (let r = wrapDeg d in if r > 180 then r - 360 else r)"

definition sinDeg :: "real \<Rightarrow> real" where "sinDeg d = sin (d * DEG)"
definition cosDeg :: "real \<Rightarrow> real" where "cosDeg d = cos (d * DEG)"

definition daysSinceJ2000 :: "real \<Rightarrow> real" where
  "daysSinceJ2000 ms = (let JD = ms / 86400000 + 2440587.5 in JD - 2451545)"

definition gmstRad :: "real \<Rightarrow> real" where
  "gmstRad ms = wrapDeg (280.46061837 + 360.98564736629 * daysSinceJ2000 ms) * DEG"

definition raDecToEci :: "real \<Rightarrow> real \<Rightarrow> vec3" where
  "raDecToEci raRad decRad = (cos decRad * cos raRad, cos decRad * sin raRad, sin decRad)"

definition eciToEcef :: "vec3 \<Rightarrow> real \<Rightarrow> vec3" where
  "eciToEcef v g = (case v of (x, y, z) \<Rightarrow> (x * cos g + y * sin g, - x * sin g + y * cos g, z))"

section \<open>The Moon\<close>

definition moon_lambda :: "real \<Rightarrow> real" where
  "moon_lambda T =
     218.32 + 481267.881 * T +
     6.29 * sinDeg (135.0 + 477198.87 * T) -
     1.27 * sinDeg (259.3 - 413335.36 * T) +
     0.66 * sinDeg (235.7 + 890534.22 * T) +
     0.21 * sinDeg (269.9 + 954397.74 * T) -
     0.19 * sinDeg (357.5 + 35999.05 * T) -
     0.11 * sinDeg (186.5 + 966404.03 * T)"

definition moon_beta :: "real \<Rightarrow> real" where
  "moon_beta T =
     5.13 * sinDeg (93.3 + 483202.02 * T) +
     0.28 * sinDeg (228.2 + 960400.89 * T) -
     0.28 * sinDeg (318.3 + 6003.15 * T) -
     0.17 * sinDeg (217.6 - 407332.20 * T)"

definition obliquity :: "real \<Rightarrow> real" where
  "obliquity n = (23.439 - 0.0000004 * n) * DEG"

definition moonDirectionEcef :: "real \<Rightarrow> vec3" where
  "moonDirectionEcef ms =
     (let n = daysSinceJ2000 ms;
          T = n / 36525;
          lambda = moon_lambda T;
          beta = moon_beta T;
          eps = obliquity n;
          sinB = sinDeg beta; cosB = cosDeg beta;
          sinL = sinDeg lambda; cosL = cosDeg lambda;
          sinDec = sinB * cos eps + cosB * sin eps * sinL;
          de = arcsin sinDec;
          r = js_atan2 (cosB * sinL * cos eps - sinB * sin eps) (cosB * cosL);
          h = r - gmstRad ms;
          cd = cos de;
          x = cd * cos h; y = cd * sin h; z = sinDec;
          len = (if hypot3 x y z = 0 then 1 else hypot3 x y z)
      in (x / len, y / len, z / len))"

definition moonIlluminatedFraction :: "real \<Rightarrow> real" where
  "moonIlluminatedFraction ms =
     (let s = sunDirectionEcef ms; m = moonDirectionEcef ms;
          cosPsi = dot s m;
          f = (1 - cosPsi) / 2
      in if f < 0 then 0 else if f > 1 then 1 else f)"

section \<open>The planets\<close>

definition PLANET_NAMES :: "string list" where
  "PLANET_NAMES = [''mercury'', ''venus'', ''mars'', ''jupiter'', ''saturn'']"

text \<open>Keplerian elements: the value at J2000 and the rate per century.\<close>

record elements =
  el_a :: "real \<times> real"
  el_e :: "real \<times> real"
  el_I :: "real \<times> real"
  el_L :: "real \<times> real"
  el_wbar :: "real \<times> real"
  el_node :: "real \<times> real"

definition PLANET_ELEMENTS :: "(string \<times> elements) list" where
  "PLANET_ELEMENTS =
    [(''mercury'', \<lparr>
        el_a = (0.38709927, 0.00000037), el_e = (0.20563593, 0.00001906), el_I = (7.00497902, - 0.00594749),
        el_L = (252.25032350, 149472.67411175), el_wbar = (77.45779628, 0.16047689),
        el_node = (48.33076593, - 0.12534081)\<rparr>),
     (''venus'', \<lparr>
        el_a = (0.72333566, 0.00000390), el_e = (0.00677672, - 0.00004107), el_I = (3.39467605, - 0.00078890),
        el_L = (181.97909950, 58517.81538729), el_wbar = (131.60246718, 0.00268329),
        el_node = (76.67984255, - 0.27769418)\<rparr>),
     (''embary'', \<lparr>
        el_a = (1.00000261, 0.00000562), el_e = (0.01671123, - 0.00004392), el_I = (- 0.00001531, - 0.01294668),
        el_L = (100.46457166, 35999.37244981), el_wbar = (102.93768193, 0.32327364), el_node = (0, 0)\<rparr>),
     (''mars'', \<lparr>
        el_a = (1.52371034, 0.00001847), el_e = (0.09339410, 0.00007882), el_I = (1.84969142, - 0.00813131),
        el_L = (- 4.55343205, 19140.30268499), el_wbar = (- 23.94362959, 0.44441088),
        el_node = (49.55953891, - 0.29257343)\<rparr>),
     (''jupiter'', \<lparr>
        el_a = (5.20288700, - 0.00011607), el_e = (0.04838624, - 0.00013253), el_I = (1.30439695, - 0.00183714),
        el_L = (34.39644051, 3034.74612775), el_wbar = (14.72847983, 0.21252668),
        el_node = (100.47390909, 0.20469106)\<rparr>),
     (''saturn'', \<lparr>
        el_a = (9.53667594, - 0.00125060), el_e = (0.05386179, - 0.00050991), el_I = (2.48599187, 0.00193609),
        el_L = (49.95424423, 1222.49362201), el_wbar = (92.59887831, - 0.41897216),
        el_node = (113.66242448, - 0.28867794)\<rparr>)]"

definition PLANET_V0 :: "(string \<times> real) list" where
  "PLANET_V0 = [(''mercury'', - 0.42), (''venus'', - 4.40), (''mars'', - 1.52), (''jupiter'', - 9.40),
     (''saturn'', - 8.88)]"

definition at_time :: "real \<times> real \<Rightarrow> real \<Rightarrow> real" where
  "at_time p T = fst p + snd p * T"

text \<open>One step of the Newton iteration for \<open>M = E - e sin E\<close>.\<close>

definition kepler_step :: "real \<Rightarrow> real \<Rightarrow> real \<Rightarrow> real" where
  "kepler_step e M E = E - (E - e * sin E - M) / (1 - e * cos E)"

definition eccentric_anomaly :: "real \<Rightarrow> real \<Rightarrow> real" where
  "eccentric_anomaly e M = (kepler_step e M ^^ 6) (M + e * sin M)"

definition heliocentricEcliptic :: "elements \<Rightarrow> real \<Rightarrow> vec3" where
  "heliocentricEcliptic el T =
     (let a = at_time (el_a el) T;
          e = at_time (el_e el) T;
          I = at_time (el_I el) T * DEG;
          L = at_time (el_L el) T;
          wbar = at_time (el_wbar el) T;
          node = at_time (el_node el) T;
          omega = (wbar - node) * DEG;
          Omega = node * DEG;
          M = wrapDeg180 (L - wbar) * DEG;
          E = eccentric_anomaly e M;
          xp = a * (cos E - e);
          yp = a * sqrt (1 - e * e) * sin E;
          cw = cos omega; sw = sin omega;
          cO = cos Omega; sO = sin Omega;
          cI = cos I; sI = sin I
      in ((cw * cO - sw * sO * cI) * xp + (- sw * cO - cw * sO * cI) * yp,
          (cw * sO + sw * cO * cI) * xp + (- sw * sO + cw * cO * cI) * yp,
          (sw * sI) * xp + (cw * sI) * yp))"

record planet =
  p_name :: string
  p_dir :: vec3
  p_mag :: real

definition planet_at :: "real \<Rightarrow> string \<Rightarrow> planet" where
  "planet_at ms name =
     (let n = daysSinceJ2000 ms;
          T = n / 36525;
          eps = obliquity n;
          earth = heliocentricEcliptic (the (map_of PLANET_ELEMENTS ''embary'')) T;
          helio = heliocentricEcliptic (the (map_of PLANET_ELEMENTS name)) T
      in case vsub helio earth of (gx, gy, gz) \<Rightarrow>
        let xeq = gx;
            yeq = gy * cos eps - gz * sin eps;
            zeq = gy * sin eps + gz * cos eps;
            len = (if hypot3 xeq yeq zeq = 0 then 1 else hypot3 xeq yeq zeq);
            r = vlen helio;
            delta = hypot3 gx gy gz
        in \<lparr>p_name = name, p_dir = eciToEcef (xeq / len, yeq / len, zeq / len) (gmstRad ms),
            p_mag = the (map_of PLANET_V0 name) + 5 * log 10 (r * delta)\<rparr>)"

definition planetsEcef :: "real \<Rightarrow> planet list" where
  "planetsEcef ms = map (planet_at ms) PLANET_NAMES"

section \<open>The stars\<close>

definition STAR_MAGS :: "real list" where
  "STAR_MAGS = map mag STAR_CATALOG"

definition STAR_ECI :: "vec3 list" where
  "STAR_ECI = map (\<lambda>s. raDecToEci (ra s * DEG) (dec s * DEG)) STAR_CATALOG"

text \<open>\<open>out\<close> is the array that is written to, three components per star.\<close>

definition write_star :: "real \<Rightarrow> real \<Rightarrow> nat \<Rightarrow> real list \<Rightarrow> real list" where
  "write_star cg sg i out =
     (case STAR_ECI ! i of (x, y, z) \<Rightarrow>
       out[i * 3 := x * cg + y * sg, i * 3 + 1 := - x * sg + y * cg, i * 3 + 2 := z])"

definition starsEcefInto :: "real \<Rightarrow> real list \<Rightarrow> real list \<times> nat" where
  "starsEcefInto ms out =
     (let g = gmstRad ms
      in (fold (write_star (cos g) (sin g)) [0..<STAR_COUNT] out, STAR_COUNT))"

end
