(* ===== verification/Sky_Facts.thy ===== *)
theory Sky_Facts
  imports Sky
begin

text \<open>
  Correctness of the sky: every body is a unit direction, the Moon is the closed formula of its
  ecliptic coordinates, Kepler's equation is solved, no planet is ever at the Earth, and the
  array of star positions is filled exactly.
\<close>

section \<open>Rotations\<close>

lemma rotate_sq: "(x * c - y * s)\<^sup>2 + (x * s + y * c)\<^sup>2 = (x\<^sup>2 + y\<^sup>2) * (c\<^sup>2 + s\<^sup>2)" for x y c s :: real
  by (simp add: power2_eq_square algebra_simps)

lemma rotate_trig: "(x * cos t - y * sin t)\<^sup>2 + (x * sin t + y * cos t)\<^sup>2 = x\<^sup>2 + y\<^sup>2"
  for x y t :: real
  using rotate_sq [of x "cos t" y "sin t"] by simp

lemma eciToEcef_length: "vlen (eciToEcef v g) = vlen v"
proof (cases v)
  case (fields x y z)
  have "(x * cos g + y * sin g)\<^sup>2 + (- x * sin g + y * cos g)\<^sup>2 = x\<^sup>2 + y\<^sup>2"
    using rotate_trig [of x "- g" y] by (simp add: algebra_simps)
  then show ?thesis by (simp add: fields eciToEcef_def vlen_def hypot3_def)
qed

lemma raDecToEci_length: "vlen (raDecToEci r d) = 1"
proof -
  have "(cos d * cos r)\<^sup>2 + (cos d * sin r)\<^sup>2 = (cos d)\<^sup>2 * ((sin r)\<^sup>2 + (cos r)\<^sup>2)"
    by (simp only: power_mult_distrib distrib_left ac_simps)
  then show ?thesis by (simp add: raDecToEci_def vlen_def hypot3_def)
qed

lemma gmst_trig:
  "cos (gmstRad ms) = cos ((280.46061837 + 360.98564736629 * daysSinceJ2000 ms) * DEG)"
  "sin (gmstRad ms) = sin ((280.46061837 + 360.98564736629 * daysSinceJ2000 ms) * DEG)"
  by (simp_all only: gmstRad_def wrapDeg_sin)

section \<open>The Moon\<close>

lemma moon_formula:
  fixes ms
  defines "n \<equiv> daysSinceJ2000 ms"
  defines "b \<equiv> moon_beta (n / 36525) * DEG" and "l \<equiv> moon_lambda (n / 36525) * DEG"
  defines "e \<equiv> obliquity n"
  shows "moonDirectionEcef ms =
      eciToEcef (cos b * cos l, cos b * sin l * cos e - sin b * sin e,
        sin b * cos e + cos b * sin e * sin l) (gmstRad ms) \<and>
    vlen (moonDirectionEcef ms) = 1"
proof -
  let ?x = "cos b * cos l" and ?y = "cos b * sin l * cos e - sin b * sin e"
    and ?z = "sin b * cos e + cos b * sin e * sin l"
  have "?y\<^sup>2 + ?z\<^sup>2 = (cos b * sin l)\<^sup>2 + (sin b)\<^sup>2"
    using rotate_trig [of "cos b * sin l" e "sin b"] by (simp add: algebra_simps)
  moreover have "?x\<^sup>2 + (cos b * sin l)\<^sup>2 = (cos b)\<^sup>2 * ((sin l)\<^sup>2 + (cos l)\<^sup>2)"
    by (simp only: power_mult_distrib distrib_left ac_simps)
  then have "?x\<^sup>2 + (cos b * sin l)\<^sup>2 = (cos b)\<^sup>2" by simp
  ultimately have unit: "?x\<^sup>2 + ?y\<^sup>2 + ?z\<^sup>2 = 1"
    using sin_cos_squared_add [of b] by linarith
  note polar = polar_rotate(1) [OF unit] polar_rotate(2-4) [OF unit, of "gmstRad ms"]
  let ?ra = "js_atan2 ?y ?x" and ?g = "gmstRad ms"
  have "moonDirectionEcef ms =
      (let x = cos (arcsin ?z) * cos (?ra - ?g); y = cos (arcsin ?z) * sin (?ra - ?g); z = ?z;
           len = (if hypot3 x y z = 0 then 1 else hypot3 x y z)
       in (x / len, y / len, z / len))"
    by (simp only: moonDirectionEcef_def Let_def sinDeg_def cosDeg_def n_def b_def l_def e_def)
  also have "\<dots> = eciToEcef (?x, ?y, ?z) ?g"
    using polar by (simp add: Let_def eciToEcef_def del: hypot3_eq_0)
  finally show ?thesis
    using polar(4) by (simp add: eciToEcef_def vlen_def algebra_simps)
qed

lemma sun_unit: "vlen (sunDirectionEcef ms) = 1"
  using sun_direction by blast

lemma dot_unit:
  assumes "dot s s = 1" and "dot m m = 1"
  shows "\<bar>dot s m\<bar> \<le> 1"
proof -
  have "0 \<le> dot (cross s m) (cross s m)" by (metis vlen_sq zero_le_power2)
  then have "(dot s m)\<^sup>2 \<le> 1" using lagrange [of s m] assms by simp
  then show ?thesis by (simp add: abs_square_le_1)
qed

section \<open>Kepler's equation\<close>

lemma sin_near: "\<bar>sin (E + d) - sin E - d * cos E\<bar> \<le> d\<^sup>2" for E d :: real
proof -
  have "\<bar>sin d - d\<bar> \<le> d\<^sup>2 / 2"
    using Maclaurin_sin_bound [of d 2] by (simp add: sin_coeff_def numeral_2_eq_2)
  moreover have "\<bar>1 - cos d\<bar> \<le> d\<^sup>2 / 2"
  proof -
    have "(sin (d / 2))\<^sup>2 \<le> (d / 2)\<^sup>2"
      using power_mono [OF abs_sin_x_le_abs_x [of "d / 2"], of 2] by (simp add: power_divide)
    then show ?thesis using cos_double_sin [of "d / 2"] by (simp add: power_divide)
  qed
  moreover have "sin (E + d) - sin E - d * cos E = cos E * (sin d - d) - sin E * (1 - cos d)"
    by (simp add: sin_add algebra_simps)
  moreover have "\<bar>cos E * (sin d - d)\<bar> \<le> \<bar>sin d - d\<bar>" "\<bar>sin E * (1 - cos d)\<bar> \<le> \<bar>1 - cos d\<bar>"
    by (simp_all add: abs_mult mult_left_le_one_le)
  ultimately show ?thesis by linarith
qed

definition kepler_residual :: "real \<Rightarrow> real \<Rightarrow> real \<Rightarrow> real" where
  "kepler_residual e M E = E - e * sin E - M"

lemma kepler_slope:
  fixes e E :: real
  assumes "0 \<le> e" and "e \<le> 0.21"
  shows "0.79 \<le> 1 - e * cos E"
  using mult_left_mono [OF cos_le_one [of E] assms(1)] assms(2) by simp

lemma kepler_slope_pos: "0 \<le> e \<Longrightarrow> e \<le> 0.21 \<Longrightarrow> 0 < 1 - e * cos E" for e E :: real
  by (rule less_le_trans [OF _ kepler_slope]) simp_all

text \<open>A Newton step squares the residual, up to a factor of a half.\<close>

lemma kepler_step_residual:
  assumes "0 \<le> e" and "e \<le> 0.21"
  shows "\<bar>kepler_residual e M (kepler_step e M E)\<bar> \<le> (kepler_residual e M E)\<^sup>2 / 2"
proof -
  define r where "r = kepler_residual e M E"
  define s where "s = 1 - e * cos E"
  define d where "d = - (r / s)"
  have s: "0.79 \<le> s" using kepler_slope [OF assms] by (simp add: s_def)
  have "kepler_step e M E = E + d" by (simp add: kepler_step_def d_def r_def s_def kepler_residual_def)
  moreover have "d * s = - r" using s by (simp add: d_def)
  ultimately have "kepler_residual e M (kepler_step e M E) = - e * (sin (E + d) - sin E - d * cos E)"
    by (simp add: kepler_residual_def r_def s_def algebra_simps)
  then have "\<bar>kepler_residual e M (kepler_step e M E)\<bar> = e * \<bar>sin (E + d) - sin E - d * cos E\<bar>"
    using assms by (simp add: abs_mult)
  also have "\<dots> \<le> 0.21 * d\<^sup>2"
    using assms sin_near by (intro mult_mono) simp_all
  also have "\<dots> \<le> r\<^sup>2 / 2"
  proof -
    have "r\<^sup>2 = d\<^sup>2 * s\<^sup>2" using \<open>d * s = - r\<close> by (metis power2_minus power_mult_distrib)
    moreover have "0.79 * 0.79 \<le> s * s" using s by (intro mult_mono) simp_all
    then have "0.6241 \<le> s\<^sup>2" by (simp add: power2_eq_square)
    then have "d\<^sup>2 * 0.6241 \<le> d\<^sup>2 * s\<^sup>2" by (intro mult_left_mono) simp_all
    ultimately have "d\<^sup>2 * 0.6241 \<le> r\<^sup>2" by simp
    then have "d\<^sup>2 * 6241 \<le> r\<^sup>2 * 10000" by simp
    then have "21 * d\<^sup>2 \<le> r\<^sup>2 * 50" using zero_le_power2 [of d] by linarith
    then show ?thesis by simp
  qed
  finally show ?thesis by (simp add: r_def)
qed

lemma kepler_iterate:
  assumes "0 \<le> e" and "e \<le> 0.21" and "\<bar>kepler_residual e M E\<bar> \<le> 2 * q" and "0 \<le> q"
  shows "\<bar>kepler_residual e M ((kepler_step e M ^^ k) E)\<bar> \<le> 2 * q ^ (2 ^ k)"
proof (induction k)
  case (Suc k)
  let ?E = "(kepler_step e M ^^ k) E"
  have "\<bar>kepler_residual e M ((kepler_step e M ^^ Suc k) E)\<bar> \<le> (kepler_residual e M ?E)\<^sup>2 / 2"
    using kepler_step_residual [OF assms(1,2)] by simp
  also have "\<dots> \<le> (2 * q ^ (2 ^ k))\<^sup>2 / 2"
    using power_mono [OF Suc, of 2] by simp
  also have "\<dots> = 2 * q ^ (2 ^ Suc k)"
    by (simp add: power_mult_distrib power_mult [symmetric] mult.commute)
  finally show ?case .
qed (use assms in simp)

lemma kepler_solved:
  assumes "0 \<le> e" and "e \<le> 0.21"
  shows "\<bar>kepler_residual e M (eccentric_anomaly e M)\<bar> \<le> 1 / 10 ^ 100"
proof -
  let ?E = "M + e * sin M"
  have "kepler_residual e M ?E = - e * (sin ?E - sin M)" by (simp add: kepler_residual_def algebra_simps)
  then have "\<bar>kepler_residual e M ?E\<bar> = e * \<bar>sin ?E - sin M\<bar>" using assms by (simp add: abs_mult)
  also have "\<bar>sin ?E - sin M\<bar> \<le> \<bar>?E - M\<bar>"
  proof -
    have "\<bar>sin ?E - sin M\<bar> = 2 * \<bar>sin ((?E - M) / 2)\<bar> * \<bar>cos ((?E + M) / 2)\<bar>"
      by (simp add: sin_diff_sin abs_mult)
    also have "\<dots> \<le> 2 * \<bar>(?E - M) / 2\<bar> * 1"
      using abs_sin_x_le_abs_x [of "(?E - M) / 2"] by (intro mult_mono) simp_all
    finally show ?thesis by simp
  qed
  also have "\<bar>?E - M\<bar> \<le> e" using assms by (simp add: abs_mult mult_left_le)
  finally have "\<bar>kepler_residual e M ?E\<bar> \<le> e * e" using assms(1) by (simp add: mult_left_mono)
  also have "\<dots> \<le> 0.21 * 0.21" using assms by (intro mult_mono) simp_all
  finally have "\<bar>kepler_residual e M ?E\<bar> \<le> 2 * (1 / 40)" by simp
  from kepler_iterate [OF assms this, of 6]
  have "\<bar>kepler_residual e M (eccentric_anomaly e M)\<bar> \<le> 2 * (1 / 40) ^ 64"
    by (simp add: eccentric_anomaly_def)
  also have "\<dots> \<le> 1 / 10 ^ 100" by (simp add: power_divide)
  finally show ?thesis .
qed

section \<open>The planets\<close>

lemma vlen_sq_sum: "(vlen (x, y, z))\<^sup>2 = x\<^sup>2 + y\<^sup>2 + z\<^sup>2"
  by (simp add: vlen_def hypot3_sq)

text \<open>The distance from the Sun along the ellipse.\<close>

lemma helio_length:
  fixes el T
  defines "e \<equiv> at_time (el_e el) T"
  defines "E \<equiv> eccentric_anomaly e (wrapDeg180 (at_time (el_L el) T - at_time (el_wbar el) T) * DEG)"
  assumes a: "0 < at_time (el_a el) T" and e: "0 \<le> e" "e \<le> 0.21"
  shows "vlen (heliocentricEcliptic el T) = at_time (el_a el) T * (1 - e * cos E)"
proof -
  define w where "w = (at_time (el_wbar el) T - at_time (el_node el) T) * DEG"
  define t where "t = at_time (el_node el) T * DEG"
  define i where "i = at_time (el_I el) T * DEG"
  define xp where "xp = at_time (el_a el) T * (cos E - e)"
  define yp where "yp = at_time (el_a el) T * sqrt (1 - e * e) * sin E"
  define p where "p = xp * cos w - yp * sin w"
  define q where "q = xp * sin w + yp * cos w"
  have h: "heliocentricEcliptic el T =
      (p * cos t - q * cos i * sin t, p * sin t + q * cos i * cos t, q * sin i)"
    unfolding heliocentricEcliptic_def Let_def e_def [symmetric] E_def [symmetric]
      w_def [symmetric] t_def [symmetric] i_def [symmetric] xp_def [symmetric] yp_def [symmetric]
    by (simp add: p_def q_def algebra_simps)
  have "(vlen (heliocentricEcliptic el T))\<^sup>2 = p\<^sup>2 + (q * cos i)\<^sup>2 + (q * sin i)\<^sup>2"
    unfolding h vlen_sq_sum using rotate_trig [of p t "q * cos i"] by simp
  also have "\<dots> = p\<^sup>2 + q\<^sup>2 * ((sin i)\<^sup>2 + (cos i)\<^sup>2)" by (simp only: power_mult_distrib distrib_left ac_simps)
  also have "\<dots> = xp\<^sup>2 + yp\<^sup>2" using rotate_trig [of xp w yp] by (simp add: p_def q_def)
  also have "\<dots> = (at_time (el_a el) T)\<^sup>2 * ((cos E - e)\<^sup>2 + (1 - e * e) * (sin E)\<^sup>2)"
  proof -
    have "e * e \<le> 1 * 1" using e by (intro mult_mono) simp_all
    then show ?thesis by (simp add: xp_def yp_def power_mult_distrib distrib_left)
  qed
  also have "(cos E - e)\<^sup>2 + (1 - e * e) * (sin E)\<^sup>2 = (1 - e * cos E)\<^sup>2"
    unfolding sin_squared_eq by (simp add: power2_eq_square algebra_simps)
  finally have "(vlen (heliocentricEcliptic el T))\<^sup>2 = (at_time (el_a el) T * (1 - e * cos E))\<^sup>2"
    by (simp add: power_mult_distrib)
  moreover have "0 \<le> at_time (el_a el) T * (1 - e * cos E)"
    using a kepler_slope [OF e, of E] by simp
  ultimately show ?thesis by (metis power2_eq_iff_nonneg vlen_ge_0)
qed

definition inner :: "string set" where "inner = {''mercury'', ''venus''}"

text \<open>The elements five centuries either side of J2000.\<close>

lemma elements_range:
  assumes "(name, el) \<in> set PLANET_ELEMENTS" and "\<bar>T\<bar> \<le> 5"
  shows "0 < at_time (el_a el) T \<and> 0 \<le> at_time (el_e el) T \<and> at_time (el_e el) T \<le> 0.21 \<and>
    (if name \<in> inner then at_time (el_a el) T \<le> 0.73
     else if name = ''embary'' then 0.99 \<le> at_time (el_a el) T \<and> at_time (el_a el) T \<le> 1.01 \<and> at_time (el_e el) T \<le> 0.02
     else 1.5 \<le> at_time (el_a el) T \<and> at_time (el_e el) T \<le> 0.1)"
proof -
  have T: "- 5 \<le> T" "T \<le> 5" using assms(2) by linarith+
  show ?thesis
    using assms(1) unfolding PLANET_ELEMENTS_def list.set insert_iff empty_iff
    by (elim disjE FalseE) (use T in \<open>simp_all add: at_time_def inner_def\<close>)
qed

lemma helio_range:
  assumes "(name, el) \<in> set PLANET_ELEMENTS" and "\<bar>T\<bar> \<le> 5"
  shows "if name \<in> inner then vlen (heliocentricEcliptic el T) < 0.9
     else if name = ''embary'' then 0.9 < vlen (heliocentricEcliptic el T) \<and> vlen (heliocentricEcliptic el T) < 1.1
     else 1.1 < vlen (heliocentricEcliptic el T)"
proof -
  define a e where "a = at_time (el_a el) T" and "e = at_time (el_e el) T"
  note R = elements_range [OF assms, folded a_def e_def]
  obtain E where len: "vlen (heliocentricEcliptic el T) = a * (1 - e * cos E)"
    using helio_length [of el T] R unfolding a_def e_def by blast
  define c where "c = cos E"
  have c: "- 1 \<le> c" "c \<le> 1" by (simp_all add: c_def)
  note len = len [folded c_def]
  have "e * c \<le> e * 1" "e * (- 1) \<le> e * c" using R c by (intro mult_left_mono; simp)+
  then have ec: "1 - e \<le> 1 - e * c" "1 - e * c \<le> 1 + e" by simp_all
  have lo: "a * (1 - e) \<le> a * (1 - e * c)" and hi: "a * (1 - e * c) \<le> a * (1 + e)"
    using R ec by (intro mult_left_mono; simp)+
  show ?thesis
  proof (cases "name \<in> inner")
    case True
    then have "a * (1 + e) \<le> 0.73 * 1.21" using R by (intro mult_mono) auto
    then have "a * (1 + e) < 0.9" by simp
    with True hi len show ?thesis by simp
  next
    case False
    show ?thesis
    proof (cases "name = ''embary''")
      case True
      then have "a * (1 + e) \<le> 1.01 * 1.02" "0.99 * 0.98 \<le> a * (1 - e)"
        using R False by (intro mult_mono; auto)+
      then have "a * (1 + e) < 1.1" "0.9 < a * (1 - e)" by simp_all
      with True False lo hi len show ?thesis by simp
    next
      case outer: False
      then have "1.5 * 0.9 \<le> a * (1 - e)" using R False by (intro mult_mono) auto
      then have "1.1 < a * (1 - e)" by simp
      with outer False lo len show ?thesis by simp
    qed
  qed
qed

lemma planet_names: "name \<in> set PLANET_NAMES \<Longrightarrow>
    \<exists>el. map_of PLANET_ELEMENTS name = Some el \<and> (name, el) \<in> set PLANET_ELEMENTS \<and> name \<noteq> ''embary''"
  by (auto simp: PLANET_NAMES_def PLANET_ELEMENTS_def)

text \<open>No planet is ever at the Earth, so its direction is one.\<close>

lemma planet_apart:
  assumes "name \<in> set PLANET_NAMES" and "\<bar>T\<bar> \<le> 5"
  shows "0 < vlen (heliocentricEcliptic (the (map_of PLANET_ELEMENTS name)) T) \<and>
    0 < vlen (vsub (heliocentricEcliptic (the (map_of PLANET_ELEMENTS name)) T)
      (heliocentricEcliptic (the (map_of PLANET_ELEMENTS ''embary'')) T))"
proof -
  obtain el where el: "map_of PLANET_ELEMENTS name = Some el" "(name, el) \<in> set PLANET_ELEMENTS"
    and ne: "name \<noteq> ''embary''"
    using planet_names [OF assms(1)] by blast
  obtain em where em: "map_of PLANET_ELEMENTS ''embary'' = Some em" "(''embary'', em) \<in> set PLANET_ELEMENTS"
    by (simp add: PLANET_ELEMENTS_def)
  let ?h = "heliocentricEcliptic el T" and ?g = "heliocentricEcliptic em T"
  have "vlen ?h \<noteq> vlen ?g"
    using helio_range [OF el(2) assms(2)] helio_range [OF em(2) assms(2)] ne by (auto simp: inner_def split: if_splits)
  then have "vsub ?h ?g \<noteq> (0, 0, 0)" by (cases ?h; cases ?g) (auto simp: vsub_def)
  then have "0 < vlen (vsub ?h ?g)" using vlen_ge_0 [of "vsub ?h ?g"] by (metis less_eq_real_def vlen_eq_0)
  moreover have "0 < vlen ?h"
  proof -
    have R: "0 < at_time (el_a el) T" "0 \<le> at_time (el_e el) T" "at_time (el_e el) T \<le> 0.21"
      using elements_range [OF el(2) assms(2)] by blast+
    show ?thesis unfolding helio_length [OF R] by (intro mult_pos_pos R(1) kepler_slope_pos [OF R(2,3)])
  qed
  ultimately show ?thesis by (simp add: el em)
qed

lemma ecliptic_rotation: "hypot3 x (y * cos e - z * sin e) (y * sin e + z * cos e) = hypot3 x y z"
  using rotate_trig [of y e z] by (simp add: hypot3_def add.assoc)

lemma planet_at_facts:
  assumes "name \<in> set PLANET_NAMES" and "\<bar>daysSinceJ2000 ms / 36525\<bar> \<le> 5"
  shows "p_name (planet_at ms name) = name \<and> vlen (p_dir (planet_at ms name)) = 1 \<and>
    (\<exists>r > 0. p_mag (planet_at ms name) = the (map_of PLANET_V0 name) + 5 * log 10 r)"
proof -
  let ?T = "daysSinceJ2000 ms / 36525"
  define h where "h = heliocentricEcliptic (the (map_of PLANET_ELEMENTS name)) ?T"
  define g where "g = vsub h (heliocentricEcliptic (the (map_of PLANET_ELEMENTS ''embary'')) ?T)"
  obtain gx gy gz where gd: "g = (gx, gy, gz)" by (cases g)
  have pos: "0 < vlen h" "0 < vlen g" using planet_apart [OF assms] by (simp_all add: h_def g_def)
  define e where "e = obliquity (daysSinceJ2000 ms)"
  define v where "v = (gx, gy * cos e - gz * sin e, gy * sin e + gz * cos e)"
  have len: "vlen v = vlen g" by (simp add: v_def gd vlen_def ecliptic_rotation)
  have p: "planet_at ms name = \<lparr>p_name = name, p_dir = eciToEcef (vscale v (1 / vlen v)) (gmstRad ms),
      p_mag = the (map_of PLANET_V0 name) + 5 * log 10 (vlen h * vlen g)\<rparr>"
    using pos len unfolding planet_at_def Let_def h_def [symmetric] g_def [symmetric] e_def [symmetric] gd prod.case
    by (simp add: v_def vscale_def vlen_def)
  have "vlen (vscale v (1 / vlen v)) = 1" using pos(2) len by (simp add: vlen_scale del: vlen_eq_0)
  moreover have "0 < vlen h * vlen g" using pos by simp
  ultimately show ?thesis by (auto simp: p eciToEcef_length)
qed

section \<open>The stars\<close>

lemma drop_3: "n + 3 \<le> length out \<Longrightarrow> drop n out = out ! n # out ! (n + 1) # out ! (n + 2) # drop (n + 3) out"
  by (simp add: Cons_nth_drop_Suc [symmetric] eval_nat_numeral)

lemma write_stars:
  assumes "n * 3 \<le> length out"
  shows "fold (write_star (cos g) (sin g)) [0..<n] out =
    concat (map (\<lambda>i. case eciToEcef (STAR_ECI ! i) g of (x, y, z) \<Rightarrow> [x, y, z]) [0..<n]) @ drop (n * 3) out"
  using assms
proof (induction n)
  case (Suc n)
  let ?pre = "concat (map (\<lambda>i. case eciToEcef (STAR_ECI ! i) g of (x, y, z) \<Rightarrow> [x, y, z]) [0..<n])"
  have l: "length ?pre = n * 3"
    by (simp add: length_concat comp_def sum_list_triv split_def)
  obtain x y z where v: "STAR_ECI ! n = (x, y, z)" by (cases "STAR_ECI ! n")
  have d: "drop (n * 3) out = out ! (n * 3) # out ! (n * 3 + 1) # out ! (n * 3 + 2) # drop (n * 3 + 3) out"
    using Suc.prems by (intro drop_3) simp
  have "write_star (cos g) (sin g) n (?pre @ drop (n * 3) out) =
      ?pre @ [x * cos g + y * sin g, - x * sin g + y * cos g, z] @ drop (n * 3 + 3) out"
    unfolding d by (simp add: write_star_def v list_update_append l)
  with Suc show ?case by (simp add: v eciToEcef_def add.commute)
qed simp

section \<open>Properties\<close>

text \<open>C37: Five centuries either side of J2000, the six Newton steps of the code solve Kepler's equation
  to within 10^-100 for the elements of every body in the table (the divisions are by at least 0.79), and
  the body is then at the distance from the Sun that its ellipse prescribes.\<close>

theorem kepler_equation_solved:
  assumes "(name, el) \<in> set PLANET_ELEMENTS" and "\<bar>T\<bar> \<le> 5"
  shows "let e = at_time (el_e el) T; M = wrapDeg180 (at_time (el_L el) T - at_time (el_wbar el) T) * DEG;
       E = eccentric_anomaly e M
     in \<bar>E - e * sin E - M\<bar> \<le> 1 / 10 ^ 100 \<and> 0.79 \<le> 1 - e * cos E \<and>
       vlen (heliocentricEcliptic el T) = at_time (el_a el) T * (1 - e * cos E)"
proof -
  have R: "0 < at_time (el_a el) T" "0 \<le> at_time (el_e el) T" "at_time (el_e el) T \<le> 0.21"
    using elements_range [OF assms] by blast+
  show ?thesis
    using kepler_solved [OF R(2,3)] kepler_slope [OF R(2,3)] helio_length [OF R]
    unfolding Let_def kepler_residual_def by blast
qed

theorem kepler_equation_solved_witness:
  "\<exists>E. \<bar>E - 0.20563593 * sin E - wrapDeg180 (252.25032350 - 77.45779628) * DEG\<bar> \<le> 1 / 10 ^ 100"
  using kepler_equation_solved [of "''mercury''" "the (map_of PLANET_ELEMENTS ''mercury'')" 0]
  by (auto simp: PLANET_ELEMENTS_def at_time_def Let_def)

text \<open>Five centuries either side of J2000, the planets come in the order of their names, each as a unit
  direction: no planet is ever at the Earth or the Sun, so the magnitude is that of a positive
  distance.\<close>

theorem planets_are_directions:
  assumes "\<bar>daysSinceJ2000 ms / 36525\<bar> \<le> 5"
  shows "map p_name (planetsEcef ms) = PLANET_NAMES \<and>
    (\<forall>p \<in> set (planetsEcef ms). vlen (p_dir p) = 1 \<and>
      (\<exists>r > 0. p_mag p = the (map_of PLANET_V0 (p_name p)) + 5 * log 10 r))"
proof -
  have "map p_name (planetsEcef ms) = map (\<lambda>x. x) PLANET_NAMES"
    unfolding planetsEcef_def map_map comp_def using planet_at_facts [OF _ assms] by (intro map_cong) simp_all
  then show ?thesis using planet_at_facts [OF _ assms] by (auto simp: planetsEcef_def)
qed

theorem planets_are_directions_witness:
  "map p_name (planetsEcef 946728000000) = [''mercury'', ''venus'', ''mars'', ''jupiter'', ''saturn'']"
  using planets_are_directions [of 946728000000] by (simp add: daysSinceJ2000_def PLANET_NAMES_def)

text \<open>The Moon's direction is the unit vector of its ecliptic longitude and latitude, turned by the
  obliquity and the Earth's rotation, and its illuminated fraction is that of the angle between it and
  the Sun: it is between 0 and 1 before the final clamping, which changes nothing.\<close>

theorem moon_direction:
  "(let n = daysSinceJ2000 ms; b = moon_beta (n / 36525) * DEG; l = moon_lambda (n / 36525) * DEG;
       e = obliquity n
     in moonDirectionEcef ms =
        eciToEcef (cos b * cos l, cos b * sin l * cos e - sin b * sin e,
          sin b * cos e + cos b * sin e * sin l) (gmstRad ms)) \<and>
   vlen (moonDirectionEcef ms) = 1 \<and>
   moonIlluminatedFraction ms = (1 - dot (sunDirectionEcef ms) (moonDirectionEcef ms)) / 2 \<and>
   0 \<le> moonIlluminatedFraction ms \<and> moonIlluminatedFraction ms \<le> 1"
proof -
  have unit: "vlen (moonDirectionEcef ms) = 1" using moon_formula [of ms] by blast
  have "\<bar>dot (sunDirectionEcef ms) (moonDirectionEcef ms)\<bar> \<le> 1"
    by (rule dot_unit) (rule vlen_one_sq, rule sun_unit, rule vlen_one_sq, rule unit)
  then have "moonIlluminatedFraction ms = (1 - dot (sunDirectionEcef ms) (moonDirectionEcef ms)) / 2"
    "0 \<le> moonIlluminatedFraction ms" "moonIlluminatedFraction ms \<le> 1"
    by (auto simp: moonIlluminatedFraction_def Let_def)
  with unit moon_formula [of ms] show ?thesis unfolding Let_def by blast
qed

text \<open>The array of star positions is filled exactly: for an array long enough, the 199 catalog stars in
  order, each its catalog direction turned by the sidereal time and of unit length, and nothing after
  them is touched.\<close>

theorem stars_filled:
  assumes "597 \<le> length out"
  shows "starsEcefInto ms out =
      (concat (map (\<lambda>s. case eciToEcef (raDecToEci (ra s * DEG) (dec s * DEG)) (gmstRad ms) of
        (x, y, z) \<Rightarrow> [x, y, z]) STAR_CATALOG) @ drop 597 out, 199) \<and>
    (\<forall>s \<in> set STAR_CATALOG. vlen (eciToEcef (raDecToEci (ra s * DEG) (dec s * DEG)) (gmstRad ms)) = 1)"
proof -
  have n: "STAR_COUNT * 3 \<le> length out" "length STAR_CATALOG = STAR_COUNT"
    using assms by (simp_all add: STAR_COUNT_eq STAR_COUNT_eq [unfolded STAR_COUNT_def])
  have "map (\<lambda>i. case eciToEcef (STAR_ECI ! i) g of (x, y, z) \<Rightarrow> [x, y, z]) [0..<STAR_COUNT] =
      map (\<lambda>s. case eciToEcef (raDecToEci (ra s * DEG) (dec s * DEG)) g of (x, y, z) \<Rightarrow> [x, y, z]) STAR_CATALOG" for g
    by (rule nth_equalityI) (simp_all add: n(2) STAR_ECI_def)
  with write_stars [OF n(1), of "gmstRad ms"] show ?thesis
    by (simp add: starsEcefInto_def Let_def STAR_COUNT_eq eciToEcef_length raDecToEci_length)
qed

theorem stars_filled_witness:
  "length (fst (starsEcefInto 0 (replicate 600 0))) = 600 \<and>
   drop 597 (fst (starsEcefInto 0 (replicate 600 0))) = [0, 0, 0]"
proof -
  let ?f = "\<lambda>s. case eciToEcef (raDecToEci (ra s * DEG) (dec s * DEG)) (gmstRad 0) of (x, y, z) \<Rightarrow> [x, y, z]"
  have l: "length (concat (map ?f STAR_CATALOG)) = 597"
    using STAR_COUNT_eq by (simp add: length_concat comp_def sum_list_triv split_def STAR_COUNT_def)
  have "fst (starsEcefInto 0 (replicate 600 0)) = concat (map ?f STAR_CATALOG) @ drop 597 (replicate 600 0)"
    using stars_filled [of "replicate 600 0" 0] by simp
  with l show ?thesis by (simp add: eval_nat_numeral)
qed

end
