(* ===== verification/Renderer_Sky.thy ===== *)
theory Renderer_Sky
  imports Renderer_Trails Sky_Facts
begin

text \<open>
  frontend/js/renderer.js: the appearance of the sky, and \<open>rebuildSky\<close>, which fills the buffers of
  the stars, the planets and the Moon for one instant.  The GL buffers are the lists uploaded.
\<close>

section \<open>Appearance\<close>

definition SUN_DIST :: real where "SUN_DIST = 150"
definition SKY_DIST :: real where "SKY_DIST = 300"
definition SUN_COLOR :: rgb where "SUN_COLOR = (1, 0.93, 0.7)"

definition PLANET_TINT :: "(string \<times> rgb) list" where
  "PLANET_TINT =
    [(''mercury'', (201 / 255, 184 / 255, 160 / 255)),
     (''venus'', (245 / 255, 243 / 255, 224 / 255)),
     (''mars'', (224 / 255, 102 / 255, 60 / 255)),
     (''jupiter'', (227 / 255, 210 / 255, 168 / 255)),
     (''saturn'', (230 / 255, 207 / 255, 143 / 255))]"

definition MOON_COLOR :: rgb where "MOON_COLOR = (216 / 255, 216 / 255, 208 / 255)"
definition MOON_SIZE_PX :: real where "MOON_SIZE_PX = 26"

definition clamp_mag :: "real \<Rightarrow> real \<Rightarrow> real \<Rightarrow> real" where
  "clamp_mag v lo hi = (if v < lo then lo else if v > hi then hi else v)"

definition starSizeForMag :: "real \<Rightarrow> real" where
  "starSizeForMag m = clamp_mag (5.6 - 0.85 * m) 2.2 7.0"

definition starBrightness :: "real \<Rightarrow> real" where
  "starBrightness m = clamp_mag (1.3 - 0.16 * m) 0.5 1.0"

definition planetSizeForMag :: "real \<Rightarrow> real" where
  "planetSizeForMag m = clamp_mag (7.5 - 0.7 * m) 4.5 11"

definition planetTintScale :: "real \<Rightarrow> real" where
  "planetTintScale m = clamp_mag (0.7 - 0.05 * m) 0.5 1.0"

text \<open>The star attributes that are built once: colour, size and atlas cell.\<close>

definition star_attributes :: "(rgb \<times> real \<times> nat) list" where
  "star_attributes = map (\<lambda>m. let b = starBrightness m
     in ((b, b, min 1 (b * 1.05)), starSizeForMag m, icon ''skyDot'')) STAR_MAGS"

section \<open>The buffers\<close>

record planet_point =
  pp_name :: string
  pp_pos :: vec3
  pp_color :: rgb
  pp_size :: real

record sky =
  starUnit :: "real list"
  starPos :: "real list"
  planetRender :: "planet_point list"
  moonRender :: "vec3 \<times> real"

definition planet_point_of :: "planet \<Rightarrow> planet_point" where
  "planet_point_of p =
     (let tint = (case map_of PLANET_TINT (p_name p) of Some c \<Rightarrow> c | None \<Rightarrow> (1, 1, 1));
          scale = planetTintScale (p_mag p)
      in \<lparr>pp_name = p_name p, pp_pos = vscale (p_dir p) SKY_DIST, pp_color = vscale tint scale,
          pp_size = planetSizeForMag (p_mag p)\<rparr>)"

definition rebuildSky :: "real \<Rightarrow> sky \<Rightarrow> sky" where
  "rebuildSky ms sk =
     (let unit = fst (starsEcefInto ms (starUnit sk))
      in \<lparr>starUnit = unit, starPos = map (\<lambda>x. x * SKY_DIST) unit,
          planetRender = map planet_point_of (take (length PLANET_NAMES) (planetsEcef ms)),
          moonRender = (vscale (moonDirectionEcef ms) SKY_DIST, moonIlluminatedFraction ms)\<rparr>)"

text \<open>The arrays as they are allocated.\<close>

definition empty_sky :: sky where
  "empty_sky = \<lparr>starUnit = replicate (STAR_COUNT * 3) 0, starPos = replicate (STAR_COUNT * 3) 0,
     planetRender = [], moonRender = ((0, 0, 0), 0)\<rparr>"

section \<open>What is uploaded\<close>

lemma star_array: "starsEcefInto ms out = starsEcefInto ms out'"
  if "length out = 597" "length out' = 597"
proof -
  have n: "STAR_COUNT * 3 = 597" by (simp add: STAR_COUNT_eq)
  show ?thesis using that write_stars [of STAR_COUNT _ "gmstRad ms"]
    by (simp add: starsEcefInto_def Let_def n)
qed

lemma starUnit_length: "length (starUnit sk) = 597 \<Longrightarrow> length (starUnit (rebuildSky ms sk)) = 597"
proof -
  have "length (fold (write_star c s) is out) = length out" for c s "is" out
    by (induction "is" arbitrary: out) (simp_all add: write_star_def split: prod.split)
  then show "length (starUnit sk) = 597 \<Longrightarrow> length (starUnit (rebuildSky ms sk)) = 597"
    by (simp add: rebuildSky_def starsEcefInto_def Let_def)
qed

text \<open>The sky at an instant does not depend on what was in the arrays.\<close>

definition sky_at :: "real \<Rightarrow> sky" where
  "sky_at ms = rebuildSky ms empty_sky"

lemma rebuildSky_eq: "length (starUnit sk) = 597 \<Longrightarrow> rebuildSky ms sk = sky_at ms"
  using star_array [of "starUnit sk" "starUnit empty_sky" ms]
  by (simp add: sky_at_def rebuildSky_def Let_def empty_sky_def STAR_COUNT_eq)

lemma sky_at_length: "length (starUnit (sky_at ms)) = 597"
  by (simp add: sky_at_def starUnit_length empty_sky_def STAR_COUNT_eq)

lemma clamp_mag_range: "lo \<le> hi \<Longrightarrow> lo \<le> clamp_mag v lo hi \<and> clamp_mag v lo hi \<le> hi"
  by (simp add: clamp_mag_def)

lemma clamp_mag_antimono:
  "lo \<le> hi \<Longrightarrow> 0 \<le> k \<Longrightarrow> m \<le> m' \<Longrightarrow> clamp_mag (c - k * m') lo hi \<le> clamp_mag (c - k * m) lo hi"
  using mult_left_mono [of m m' k] by (auto simp: clamp_mag_def)

end
