(* ===== verification/Renderer_View.thy ===== *)
theory Renderer_View
  imports Renderer_Trails Renderer_Sky Cameras
begin

text \<open>
  frontend/js/renderer.js: the renderer's state, its public operations without their GL calls,
  the choice between the orbit and the satellite view, projection to the screen, and
  picking.  \<open>date_parse\<close> stands for \<open>Date.parse\<close>.
\<close>

section \<open>State\<close>

definition FOV :: real where "FOV = 45 * DEG"
definition NEAR :: real where "NEAR = 5 / 10"
definition FAR :: real where "FAR = 1000"

definition OCCLUDE_R :: real where "OCCLUDE_R = EARTH_R * (999 / 1000)"

record renderer =
  rn_settings :: r_settings
  rn_snapshot :: "snapshot option"
  rn_selectedId :: "real option"
  lastSnapNow :: real
  sceneEpochMs :: real
  sceneEpochBaseNow :: "real option"
  cssW :: real
  cssH :: real
  dpr :: real
  canvasW :: real
  canvasH :: real
  rn_proj :: mat4
  renderObjects :: "point_row list"
  satRender :: "(real \<times> vec3) option"
  velSegment :: "(vec3 \<times> vec3) option"
  rn_trails :: trails
  trailBuf :: trail_buffer
  rn_sky :: sky
  rn_camera :: camera

definition renderer_camera_options :: camera_options where
  "renderer_camera_options = \<lparr>opt_target = None, opt_minDistance = Some 8, opt_maxDistance = Some 200,
     opt_rotateSpeed = None, opt_zoomSpeed = None, opt_yaw = Some 0, opt_pitch = Some (20 * DEG),
     opt_distance = Some 25\<rparr>"

text \<open>\<open>now\<close> is \<open>Date.now()\<close>, \<open>w\<close> and \<open>h\<close> the size of the GL canvas.\<close>

definition createRenderer :: "real \<Rightarrow> real \<Rightarrow> real \<Rightarrow> renderer" where
  "createRenderer now w h = \<lparr>rn_settings = normalizeSettings JNull, rn_snapshot = None,
     rn_selectedId = None, lastSnapNow = 0, sceneEpochMs = now, sceneEpochBaseNow = None,
     cssW = 1, cssH = 1, dpr = 1, canvasW = w, canvasH = h, rn_proj = perspective FOV 1 NEAR FAR,
     renderObjects = [], satRender = None, velSegment = None, rn_trails = [],
     trailBuf = \<lparr>tb_capacity = 4096, tb_vertCount = 0, tb_vertices = []\<rparr>,
     rn_sky = rebuildSky now empty_sky,
     rn_camera = createCamera renderer_camera_options\<rparr>"

section \<open>Snapshots and settings\<close>

text \<open>The satellite's scene position and the 60 s velocity segment.\<close>

definition velocity_end :: "sat_state \<Rightarrow> vec3" where
  "velocity_end s = (case (sat_pos s, sat_vel s) of ((px, py, pz), (vx, vy, vz)) \<Rightarrow>
     ((px + vx * 60) * SCALE, (py + vy * 60) * SCALE, (pz + vz * 60) * SCALE))"

definition rebuildSatellite :: "renderer \<Rightarrow> renderer" where
  "rebuildSatellite r =
     (case rn_snapshot r of
        None \<Rightarrow> r\<lparr>satRender := None, velSegment := None\<rparr>
      | Some sn \<Rightarrow>
          (case snap_satellite sn of
             None \<Rightarrow> r\<lparr>satRender := None, velSegment := None\<rparr>
           | Some s \<Rightarrow>
               let w = worldFromMeters (sat_pos s)
               in r\<lparr>satRender := Some (sat_id s, w), velSegment := Some (w, velocity_end s)\<rparr>))"

definition rebuild_objects :: "renderer \<Rightarrow> renderer" where
  "rebuild_objects r = r\<lparr>renderObjects := rebuildObjectBuffer (rn_settings r) (rn_snapshot r)\<rparr>"

definition rebuild_trails :: "renderer \<Rightarrow> renderer" where
  "rebuild_trails r =
     r\<lparr>trailBuf := rebuildTrailBuffer (rn_settings r) (lastSnapNow r) (rn_trails r) (trailBuf r)\<rparr>"

definition rebuild_sky :: "renderer \<Rightarrow> renderer" where
  "rebuild_sky r = r\<lparr>rn_sky := rebuildSky (sceneEpochMs r) (rn_sky r)\<rparr>"

definition anchor_epoch :: "(string \<Rightarrow> real option) \<Rightarrow> snapshot option \<Rightarrow> renderer \<Rightarrow> renderer" where
  "anchor_epoch date_parse snap r =
     (case snap of
        None \<Rightarrow> r
      | Some sn \<Rightarrow>
          (case snap_serverTime sn of
             None \<Rightarrow> r
           | Some st \<Rightarrow>
               if st = [] then r
               else case date_parse st of
                   None \<Rightarrow> r
                 | Some ms \<Rightarrow> r\<lparr>sceneEpochMs := ms, sceneEpochBaseNow := Some (lastSnapNow r)\<rparr>))"

definition setSnapshot :: "(string \<Rightarrow> real option) \<Rightarrow> snapshot option \<Rightarrow> real \<Rightarrow> renderer \<Rightarrow> renderer" where
  "setSnapshot date_parse snap nowMs r =
     (let r1 = anchor_epoch date_parse snap (r\<lparr>rn_snapshot := snap, lastSnapNow := nowMs\<rparr>);
          r2 = r1\<lparr>rn_trails := appendTrails date_parse (rn_snapshot r1) (lastSnapNow r1) (rn_trails r1)\<rparr>
      in rebuild_sky (rebuild_trails (rebuildSatellite (rebuild_objects r2))))"

definition setSettings :: "jsval \<Rightarrow> renderer \<Rightarrow> renderer" where
  "setSettings s r = rebuild_trails (rebuild_objects (r\<lparr>rn_settings := normalizeSettings s\<rparr>))"

definition setSelected :: "real option \<Rightarrow> renderer \<Rightarrow> renderer" where
  "setSelected i r = r\<lparr>rn_selectedId := i\<rparr>"

text \<open>\<open>Math.round\<close>; a size of 0 is falsy.\<close>

definition js_round :: "real \<Rightarrow> real" where
  "js_round x = of_int \<lfloor>x + 1 / 2\<rfloor>"

definition first_nonzero :: "real \<Rightarrow> real \<Rightarrow> real" where
  "first_nonzero a b = (if a \<noteq> 0 then a else if b \<noteq> 0 then b else 1)"

definition resize :: "real \<Rightarrow> real \<Rightarrow> real \<Rightarrow> renderer \<Rightarrow> renderer" where
  "resize clientWidth clientHeight devicePixelRatio r =
     (let d = (if devicePixelRatio \<noteq> 0 then devicePixelRatio else 1);
          w = first_nonzero clientWidth (canvasW r);
          h = first_nonzero clientHeight (canvasH r);
          gw = max 1 (js_round (w * d));
          gh = max 1 (js_round (h * d))
      in r\<lparr>dpr := d, cssW := w, cssH := h, canvasW := gw, canvasH := gh,
           rn_proj := perspective FOV (gw / gh) NEAR FAR\<rparr>)"

text \<open>The scene's time at a frame, and the base it anchors on the first one.\<close>

definition sceneNowMs :: "real \<Rightarrow> renderer \<Rightarrow> real \<times> renderer" where
  "sceneNowMs frameNow r =
     (case sceneEpochBaseNow r of
        None \<Rightarrow> (sceneEpochMs r, r\<lparr>sceneEpochBaseNow := Some frameNow\<rparr>)
      | Some base \<Rightarrow> (sceneEpochMs r + (frameNow - base), r))"

definition findRenderById :: "real \<Rightarrow> renderer \<Rightarrow> (real \<times> vec3) option" where
  "findRenderById i r =
     (case satRender r of
        Some (j, w) \<Rightarrow>
          if j = i then Some (j, w)
          else map_option (\<lambda>b. (row_id b, row_pos b)) (find (\<lambda>b. row_id b = i) (renderObjects r))
      | None \<Rightarrow> map_option (\<lambda>b. (row_id b, row_pos b)) (find (\<lambda>b. row_id b = i) (renderObjects r)))"

section \<open>The active view\<close>

record view =
  fisheye :: bool
  view_mat :: mat4
  view_mvp :: "mat4 option"
  view_eye :: vec3
  aspectGl :: real
  aspectCss :: real

definition orbit_view :: "renderer \<Rightarrow> view" where
  "orbit_view r =
     (let ov = getViewMatrix (rn_camera r)
      in \<lparr>fisheye = False, view_mat = ov, view_mvp = Some (multiply (rn_proj r) ov),
          view_eye = getEye (rn_camera r), aspectGl = canvasW r / canvasH r,
          aspectCss = cssW r / cssH r\<rparr>)"

definition computeActiveView :: "renderer \<Rightarrow> view" where
  "computeActiveView r =
     (if r_viewMode (rn_settings r) = Sat then
        (case rn_snapshot r of
           None \<Rightarrow> orbit_view r
         | Some sn \<Rightarrow>
             (case snap_satellite sn of
                None \<Rightarrow> orbit_view r
              | Some s \<Rightarrow>
                  let satPos = worldFromMeters (sat_pos s)
                  in case satViewMatrix (Some satPos) (Some (sat_vel s)) of
                      None \<Rightarrow> orbit_view r
                    | Some m \<Rightarrow> \<lparr>fisheye = True, view_mat = m, view_mvp = None, view_eye = satPos,
                        aspectGl = canvasW r / canvasH r, aspectCss = cssW r / cssH r\<rparr>))
      else orbit_view r)"

text \<open>\<open>None\<close> is \<open>null\<close>: a point that has no place on the screen.\<close>

definition projectToScreen :: "view \<Rightarrow> real \<Rightarrow> real \<Rightarrow> vec3 \<Rightarrow> (real \<times> real) option" where
  "projectToScreen av w h p =
     (if fisheye av then
        (case fisheyeProjectNdc (view_mat av) p (aspectCss av) SAT_FOV_DEG of
           None \<Rightarrow> None
         | Some q \<Rightarrow> Some ((ndc_x q * (1 / 2) + 1 / 2) * w, (1 - (ndc_y q * (1 / 2) + 1 / 2)) * h))
      else case transform (case view_mvp av of Some m \<Rightarrow> m | None \<Rightarrow> []) p of (cx, cy, cz, cw) \<Rightarrow>
        if cw \<le> 1 / 10 ^ 6 then None
        else let nx = cx / cw; ny = cy / cw
             in Some ((nx * (1 / 2) + 1 / 2) * w, (1 - (ny * (1 / 2) + 1 / 2)) * h))"

definition behindEarth :: "vec3 \<Rightarrow> vec3 \<Rightarrow> bool" where
  "behindEarth eye p = (case p of (x, y, z) \<Rightarrow> occludedBySphere eye x y z OCCLUDE_R)"

section \<open>Picking\<close>

text \<open>The best match so far: its id, its distance on the screen and from the eye; \<open>None\<close> at the
  start, where both distances are infinite.\<close>

type_synonym best = "(real \<times> real \<times> real) option"

definition considerTarget :: "view \<Rightarrow> real \<Rightarrow> real \<Rightarrow> real \<Rightarrow> real \<Rightarrow> real \<times> vec3 \<Rightarrow> best \<Rightarrow> best" where
  "considerTarget av w h x y target best =
     (case target of (i, p) \<Rightarrow>
       if behindEarth (view_eye av) p then best
       else case projectToScreen av w h p of
           None \<Rightarrow> best
         | Some (sx, sy) \<Rightarrow>
             let d = hypot3 (sx - x) (sy - y) 0
             in if d > 12 then best
                else let cam = (vlen (vsub p (view_eye av)))\<^sup>2
                  in case best of
                      None \<Rightarrow> Some (i, d, cam)
                    | Some (bi, bd, bc) \<Rightarrow>
                        if d < bd - 1 / 10 ^ 9 \<or> (\<bar>d - bd\<bar> < 1 / 10 ^ 9 \<and> cam < bc)
                        then Some (i, d, cam) else best)"

definition pick :: "renderer \<Rightarrow> real \<Rightarrow> real \<Rightarrow> real option" where
  "pick r x y =
     (let av = computeActiveView r;
          step = considerTarget av (cssW r) (cssH r) x y;
          b0 = (if fisheye av then None
                else case satRender r of None \<Rightarrow> None | Some t \<Rightarrow> step t None);
          b1 = fold (\<lambda>b. step (row_id b, row_pos b)) (renderObjects r) b0
      in map_option fst b1)"

end
