(* ===== verification/Trail_Facts.thy ===== *)
theory Trail_Facts
  imports Renderer_Trails Transition
begin

text \<open>
  Correctness of the renderer's buffers: the object points are the first visible objects, the
  trails keep their caps, their order in time and the celestial shell, and the two passes
  over the trails agree, so the upload has exactly the counted floats.
\<close>

section \<open>Positions\<close>

lemma worldFromMeters_scale:
  "worldFromMeters p =
     vscale (vscale p SCALE) (if vlen (vscale p SCALE) > SHELL then SHELL / vlen (vscale p SCALE) else 1)"
  by (cases p) (simp add: worldFromMeters_def vlen_def vscale_def Let_def)

lemma worldFromMeters_shell: "vlen (worldFromMeters p) \<le> SHELL"
proof (cases "vlen (vscale p SCALE) > SHELL")
  case True
  moreover have "0 < SHELL" by (simp add: SHELL_def)
  ultimately have "0 < vlen (vscale p SCALE)" by linarith
  with True \<open>0 < SHELL\<close> show ?thesis
    unfolding worldFromMeters_scale by (simp add: vlen_scale [of "vscale p SCALE"] abs_of_pos)
next
  case False
  then show ?thesis unfolding worldFromMeters_scale
    by (simp add: vlen_scale [of "vscale p SCALE"])
qed

section \<open>Object points\<close>

definition object_visible :: "r_settings \<Rightarrow> tracked \<Rightarrow> bool" where
  "object_visible s b \<longleftrightarrow> map_of CAT (cat b) \<noteq> None \<and> map_of (r_categories s) (cat b) \<noteq> Some False"

definition row_of :: "tracked \<Rightarrow> point_row" where
  "row_of b = object_row (the (map_of CAT (cat b))) b"

lemma object_rows_eq:
  "object_rows s n bs = take (MAX_OBJECTS - n) (map row_of (filter (object_visible s) bs))"
proof (induction bs arbitrary: n)
  case (Cons b bs)
  show ?case
  proof (cases "n < MAX_OBJECTS")
    case False
    then show ?thesis by simp
  next
    case True
    then have "take (MAX_OBJECTS - n) (x # xs) = x # take (MAX_OBJECTS - (n + 1)) xs" for x :: point_row and xs
      by (cases "MAX_OBJECTS - n") (simp_all, metis Suc_diff_Suc diff_Suc_Suc nat.inject)
    with True Cons show ?thesis
      by (auto simp: object_visible_def row_of_def split: option.split)
  qed
qed simp

section \<open>Samples\<close>

definition times_sorted :: "sample list \<Rightarrow> bool" where
  "times_sorted ss \<longleftrightarrow> sorted (map s_t ss)"

lemma push_capped_set: "set (push_capped cap p ss) \<subseteq> insert p (set ss)"
  by (cases ss) (auto simp: push_capped_def Let_def)

lemma push_capped_last [simp]: "0 < cap \<Longrightarrow> push_capped cap p ss \<noteq> [] \<and> last (push_capped cap p ss) = p"
  by (cases ss) (auto simp: push_capped_def Let_def)

lemma push_capped_length: "length ss \<le> cap \<Longrightarrow> length (push_capped cap p ss) \<le> cap"
  by (simp add: push_capped_def Let_def)

lemma push_capped_sorted:
  assumes "times_sorted ss" and "ss = [] \<or> s_t (last ss) \<le> s_t p"
  shows "times_sorted (push_capped cap p ss)"
proof -
  have "times_sorted (ss @ [p])"
  proof (cases "ss = []")
    case False
    have "s_t x \<le> s_t (last ss)" if "x \<in> set ss" for x
      using assms(1) that False
      by (cases ss rule: rev_cases) (auto simp: times_sorted_def sorted_append)
    then show ?thesis using assms False
      by (auto simp: times_sorted_def sorted_append) (meson order_trans)
  qed (simp add: times_sorted_def)
  then show ?thesis
    by (cases ss) (auto simp: push_capped_def Let_def times_sorted_def)
qed

section \<open>The trail invariant\<close>

definition trail_ok :: "real \<Rightarrow> trail_key \<Rightarrow> trail \<Rightarrow> bool" where
  "trail_ok now k tr \<longleftrightarrow>
     times_sorted (samples tr) \<and> length (samples tr) \<le> SERVER_TRAIL_CAP \<and>
     (\<forall>p \<in> set (samples tr). vlen (s_pos p) \<le> SHELL) \<and>
     (\<not> server tr \<longrightarrow> length (samples tr) \<le> TRAIL_CAP \<and> (\<forall>p \<in> set (samples tr). s_t p \<le> now)) \<and>
     (case k of
        SatKey i \<Rightarrow> trail_cat tr = None \<and> \<not> server tr
      | ObjKey i \<Rightarrow> \<exists>c. trail_cat tr = Some c \<and> map_of CAT c \<noteq> None)"

definition trails_ok :: "real \<Rightarrow> trails \<Rightarrow> bool" where
  "trails_ok now ts \<longleftrightarrow> distinct (map fst ts) \<and> (\<forall>k tr. map_of ts k = Some tr \<longrightarrow> trail_ok now k tr)"

lemma caps [simp]: "0 < TRAIL_CAP" "0 < SERVER_TRAIL_CAP" "TRAIL_CAP \<le> SERVER_TRAIL_CAP"
  by (simp_all add: TRAIL_CAP_def SERVER_TRAIL_CAP_def)

lemma trails_ok_update:
  "trails_ok now ts \<Longrightarrow> trail_ok now k tr \<Longrightarrow> trails_ok now (AList.update k tr ts)"
  by (auto simp: trails_ok_def update_conv distinct_update)

lemma trails_ok_filter: "trails_ok now ts \<Longrightarrow> trails_ok now (filter P ts)"
proof -
  assume ok: "trails_ok now ts"
  have "map_of ts k = Some tr" if "map_of (filter P ts) k = Some tr" for k tr
    using map_of_SomeD [OF that] ok by (auto simp: trails_ok_def intro: map_of_is_SomeI)
  then show ?thesis using ok by (auto simp: trails_ok_def distinct_map_filter)
qed

lemma trail_ok_later: "trail_ok now k tr \<Longrightarrow> now \<le> now' \<Longrightarrow> trail_ok now' k tr"
  by (auto simp: trail_ok_def)

lemma trails_ok_later: "trails_ok now ts \<Longrightarrow> now \<le> now' \<Longrightarrow> trails_ok now' ts"
  unfolding trails_ok_def using trail_ok_later by blast

lemma trail_ok_new: "trail_ok now k (new_trail c)" if "case k of SatKey i \<Rightarrow> c = None | ObjKey i \<Rightarrow> \<exists>x. c = Some x \<and> map_of CAT x \<noteq> None"
  using that by (auto simp: trail_ok_def new_trail_def times_sorted_def split: trail_key.splits)

text \<open>Pushing a sample of the clock onto a trail that the client builds.\<close>

lemma trail_ok_push:
  assumes "trail_ok now k tr" and "\<not> server tr" and "vlen (s_pos p) \<le> SHELL" and "s_t p = now"
  shows "trail_ok now k (tr\<lparr>samples := push_capped TRAIL_CAP p (samples tr)\<rparr>)"
proof -
  have l: "length (samples tr) \<le> TRAIL_CAP" "\<forall>q \<in> set (samples tr). s_t q \<le> now"
    using assms by (auto simp: trail_ok_def)
  have "times_sorted (push_capped TRAIL_CAP p (samples tr))"
    using assms l by (intro push_capped_sorted) (auto simp: trail_ok_def dest: last_in_set)
  moreover have "length (push_capped TRAIL_CAP p (samples tr)) \<le> TRAIL_CAP"
    using l(1) by (rule push_capped_length)
  ultimately show ?thesis
    using assms l push_capped_set [of TRAIL_CAP p "samples tr"] caps(3)
    by (auto simp: trail_ok_def intro: order_trans split: trail_key.splits)
qed

lemma append_satellite_ok:
  assumes "trails_ok now ts"
  shows "trails_ok now (append_satellite now s ts)"
proof -
  define tr where "tr = (case map_of ts (SatKey (sat_id s)) of Some tr \<Rightarrow> tr | None \<Rightarrow> new_trail None)"
  have "trail_ok now (SatKey (sat_id s)) tr"
    using assms by (auto simp: tr_def trails_ok_def intro: trail_ok_new split: option.split)
  moreover from this have "\<not> server tr" by (simp add: trail_ok_def)
  ultimately show ?thesis
    using assms worldFromMeters_shell unfolding append_satellite_def Let_def tr_def [symmetric]
    by (intro trails_ok_update trail_ok_push) simp_all
qed

lemma append_object_ok:
  assumes "trails_ok now ts"
  shows "trails_ok now (append_object now b ts)"
proof (cases "map_of CAT (cat b) = None \<or> (\<exists>tr. map_of ts (ObjKey (obj_id b)) = Some tr \<and> server tr)")
  case True
  with assms show ?thesis by (auto simp: append_object_def Let_def)
next
  case False
  define tr where "tr = (case map_of ts (ObjKey (obj_id b)) of Some tr \<Rightarrow> tr | None \<Rightarrow> new_trail (Some (cat b)))"
  have "trail_ok now (ObjKey (obj_id b)) tr"
    using assms False by (auto simp: tr_def trails_ok_def intro: trail_ok_new split: option.split)
  then have "trail_ok now (ObjKey (obj_id b)) (tr\<lparr>trail_cat := Some (cat b)\<rparr>)" "\<not> server tr"
    using False by (auto simp: trail_ok_def tr_def new_trail_def split: option.split)
  then have "trail_ok now (ObjKey (obj_id b)) ((tr\<lparr>trail_cat := Some (cat b)\<rparr>)\<lparr>samples :=
      push_capped TRAIL_CAP \<lparr>s_t = now, s_pos = worldFromMeters (obj_pos b)\<rparr>
        (samples (tr\<lparr>trail_cat := Some (cat b)\<rparr>))\<rparr>)"
    using worldFromMeters_shell by (intro trail_ok_push) simp_all
  then have "trails_ok now (AList.update (ObjKey (obj_id b)) (tr\<lparr>trail_cat := Some (cat b), samples :=
      push_capped TRAIL_CAP \<lparr>s_t = now, s_pos = worldFromMeters (obj_pos b)\<rparr> (samples tr)\<rparr>) ts)"
    using assms by (intro trails_ok_update) simp_all
  with False show ?thesis by (auto simp: append_object_def Let_def tr_def)
qed

lemma append_server_ok:
  assumes "trails_ok now ts"
  shows "trails_ok now (append_server catById now stm p ts)"
proof -
  define t where "t = map_of ts (ObjKey (tp_id p))"
  define c where "c = (case catById (tp_id p) of Some k \<Rightarrow> Some k
    | None \<Rightarrow> (case t of Some tr \<Rightarrow> trail_cat tr | None \<Rightarrow> None))"
  define tMs where "tMs = now - (stm - tp_t p * 1000)"
  note eq = append_server_def [of catById now stm p ts, unfolded Let_def, folded t_def, folded c_def tMs_def]
  show ?thesis
  proof (cases c)
    case None
    with assms show ?thesis by (simp add: eq)
  next
    case (Some k)
    define tr where "tr = (case t of Some tr \<Rightarrow> tr | None \<Rightarrow> new_trail (Some k))"
    define q where "q = \<lparr>s_t = tMs, s_pos = worldFromMeters (tp_pos p)\<rparr>"
    show ?thesis
    proof (cases "map_of CAT k = None \<or> (\<exists>tr. t = Some tr \<and> samples tr \<noteq> [] \<and> tMs \<le> s_t (last (samples tr)))")
      case True
      with assms Some show ?thesis by (auto simp: eq)
    next
      case False
      have tr: "trail_ok now (ObjKey (tp_id p)) tr"
        using assms False by (auto simp: tr_def t_def trails_ok_def intro: trail_ok_new split: option.split)
      have "samples tr = [] \<or> s_t (last (samples tr)) \<le> s_t q"
        using False by (auto simp: tr_def q_def new_trail_def split: option.split)
      then have "times_sorted (push_capped SERVER_TRAIL_CAP q (samples tr))"
        using tr by (intro push_capped_sorted) (auto simp: trail_ok_def)
      moreover have "length (push_capped SERVER_TRAIL_CAP q (samples tr)) \<le> SERVER_TRAIL_CAP"
        using tr by (intro push_capped_length) (simp add: trail_ok_def)
      moreover have "\<forall>x \<in> set (push_capped SERVER_TRAIL_CAP q (samples tr)). vlen (s_pos x) \<le> SHELL"
        using tr push_capped_set [of SERVER_TRAIL_CAP q "samples tr"]
        by (auto simp: trail_ok_def q_def worldFromMeters_shell)
      ultimately have "trail_ok now (ObjKey (tp_id p)) (tr\<lparr>trail_cat := Some k, server := True,
          samples := push_capped SERVER_TRAIL_CAP q (samples tr)\<rparr>)"
        using False by (auto simp: trail_ok_def)
      then have "trails_ok now (AList.update (ObjKey (tp_id p)) (tr\<lparr>trail_cat := Some k, server := True,
          samples := push_capped SERVER_TRAIL_CAP q (samples tr)\<rparr>) ts)"
        using assms by (intro trails_ok_update) simp_all
      with False Some show ?thesis by (auto simp: eq tr_def q_def)
    qed
  qed
qed

lemma fold_ok:
  assumes "\<And>x ts. trails_ok now ts \<Longrightarrow> trails_ok now (f x ts)"
  shows "trails_ok now ts \<Longrightarrow> trails_ok now (fold f xs ts)"
  by (induction xs arbitrary: ts) (simp_all add: assms)

lemma appendTrails_ok:
  assumes "trails_ok now ts"
  shows "trails_ok now (appendTrails dp snap now ts)"
  unfolding appendTrails_def Let_def
  by (intro trails_ok_filter)
    (auto split: option.split intro!: append_satellite_ok fold_ok append_object_ok append_server_ok assms)

text \<open>The trails as a machine of snapshots, under a clock that does not run backwards.\<close>

record trail_state =
  ts_trails :: trails
  ts_now :: real

inductive trail_step ::
  "trail_state \<Rightarrow> (string \<Rightarrow> real option) \<times> snapshot option \<times> real \<Rightarrow> trail_state \<Rightarrow> bool" where
  trail_snapshot: "ts_now s \<le> now \<Longrightarrow>
    trail_step s (dp, snap, now) \<lparr>ts_trails = appendTrails dp snap now (ts_trails s), ts_now = now\<rparr>"

inductive_cases trail_stepE: "trail_step s e s'"

definition trail_start :: "trail_state \<Rightarrow> bool" where
  "trail_start s \<longleftrightarrow> ts_trails s = []"

definition trail_inv :: "trail_state \<Rightarrow> bool" where
  "trail_inv s \<longleftrightarrow> trails_ok (ts_now s) (ts_trails s)"

interpretation trail_machine: stepper trail_start trail_step trail_inv
proof unfold_locales
  fix s assume "trail_start s"
  then show "trail_inv s" by (simp add: trail_start_def trail_inv_def trails_ok_def)
next
  fix s e s' assume "trail_inv s" and "trail_step s e s'"
  then show "trail_inv s'"
    by (auto elim!: trail_stepE simp: trail_inv_def intro: appendTrails_ok [OF trails_ok_later])
qed

section \<open>The trail buffer\<close>

lemma segment_vertices_length: "length (segment_vertices ref secs col ss) = 2 * count_segments ref secs ss"
  by (induction ref secs ss rule: count_segments.induct) simp_all

lemma trail_vertices_length: "length (trail_vertices s ref secs ts) = 2 * total_segments s ref secs ts"
  by (induction ts) (simp_all add: trail_vertices_def total_segments_def segment_vertices_length)

lemma clamp01_range: "0 \<le> clamp01 a \<and> clamp01 a \<le> 1"
  by (simp add: clamp01_def)

lemma segment_vertices_alpha:
  "v \<in> set (segment_vertices ref secs col ss) \<Longrightarrow> 0 \<le> v_alpha v \<and> v_alpha v \<le> 1"
  by (induction ref secs ss rule: count_segments.induct)
    (auto simp: fade_def clamp01_range split: if_splits)

lemma segment_vertices_pos:
  "v \<in> set (segment_vertices ref secs col ss) \<Longrightarrow> \<exists>p \<in> set ss. v_pos v = s_pos p"
  by (induction ref secs ss rule: count_segments.induct) (auto split: if_splits)

lemma grow_enough: "0 < cap \<Longrightarrow> needed \<le> grow cap needed \<and> cap \<le> grow cap needed"
  by (induction cap needed rule: grow.induct) (subst (1 2) grow.simps, auto)

lemma grow_power: "0 < cap \<Longrightarrow> \<exists>k. grow cap needed = cap * 2 ^ k"
proof (induction cap needed rule: grow.induct)
  case (1 cap needed)
  show ?case
  proof (cases "cap < needed")
    case False
    then show ?thesis by (subst grow.simps) (auto intro: exI [of _ 0])
  next
    case True
    with 1 obtain k where "grow (cap * 2) needed = cap * 2 * 2 ^ k" by auto
    with True 1(2) show ?thesis by (subst grow.simps) (auto intro: exI [of _ "Suc k"])
  qed
qed

section \<open>Server-fed trails\<close>

text \<open>The category a server point is drawn with.\<close>

definition point_cat :: "(real \<Rightarrow> string option) \<Rightarrow> trails \<Rightarrow> real \<Rightarrow> string option" where
  "point_cat catById ts i = (case catById i of Some k \<Rightarrow> Some k
     | None \<Rightarrow> (case map_of ts (ObjKey i) of Some tr \<Rightarrow> trail_cat tr | None \<Rightarrow> None))"

text \<open>A trail point on the renderer's clock, the samples of a trail, and the points that are newer than
  everything before them.\<close>

definition server_sample :: "real \<Rightarrow> real \<Rightarrow> trail_point \<Rightarrow> sample" where
  "server_sample now stm p = \<lparr>s_t = now - (stm - tp_t p * 1000), s_pos = worldFromMeters (tp_pos p)\<rparr>"

definition trail_samples :: "trails \<Rightarrow> real \<Rightarrow> sample list" where
  "trail_samples ts i = (case map_of ts (ObjKey i) of Some tr \<Rightarrow> samples tr | None \<Rightarrow> [])"

fun newer :: "sample list \<Rightarrow> sample list \<Rightarrow> sample list" where
  "newer old [] = []"
| "newer old (q # qs) =
     (if old = [] \<or> s_t (last old) < s_t q then q # newer (old @ [q]) qs else newer old qs)"

definition last_n :: "nat \<Rightarrow> 'a list \<Rightarrow> 'a list" where
  "last_n n xs = drop (length xs - n) xs"

lemma newer_last: "last old = last old' \<Longrightarrow> (old = []) = (old' = []) \<Longrightarrow> newer old qs = newer old' qs"
proof (induction qs arbitrary: old old')
  case (Cons q qs)
  from Cons.IH [OF Cons.prems] Cons.IH [of "old @ [q]" "old' @ [q]"] Cons.prems show ?case by simp
qed simp

lemma push_capped_last_n: "length ss \<le> cap \<Longrightarrow> push_capped cap p ss = last_n cap (ss @ [p])"
proof (cases "length ss < cap")
  case False
  assume "length ss \<le> cap"
  with False have "length ss = cap" by simp
  then show ?thesis by (cases ss) (auto simp: push_capped_def last_n_def Let_def drop_Suc)
qed (simp add: push_capped_def last_n_def Let_def)

lemma last_n_append: "last_n n (last_n n xs @ ys) = last_n n (xs @ ys)"
  by (cases "n \<le> length xs") (simp_all add: last_n_def add.commute)

lemma last_n_length: "length (last_n n xs) \<le> n"
  by (simp add: last_n_def)

lemma last_n_last: "0 < n \<Longrightarrow> xs \<noteq> [] \<Longrightarrow> last_n n xs \<noteq> [] \<and> last (last_n n xs) = last xs"
  by (cases xs) (simp_all add: last_n_def)

lemma append_server_eq:
  "append_server c now stm p ts =
     (case point_cat c ts (tp_id p) of None \<Rightarrow> ts
      | Some k \<Rightarrow>
          if map_of CAT k = None \<or> (\<exists>tr. map_of ts (ObjKey (tp_id p)) = Some tr \<and> samples tr \<noteq> [] \<and>
              s_t (server_sample now stm p) \<le> s_t (last (samples tr))) then ts
          else let tr = (case map_of ts (ObjKey (tp_id p)) of Some tr \<Rightarrow> tr | None \<Rightarrow> new_trail (Some k))
            in AList.update (ObjKey (tp_id p)) (tr\<lparr>trail_cat := Some k, server := True,
              samples := push_capped SERVER_TRAIL_CAP (server_sample now stm p) (samples tr)\<rparr>) ts)"
  by (auto simp: append_server_def Let_def point_cat_def server_sample_def split: option.splits)

lemma append_server_other:
  "tp_id p \<noteq> i \<Longrightarrow> map_of (append_server c now stm p ts) (ObjKey i) = map_of ts (ObjKey i)"
  by (auto simp: append_server_eq Let_def update_conv split: option.split)

lemma append_server_this:
  assumes "point_cat c ts i = Some k" and "map_of CAT k \<noteq> None" and "tp_id p = i"
    and "length (trail_samples ts i) \<le> SERVER_TRAIL_CAP"
  shows "map_of (append_server c now stm p ts) (ObjKey i) =
    (if newer (trail_samples ts i) [server_sample now stm p] = [] then map_of ts (ObjKey i)
     else Some \<lparr>trail_cat = Some k,
       samples = last_n SERVER_TRAIL_CAP (trail_samples ts i @ [server_sample now stm p]), server = True\<rparr>)"
  using assms
  by (cases "map_of ts (ObjKey i)")
    (auto simp: append_server_eq update_conv Let_def trail_samples_def new_trail_def push_capped_last_n)

lemma point_cat_cong: "map_of ts (ObjKey i) = map_of ts' (ObjKey i) \<Longrightarrow> point_cat c ts i = point_cat c ts' i"
  by (auto simp: point_cat_def split: option.split)

text \<open>What the points of a message make of the trail of one object.\<close>

definition fed_trail :: "string \<Rightarrow> trails \<Rightarrow> real \<Rightarrow> sample list \<Rightarrow> trail option" where
  "fed_trail k ts i new =
     (if new = [] then map_of ts (ObjKey i)
      else Some \<lparr>trail_cat = Some k, samples = last_n SERVER_TRAIL_CAP (trail_samples ts i @ new), server = True\<rparr>)"

lemma fold_server_exact:
  assumes "point_cat c ts i = Some k" and "map_of CAT k \<noteq> None"
    and "length (trail_samples ts i) \<le> SERVER_TRAIL_CAP"
  shows "map_of (fold (append_server c now stm) pts ts) (ObjKey i) =
    fed_trail k ts i (newer (trail_samples ts i)
      (map (server_sample now stm) (filter (\<lambda>p. tp_id p = i) pts)))"
  using assms
proof (induction pts arbitrary: ts)
  case (Cons p pts)
  let ?ts = "append_server c now stm p ts" and ?q = "server_sample now stm p"
  let ?rest = "map (server_sample now stm) (filter (\<lambda>p. tp_id p = i) pts)"
  show ?case
  proof (cases "map_of ?ts (ObjKey i) = map_of ts (ObjKey i)")
    case True
    then have same: "point_cat c ?ts i = Some k" "trail_samples ?ts i = trail_samples ts i"
      using Cons.prems(1) point_cat_cong [OF True] by (simp_all add: trail_samples_def)
    have skip: "newer (trail_samples ts i) [?q] = []" if "tp_id p = i"
    proof (rule ccontr)
      assume new: "newer (trail_samples ts i) [?q] \<noteq> []"
      then have "trail_samples ?ts i = last_n SERVER_TRAIL_CAP (trail_samples ts i @ [?q])"
        using append_server_this [OF Cons.prems(1,2) that Cons.prems(3)] by (simp add: trail_samples_def)
      then have "trail_samples ts i \<noteq> []" "s_t (last (trail_samples ts i)) = s_t ?q"
        using last_n_last [of SERVER_TRAIL_CAP "trail_samples ts i @ [?q]"] same(2) by auto
      with new show False by simp
    qed
    have "newer (trail_samples ts i) (map (server_sample now stm) (filter (\<lambda>p. tp_id p = i) (p # pts))) =
        newer (trail_samples ts i) ?rest"
      using skip by (auto split: if_splits)
    moreover have "map_of (fold (append_server c now stm) pts ?ts) (ObjKey i) =
        fed_trail k ts i (newer (trail_samples ts i) ?rest)"
      using Cons.IH [of ?ts] same Cons.prems(2,3) True by (simp add: fed_trail_def)
    ultimately show ?thesis by (simp only: fold_simps comp_def fold.simps)
  next
    case False
    then have i: "tp_id p = i" using append_server_other [of p i] by blast
    note this_eq = append_server_this [OF Cons.prems(1,2) i Cons.prems(3), of now stm]
    with False have new: "newer (trail_samples ts i) [?q] \<noteq> []" by metis
    let ?old = "trail_samples ts i"
    have ss: "trail_samples ?ts i = last_n SERVER_TRAIL_CAP (?old @ [?q])"
      using this_eq new by (simp add: trail_samples_def)
    have cat: "point_cat c ?ts i = Some k"
      using this_eq new Cons.prems(1) by (auto simp: point_cat_def split: option.splits)
    have "newer (trail_samples ?ts i) ?rest = newer (?old @ [?q]) ?rest"
      unfolding ss by (rule newer_last) (simp_all add: last_n_last)
    then show ?thesis
      using Cons.IH [OF cat Cons.prems(2)] new this_eq
      by (auto simp: i ss last_n_length fed_trail_def last_n_append split: if_splits)
  qed
qed (simp add: fed_trail_def)

text \<open>The rest of \<open>appendTrails\<close> leaves a server-fed trail alone, and prunes it when it is stale.\<close>

lemma append_object_server:
  assumes "map_of ts (ObjKey i) = Some tr" and "server tr"
  shows "map_of (append_object now b ts) (ObjKey i) = Some tr"
  using assms by (auto simp: append_object_def Let_def update_conv)

lemma fold_object_server:
  assumes "map_of ts (ObjKey i) = Some tr" and "server tr"
  shows "map_of (fold (append_object now) bs ts) (ObjKey i) = Some tr"
  using assms by (induction bs arbitrary: ts) (simp_all add: append_object_server)

lemma append_satellite_other: "map_of (append_satellite now s ts) (ObjKey i) = map_of ts (ObjKey i)"
  by (simp add: append_satellite_def Let_def update_conv)

lemma distinct_append:
  "distinct (map fst ts) \<Longrightarrow> distinct (map fst (append_server c now stm p ts))"
  "distinct (map fst ts) \<Longrightarrow> distinct (map fst (append_object now b ts))"
  "distinct (map fst ts) \<Longrightarrow> distinct (map fst (append_satellite now sat ts))"
  by (auto simp: append_server_eq append_object_def append_satellite_def Let_def distinct_update split: option.split)

lemma map_of_filter_distinct:
  assumes "distinct (map fst ts)" and "map_of ts k = Some tr"
  shows "map_of (filter (\<lambda>(k, tr). P tr) ts) k = (if P tr then Some tr else None)"
  using assms by (induction ts) (auto simp: map_of_eq_None_iff rev_image_eqI split: if_splits)

section \<open>Properties\<close>

text \<open>C13: The trail of an object after a message with a server time, in any state the trails can reach: the
  message's points of that object are put on the renderer's clock, those that are not newer than
  everything the trail has by then are dropped (so a repeated sample adds nothing), the others follow
  the trail's samples, of which the last 512 stay, with the category of the object's row, or else the
  trail's; the object's own row adds no sample to it, and the trail goes when its last sample is more
  than 65 seconds old.  This holds when a point is kept or the trail was fed by the server before.\<close>

theorem server_trail_exact:
  assumes "reachable trail_start trail_step s"
    and "snap_serverTime sn = Some st" and "st \<noteq> []" and "dp st = Some stm"
    and "point_cat (cat_by_id (snap_objects sn)) (ts_trails s) i = Some k" and "map_of CAT k \<noteq> None"
    and "new = newer (trail_samples (ts_trails s) i)
      (map (server_sample now stm) (filter (\<lambda>p. tp_id p = i) (snap_trailPoints sn)))"
    and "fed_trail k (ts_trails s) i new = Some tr" and "server tr"
  shows "map_of (appendTrails dp (Some sn) now (ts_trails s)) (ObjKey i) =
    (if samples tr = [] \<or> now - s_t (last (samples tr)) > 65000 then None else Some tr)"
proof -
  let ?ts = "ts_trails s" and ?c = "cat_by_id (snap_objects sn)"
  have ok: "trails_ok (ts_now s) ?ts"
    using trail_machine.inv_reachable [OF assms(1)] by (simp add: trail_inv_def)
  then have "length (trail_samples ?ts i) \<le> SERVER_TRAIL_CAP"
    by (auto simp: trails_ok_def trail_ok_def trail_samples_def split: option.split)
  then have server: "map_of (fold (append_server ?c now stm) (snap_trailPoints sn) ?ts) (ObjKey i) = Some tr"
    using fold_server_exact [OF assms(5,6), of now stm "snap_trailPoints sn"] assms(7,8) by simp
  define all where "all = (let ts2 = fold (append_object now) (snap_objects sn)
      (fold (append_server ?c now stm) (snap_trailPoints sn) ?ts)
    in case snap_satellite sn of None \<Rightarrow> ts2 | Some sat \<Rightarrow> append_satellite now sat ts2)"
  have "map_of all (ObjKey i) = Some tr"
    using fold_object_server [OF server assms(9)]
    by (simp add: all_def Let_def append_satellite_other split: option.split)
  moreover have "distinct (map fst ?ts)" using ok by (simp add: trails_ok_def)
  then have "distinct (map fst all)"
    unfolding all_def Let_def
    by (cases "snap_satellite sn")
      (auto intro!: distinct_append fold_keeps [where P = "\<lambda>ts. distinct (map fst ts)"])
  moreover have "appendTrails dp (Some sn) now ?ts = filter (\<lambda>(k, tr). \<not> stale_trail now tr) all"
    using assms(2-4) by (cases "snap_satellite sn") (simp_all add: appendTrails_def all_def Let_def)
  ultimately show ?thesis
    using map_of_filter_distinct [of all "ObjKey i" tr "\<lambda>tr. \<not> stale_trail now tr"]
    by (auto simp: stale_trail_def)
qed

theorem server_trail_exact_witness:
  "let comet = \<lparr>obj_id = 7, cat = ''comet'', obj_pos = (0, 0, 10 ^ 7), obj_vel = None, conf = 1,
        intensity = 0, obj_flags = 0\<rparr>;
      pt = (\<lambda>t. \<lparr>tp_id = 7, tp_t = t, tp_pos = (0, 0, 10 ^ 7)\<rparr>);
      sn = \<lparr>snap_satellite = None, snap_objects = [comet], snap_lastDataTime = None,
        snap_serverTime = Some ''t'', snap_trailPoints = [pt 1, pt 2, pt 2]\<rparr>
   in map_option (map s_t \<circ> samples) (map_of (appendTrails (\<lambda>_. Some 3000) (Some sn) 5000 []) (ObjKey 7)) =
     Some [3000, 4000]"
proof -
  define comet where "comet = \<lparr>obj_id = 7, cat = ''comet'', obj_pos = (0, 0, 10 ^ 7), obj_vel = None, conf = 1,
      intensity = 0, obj_flags = 0\<rparr>"
  define pt where "pt t = \<lparr>tp_id = 7, tp_t = t, tp_pos = (0, 0, 10 ^ 7)\<rparr>" for t
  define sn where "sn = \<lparr>snap_satellite = None, snap_objects = [comet], snap_lastDataTime = None,
      snap_serverTime = Some ''t'', snap_trailPoints = [pt 1, pt 2, pt 2]\<rparr>"
  let ?s0 = "\<lparr>ts_trails = [], ts_now = 0\<rparr>"
  let ?new = "map (server_sample 5000 3000) [pt 1, pt 2]"
  let ?tr = "\<lparr>trail_cat = Some ''comet'', samples = ?new, server = True\<rparr>"
  have r: "reachable trail_start trail_step ?s0" by (rule reach_init) (simp add: trail_start_def)
  have times: "map s_t ?new = [3000, 4000]" by (simp add: server_sample_def pt_def)
  have "point_cat (cat_by_id (snap_objects sn)) (ts_trails ?s0) 7 = Some ''comet''"
    by (simp add: sn_def comet_def point_cat_def cat_by_id_def)
  moreover have "map_of CAT ''comet'' \<noteq> None" by (simp add: CAT_def)
  moreover have new: "?new = newer (trail_samples (ts_trails ?s0) 7)
      (map (server_sample 5000 3000) (filter (\<lambda>p. tp_id p = 7) (snap_trailPoints sn)))"
    by (simp add: sn_def pt_def trail_samples_def server_sample_def)
  moreover have "fed_trail ''comet'' (ts_trails ?s0) 7 ?new = Some ?tr"
    by (simp add: fed_trail_def trail_samples_def last_n_def SERVER_TRAIL_CAP_def)
  ultimately have "map_of (appendTrails (\<lambda>_. Some 3000) (Some sn) 5000 (ts_trails ?s0)) (ObjKey 7) =
      (if samples ?tr = [] \<or> 5000 - s_t (last (samples ?tr)) > 65000 then None else Some ?tr)"
    using server_trail_exact [OF r, of sn "''t''" "\<lambda>_. Some 3000" 3000 7 "''comet''" ?new 5000 ?tr]
    by (simp add: sn_def)
  then have "map_of (appendTrails (\<lambda>_. Some 3000) (Some sn) 5000 []) (ObjKey 7) = Some ?tr"
    by (simp add: server_sample_def pt_def)
  then show ?thesis using times unfolding sn_def comet_def pt_def by (simp add: Let_def)
qed

text \<open>The uploaded object points are exactly the first 5000 objects of the snapshot, in its order,
  whose category is known and not switched off, each with the position, colour, size and icon of its
  category; without a snapshot there are none.\<close>

theorem object_points:
  "rebuildObjectBuffer s snap =
     take 5000 (map row_of (filter (object_visible s)
       (case snap of None \<Rightarrow> [] | Some sn \<Rightarrow> snap_objects sn)))"
  by (simp add: rebuildObjectBuffer_def object_rows_eq MAX_OBJECTS_def split: option.split)

text \<open>C12: After any sequence of snapshots under a clock that does not run backwards, the next snapshot
  leaves trails that have one entry per object, samples in order of time, at most 512 of them and at
  most 64 in a trail the client builds itself, all within the celestial shell, a last sample at most 65
  seconds old; an object's trail has one of the six categories of \<open>CAT\<close>, and the satellite's has
  none and is never taken for a server-fed one.\<close>

theorem trails_stay_bounded:
  assumes "reachable trail_start trail_step s" and "trail_step s (dp, snap, now) s'"
  shows "distinct (map fst (ts_trails s')) \<and>
    (\<forall>(k, tr) \<in> set (ts_trails s').
       samples tr \<noteq> [] \<and> length (samples tr) \<le> 512 \<and> (\<not> server tr \<longrightarrow> length (samples tr) \<le> 64) \<and>
       sorted (map s_t (samples tr)) \<and> (\<forall>p \<in> set (samples tr). vlen (s_pos p) \<le> 120) \<and>
       now - s_t (last (samples tr)) \<le> 65000 \<and>
       (case k of
          ObjKey i \<Rightarrow> trail_cat tr \<in> Some ` {''debris'', ''star'', ''comet'', ''satellite'', ''groundHot'', ''unknown''}
        | SatKey i \<Rightarrow> trail_cat tr = None \<and> \<not> server tr))"
proof -
  have inv: "trail_inv s'"
    using assms trail_machine.inv_reachable trail_machine.inv_step by blast
  from assms(2) have s': "ts_trails s' = appendTrails dp snap now (ts_trails s)" "ts_now s' = now"
    by (auto elim: trail_stepE)
  have fresh: "\<not> stale_trail now tr" if "(k, tr) \<in> set (ts_trails s')" for k tr
    using that by (auto simp: s' appendTrails_def Let_def)
  have ok: "trail_ok now k tr" if "(k, tr) \<in> set (ts_trails s')" for k tr
    using inv that s' by (auto simp: trail_inv_def trails_ok_def)
  have "samples tr \<noteq> [] \<and> length (samples tr) \<le> 512 \<and> (\<not> server tr \<longrightarrow> length (samples tr) \<le> 64) \<and>
      sorted (map s_t (samples tr)) \<and> (\<forall>p \<in> set (samples tr). vlen (s_pos p) \<le> 120) \<and>
      now - s_t (last (samples tr)) \<le> 65000 \<and>
      (case k of ObjKey i \<Rightarrow> trail_cat tr \<in> Some ` {''debris'', ''star'', ''comet'', ''satellite'', ''groundHot'', ''unknown''}
        | SatKey i \<Rightarrow> trail_cat tr = None \<and> \<not> server tr)"
    if "(k, tr) \<in> set (ts_trails s')" for k tr
    using ok [OF that] fresh [OF that]
    by (cases k) (auto simp: trail_ok_def stale_trail_def times_sorted_def TRAIL_CAP_def
        SERVER_TRAIL_CAP_def SHELL_def CAT_def split: if_splits)
  with inv show ?thesis by (auto simp: trail_inv_def trails_ok_def)
qed

theorem trails_stay_bounded_witness:
  "let comet = \<lparr>obj_id = 1, cat = ''comet'', obj_pos = (0, 0, 10 ^ 9), obj_vel = None, conf = 1,
        intensity = 0, obj_flags = 0\<rparr>;
      snap = \<lparr>snap_satellite = None, snap_objects = [comet], snap_lastDataTime = None,
        snap_serverTime = None, snap_trailPoints = []\<rparr>;
      ts = appendTrails Map.empty (Some snap) 1000 []
   in map fst ts = [ObjKey 1] \<and> (\<forall>(k, tr) \<in> set ts. \<forall>p \<in> set (samples tr). vlen (s_pos p) \<le> 120)"
proof -
  let ?comet = "\<lparr>obj_id = 1, cat = ''comet'', obj_pos = (0, 0, 10 ^ 9), obj_vel = None, conf = 1,
      intensity = 0, obj_flags = 0\<rparr>"
  let ?snap = "\<lparr>snap_satellite = None, snap_objects = [?comet], snap_lastDataTime = None,
      snap_serverTime = None, snap_trailPoints = []\<rparr>"
  let ?s0 = "\<lparr>ts_trails = [], ts_now = 0\<rparr>"
  have "reachable trail_start trail_step ?s0" by (rule reach_init) (simp add: trail_start_def)
  moreover have "trail_step ?s0 (Map.empty, Some ?snap, 1000)
      \<lparr>ts_trails = appendTrails Map.empty (Some ?snap) 1000 [], ts_now = 1000\<rparr>"
    using trail_snapshot [of ?s0 1000 Map.empty "Some ?snap"] by simp
  ultimately have "\<forall>(k, tr) \<in> set (appendTrails Map.empty (Some ?snap) 1000 []).
      \<forall>p \<in> set (samples tr). vlen (s_pos p) \<le> 120"
    using trails_stay_bounded by fastforce
  moreover have "map fst (appendTrails Map.empty (Some ?snap) 1000 []) = [ObjKey 1]"
    by (simp add: appendTrails_def append_object_def CAT_def stale_trail_def push_capped_def new_trail_def
        TRAIL_CAP_def Let_def)
  ultimately show ?thesis by (simp only: Let_def)
qed

text \<open>The trail upload is exactly as large as counted: the second pass over the trails yields the two
  vertices of every segment the first pass counted, they fit the array, which only ever doubles, and
  every vertex has an opacity between 0 and 1 and is a sample's position; with trails off or of no
  duration nothing is drawn.\<close>

theorem trail_upload:
  assumes "0 < tb_capacity tb" and "r_trailSeconds s = Fin secs"
  shows "(if r_showTrails s \<and> 0 < secs
     then tb_vertCount (rebuildTrailBuffer s now ts tb) = length (trail_vertices s now secs ts) \<and>
       tb_vertCount (rebuildTrailBuffer s now ts tb) = 2 * total_segments s now secs ts
     else tb_vertCount (rebuildTrailBuffer s now ts tb) = 0) \<and>
    (\<exists>k. tb_capacity (rebuildTrailBuffer s now ts tb) = tb_capacity tb * 2 ^ k) \<and>
    (tb_vertCount tb * 7 \<le> tb_capacity tb \<longrightarrow>
      tb_vertCount (rebuildTrailBuffer s now ts tb) * 7 \<le> tb_capacity (rebuildTrailBuffer s now ts tb)) \<and>
    (\<forall>v \<in> set (trail_vertices s now secs ts). 0 \<le> v_alpha v \<and> v_alpha v \<le> 1 \<and>
      (\<exists>(k, tr) \<in> set ts. trail_shown s (k, tr) \<and> (\<exists>p \<in> set (samples tr). v_pos v = s_pos p)))"
  (is "?count \<and> ?cap \<and> ?fits \<and> ?vertices")
proof (intro conjI)
  let ?n = "total_segments s now secs ts * 2 * 7"
  show ?count using assms by (auto simp: rebuildTrailBuffer_def Let_def trail_vertices_length)
  show ?cap
    using assms grow_power [OF assms(1), of ?n]
    by (auto simp: rebuildTrailBuffer_def Let_def intro: exI [of _ 0])
  show ?fits
    using assms grow_enough [OF assms(1), of ?n] by (auto simp: rebuildTrailBuffer_def Let_def)
  show ?vertices
    by (auto simp: trail_vertices_def dest: segment_vertices_alpha)
      (force dest: segment_vertices_pos split: if_splits)
qed

theorem trail_upload_witness:
  "let s = \<lparr>r_showTrails = True, r_trailSeconds = Fin 30, r_showLabels = False, r_showSky = False,
        r_viewMode = Orbit, r_categories = []\<rparr>;
      ts = [(SatKey 1, \<lparr>trail_cat = None, samples = [\<lparr>s_t = 0, s_pos = (7, 0, 0)\<rparr>,
        \<lparr>s_t = 1000, s_pos = (7, 1, 0)\<rparr>], server = False\<rparr>)]
   in tb_vertCount (rebuildTrailBuffer s 1000 ts \<lparr>tb_capacity = 4096, tb_vertCount = 0, tb_vertices = []\<rparr>) = 2"
  using trail_upload [of "\<lparr>tb_capacity = 4096, tb_vertCount = 0, tb_vertices = []\<rparr>"
      "\<lparr>r_showTrails = True, r_trailSeconds = Fin 30, r_showLabels = False, r_showSky = False,
        r_viewMode = Orbit, r_categories = []\<rparr>" 30 1000
      "[(SatKey 1, \<lparr>trail_cat = None, samples = [\<lparr>s_t = 0, s_pos = (7, 0, 0)\<rparr>,
        \<lparr>s_t = 1000, s_pos = (7, 1, 0)\<rparr>], server = False\<rparr>)]"]
  by (simp add: total_segments_def trail_shown_def catVisible_def seg_drawn_def)

end
