(* ===== verification/View_Facts.thy ===== *)
theory View_Facts
  imports Renderer_View Trail_Facts
begin

text \<open>
  Correctness of the renderer's state and of picking: the uploaded buffers always belong to
  the current settings and snapshot, the active view is a rigid motion that looks at the
  centre of the Earth, and a pick finds a nearest pickable target.
\<close>

section \<open>The renderer as a machine\<close>

datatype renderer_event =
    SetSnapshot "string \<Rightarrow> real option" "snapshot option" real
  | SetSettings jsval
  | SetSelected "real option"
  | Resize real real real
  | FrameTime real
  | CameraEvent camera_event

text \<open>The clock of the snapshots does not run backwards.\<close>

inductive renderer_step :: "renderer \<Rightarrow> renderer_event \<Rightarrow> renderer \<Rightarrow> bool" where
  r_snapshot: "lastSnapNow r \<le> now \<Longrightarrow> renderer_step r (SetSnapshot dp snap now) (setSnapshot dp snap now r)"
| r_settings: "renderer_step r (SetSettings s) (setSettings s r)"
| r_selected: "renderer_step r (SetSelected i) (setSelected i r)"
| r_resize: "renderer_step r (Resize cw ch d) (resize cw ch d r)"
| r_frame: "renderer_step r (FrameTime t) (snd (sceneNowMs t r))"
| r_camera: "camera_step (rn_camera r) ev c' \<Longrightarrow> renderer_step r (CameraEvent ev) (r\<lparr>rn_camera := c'\<rparr>)"

inductive_cases renderer_stepE: "renderer_step r e r'"

definition renderer_start :: "renderer \<Rightarrow> bool" where
  "renderer_start r \<longleftrightarrow> (\<exists>now w h. r = createRenderer now w h)"

text \<open>The camera the renderer makes looks at the origin from 8 to 200 units.\<close>

definition scene_camera :: "camera \<Rightarrow> bool" where
  "scene_camera c \<longleftrightarrow> camera_inv c \<and> cam_target c = (0, 0, 0) \<and> minD c = 8 \<and> maxD c = 200"

interpretation scene_cam: stepper "\<lambda>c. c = createCamera renderer_camera_options" camera_step scene_camera
proof unfold_locales
  fix c assume "c = createCamera renderer_camera_options"
  then show "scene_camera c"
    by (simp add: scene_camera_def createCamera_def renderer_camera_options_def or_else_def
        camera_inv_def clampDist_def Let_def PITCH_LIMIT_def DEG_def)
next
  fix c e c' assume "scene_camera c" "camera_step c e c'"
  then show "scene_camera c'"
    using orbit_camera.inv_step [of c e c']
    by (auto simp: scene_camera_def onDown_def onMove_def onUp_def onWheel_def setDistance_def Let_def
        elim!: camera_stepE)
qed

text \<open>What the trail buffer should hold.\<close>

definition buffer_ok :: "r_settings \<Rightarrow> real \<Rightarrow> trails \<Rightarrow> trail_buffer \<Rightarrow> bool" where
  "buffer_ok s now ts tb \<longleftrightarrow>
     0 < tb_capacity tb \<and> tb_vertCount tb * 7 \<le> tb_capacity tb \<and>
     (case r_trailSeconds s of
        Fin secs \<Rightarrow>
          if r_showTrails s \<and> 0 < secs
          then tb_vertCount tb = length (trail_vertices s now secs ts) \<and>
            (tb_vertCount tb \<noteq> 0 \<longrightarrow> tb_vertices tb = trail_vertices s now secs ts)
          else tb_vertCount tb = 0
      | _ \<Rightarrow> tb_vertCount tb = 0)"

lemma rebuildTrailBuffer_ok:
  assumes "0 < tb_capacity tb"
  shows "buffer_ok s now ts (rebuildTrailBuffer s now ts tb)"
proof (cases "r_trailSeconds s")
  case (Fin secs)
  let ?n = "total_segments s now secs ts * 2 * 7"
  have "?n \<le> grow (tb_capacity tb) ?n" "0 < grow (tb_capacity tb) ?n"
    using grow_enough [OF assms, of ?n] assms by auto
  with Fin assms show ?thesis
    by (auto simp: buffer_ok_def rebuildTrailBuffer_def Let_def trail_vertices_length)
qed (use assms in \<open>simp_all add: buffer_ok_def rebuildTrailBuffer_def\<close>)

definition sat_of :: "snapshot option \<Rightarrow> (real \<times> vec3) option" where
  "sat_of snap = (case snap of None \<Rightarrow> None
     | Some sn \<Rightarrow> map_option (\<lambda>s. (sat_id s, worldFromMeters (sat_pos s))) (snap_satellite sn))"

definition renderer_inv :: "renderer \<Rightarrow> bool" where
  "renderer_inv r \<longleftrightarrow>
     scene_camera (rn_camera r) \<and> (\<exists>a. rn_proj r = perspective FOV a NEAR FAR) \<and>
     renderObjects r = rebuildObjectBuffer (rn_settings r) (rn_snapshot r) \<and>
     satRender r = sat_of (rn_snapshot r) \<and>
     trails_ok (lastSnapNow r) (rn_trails r) \<and> rn_sky r = sky_at (sceneEpochMs r) \<and>
     buffer_ok (rn_settings r) (lastSnapNow r) (rn_trails r) (trailBuf r)"

lemma anchor_epoch_keeps:
  "rn_settings (anchor_epoch dp snap q) = rn_settings q"
  "rn_snapshot (anchor_epoch dp snap q) = rn_snapshot q"
  "lastSnapNow (anchor_epoch dp snap q) = lastSnapNow q"
  "rn_trails (anchor_epoch dp snap q) = rn_trails q" "trailBuf (anchor_epoch dp snap q) = trailBuf q"
  "rn_camera (anchor_epoch dp snap q) = rn_camera q" "rn_proj (anchor_epoch dp snap q) = rn_proj q"
  "rn_sky (anchor_epoch dp snap q) = rn_sky q"
  by (simp_all add: anchor_epoch_def split: option.split)

lemma rebuildSatellite_keeps:
  "rn_settings (rebuildSatellite q) = rn_settings q" "rn_snapshot (rebuildSatellite q) = rn_snapshot q"
  "lastSnapNow (rebuildSatellite q) = lastSnapNow q" "rn_trails (rebuildSatellite q) = rn_trails q"
  "trailBuf (rebuildSatellite q) = trailBuf q" "rn_camera (rebuildSatellite q) = rn_camera q"
  "rn_proj (rebuildSatellite q) = rn_proj q" "renderObjects (rebuildSatellite q) = renderObjects q"
  "rn_sky (rebuildSatellite q) = rn_sky q" "sceneEpochMs (rebuildSatellite q) = sceneEpochMs q"
  by (simp_all add: rebuildSatellite_def Let_def split: option.split)

lemma satRender_rebuildSatellite: "satRender (rebuildSatellite q) = sat_of (rn_snapshot q)"
  by (simp add: rebuildSatellite_def sat_of_def Let_def split: option.split)

lemma setSnapshot_fields:
  "rn_settings (setSnapshot dp snap now r) = rn_settings r"
  "rn_snapshot (setSnapshot dp snap now r) = snap"
  "lastSnapNow (setSnapshot dp snap now r) = now"
  "rn_trails (setSnapshot dp snap now r) = appendTrails dp snap now (rn_trails r)"
  "trailBuf (setSnapshot dp snap now r) =
     rebuildTrailBuffer (rn_settings r) now (appendTrails dp snap now (rn_trails r)) (trailBuf r)"
  "rn_camera (setSnapshot dp snap now r) = rn_camera r"
  "rn_proj (setSnapshot dp snap now r) = rn_proj r"
  "renderObjects (setSnapshot dp snap now r) = rebuildObjectBuffer (rn_settings r) snap"
  "satRender (setSnapshot dp snap now r) = sat_of snap"
proof -
  define r1 where "r1 = anchor_epoch dp snap (r\<lparr>rn_snapshot := snap, lastSnapNow := now\<rparr>)"
  have r1: "rn_settings r1 = rn_settings r" "rn_snapshot r1 = snap" "lastSnapNow r1 = now"
    "rn_trails r1 = rn_trails r" "trailBuf r1 = trailBuf r" "rn_camera r1 = rn_camera r"
    "rn_proj r1 = rn_proj r"
    by (simp_all add: r1_def anchor_epoch_keeps)
  define r2 where "r2 = r1\<lparr>rn_trails := appendTrails dp snap now (rn_trails r)\<rparr>"
  define r3 where "r3 = rebuild_objects r2"
  have r3: "rn_settings r3 = rn_settings r" "rn_snapshot r3 = snap" "lastSnapNow r3 = now"
    "rn_trails r3 = appendTrails dp snap now (rn_trails r)" "trailBuf r3 = trailBuf r"
    "rn_camera r3 = rn_camera r" "rn_proj r3 = rn_proj r"
    "renderObjects r3 = rebuildObjectBuffer (rn_settings r) snap"
    by (simp_all add: r3_def r2_def rebuild_objects_def r1)
  define r4 where "r4 = rebuildSatellite r3"
  have r4: "rn_settings r4 = rn_settings r" "rn_snapshot r4 = snap" "lastSnapNow r4 = now"
    "rn_trails r4 = appendTrails dp snap now (rn_trails r)" "trailBuf r4 = trailBuf r"
    "rn_camera r4 = rn_camera r" "rn_proj r4 = rn_proj r"
    "renderObjects r4 = rebuildObjectBuffer (rn_settings r) snap" "satRender r4 = sat_of snap"
    by (simp_all add: r4_def rebuildSatellite_keeps satRender_rebuildSatellite r3)
  have eq: "setSnapshot dp snap now r = rebuild_sky (rebuild_trails r4)"
    by (simp only: setSnapshot_def Let_def r1 flip: r1_def r2_def r3_def r4_def)
  then show "rn_settings (setSnapshot dp snap now r) = rn_settings r"
    "rn_snapshot (setSnapshot dp snap now r) = snap"
    "lastSnapNow (setSnapshot dp snap now r) = now"
    "rn_trails (setSnapshot dp snap now r) = appendTrails dp snap now (rn_trails r)"
    "trailBuf (setSnapshot dp snap now r) =
       rebuildTrailBuffer (rn_settings r) now (appendTrails dp snap now (rn_trails r)) (trailBuf r)"
    "rn_camera (setSnapshot dp snap now r) = rn_camera r"
    "rn_proj (setSnapshot dp snap now r) = rn_proj r"
    "renderObjects (setSnapshot dp snap now r) = rebuildObjectBuffer (rn_settings r) snap"
    "satRender (setSnapshot dp snap now r) = sat_of snap"
    by (simp_all add: rebuild_sky_def rebuild_trails_def r4)
qed

lemma setSnapshot_sky:
  "rn_sky (setSnapshot dp snap now r) = rebuildSky (sceneEpochMs (setSnapshot dp snap now r)) (rn_sky r)"
  by (simp add: setSnapshot_def rebuild_sky_def rebuild_trails_def rebuild_objects_def rebuildSatellite_keeps
      anchor_epoch_keeps Let_def)

lemma setSnapshot_inv:
  assumes "renderer_inv r" and "lastSnapNow r \<le> now"
  shows "renderer_inv (setSnapshot dp snap now r)"
proof -
  have "trails_ok now (appendTrails dp snap now (rn_trails r))"
    using assms by (auto simp: renderer_inv_def intro: appendTrails_ok [OF trails_ok_later])
  moreover have "0 < tb_capacity (trailBuf r)"
    using assms(1) by (simp add: renderer_inv_def buffer_ok_def)
  ultimately show ?thesis
    using assms(1)
    by (simp add: renderer_inv_def setSnapshot_fields setSnapshot_sky rebuildSky_eq sky_at_length
        rebuildTrailBuffer_ok)
qed

lemma renderer_step_inv:
  assumes "renderer_inv r" and "renderer_step r e r'"
  shows "renderer_inv r'"
  using assms(2)
proof (rule renderer_stepE)
  fix now dp snap assume "lastSnapNow r \<le> now" "r' = setSnapshot dp snap now r"
  with assms(1) setSnapshot_inv show ?thesis by simp
next
  fix s assume r': "r' = setSettings s r"
  have "0 < tb_capacity (trailBuf r)" using assms(1) by (simp add: renderer_inv_def buffer_ok_def)
  from rebuildTrailBuffer_ok [OF this] assms(1) show ?thesis
    by (simp add: r' setSettings_def rebuild_trails_def rebuild_objects_def renderer_inv_def)
next
  fix cw ch d assume "r' = resize cw ch d r"
  with assms(1) show ?thesis by (auto simp: resize_def Let_def renderer_inv_def)
next
  fix ev c' assume "camera_step (rn_camera r) ev c'" "r' = r\<lparr>rn_camera := c'\<rparr>"
  with assms(1) scene_cam.inv_step show ?thesis by (auto simp: renderer_inv_def)
qed (use assms(1) in \<open>auto simp: setSelected_def sceneNowMs_def renderer_inv_def split: option.split\<close>)

lemma renderer_start_inv: "renderer_start r \<Longrightarrow> renderer_inv r"
proof -
  assume "renderer_start r"
  then obtain now w h where r: "r = createRenderer now w h" by (auto simp: renderer_start_def)
  have "scene_camera (createCamera renderer_camera_options)" by (rule scene_cam.inv_init) (rule refl)
  moreover have "\<exists>a. perspective FOV 1 NEAR FAR = perspective FOV a NEAR FAR" by blast
  ultimately show ?thesis
    by (simp add: r createRenderer_def renderer_inv_def sky_at_def rebuildObjectBuffer_def sat_of_def trails_ok_def
        buffer_ok_def normalizeSettings_def get_prop_def own_props_def clamp_num_def Let_def)
qed

interpretation renderer_machine: stepper renderer_start renderer_step renderer_inv
  by unfold_locales (auto intro: renderer_start_inv renderer_step_inv)

section \<open>The active view\<close>

lemma active_view_cases:
  assumes "scene_camera (rn_camera r)"
  obtains eye up where "view_mat (computeActiveView r) = lookAt eye (0, 0, 0) up"
    and "view_ok eye (0, 0, 0) up" and "view_eye (computeActiveView r) = eye"
    and "fisheye (computeActiveView r) \<longrightarrow> 1 / 10 ^ 9 \<le> vlen eye"
    and "\<not> fisheye (computeActiveView r) \<longrightarrow> 8 \<le> vlen eye \<and>
      view_mvp (computeActiveView r) = Some (multiply (rn_proj r) (view_mat (computeActiveView r)))"
proof (cases "computeActiveView r = orbit_view r")
  case True
  let ?c = "rn_camera r"
  have t: "cam_target ?c = (0, 0, 0)" and d: "8 \<le> distance ?c"
    using assms by (auto simp: scene_camera_def camera_inv_def)
  have "vdist (getEye ?c) (0, 0, 0) = distance ?c"
    using eye_distance [of ?c] d t by simp
  moreover have "vsub (getEye ?c) (0, 0, 0) = getEye ?c" by (cases "getEye ?c") (simp add: vsub_def)
  ultimately have "8 \<le> vlen (getEye ?c)" using d by (simp add: vdist_def)
  moreover have "view_ok (getEye ?c) (0, 0, 0) (0, 0, 1)"
    using orbit_view_ok [of ?c] assms t by (simp add: scene_camera_def)
  ultimately show ?thesis
    using that [of "getEye ?c" "(0, 0, 1)"] t unfolding True by (simp add: orbit_view_def getViewMatrix_def Let_def)
next
  case False
  then obtain sn s m where *: "r_viewMode (rn_settings r) = Sat" "rn_snapshot r = Some sn"
      "snap_satellite sn = Some s"
    and s: "satViewMatrix (Some (worldFromMeters (sat_pos s))) (Some (sat_vel s)) = Some m"
    by (auto simp: computeActiveView_def Let_def split: if_splits option.splits)
  then have v: "computeActiveView r = \<lparr>fisheye = True, view_mat = m, view_mvp = None,
      view_eye = worldFromMeters (sat_pos s), aspectGl = canvasW r / canvasH r, aspectCss = cssW r / cssH r\<rparr>"
    by (simp add: computeActiveView_def)
  from satViewMatrix_view [OF s] that v show ?thesis by (metis (mono_tags, lifting) view.simps(1,2,4))
qed

text \<open>The centre of the Earth is at the centre of the screen.\<close>

lemma vsub_zero: "vsub p (0, 0, 0) = p"
  by (cases p) (simp add: vsub_def)

lemma transform_w: "view_ok e c u \<Longrightarrow> transform (lookAt e c u) p =
  (case view_xyz (transform (lookAt e c u) p) of (x, y, z) \<Rightarrow> (x, y, z, 1))"
  by (simp add: lookAt_axes view_xyz_def)

lemma earth_center_on_screen:
  assumes "renderer_inv r"
  shows "projectToScreen (computeActiveView r) w h (0, 0, 0) = Some (w / 2, h / 2)"
proof -
  have cam: "scene_camera (rn_camera r)" using assms by (simp add: renderer_inv_def)
  obtain a where proj: "rn_proj r = perspective FOV a NEAR FAR" using assms by (auto simp: renderer_inv_def)
  from cam obtain eye up where m: "view_mat (computeActiveView r) = lookAt eye (0, 0, 0) up"
    and ok: "view_ok eye (0, 0, 0) up"
    and "view_eye (computeActiveView r) = eye"
    and fe: "fisheye (computeActiveView r) \<longrightarrow> 1 / 10 ^ 9 \<le> vlen eye"
    and orb: "\<not> fisheye (computeActiveView r) \<longrightarrow> 8 \<le> vlen eye \<and>
      view_mvp (computeActiveView r) = Some (multiply (rn_proj r) (view_mat (computeActiveView r)))"
    by (rule active_view_cases)
  have c: "view_xyz (transform (lookAt eye (0, 0, 0) up) (0, 0, 0)) = (0, 0, - vlen eye)"
    using lookAt_center [OF ok] by (simp add: vdist_def vsub_zero)
  show ?thesis
  proof (cases "fisheye (computeActiveView r)")
    case True
    have l: "vlen eye \<noteq> 0" using fe True by (smt (verit) divide_pos_pos zero_less_power)
    have len: "vlen (0, 0, - vlen eye) = vlen eye"
      by (simp add: vlen_def [of "(0, 0, _)"] hypot3_def)
    have "vscale (0, 0, - vlen eye) (1 / vlen eye) = (0, 0, - 1)" using l by (simp add: vscale_def del: vlen_eq_0)
    moreover have "hypot3 0 0 0 = 0" by simp
    ultimately have "fisheyeProjectNdc (lookAt eye (0, 0, 0) up) (0, 0, 0) q fov =
        Some \<lparr>ndc_x = 0, ndc_y = 0,
          ndc_depth = clamp ((vlen eye - SAT_NEAR) / (SAT_FAR - SAT_NEAR)) 0 1 * 2 - 1, ndc_theta = 0\<rparr>" for q fov
      using fe True by (simp add: fisheyeProjectNdc_def c len Let_def clamp_def not_less)
    with True show ?thesis by (simp add: projectToScreen_def m)
  next
    case False
    have "transform (lookAt eye (0, 0, 0) up) (0, 0, 0) = (0, 0, - vlen eye, 1)"
      using transform_w [OF ok, of "(0, 0, 0)"] c by simp
    then have "transform (multiply (rn_proj r) (lookAt eye (0, 0, 0) up)) (0, 0, 0) =
        transform4 (rn_proj r) (0, 0, - vlen eye, 1)"
      by (simp add: transform_def transform4_multiply)
    moreover have "8 \<le> vlen eye" using orb False by simp
    ultimately show ?thesis using False orb False m
      by (simp add: projectToScreen_def proj transform4_def perspective_def Let_def not_le)
  qed
qed

text \<open>A point between the eye and the centre of the Earth is straight ahead too, and not occluded
  while it is outside the globe.\<close>

lemma axis_point:
  assumes "view_ok e (0, 0, 0) u"
  shows "transform (lookAt e (0, 0, 0) u) (vscale e s) = (0, 0, (s - 1) * vlen e, 1)"
proof -
  let ?z = "cam_z e (0, 0, 0)"
  have l: "vlen (vsub e (0, 0, 0)) \<noteq> 0" using assms by (simp add: vsub_zero view_ok_def)
  have "vsub (vscale e s) e = vscale ?z ((s - 1) * vlen e)"
    unfolding cam_z_def vnormalize_eq [OF l] using l
    by (cases e) (simp add: vsub_def vscale_def algebra_simps del: vlen_eq_0)
  then show ?thesis
    using cam_axes(3,4) [OF assms]
    by (simp add: lookAt_axes [OF assms] dot_scale cam_y_def dot_cross_self dot_commute [of "cross _ _"])
qed

lemma axis_point_visible:
  assumes "OCCLUDE_R / vlen e \<le> s" and "s \<le> 1" and "OCCLUDE_R < vlen e"
  shows "\<not> behindEarth e (vscale e s)"
proof
  assume "behindEarth e (vscale e s)"
  moreover have "behindEarth e p \<longleftrightarrow> occludedBySphere e (fst p) (fst (snd p)) (snd (snd p)) OCCLUDE_R" for p
    by (cases p) (simp add: behindEarth_def)
  moreover have R: "0 < OCCLUDE_R" by (simp add: OCCLUDE_R_def EARTH_R_def)
  ultimately obtain t where t: "0 < t" "t < 1" "vlen (along e (vscale e s) t) < OCCLUDE_R"
    using occluded_outside [of OCCLUDE_R e "vscale e s"] assms(3) by auto
  have "along e (vscale e s) t = vscale e (1 - t * (1 - s))"
    by (cases e) (simp add: along_def vadd_def vsub_def vscale_def algebra_simps)
  then have "vlen (along e (vscale e s) t) = \<bar>1 - t * (1 - s)\<bar> * vlen e" by (simp add: vlen_scale)
  moreover have "s \<le> 1 - t * (1 - s)"
    using mult_left_le_one_le [of "1 - s" t] t assms(2) by linarith
  moreover have "0 < vlen e" using R assms(3) by linarith
  ultimately have "s * vlen e \<le> vlen (along e (vscale e s) t)" by (simp add: mult_right_mono)
  moreover have "OCCLUDE_R \<le> s * vlen e" using assms(1) \<open>0 < vlen e\<close> by (simp add: pos_divide_le_eq)
  ultimately show False using t(3) by linarith
qed

section \<open>Picking\<close>

text \<open>How a target counts for a click: its id, screen distance and squared distance from the
  eye, if it is in front, projects to the screen and is within 12 pixels.\<close>

definition candidate :: "view \<Rightarrow> real \<Rightarrow> real \<Rightarrow> real \<Rightarrow> real \<Rightarrow> real \<times> vec3 \<Rightarrow> best" where
  "candidate av w h x y t =
     (if behindEarth (view_eye av) (snd t) then None
      else case projectToScreen av w h (snd t) of
          None \<Rightarrow> None
        | Some (sx, sy) \<Rightarrow>
            if hypot3 (sx - x) (sy - y) 0 > 12 then None
            else Some (fst t, hypot3 (sx - x) (sy - y) 0, (vlen (vsub (snd t) (view_eye av)))\<^sup>2))"

definition pick_targets :: "renderer \<Rightarrow> (real \<times> vec3) list" where
  "pick_targets r =
     (if fisheye (computeActiveView r) then []
      else case satRender r of None \<Rightarrow> [] | Some t \<Rightarrow> [t]) @
     map (\<lambda>b. (row_id b, row_pos b)) (renderObjects r)"

definition better :: "real \<times> real \<times> real \<Rightarrow> best \<Rightarrow> best" where
  "better c best = (case c of (i, d, cam) \<Rightarrow> (case best of
      None \<Rightarrow> Some (i, d, cam)
    | Some (bi, bd, bc) \<Rightarrow>
        if d < bd - 1 / 10 ^ 9 \<or> (\<bar>d - bd\<bar> < 1 / 10 ^ 9 \<and> cam < bc) then Some (i, d, cam) else best))"

lemma considerTarget_candidate:
  "considerTarget av w h x y t best =
     (case candidate av w h x y t of None \<Rightarrow> best | Some c \<Rightarrow> better c best)"
  by (cases t) (auto simp: considerTarget_def candidate_def better_def Let_def split: option.split prod.split)

lemma pick_fold:
  "pick r x y = map_option fst
     (fold (considerTarget (computeActiveView r) (cssW r) (cssH r) x y) (pick_targets r) None)"
  by (simp add: pick_def pick_targets_def Let_def fold_map comp_def split: option.split)

text \<open>The best of the targets seen so far: there is one as soon as a target counts, and it is
  no farther than any, up to the tolerance of each comparison.\<close>

definition best_of :: "(real \<times> vec3 \<Rightarrow> best) \<Rightarrow> (real \<times> vec3) list \<Rightarrow> best \<Rightarrow> bool" where
  "best_of cand ts best \<longleftrightarrow>
     (case best of
        None \<Rightarrow> \<forall>t \<in> set ts. cand t = None
      | Some c \<Rightarrow> (\<exists>t \<in> set ts. cand t = Some c) \<and>
          (\<forall>t \<in> set ts. \<forall>c'. cand t = Some c' \<longrightarrow> fst (snd c) \<le> fst (snd c') + real (length ts) / 10 ^ 9))"

lemma better_cases:
  obtains "better c best = Some c" "\<And>b. best = Some b \<Longrightarrow> fst (snd c) \<le> fst (snd b) + 1 / 10 ^ 9"
  | b where "best = Some b" "better c best = Some b" "fst (snd b) \<le> fst (snd c) + 1 / 10 ^ 9"
proof (cases best)
  case None
  with that(1) show ?thesis by (cases c) (simp add: better_def)
next
  case (Some b)
  obtain i d cam where c: "c = (i, d, cam)" by (cases c)
  obtain bi bd bc where b: "b = (bi, bd, bc)" by (cases b)
  show ?thesis
  proof (cases "d < bd - 1 / 10 ^ 9 \<or> (\<bar>d - bd\<bar> < 1 / 10 ^ 9 \<and> cam < bc)")
    case True
    moreover have "0 < (1 :: real) / 10 ^ 9" by simp
    ultimately have "d \<le> bd + 1 / 10 ^ 9" by (elim disjE conjE) linarith+
    with True that(1) show ?thesis by (simp add: better_def Some b c)
  next
    case False
    with that(2) [of b] show ?thesis by (auto simp: better_def Some b c)
  qed
qed

lemma best_of_Some:
  assumes "t \<in> set ts" and "cand t = Some c"
    and "\<And>t' c'. t' \<in> set ts \<Longrightarrow> cand t' = Some c' \<Longrightarrow>
      fst (snd c) \<le> fst (snd c') + real (length ts) / 10 ^ 9"
  shows "best_of cand ts (Some c)"
  using assms unfolding best_of_def option.case by blast

lemma best_of_SomeD:
  assumes "best_of cand ts (Some c)"
  shows "\<exists>t \<in> set ts. cand t = Some c"
    and "t' \<in> set ts \<Longrightarrow> cand t' = Some c' \<Longrightarrow>
      fst (snd c) \<le> fst (snd c') + real (length ts) / 10 ^ 9"
  using assms unfolding best_of_def option.case by blast+

lemma length_tolerance:
  "real (length (ts @ [t])) / 10 ^ 9 = real (length ts) / 10 ^ 9 + 1 / 10 ^ 9"
  by (simp add: add_divide_distrib)

lemma tolerance_pos: "0 < (1 :: real) / 10 ^ 9"
  by simp

lemma best_of_snoc:
  assumes "best_of cand ts best"
  shows "best_of cand (ts @ [t]) (case cand t of None \<Rightarrow> best | Some c \<Rightarrow> better c best)"
proof (cases "cand t")
  case None
  show ?thesis
  proof (cases best)
    case b: (Some b)
    note D = best_of_SomeD [OF assms [unfolded b]]
    from D(1) obtain t0 where t0: "t0 \<in> set ts" "cand t0 = Some b" by blast
    have "best_of cand (ts @ [t]) (Some b)"
    proof (rule best_of_Some)
      show "t0 \<in> set (ts @ [t])" "cand t0 = Some b" using t0 by simp_all
      fix t' c' assume "t' \<in> set (ts @ [t])" "cand t' = Some c'"
      with None have "t' \<in> set ts" by auto
      from D(2) [OF this \<open>cand t' = Some c'\<close>]
      show "fst (snd b) \<le> fst (snd c') + real (length (ts @ [t])) / 10 ^ 9"
        unfolding length_tolerance using tolerance_pos by linarith
    qed
    with None b show ?thesis by simp
  next
    case None
    with \<open>cand t = None\<close> assms show ?thesis by (simp add: best_of_def)
  qed
next
  case (Some c)
  have pos: "0 \<le> real (length ts) / 10 ^ 9" by simp
  show ?thesis
  proof (cases rule: better_cases [of c best])
    case 1
    have "best_of cand (ts @ [t]) (Some c)"
    proof (rule best_of_Some)
      show "t \<in> set (ts @ [t])" "cand t = Some c" using Some by simp_all
      fix t' c' assume t': "t' \<in> set (ts @ [t])" "cand t' = Some c'"
      show "fst (snd c) \<le> fst (snd c') + real (length (ts @ [t])) / 10 ^ 9"
      proof (cases "t' = t")
        case True
        with t'(2) Some pos show ?thesis unfolding length_tolerance by simp
      next
        case False
        with t' have in_ts: "t' \<in> set ts" by simp
        show ?thesis
        proof (cases best)
          case None
          with assms in_ts t'(2) show ?thesis by (simp add: best_of_def)
        next
          case b: (Some b)
          from best_of_SomeD(2) [OF assms [unfolded b] in_ts t'(2)] 1(2) [OF b]
          show ?thesis unfolding length_tolerance using tolerance_pos by linarith
        qed
      qed
    qed
    with Some 1(1) show ?thesis by simp
  next
    case (2 b)
    note D = best_of_SomeD [OF assms [unfolded 2(1)]]
    from D(1) obtain t0 where t0: "t0 \<in> set ts" "cand t0 = Some b" by blast
    have "best_of cand (ts @ [t]) (Some b)"
    proof (rule best_of_Some)
      show "t0 \<in> set (ts @ [t])" "cand t0 = Some b" using t0 by simp_all
      fix t' c' assume t': "t' \<in> set (ts @ [t])" "cand t' = Some c'"
      show "fst (snd b) \<le> fst (snd c') + real (length (ts @ [t])) / 10 ^ 9"
      proof (cases "t' = t")
        case True
        with t'(2) Some 2(3) pos show ?thesis unfolding length_tolerance by simp
      next
        case False
        with t' have "t' \<in> set ts" by simp
        from D(2) [OF this t'(2)] show ?thesis unfolding length_tolerance using tolerance_pos by linarith
      qed
    qed
    with Some 2(2) show ?thesis by simp
  qed
qed

lemma best_of_fold:
  "best_of (candidate av w h x y) ts (fold (considerTarget av w h x y) ts None)"
proof (induction ts rule: rev_induct)
  case Nil
  then show ?case by (simp add: best_of_def)
next
  case (snoc t ts)
  from best_of_snoc [OF snoc] show ?case by (simp add: considerTarget_candidate [of av w h x y t])
qed

section \<open>Properties\<close>

text \<open>C9: In every state the renderer can reach, through snapshots, settings, selections, resizes, frames
  and camera gestures in any order, the uploaded points and the satellite are those of the current
  snapshot under the current settings, the trail buffer holds the trails as of the last snapshot and
  fits its array, and the camera keeps its distance and pitch limits.\<close>

theorem buffers_are_current:
  assumes "reachable renderer_start renderer_step r"
  shows "renderObjects r = rebuildObjectBuffer (rn_settings r) (rn_snapshot r) \<and>
    satRender r = (case rn_snapshot r of None \<Rightarrow> None
      | Some sn \<Rightarrow> map_option (\<lambda>s. (sat_id s, worldFromMeters (sat_pos s))) (snap_satellite sn)) \<and>
    trails_ok (lastSnapNow r) (rn_trails r) \<and>
    buffer_ok (rn_settings r) (lastSnapNow r) (rn_trails r) (trailBuf r) \<and>
    rn_sky r = sky_at (sceneEpochMs r) \<and>
    8 \<le> distance (rn_camera r) \<and> distance (rn_camera r) \<le> 200 \<and> \<bar>pitch (rn_camera r)\<bar> \<le> 89 * DEG"
  using renderer_machine.inv_reachable [OF assms]
  by (auto simp: renderer_inv_def scene_camera_def camera_inv_def sat_of_def PITCH_LIMIT_def)

theorem buffers_are_current_witness:
  "satRender (setSnapshot Map.empty (Some \<lparr>snap_satellite = Some \<lparr>sat_id = 3, sat_seq = 0,
      sat_pos = (7 * 10 ^ 6, 0, 0), sat_vel = (0, 7500, 0)\<rparr>, snap_objects = [], snap_lastDataTime = None,
      snap_serverTime = None, snap_trailPoints = []\<rparr>) 1000 (createRenderer 0 300 150))
    = Some (3, worldFromMeters (7 * 10 ^ 6, 0, 0))"
proof -
  let ?snap = "\<lparr>snap_satellite = Some \<lparr>sat_id = 3, sat_seq = 0, sat_pos = (7 * 10 ^ 6, 0, 0),
      sat_vel = (0, 7500, 0)\<rparr>, snap_objects = [], snap_lastDataTime = None, snap_serverTime = None,
      snap_trailPoints = []\<rparr>"
  let ?r = "createRenderer 0 300 150"
  have "reachable renderer_start renderer_step ?r"
    by (rule reach_init) (auto simp: renderer_start_def)
  moreover have "renderer_step ?r (SetSnapshot Map.empty (Some ?snap) 1000)
      (setSnapshot Map.empty (Some ?snap) 1000 ?r)"
    by (rule r_snapshot) (simp add: createRenderer_def)
  ultimately have "reachable renderer_start renderer_step (setSnapshot Map.empty (Some ?snap) 1000 ?r)"
    by (rule reach_step)
  from buffers_are_current [OF this] show ?thesis by (simp add: setSnapshot_fields(2))
qed

text \<open>In every reachable state and view mode, the view the frame is drawn with is a rigid motion (it
  preserves every distance, so it is never degenerate) that takes the centre of the Earth straight
  ahead of the eye, at the eye's own distance from it, and that eye is never at the centre.\<close>

theorem view_is_rigid:
  assumes "reachable renderer_start renderer_step r"
  shows "vdist (view_xyz (transform (view_mat (computeActiveView r)) p))
      (view_xyz (transform (view_mat (computeActiveView r)) q)) = vdist p q \<and>
    view_xyz (transform (view_mat (computeActiveView r)) (0, 0, 0)) =
      (0, 0, - vlen (view_eye (computeActiveView r))) \<and>
    0 < vlen (view_eye (computeActiveView r))"
proof -
  have "scene_camera (rn_camera r)"
    using renderer_machine.inv_reachable [OF assms] by (simp add: renderer_inv_def)
  then obtain eye up where v: "view_mat (computeActiveView r) = lookAt eye (0, 0, 0) up"
    "view_ok eye (0, 0, 0) up" "view_eye (computeActiveView r) = eye"
    by (rule active_view_cases)
  have "eye \<noteq> (0, 0, 0)" using v(2) by (simp add: view_ok_def)
  then have "vlen eye \<noteq> 0" by simp
  then have "0 < vlen eye" using vlen_ge_0 [of eye] by linarith
  with lookAt_isometry [OF v(2)] lookAt_center [OF v(2)] show ?thesis
    by (simp add: v(1,3) vdist_def vsub_zero)
qed

theorem view_is_rigid_witness:
  "vdist (view_xyz (transform (view_mat (computeActiveView (createRenderer 0 300 150))) (3, 0, 0)))
     (view_xyz (transform (view_mat (computeActiveView (createRenderer 0 300 150))) (0, 4, 0))) = 5"
proof -
  have "reachable renderer_start renderer_step (createRenderer 0 300 150)"
    by (rule reach_init) (auto simp: renderer_start_def)
  from view_is_rigid [OF this, of "(3, 0, 0)" "(0, 4, 0)"] show ?thesis
    by (simp add: vdist_def vsub_def vlen_def hypot3_def)
qed

text \<open>In every reachable state, in the orbit view as in the satellite's fisheye, the centre of the
  Earth is drawn at the centre of the canvas, whatever its size.\<close>

theorem earth_is_centred:
  assumes "reachable renderer_start renderer_step r"
  shows "projectToScreen (computeActiveView r) (cssW r) (cssH r) (0, 0, 0) = Some (cssW r / 2, cssH r / 2)"
  by (rule earth_center_on_screen [OF renderer_machine.inv_reachable [OF assms]])

theorem earth_is_centred_witness:
  "projectToScreen (computeActiveView (resize 800 600 2 (createRenderer 0 300 150))) 800 600 (0, 0, 0) =
    Some (400, 300)"
proof -
  have "reachable renderer_start renderer_step (createRenderer 0 300 150)"
    by (rule reach_init) (auto simp: renderer_start_def)
  then have "reachable renderer_start renderer_step (resize 800 600 2 (createRenderer 0 300 150))"
    by (rule reach_step) (rule r_resize)
  from earth_is_centred [OF this] show ?thesis by (simp add: resize_def first_nonzero_def Let_def)
qed

text \<open>C10: A click picks nothing exactly when no pickable point (the drawn objects, and the satellite in the
  orbit view) is in front of the Earth, projects to the canvas and is within 12 pixels; otherwise it
  picks the id of such a point, and no other is nearer on the screen, up to the tie tolerance of one
  billionth of a pixel per point.\<close>

theorem pick_nearest:
  "case pick r x y of
     None \<Rightarrow> \<forall>t \<in> set (pick_targets r).
       candidate (computeActiveView r) (cssW r) (cssH r) x y t = None
   | Some i \<Rightarrow> \<exists>d c. d \<le> 12 \<and>
       (\<exists>t \<in> set (pick_targets r).
         fst t = i \<and> candidate (computeActiveView r) (cssW r) (cssH r) x y t = Some (i, d, c)) \<and>
       (\<forall>t \<in> set (pick_targets r). \<forall>i' d' c'.
         candidate (computeActiveView r) (cssW r) (cssH r) x y t = Some (i', d', c') \<longrightarrow>
         d \<le> d' + real (length (pick_targets r)) / 10 ^ 9)"
proof -
  let ?cand = "candidate (computeActiveView r) (cssW r) (cssH r) x y"
  let ?best = "fold (considerTarget (computeActiveView r) (cssW r) (cssH r) x y) (pick_targets r) None"
  have b: "best_of ?cand (pick_targets r) ?best" by (rule best_of_fold)
  have near: "fst t = i \<and> d \<le> 12" if "?cand t = Some (i, d, c)" for t i d c
    using that by (auto simp: candidate_def split: if_splits option.splits)
  show ?thesis
  proof (cases ?best)
    case None
    with b show ?thesis by (simp add: pick_fold best_of_def)
  next
    case (Some m)
    obtain i d c where m: "m = (i, d, c)" by (cases m)
    from best_of_SomeD [OF b [unfolded Some]] obtain t where
      t: "t \<in> set (pick_targets r)" "?cand t = Some (i, d, c)" and
      min: "\<And>t' c'. t' \<in> set (pick_targets r) \<Longrightarrow> ?cand t' = Some c' \<Longrightarrow>
        d \<le> fst (snd c') + real (length (pick_targets r)) / 10 ^ 9"
      unfolding m by auto
    from near [OF t(2)] t min have "d \<le> 12 \<and> (\<exists>t \<in> set (pick_targets r). fst t = i \<and> ?cand t = Some (i, d, c)) \<and>
       (\<forall>t \<in> set (pick_targets r). \<forall>i' d' c'. ?cand t = Some (i', d', c') \<longrightarrow>
         d \<le> d' + real (length (pick_targets r)) / 10 ^ 9)"
      by fastforce
    then show ?thesis by (simp add: pick_fold Some m) blast
  qed
qed

theorem pick_nearest_witness:
  "let r0 = createRenderer 0 300 150; e = getEye (rn_camera r0);
      snap = \<lparr>snap_satellite = Some \<lparr>sat_id = 3, sat_seq = 0, sat_pos = vscale e (500000),
        sat_vel = (0, 7500, 0)\<rparr>, snap_objects = [], snap_lastDataTime = None, snap_serverTime = None,
        snap_trailPoints = []\<rparr>
   in pick (setSnapshot Map.empty (Some snap) 1000 r0) (1 / 2) (1 / 2) = Some 3"
proof -
  define r0 where "r0 = createRenderer 0 300 150"
  define e where "e = getEye (rn_camera r0)"
  define snap where "snap = \<lparr>snap_satellite = Some \<lparr>sat_id = 3, sat_seq = 0, sat_pos = vscale e (500000),
      sat_vel = (0, 7500, 0)\<rparr>, snap_objects = [], snap_lastDataTime = None, snap_serverTime = None,
      snap_trailPoints = []\<rparr>"
  define r where "r = setSnapshot Map.empty (Some snap) 1000 r0"
  have cam0: "rn_camera r0 = createCamera renderer_camera_options" by (simp add: r0_def createRenderer_def)
  have sc: "scene_camera (rn_camera r0)" unfolding cam0 by (rule scene_cam.inv_init) (rule refl)
  have c: "distance (rn_camera r0) = 25" "cam_target (rn_camera r0) = (0, 0, 0)"
    by (simp_all add: cam0 createCamera_def renderer_camera_options_def or_else_def clampDist_def Let_def)
  have len: "vlen e = 25" using eye_distance [of "rn_camera r0"] c by (simp add: e_def vdist_def vsub_zero)
  have ok: "view_ok e (0, 0, 0) (0, 0, 1)"
    using orbit_view_ok [of "rn_camera r0"] sc c by (simp add: scene_camera_def e_def)
  have "vscale (vscale e (500000)) SCALE = vscale e (1 / 2)"
    by (cases e) (simp add: vscale_def SCALE_def)
  then have w: "worldFromMeters (vscale e (500000)) = vscale e (1 / 2)"
    by (simp add: worldFromMeters_scale vlen_scale len SHELL_def) (cases e, simp add: vscale_def)
  have r: "rn_settings r = rn_settings r0" "rn_camera r = rn_camera r0" "rn_proj r = rn_proj r0"
    "renderObjects r = []" "satRender r = Some (3, vscale e (1 / 2))"
    by (simp_all add: r_def setSnapshot_fields snap_def rebuildObjectBuffer_def sat_of_def w)
  have css: "cssW r = 1" "cssH r = 1"
    by (simp_all add: r_def setSnapshot_def rebuild_sky_def rebuild_trails_def rebuildSatellite_def rebuild_objects_def
        anchor_epoch_def snap_def Let_def r0_def createRenderer_def)
  have "r_viewMode (rn_settings r0) = Orbit"
    by (simp add: r0_def createRenderer_def normalizeSettings_def get_prop_def own_props_def Let_def)
  then have v: "computeActiveView r = orbit_view r" by (simp add: computeActiveView_def r)
  have eye: "view_eye (orbit_view r) = e" by (simp add: orbit_view_def r e_def Let_def)
  have "\<not> behindEarth e (vscale e (1 / 2))"
    by (rule axis_point_visible) (simp_all add: len OCCLUDE_R_def EARTH_R_def)
  moreover have "projectToScreen (orbit_view r) 1 1 (vscale e (1 / 2)) = Some (1 / 2, 1 / 2)"
  proof -
    have "transform (multiply (rn_proj r0) (lookAt e (0, 0, 0) (0, 0, 1))) (vscale e (1 / 2)) =
        transform4 (perspective FOV 1 NEAR FAR) (0, 0, - (25 / 2), 1)"
      using axis_point [OF ok, of "1 / 2"]
      by (cases "vscale e (1 / 2)") (simp add: transform_def transform4_multiply len r0_def createRenderer_def)
    then show ?thesis
      by (simp add: projectToScreen_def orbit_view_def getViewMatrix_def r c e_def [symmetric] Let_def
          transform4_def perspective_def)
  qed
  ultimately have "candidate (orbit_view r) 1 1 (1 / 2) (1 / 2) (3, vscale e (1 / 2)) \<noteq> None"
    by (simp add: candidate_def eye hypot3_def)
  moreover have "pick_targets r = [(3, vscale e (1 / 2))]"
    by (simp add: pick_targets_def v r) (simp add: orbit_view_def Let_def)
  ultimately have "pick r (1 / 2) (1 / 2) = Some 3"
    using pick_nearest [of r "1 / 2" "1 / 2"] by (auto simp: v css split: option.splits)
  then show ?thesis by (simp only: Let_def r_def snap_def e_def r0_def)
qed

text \<open>The server's time in a snapshot, as the scene's clock takes it.\<close>

definition server_ms :: "(string \<Rightarrow> real option) \<Rightarrow> snapshot option \<Rightarrow> real option" where
  "server_ms date_parse snap = Option.bind snap (\<lambda>sn. Option.bind (snap_serverTime sn)
     (\<lambda>st. if st = [] then None else date_parse st))"

lemma setSnapshot_clock:
  "sceneEpochMs (setSnapshot dp snap now r) =
     (case server_ms dp snap of Some ms \<Rightarrow> ms | None \<Rightarrow> sceneEpochMs r)"
  "sceneEpochBaseNow (setSnapshot dp snap now r) =
     (case server_ms dp snap of Some ms \<Rightarrow> Some now | None \<Rightarrow> sceneEpochBaseNow r)"
  by (auto simp: setSnapshot_def rebuild_sky_def rebuild_trails_def rebuildSatellite_def rebuild_objects_def anchor_epoch_def
      server_ms_def Let_def split: option.split)

text \<open>The clock of the Sun and the stars is the server's time of the last snapshot that has a readable
  one, advanced by the local time since that snapshot; other snapshots leave it running, and from
  one frame to another it advances by exactly the local time between them.\<close>

theorem scene_clock:
  "fst (sceneNowMs t (setSnapshot dp snap now r)) =
     (case server_ms dp snap of Some ms \<Rightarrow> ms + (t - now) | None \<Rightarrow> fst (sceneNowMs t r)) \<and>
   fst (sceneNowMs t' (snd (sceneNowMs t r))) = fst (sceneNowMs t r) + (t' - t)"
  by (auto simp: sceneNowMs_def setSnapshot_clock split: option.split)

end
