(* ===== verification/Earth_Assets.thy ===== *)
theory Earth_Assets
  imports Cameras
begin

text \<open>
  The pure parts of what the renderer sets up: the meshes (\<open>buildSphere\<close>, \<open>buildGraticule\<close> of
  frontend/js/renderer.js), the texture sizes and the texture handle (frontend/js/textures.js),
  and the icon atlas cells (\<open>iconUV\<close> of frontend/js/atlas.js, the point shader of renderer.js).
\<close>

section \<open>The globe\<close>

record mesh =
  positions :: "vec3 list"
  normals :: "vec3 list"
  uvs :: "(real \<times> real) list"
  indices :: "nat list"

definition sphere_normal :: "nat \<Rightarrow> nat \<Rightarrow> nat \<Rightarrow> nat \<Rightarrow> vec3" where
  "sphere_normal stacks slices i j =
     (let phi = real i / real stacks * pi - pi / 2; theta = real j / real slices * 2 * pi
      in (cos phi * cos theta, cos phi * sin theta, sin phi))"

definition sphere_uv :: "nat \<Rightarrow> nat \<Rightarrow> nat \<Rightarrow> nat \<Rightarrow> real \<times> real" where
  "sphere_uv stacks slices i j =
     (let phi = real i / real stacks * pi - pi / 2; theta = real j / real slices * 2 * pi
      in (1 / 2 + theta / (2 * pi), 1 / 2 - phi / pi))"

definition grid :: "nat \<Rightarrow> nat \<Rightarrow> (nat \<times> nat) list" where
  "grid stacks slices = concat (map (\<lambda>i. map (\<lambda>j. (i, j)) [0..<slices + 1]) [0..<stacks + 1])"

text \<open>\<open>new Uint16Array(indices)\<close> keeps the indices modulo 65536.\<close>

definition sphere_indices :: "nat \<Rightarrow> nat \<Rightarrow> nat list" where
  "sphere_indices stacks slices =
     (let stride = slices + 1
      in map (\<lambda>n. n mod 65536)
        (concat (map (\<lambda>i. concat (map (\<lambda>j.
          let a = i * stride + j; b = a + 1; c = a + stride; d = c + 1
          in [a, c, b, b, c, d]) [0..<slices])) [0..<stacks])))"

definition buildSphere :: "real \<Rightarrow> nat \<Rightarrow> nat \<Rightarrow> mesh" where
  "buildSphere R stacks slices = \<lparr>
     positions = map (\<lambda>(i, j). vscale (sphere_normal stacks slices i j) R) (grid stacks slices),
     normals = map (\<lambda>(i, j). sphere_normal stacks slices i j) (grid stacks slices),
     uvs = map (\<lambda>(i, j). sphere_uv stacks slices i j) (grid stacks slices),
     indices = sphere_indices stacks slices\<rparr>"

text \<open>The line vertices of the graticule; each is uploaded with the colour \<open>grat_color\<close>.\<close>

definition grat_color :: "real \<times> real \<times> real \<times> real" where
  "grat_color = (55 / 100, 72 / 100, 1, 14 / 100)"

fun line_pairs :: "'a list \<Rightarrow> 'a list" where
  "line_pairs (a # b # ps) = a # b # line_pairs (b # ps)"
| "line_pairs _ = []"

definition grat_point :: "real \<Rightarrow> int \<Rightarrow> int \<Rightarrow> vec3" where
  "grat_point r lat lon =
     (let phi = of_int lat * DEG; th = of_int lon * DEG
      in (r * cos phi * cos th, r * cos phi * sin th, r * sin phi))"

definition buildGraticule :: "real \<Rightarrow> vec3 list" where
  "buildGraticule R =
     (let r = R * (1003 / 1000)
      in concat (map (\<lambda>k. line_pairs (map (\<lambda>l. grat_point r (int k * 15 - 75) (int l * 6)) [0..<61])) [0..<11]) @
         concat (map (\<lambda>k. line_pairs (map (\<lambda>l. grat_point r (int l * 6 - 90) (int k * 15)) [0..<31])) [0..<24]))"

section \<open>Texture sizes\<close>

function pot_loop :: "nat \<Rightarrow> nat \<Rightarrow> nat" where
  "pot_loop p n = (if p = 0 \<or> \<not> p * 2 \<le> n then p else pot_loop (p * 2) n)"
  by pat_completeness auto
termination by (relation "measure (\<lambda>(p, n). n - p)") auto

declare pot_loop.simps [simp del]

definition largestPotLE :: "nat \<Rightarrow> nat" where
  "largestPotLE n = pot_loop 1 n"

definition positiveInt :: "jsnum \<Rightarrow> nat \<Rightarrow> nat" where
  "positiveInt x fallback = (case x of Fin v \<Rightarrow> if 1 \<le> \<lfloor>v\<rfloor> then nat \<lfloor>v\<rfloor> else fallback | _ \<Rightarrow> fallback)"

text \<open>\<open>Math.abs(w / h - 2) < EQUIRECT_TOL\<close>: a quotient that is not finite is not close to 2.\<close>

definition equirect :: "jsnum \<Rightarrow> jsnum \<Rightarrow> bool" where
  "equirect w h = (case (w, h) of
      (Fin a, Fin b) \<Rightarrow> b \<noteq> 0 \<and> \<bar>a / b - 2\<bar> < 1 / 10 ^ 6
    | _ \<Rightarrow> False)"

definition potSizeFor :: "jsnum \<Rightarrow> jsnum \<Rightarrow> jsnum \<Rightarrow> nat \<times> nat" where
  "potSizeFor w h maxSize =
     (let cap = positiveInt maxSize 1;
          cw = min (positiveInt w 1) cap;
          potW = largestPotLE cw
      in if equirect w h then (potW, max 1 (potW div 2))
         else let ch = min (positiveInt h 1) cap in (potW, largestPotLE ch))"

section \<open>The texture handle\<close>

record texture_handle =
  day :: "nat option"
  night :: "nat option"
  version :: nat

section \<open>The icon atlas\<close>

definition ATLAS_GRID :: nat where "ATLAS_GRID = 4"
definition CELL :: nat where "CELL = 64"

datatype range_error = RangeError

record uv_rect =
  u0 :: real
  v0 :: real
  u1 :: real
  v1 :: real

definition iconUV :: "jsnum \<Rightarrow> range_error + uv_rect" where
  "iconUV index =
     (let maxIndex = ATLAS_GRID * ATLAS_GRID - 1
      in case index of
          Fin x \<Rightarrow>
            if \<not> is_integral x \<or> x < 0 \<or> x > real maxIndex then Inl RangeError
            else let i = nat \<lfloor>x\<rfloor>;
                     cellFrac = 1 / real ATLAS_GRID;
                     inset = cellFrac * (4 / 100);
                     col = real (i mod ATLAS_GRID);
                     row = real (i div ATLAS_GRID)
              in Inr \<lparr>u0 = col * cellFrac + inset, v0 = row * cellFrac + inset,
                   u1 = (col + 1) * cellFrac - inset, v1 = (row + 1) * cellFrac - inset\<rparr>
        | _ \<Rightarrow> Inl RangeError)"

text \<open>\<open>vUv0\<close> and \<open>vUv1\<close> of the point shader for the attribute \<open>aIcon\<close>.\<close>

definition shader_uv :: "nat \<Rightarrow> uv_rect" where
  "shader_uv aIcon =
     (let cell = 1 / 4; inset = 4 / 100;
          c = real aIcon - 4 * of_int \<lfloor>real aIcon / 4\<rfloor>; r = of_int \<lfloor>real aIcon / 4\<rfloor>
      in \<lparr>u0 = (c + inset) * cell, v0 = (r + inset) * cell,
          u1 = (c + 1 - inset) * cell, v1 = (r + 1 - inset) * cell\<rparr>)"

text \<open>The scale of the atlas canvas for a \<open>devicePixelRatio\<close>; 0 and absence mean 1.\<close>

definition atlasScale :: "real \<Rightarrow> int" where
  "atlasScale devicePixelRatio =
     (let atlasDpr = (if devicePixelRatio \<noteq> 0 then devicePixelRatio else 1)
      in \<lfloor>min atlasDpr 2 + 1 / 2\<rfloor>)"

definition atlas_canvas_size :: "real \<Rightarrow> int" where
  "atlas_canvas_size devicePixelRatio = int ATLAS_GRID * int CELL * atlasScale devicePixelRatio"

section \<open>Meshes\<close>

lemma sphere_normal_unit: "vlen (sphere_normal stacks slices i j) = 1"
proof -
  have "(cos p * cos t)\<^sup>2 + (cos p * sin t)\<^sup>2 + (sin p)\<^sup>2 = (1::real)" for p t
  proof -
    have "(cos p * cos t)\<^sup>2 + (cos p * sin t)\<^sup>2 + (sin p)\<^sup>2 = (cos p)\<^sup>2 * ((cos t)\<^sup>2 + (sin t)\<^sup>2) + (sin p)\<^sup>2"
      by (simp only: power_mult_distrib distrib_left)
    then show ?thesis by simp
  qed
  then show ?thesis by (simp add: sphere_normal_def vlen_def hypot3_def Let_def)
qed

lemma length_grid: "length (grid stacks slices) = (stacks + 1) * (slices + 1)"
  by (simp add: grid_def length_concat sum_list_triv comp_def)

lemma sphere_indices_length: "length (sphere_indices stacks slices) = 6 * stacks * slices"
  by (simp add: sphere_indices_def Let_def length_concat comp_def sum_list_triv)

lemma sphere_indices_bound:
  assumes "n \<in> set (sphere_indices stacks slices)"
  shows "n < (stacks + 1) * (slices + 1)"
proof -
  from assms obtain i j m where ij: "i < stacks" "j < slices" and m: "n = m mod 65536"
    "m \<le> i * (slices + 1) + j + (slices + 1) + 1"
    by (auto simp: sphere_indices_def Let_def)
  have "i * (slices + 1) + (slices + 1) \<le> stacks * (slices + 1)"
    using mult_le_mono1 [of "i + 1" stacks "slices + 1"] ij(1) by simp
  then have "m < (stacks + 1) * (slices + 1)" using m(2) ij(2) by simp
  moreover have "n \<le> m" by (simp add: m(1))
  ultimately show ?thesis by simp
qed

lemma line_pairs_length: "length (line_pairs ps) = 2 * (length ps - 1)"
  by (induction ps rule: line_pairs.induct) auto

lemma line_pairs_set: "set (line_pairs ps) \<subseteq> set ps"
  by (induction ps rule: line_pairs.induct) auto

lemma grat_point_length: "0 \<le> r \<Longrightarrow> vlen (grat_point r lat lon) = r"
proof -
  assume r: "0 \<le> r"
  have "(r * cos p * cos t)\<^sup>2 + (r * cos p * sin t)\<^sup>2 + (r * sin p)\<^sup>2 = r\<^sup>2" for p t
  proof -
    have "(r * cos p * cos t)\<^sup>2 + (r * cos p * sin t)\<^sup>2 + (r * sin p)\<^sup>2 =
        r\<^sup>2 * ((cos p)\<^sup>2 * ((cos t)\<^sup>2 + (sin t)\<^sup>2) + (sin p)\<^sup>2)"
      by (simp only: power_mult_distrib distrib_left mult.assoc)
    also have "\<dots> = r\<^sup>2" by (simp only: sin_cos_squared_add2 mult_1_right)
    finally show ?thesis .
  qed
  then show ?thesis using r by (simp add: grat_point_def vlen_def hypot3_def Let_def)
qed

section \<open>Sizes\<close>

lemma pot_loop_power: "\<exists>k. pot_loop p n = p * 2 ^ k"
proof (induction p n rule: pot_loop.induct)
  case (1 p n)
  show ?case
  proof (cases "p = 0 \<or> \<not> p * 2 \<le> n")
    case True
    then show ?thesis by (subst pot_loop.simps) (auto intro: exI [of _ 0])
  next
    case False
    with 1 obtain k where "pot_loop (p * 2) n = p * 2 * 2 ^ k" by auto
    with False show ?thesis by (subst pot_loop.simps) (auto intro: exI [of _ "Suc k"])
  qed
qed

lemma pot_loop_bounds: "0 < p \<Longrightarrow> p \<le> n \<Longrightarrow> pot_loop p n \<le> n \<and> n < 2 * pot_loop p n \<and> p \<le> pot_loop p n"
proof (induction p n rule: pot_loop.induct)
  case (1 p n)
  show ?case
  proof (cases "p * 2 \<le> n")
    case True
    with 1 show ?thesis by (subst (1 2 3) pot_loop.simps) auto
  next
    case False
    with 1 show ?thesis by (subst (1 2 3) pot_loop.simps) auto
  qed
qed

lemma largestPotLE: "1 \<le> n \<Longrightarrow> largestPotLE n \<le> n \<and> n < 2 * largestPotLE n \<and> (\<exists>k. largestPotLE n = 2 ^ k)"
  using pot_loop_bounds [of 1 n] pot_loop_power [of 1 n] by (simp add: largestPotLE_def)

lemma positiveInt_ge: "1 \<le> fb \<Longrightarrow> 1 \<le> positiveInt x fb"
  by (cases x) (auto simp: positiveInt_def Suc_le_eq)

end
