(* ===== verification/Renderer_Draw.thy ===== *)
theory Renderer_Draw
  imports View_Facts Earth_Assets
begin

text \<open>
  frontend/js/renderer.js: what one frame draws.  \<open>frame\<close> is the list of its draw calls and
  \<open>drawOverlay\<close> the list of what it puts on the 2D canvas, each in order; the GL and canvas state
  that the calls set up is part of the commands or left out.
\<close>

section \<open>Draw calls\<close>

datatype line_buffer = GratBuf | TrailBuf | VelBuf
datatype point_buffer = StarPoints | PlanetPoints | ObjectPoints

text \<open>Programs, buffers, counts and uniforms of the draw calls.\<close>

datatype draw_cmd =
    DrawEarth (sun_dir: vec3) (eye_pos: vec3) (has_day: bool) (has_night: bool)
  | DrawLines line_buffer nat
  | DrawPointset point_buffer nat
  | DrawMarker (marker_pos: vec3) (marker_px: real) (marker_color: rgb) (use_atlas: bool)

text \<open>\<open>gl.depthMask\<close> during each call.\<close>

fun depth_mask :: "draw_cmd \<Rightarrow> bool" where
  "depth_mask (DrawEarth _ _ _ _) = True"
| "depth_mask _ = False"

definition drawEarth :: "texture_handle \<Rightarrow> vec3 \<Rightarrow> vec3 \<Rightarrow> draw_cmd list" where
  "drawEarth tex sunDir eye = [DrawEarth sunDir eye (day tex \<noteq> None) (night tex \<noteq> None)]"

definition drawLines :: "line_buffer \<Rightarrow> nat \<Rightarrow> draw_cmd list" where
  "drawLines buf vertCount = (if vertCount = 0 then [] else [DrawLines buf vertCount])"

definition drawPointset :: "point_buffer \<Rightarrow> nat \<Rightarrow> draw_cmd list" where
  "drawPointset buf n = (if n = 0 then [] else [DrawPointset buf n])"

text \<open>\<open>maxPointSize\<close> is what the GPU reports.\<close>

definition drawMarker :: "real \<Rightarrow> renderer \<Rightarrow> vec3 \<Rightarrow> real \<Rightarrow> rgb \<Rightarrow> bool \<Rightarrow> draw_cmd list" where
  "drawMarker maxPointSize r p sizePx color useAtlas =
     [DrawMarker p (min (sizePx * dpr r) maxPointSize) color useAtlas]"

definition gratVertCount :: nat where
  "gratVertCount = length (buildGraticule EARTH_R)"

definition draw_sky :: "real \<Rightarrow> renderer \<Rightarrow> draw_cmd list" where
  "draw_sky mp r =
     (if r_showSky (rn_settings r) then
        drawPointset StarPoints STAR_COUNT @
        drawMarker mp r (fst (moonRender (rn_sky r))) MOON_SIZE_PX MOON_COLOR False @
        drawPointset PlanetPoints (length (planetRender (rn_sky r)))
      else [])"

definition draw_satellite :: "real \<Rightarrow> renderer \<Rightarrow> view \<Rightarrow> draw_cmd list" where
  "draw_satellite mp r av =
     (if fisheye av then []
      else (if velSegment r \<noteq> None then drawLines VelBuf 2 else []) @
        (case satRender r of None \<Rightarrow> [] | Some (i, p) \<Rightarrow> drawMarker mp r p 30 SAT_COLOR True))"

section \<open>The overlay\<close>

datatype label = IdLabel real | SunLabel | MoonLabel int | PlanetLabel string

text \<open>A locator is the tip of its chevron, the direction it points to and the place of its label.\<close>

record locator_mark =
  tip :: "real \<times> real"
  bearing :: "real \<times> real"
  label_at :: "real \<times> real"

datatype overlay_cmd =
    Ring real real
  | TextAt label real real
  | Locator label locator_mark

definition overlay_margin :: real where "overlay_margin = 30"

definition locator_scale :: "real \<Rightarrow> real \<Rightarrow> real \<Rightarrow> real \<Rightarrow> real" where
  "locator_scale cx cy dx dy =
     (if dx \<noteq> 0 then
        (if dy \<noteq> 0 then min ((cx - overlay_margin) / \<bar>dx\<bar>) ((cy - overlay_margin) / \<bar>dy\<bar>)
         else (cx - overlay_margin) / \<bar>dx\<bar>)
      else (cy - overlay_margin) / \<bar>dy\<bar>)"

definition drawBodyLocator :: "renderer \<Rightarrow> view \<Rightarrow> vec3 \<Rightarrow> label \<Rightarrow> overlay_cmd list" where
  "drawBodyLocator r av world lab =
     (if (\<exists>(sx, sy) \<in> set_option (projectToScreen av (cssW r) (cssH r) world).
          sx \<ge> 0 \<and> sx \<le> cssW r \<and> sy \<ge> 0 \<and> sy \<le> cssH r) then []
      else case transform (view_mat av) world of (vx, vy, vz, vw) \<Rightarrow>
        let dx0 = vx; dy0 = - vy;
            dl = hypot3 dx0 dy0 0;
            (dx, dy) = (if dl < 1 / 10 ^ 6 then (0, 1) else (dx0 / dl, dy0 / dl));
            cx = cssW r / 2; cy = cssH r / 2;
            s = locator_scale cx cy dx dy
        in [Locator lab \<lparr>tip = (cx + dx * s, cy + dy * s), bearing = (dx, dy),
             label_at = (cx + dx * (s - 20), cy + dy * (s - 20))\<rparr>])"

definition onScreen :: "renderer \<Rightarrow> (real \<times> real) option \<Rightarrow> bool" where
  "onScreen r p = (case p of None \<Rightarrow> False
     | Some (sx, sy) \<Rightarrow> sx > - 20 \<and> sx < cssW r + 20 \<and> sy > - 20 \<and> sy < cssH r + 20)"

text \<open>Whether a target is the satellite that is the camera: \<open>t === satRender\<close> compares objects, and
  \<open>findRenderById\<close> returns the satellite's whenever the id is its.\<close>

definition hideThisSat :: "renderer \<Rightarrow> view \<Rightarrow> real \<Rightarrow> bool" where
  "hideThisSat r av i \<longleftrightarrow> fisheye av \<and> (\<exists>p. satRender r = Some (i, p))"

definition place :: "renderer \<Rightarrow> view \<Rightarrow> vec3 \<Rightarrow> (real \<Rightarrow> real \<Rightarrow> overlay_cmd list) \<Rightarrow> overlay_cmd list" where
  "place r av p f = (case projectToScreen av (cssW r) (cssH r) p of None \<Rightarrow> [] | Some (sx, sy) \<Rightarrow> f sx sy)"

definition selected_overlay :: "renderer \<Rightarrow> view \<Rightarrow> (real \<Rightarrow> real \<Rightarrow> real \<Rightarrow> overlay_cmd list) \<Rightarrow> overlay_cmd list" where
  "selected_overlay r av f =
     (case rn_selectedId r of
        None \<Rightarrow> []
      | Some i \<Rightarrow>
          (case findRenderById i r of
             None \<Rightarrow> []
           | Some (j, p) \<Rightarrow> if hideThisSat r av j then [] else place r av p (f j)))"

definition labelled_objects :: "renderer \<Rightarrow> vec3 \<Rightarrow> point_row list" where
  "labelled_objects r eye =
     (let list = filter (\<lambda>b. \<not> behindEarth eye (row_pos b)) (renderObjects r)
      in if length list > 200
         then take 200 (sort_key (\<lambda>b. (vlen (vsub (row_pos b) eye))\<^sup>2) list) else list)"

definition draw_labels :: "renderer \<Rightarrow> view \<Rightarrow> vec3 \<Rightarrow> overlay_cmd list" where
  "draw_labels r av eye =
     (if r_showLabels (rn_settings r) then
        concat (map (\<lambda>b. place r av (row_pos b) (\<lambda>sx sy. [TextAt (IdLabel (row_id b)) (sx + 6) sy]))
          (labelled_objects r eye)) @
        (case satRender r of
           None \<Rightarrow> []
         | Some (i, p) \<Rightarrow>
             if fisheye av \<or> behindEarth eye p then []
             else place r av p (\<lambda>sx sy. [TextAt (IdLabel i) (sx + 6) sy])) @
        selected_overlay r av (\<lambda>i sx sy. [TextAt (IdLabel i) (sx + 6) sy])
      else [])"

text \<open>A body's name beside it, or where to look for it.\<close>

definition draw_body :: "renderer \<Rightarrow> view \<Rightarrow> vec3 \<Rightarrow> label \<Rightarrow> overlay_cmd list" where
  "draw_body r av p lab =
     (let q = projectToScreen av (cssW r) (cssH r) p
      in if onScreen r q then (case q of None \<Rightarrow> [] | Some (sx, sy) \<Rightarrow> [TextAt lab (sx + 8) sy])
         else drawBodyLocator r av p lab)"

definition capitalized :: "string \<Rightarrow> string" where
  "capitalized s = (case s of [] \<Rightarrow> [] | c # cs \<Rightarrow>
     (if of_char c \<ge> (97 :: nat) \<and> of_char c \<le> (122 :: nat) then char_of (of_char c - (32 :: nat)) else c) # cs)"

definition draw_sky_labels :: "renderer \<Rightarrow> view \<Rightarrow> overlay_cmd list" where
  "draw_sky_labels r av =
     (if r_showSky (rn_settings r) then
        (case moonRender (rn_sky r) of (p, fraction) \<Rightarrow>
           draw_body r av p (MoonLabel \<lfloor>fraction * 100 + 1 / 2\<rfloor>)) @
        concat (map (\<lambda>pr. let q = projectToScreen av (cssW r) (cssH r) (pp_pos pr)
            in if onScreen r q
               then (case q of None \<Rightarrow> [] | Some (sx, sy) \<Rightarrow> [TextAt (PlanetLabel (capitalized (pp_name pr))) (sx + 8) sy])
               else []) (planetRender (rn_sky r)))
      else [])"

definition drawOverlay :: "renderer \<Rightarrow> view \<Rightarrow> vec3 \<Rightarrow> vec3 \<Rightarrow> overlay_cmd list" where
  "drawOverlay r av eye sunPos =
     selected_overlay r av (\<lambda>i sx sy. [Ring sx sy]) @
     draw_labels r av eye @
     draw_body r av sunPos SunLabel @
     draw_sky_labels r av"

section \<open>A frame\<close>

definition frame :: "real \<Rightarrow> texture_handle \<Rightarrow> real \<Rightarrow> renderer \<Rightarrow> renderer \<times> draw_cmd list \<times> overlay_cmd list" where
  "frame mp tex now r =
     (let av = computeActiveView r;
          eye = view_eye av;
          (sceneMs, r') = sceneNowMs now r;
          sunDir = vnormalize (sunDirectionEcef sceneMs);
          sunPos = vscale sunDir SUN_DIST
      in (r',
          drawEarth tex sunDir eye @
          drawLines GratBuf gratVertCount @
          draw_sky mp r' @
          drawMarker mp r' sunPos 42 SUN_COLOR False @
          (if r_showTrails (rn_settings r') then drawLines TrailBuf (tb_vertCount (trailBuf r')) else []) @
          drawPointset ObjectPoints (length (renderObjects r')) @
          draw_satellite mp r' av,
          drawOverlay r' av eye sunPos))"

end
