(* ===== verification/Draw_Facts.thy ===== *)
theory Draw_Facts
  imports Renderer_Draw
begin

text \<open>
  What a frame draws: the order of its calls, which of them the settings and the view switch off,
  which objects get labels, and where the marks of the Sun and the Moon are.
\<close>

section \<open>Draw calls\<close>

lemmas draw_simps = drawEarth_def drawLines_def drawPointset_def drawMarker_def draw_sky_def draw_satellite_def

lemma grat_count: "gratVertCount = 2760"
  by (simp add: gratVertCount_def buildGraticule_def Let_def length_concat comp_def line_pairs_length
      sum_list_triv)

lemma sceneNowMs_keeps:
  "rn_settings (snd (sceneNowMs t r)) = rn_settings r" "rn_sky (snd (sceneNowMs t r)) = rn_sky r"
  "trailBuf (snd (sceneNowMs t r)) = trailBuf r" "renderObjects (snd (sceneNowMs t r)) = renderObjects r"
  "satRender (snd (sceneNowMs t r)) = satRender r" "velSegment (snd (sceneNowMs t r)) = velSegment r"
  "dpr (snd (sceneNowMs t r)) = dpr r"
  by (simp_all add: sceneNowMs_def split: option.split)

lemma frame_eq:
  "fst (snd (frame mp tex now r)) =
     (let av = computeActiveView r; sunDir = vnormalize (sunDirectionEcef (fst (sceneNowMs now r)))
      in DrawEarth sunDir (view_eye av) (day tex \<noteq> None) (night tex \<noteq> None) #
         DrawLines GratBuf 2760 #
         draw_sky mp r @
         DrawMarker (vscale sunDir SUN_DIST) (min (42 * dpr r) mp) SUN_COLOR False #
         (if r_showTrails (rn_settings r) then drawLines TrailBuf (tb_vertCount (trailBuf r)) else []) @
         drawPointset ObjectPoints (length (renderObjects r)) @
         draw_satellite mp r av)"
  by (simp add: frame_def Let_def split_def drawEarth_def drawMarker_def drawLines_def [of GratBuf] grat_count
      draw_sky_def draw_satellite_def sceneNowMs_keeps split: option.split)

section \<open>Labels\<close>

lemma labelled_subset:
  "set (labelled_objects r eye) \<subseteq> {b \<in> set (renderObjects r). \<not> behindEarth eye (row_pos b)}"
  by (auto simp: labelled_objects_def Let_def dest: in_set_takeD)

lemma sorted_take_drop:
  assumes "sorted (map f xs)" and "x \<in> set (take n xs)" and "y \<in> set (drop n xs)"
  shows "f x \<le> f y"
proof -
  have "sorted (map f (take n xs) @ map f (drop n xs))"
    using assms(1) by (simp flip: map_append)
  with assms(2,3) show ?thesis by (simp only: sorted_append) auto
qed

section \<open>Locators\<close>

text \<open>Going from the centre in a unit direction until the first inset edge ends on that edge and
  inside the others.\<close>

lemma locator_tip:
  fixes cx cy dx dy :: real
  assumes "overlay_margin \<le> cx" and "overlay_margin \<le> cy" and "\<not> (dx = 0 \<and> dy = 0)"
  defines "s \<equiv> locator_scale cx cy dx dy"
  shows "0 \<le> s \<and> \<bar>dx * s\<bar> \<le> cx - overlay_margin \<and> \<bar>dy * s\<bar> \<le> cy - overlay_margin \<and>
    (\<bar>dx * s\<bar> = cx - overlay_margin \<or> \<bar>dy * s\<bar> = cy - overlay_margin)"
proof -
  have mono: "\<bar>d * u\<bar> \<le> \<bar>d * v\<bar>" if "0 \<le> u" "u \<le> v" for d u v :: real
    using that by (simp add: abs_mult mult_left_mono)
  let ?u = "(cx - overlay_margin) / \<bar>dx\<bar>" and ?v = "(cy - overlay_margin) / \<bar>dy\<bar>"
  have uv: "0 \<le> ?u" "0 \<le> ?v" using assms(1,2) by simp_all
  show ?thesis
  proof (cases "dx = 0 \<or> dy = 0")
    case True
    with assms uv show ?thesis by (auto simp: locator_scale_def abs_mult)
  next
    case False
    then have s: "s = min ?u ?v" by (simp add: s_def locator_scale_def)
    show ?thesis
    proof (cases "?u \<le> ?v")
      case True
      then have "s = ?u" using s by simp
      with False True uv assms(1,2) mono [of ?u ?v dy] show ?thesis by (simp add: abs_mult)
    next
      case not_le: False
      then have "s = ?v" using s by simp
      with False not_le uv assms(1,2) mono [of ?v ?u dx] show ?thesis by (simp add: abs_mult)
    qed
  qed
qed

lemma direction_unit2:
  fixes x y :: real
  defines "l \<equiv> hypot3 x y 0"
  defines "d \<equiv> (if l < 1 / 10 ^ 6 then (0, 1) else (x / l, y / l))"
  shows "(fst d)\<^sup>2 + (snd d)\<^sup>2 = 1"
proof (cases "l < 1 / 10 ^ 6")
  case False
  then have "l \<noteq> 0" by (smt (verit) divide_pos_pos zero_less_power)
  have "(x / l)\<^sup>2 + (y / l)\<^sup>2 = (x\<^sup>2 + y\<^sup>2) / l\<^sup>2" by (simp add: power_divide add_divide_distrib)
  also have "x\<^sup>2 + y\<^sup>2 = l\<^sup>2" by (simp add: l_def hypot2_sq)
  also have "l\<^sup>2 / l\<^sup>2 = 1" using \<open>l \<noteq> 0\<close> by simp
  finally have "(x / l)\<^sup>2 + (y / l)\<^sup>2 = 1" .
  with False show ?thesis by (simp add: d_def)
qed (simp add: d_def)

text \<open>The direction on the canvas in which a body lies, seen from the middle.\<close>

definition towards :: "view \<Rightarrow> vec3 \<Rightarrow> real \<times> real \<Rightarrow> bool" where
  "towards av p b \<longleftrightarrow> (case transform (view_mat av) p of (vx, vy, vz, vw) \<Rightarrow>
     let l = sqrt (vx\<^sup>2 + vy\<^sup>2) in if l < 1 / 10 ^ 6 then b = (0, 1) else b = (vx / l, - vy / l))"

lemma hypot_flat: "hypot3 vx (- vy) 0 = sqrt (vx\<^sup>2 + vy\<^sup>2)"
  by (simp add: hypot3_def power2_eq_square)

lemma drawBodyLocator_cases:
  obtains "drawBodyLocator r av p lab = []"
      "\<exists>sx sy. projectToScreen av (cssW r) (cssH r) p = Some (sx, sy) \<and> 0 \<le> sx \<and> sx \<le> cssW r \<and> 0 \<le> sy \<and> sy \<le> cssH r"
  | dx dy where "towards av p (dx, dy)" "dx\<^sup>2 + dy\<^sup>2 = 1"
      "drawBodyLocator r av p lab =
        [Locator lab \<lparr>tip = (cssW r / 2 + dx * locator_scale (cssW r / 2) (cssH r / 2) dx dy,
             cssH r / 2 + dy * locator_scale (cssW r / 2) (cssH r / 2) dx dy), bearing = (dx, dy),
           label_at = (cssW r / 2 + dx * (locator_scale (cssW r / 2) (cssH r / 2) dx dy - 20),
             cssH r / 2 + dy * (locator_scale (cssW r / 2) (cssH r / 2) dx dy - 20))\<rparr>]"
proof (cases "\<exists>sx sy. projectToScreen av (cssW r) (cssH r) p = Some (sx, sy) \<and> 0 \<le> sx \<and> sx \<le> cssW r \<and> 0 \<le> sy \<and> sy \<le> cssH r")
  case True
  then have "drawBodyLocator r av p lab = []" by (auto simp: drawBodyLocator_def)
  with that(1) True show ?thesis by blast
next
  case False
  obtain vx vy vz vw where t: "transform (view_mat av) p = (vx, vy, vz, vw)"
    by (cases "transform (view_mat av) p")
  obtain dx dy where d: "(if hypot3 vx (- vy) 0 < 1 / 10 ^ 6 then (0, 1)
      else (vx / hypot3 vx (- vy) 0, - vy / hypot3 vx (- vy) 0)) = (dx, dy)" by force
  have "towards av p (dx, dy)" using d by (simp add: towards_def t hypot_flat Let_def split: if_splits)
  moreover have "dx\<^sup>2 + dy\<^sup>2 = 1" using direction_unit2 [of vx "- vy"] unfolding d by simp
  moreover have "\<not> (\<exists>(sx, sy) \<in> set_option (projectToScreen av (cssW r) (cssH r) p).
      sx \<ge> 0 \<and> sx \<le> cssW r \<and> sy \<ge> 0 \<and> sy \<le> cssH r)"
    using False by auto
  ultimately show ?thesis
    using that(2) [of dx dy] unfolding drawBodyLocator_def t Let_def prod.case d by simp
qed

lemma vlen_triangle: "vlen (vsub p e) \<le> vlen p + vlen e"
proof -
  have "dot (vsub p e) (vsub p e) = dot p p + dot e e - 2 * dot p e"
    by (cases p; cases e) (simp add: vec_defs algebra_simps)
  moreover have "- dot p e \<le> vlen p * vlen e"
  proof -
    have "0 \<le> dot (cross p e) (cross p e)" by (metis vlen_sq zero_le_power2)
    then have "(dot p e)\<^sup>2 \<le> (vlen p * vlen e)\<^sup>2" by (simp add: lagrange power_mult_distrib vlen_sq)
    then have "\<bar>dot p e\<bar> \<le> vlen p * vlen e" using power2_le_imp_le [of "\<bar>dot p e\<bar>"] by simp
    then show ?thesis by linarith
  qed
  ultimately have "(vlen (vsub p e))\<^sup>2 \<le> (vlen p + vlen e)\<^sup>2"
    by (simp add: vlen_sq power2_sum mult.commute)
  then show ?thesis by (rule power2_le_imp_le) simp
qed

lemma z_le_vlen: "\<bar>z\<bar> \<le> vlen (x, y, z)"
  by (rule power2_le_imp_le) (simp_all add: vlen_def hypot3_sq)

text \<open>The label a mark of the overlay carries.\<close>

fun cmd_label :: "overlay_cmd \<Rightarrow> label option" where
  "cmd_label (Ring x y) = None"
| "cmd_label (TextAt l x y) = Some l"
| "cmd_label (Locator l m) = Some l"

text \<open>A body at \<open>p\<close> projects into the frame or at most \<open>d\<close> pixels out of it.\<close>

definition in_frame :: "renderer \<Rightarrow> view \<Rightarrow> vec3 \<Rightarrow> real \<Rightarrow> bool" where
  "in_frame r av p d \<longleftrightarrow> (case projectToScreen av (cssW r) (cssH r) p of None \<Rightarrow> False
     | Some (sx, sy) \<Rightarrow> - d < sx \<and> sx < cssW r + d \<and> - d < sy \<and> sy < cssH r + d)"

definition body_mark :: "renderer \<Rightarrow> view \<Rightarrow> vec3 \<Rightarrow> label \<Rightarrow> overlay_cmd \<Rightarrow> bool" where
  "body_mark r av p lab c \<longleftrightarrow>
     (if in_frame r av p 20
      then \<exists>sx sy. projectToScreen av (cssW r) (cssH r) p = Some (sx, sy) \<and> c = TextAt lab (sx + 8) sy
      else \<exists>bx by' tx ty s. c = Locator lab \<lparr>tip = (tx, ty), bearing = (bx, by'), label_at = (tx - 20 * bx, ty - 20 * by')\<rparr> \<and>
        towards av p (bx, by') \<and> 0 \<le> s \<and> tx = cssW r / 2 + s * bx \<and> ty = cssH r / 2 + s * by' \<and>
        30 \<le> tx \<and> tx \<le> cssW r - 30 \<and> 30 \<le> ty \<and> ty \<le> cssH r - 30 \<and>
        (tx \<in> {30, cssW r - 30} \<or> ty \<in> {30, cssH r - 30}))"

lemma onScreen_in_frame: "onScreen r (projectToScreen av (cssW r) (cssH r) p) \<longleftrightarrow> in_frame r av p 20"
  by (simp add: onScreen_def in_frame_def split: option.split)

lemma draw_body_mark:
  assumes "60 \<le> cssW r" and "60 \<le> cssH r"
  shows "\<exists>c. draw_body r av p lab = [c] \<and> body_mark r av p lab c"
proof (cases "in_frame r av p 20")
  case True
  then obtain sx sy where q: "projectToScreen av (cssW r) (cssH r) p = Some (sx, sy)"
    by (auto simp: in_frame_def split: option.splits)
  moreover have "onScreen r (Some (sx, sy))" using True onScreen_in_frame [of r av p] by (simp add: q)
  ultimately show ?thesis using True by (simp add: draw_body_def body_mark_def Let_def)
next
  case False
  then have d: "draw_body r av p lab = drawBodyLocator r av p lab"
    by (simp add: draw_body_def onScreen_in_frame Let_def)
  show ?thesis
  proof (cases rule: drawBodyLocator_cases [of r av p lab])
    case 1
    with False show ?thesis by (auto simp: in_frame_def)
  next
    case (2 dx dy)
    let ?s = "locator_scale (cssW r / 2) (cssH r / 2) dx dy"
    have "\<not> (dx = 0 \<and> dy = 0)" using 2(2) by auto
    moreover have "overlay_margin \<le> cssW r / 2" "overlay_margin \<le> cssH r / 2"
      using assms by (simp_all add: overlay_margin_def)
    ultimately have s: "0 \<le> ?s" and "\<bar>dx * ?s\<bar> \<le> cssW r / 2 - 30 \<and> \<bar>dy * ?s\<bar> \<le> cssH r / 2 - 30 \<and>
        (\<bar>dx * ?s\<bar> = cssW r / 2 - 30 \<or> \<bar>dy * ?s\<bar> = cssH r / 2 - 30)"
      using locator_tip [of "cssW r / 2" "cssH r / 2" dx dy] by (simp_all add: overlay_margin_def)
    then have "30 \<le> cssW r / 2 + dx * ?s \<and> cssW r / 2 + dx * ?s \<le> cssW r - 30 \<and>
        30 \<le> cssH r / 2 + dy * ?s \<and> cssH r / 2 + dy * ?s \<le> cssH r - 30 \<and>
        (cssW r / 2 + dx * ?s \<in> {30, cssW r - 30} \<or> cssH r / 2 + dy * ?s \<in> {30, cssH r - 30})"
      by (auto simp: abs_if split: if_splits)
    with 2 d s False show ?thesis
      by (auto simp: body_mark_def algebra_simps intro!: exI [of _ ?s])
  qed
qed

text \<open>Everything else the overlay draws carries another label.\<close>

definition other_label :: "overlay_cmd \<Rightarrow> bool" where
  "other_label c \<longleftrightarrow> (case cmd_label c of Some SunLabel \<Rightarrow> False | Some (MoonLabel n) \<Rightarrow> False | _ \<Rightarrow> True)"

abbreviation others :: "overlay_cmd list \<Rightarrow> bool" where "others cs \<equiv> list_all other_label cs"

lemma others_concat: "(\<And>x. others (f x)) \<Longrightarrow> others (concat (map f xs))"
  by (induction xs) simp_all

lemma place_other: "(\<And>sx sy. others (f sx sy)) \<Longrightarrow> others (place r av p f)"
  by (simp add: place_def split: option.split)

lemma selected_other: "(\<And>i sx sy. others (f i sx sy)) \<Longrightarrow> others (selected_overlay r av f)"
  by (auto simp: selected_overlay_def intro: place_other split: option.split prod.split)

lemma draw_labels_other: "others (draw_labels r av eye)"
  by (auto simp: draw_labels_def intro!: others_concat place_other selected_other split: option.split)
    (simp_all add: other_label_def)

lemma planets_other:
  "others (concat (map (\<lambda>pr. let q = projectToScreen av (cssW r) (cssH r) (pp_pos pr)
      in if onScreen r q
         then (case q of None \<Rightarrow> [] | Some (sx, sy) \<Rightarrow> [TextAt (PlanetLabel (capitalized (pp_name pr))) (sx + 8) sy])
         else []) prs))"
  by (rule others_concat) (simp add: Let_def other_label_def split: option.split)

lemma others_filter:
  assumes "others cs"
  shows "filter (\<lambda>c. cmd_label c = Some SunLabel) cs = []"
    and "filter (\<lambda>c. \<exists>n. cmd_label c = Some (MoonLabel n)) cs = []"
  using assms by (induction cs) (auto simp: other_label_def split: option.splits label.splits)

lemma body_mark_label: "body_mark r av p lab c \<Longrightarrow> cmd_label c = Some lab"
  by (auto simp: body_mark_def split: if_splits)

section \<open>Properties\<close>

text \<open>A frame draws the Earth first, with depth writes, and nothing else writes depth; the sky is drawn
  exactly when it is switched on, the trails exactly when they are and have segments, the satellite and
  its velocity exactly when there is one and it is not the camera, and the Sun always; no marker is
  larger than the GPU allows.\<close>

theorem frame_draws:
  "(let cmds = fst (snd (frame mp tex now r)); av = computeActiveView r
    in cmds \<noteq> [] \<and> depth_mask (hd cmds) \<and> list_all (\<lambda>c. \<not> depth_mask c) (tl cmds) \<and>
       ((\<exists>n. DrawPointset StarPoints n \<in> set cmds) \<longleftrightarrow> r_showSky (rn_settings r)) \<and>
       ((\<exists>p px. DrawMarker p px MOON_COLOR False \<in> set cmds) \<longleftrightarrow> r_showSky (rn_settings r)) \<and>
       ((\<exists>n. DrawLines TrailBuf n \<in> set cmds) \<longleftrightarrow>
         r_showTrails (rn_settings r) \<and> tb_vertCount (trailBuf r) \<noteq> 0) \<and>
       ((\<exists>n. DrawLines VelBuf n \<in> set cmds) \<longleftrightarrow> \<not> fisheye av \<and> velSegment r \<noteq> None) \<and>
       ((\<exists>p px c. DrawMarker p px c True \<in> set cmds) \<longleftrightarrow> \<not> fisheye av \<and> satRender r \<noteq> None) \<and>
       (\<exists>p px. DrawMarker p px SUN_COLOR False \<in> set cmds) \<and>
       list_all (\<lambda>c. case c of DrawMarker p px col a \<Rightarrow> px \<le> mp | _ \<Rightarrow> True) cmds)"
proof -
  let ?av = "computeActiveView r"
  have ne: "MOON_COLOR \<noteq> SUN_COLOR" "SUN_COLOR \<noteq> MOON_COLOR" by (simp_all add: MOON_COLOR_def SUN_COLOR_def)
  have n: "STAR_COUNT \<noteq> 0" by (simp add: STAR_COUNT_eq)
  show ?thesis
    unfolding Let_def frame_eq list.sel
    by (cases "r_showSky (rn_settings r)"; cases "fisheye ?av"; cases "satRender r"; cases "velSegment r")
      (auto simp: draw_simps ne n list_all_iff split_def simp del: split_paired_Ex split_paired_All)
qed

text \<open>C38: The labelled objects are the objects in front of the globe when these are at most 200, and
  otherwise the 200 nearest to the eye: the labelled and the unlabelled together are all of them, and in
  order of distance.\<close>

theorem labels_go_to_nearest:
  "let near = filter (\<lambda>b. \<not> behindEarth eye (row_pos b)) (renderObjects r); labelled = labelled_objects r eye
   in length labelled = min 200 (length near) \<and>
      (if length near \<le> 200 then labelled = near
       else \<exists>rest. mset (labelled @ rest) = mset near \<and>
         sorted (map (\<lambda>b. (vlen (vsub (row_pos b) eye))\<^sup>2) (labelled @ rest)))"
proof (cases "length (filter (\<lambda>b. \<not> behindEarth eye (row_pos b)) (renderObjects r)) \<le> 200")
  case False
  let ?near = "filter (\<lambda>b. \<not> behindEarth eye (row_pos b)) (renderObjects r)"
  let ?s = "sort_key (\<lambda>b. (vlen (vsub (row_pos b) eye))\<^sup>2) ?near"
  have l: "labelled_objects r eye = take 200 ?s" using False by (simp add: labelled_objects_def Let_def)
  have all: "take 200 ?s @ drop 200 ?s = ?s" by simp
  have "mset (take 200 ?s @ drop 200 ?s) = mset ?near \<and>
      sorted (map (\<lambda>b. (vlen (vsub (row_pos b) eye))\<^sup>2) (take 200 ?s @ drop 200 ?s))"
    unfolding all by simp
  then have "\<exists>rest. mset (take 200 ?s @ rest) = mset ?near \<and>
      sorted (map (\<lambda>b. (vlen (vsub (row_pos b) eye))\<^sup>2) (take 200 ?s @ rest))" by blast
  with False show ?thesis unfolding Let_def l by (simp del: mset_append map_append)
qed (simp add: labelled_objects_def Let_def)

text \<open>C40: On a canvas of at least 60 by 60 pixels every overlay holds exactly one mark of the Sun, and exactly
  one of the Moon, with its percentage, when the sky is on and none when it is off.  A body that
  projects into the canvas or less than 20 pixels out of it has its name 8 pixels to its right, so in
  that margin it gets no chevron and its name may lie off the canvas; every other body has a chevron
  where the ray from the middle of the canvas towards the body, by its position before the camera,
  meets the rectangle 30 pixels inside the canvas, and its name 20 pixels nearer to the middle.\<close>

theorem sun_and_moon_marked:
  assumes "60 \<le> cssW r" and "60 \<le> cssH r"
  shows "(\<exists>c. filter (\<lambda>c. cmd_label c = Some SunLabel) (drawOverlay r av eye sunPos) = [c] \<and>
      body_mark r av sunPos SunLabel c) \<and>
    (case moonRender (rn_sky r) of (p, fraction) \<Rightarrow>
      if r_showSky (rn_settings r)
      then \<exists>c. filter (\<lambda>c. \<exists>n. cmd_label c = Some (MoonLabel n)) (drawOverlay r av eye sunPos) = [c] \<and>
        body_mark r av p (MoonLabel \<lfloor>fraction * 100 + 1 / 2\<rfloor>) c
      else filter (\<lambda>c. \<exists>n. cmd_label c = Some (MoonLabel n)) (drawOverlay r av eye sunPos) = [])"
proof -
  obtain p fraction where m: "moonRender (rn_sky r) = (p, fraction)" by (cases "moonRender (rn_sky r)")
  have ring: "others (selected_overlay r av (\<lambda>i sx sy. [Ring sx sy]))"
    by (rule selected_other) (simp add: other_label_def)
  note others = others_filter [OF ring] others_filter [OF draw_labels_other] others_filter [OF planets_other]
  obtain s where s: "draw_body r av sunPos SunLabel = [s]" "body_mark r av sunPos SunLabel s"
    using draw_body_mark [OF assms] by blast
  obtain c where c: "draw_body r av p (MoonLabel \<lfloor>fraction * 100 + 1 / 2\<rfloor>) = [c]"
      "body_mark r av p (MoonLabel \<lfloor>fraction * 100 + 1 / 2\<rfloor>) c"
    using draw_body_mark [OF assms] by blast
  show ?thesis
    using s(2) c(2) body_mark_label [OF s(2)] body_mark_label [OF c(2)]
    by (simp add: drawOverlay_def draw_sky_labels_def m s(1) c(1) others del: filter_concat)
qed

theorem sun_and_moon_marked_witness:
  "let r = resize 800 600 1 (createRenderer 0 300 150)
   in \<exists>c. filter (\<lambda>c. cmd_label c = Some SunLabel) (drawOverlay r (computeActiveView r) (0, - 30, 0) (0, 0, - 150)) = [c]"
proof -
  let ?r = "resize 800 600 1 (createRenderer 0 300 150)"
  have "cssW ?r = 800" "cssH ?r = 600" by (simp_all add: resize_def first_nonzero_def Let_def)
  then have "60 \<le> cssW ?r" "60 \<le> cssH ?r" by simp_all
  from sun_and_moon_marked [OF this, of "computeActiveView ?r" "(0, - 30, 0)" "(0, 0, - 150)"]
  show ?thesis unfolding Let_def by blast
qed

text \<open>C39: In every reachable state the orbit view cuts nothing off at the far plane: a point within 300 units
  of the centre of the Earth (the stars, the Sun, the shell of the tracked objects) is never clipped for
  being too far, and in front of the eye it is clipped for being too near only within half a unit.\<close>

theorem scene_within_far:
  assumes "reachable renderer_start renderer_step r" and "\<not> fisheye (computeActiveView r)"
    and "vlen p \<le> 300" and "view_mvp (computeActiveView r) = Some m"
  shows "case transform m p of (cx, cy, cz, cw) \<Rightarrow> cz \<le> cw \<and> (- cw \<le> cz \<longleftrightarrow> 1 / 2 \<le> cw)"
proof -
  have inv: "renderer_inv r" by (rule renderer_machine.inv_reachable [OF assms(1)])
  then have cam: "scene_camera (rn_camera r)" by (simp add: renderer_inv_def)
  have av: "computeActiveView r = orbit_view r"
    using assms(2) by (auto simp: computeActiveView_def Let_def split: if_splits option.splits)
  let ?c = "rn_camera r"
  have t: "cam_target ?c = (0, 0, 0)" using cam by (simp add: scene_camera_def)
  have d: "8 \<le> distance ?c" "distance ?c \<le> 200"
    using cam renderer_machine.inv_reachable [OF assms(1)] by (auto simp: scene_camera_def camera_inv_def)
  have len: "vlen (getEye ?c) \<le> 200"
    using eye_distance [of ?c] t d by (simp add: vdist_def vsub_zero)
  have ok: "view_ok (getEye ?c) (0, 0, 0) (0, 0, 1)"
    using orbit_view_ok [of ?c] cam t by (simp add: scene_camera_def)
  let ?l = "lookAt (getEye ?c) (0, 0, 0) (0, 0, 1)"
  obtain x y z where v: "transform ?l p = (x, y, z, 1)"
    using transform_w [OF ok, of p] by (cases "transform ?l p") (auto simp: view_xyz_def)
  have "transform ?l (getEye ?c) = (0, 0, 0, 1)"
    using axis_point [OF ok, of 1] by (cases "getEye ?c") (simp add: vscale_def)
  then have "vlen (x, y, z) = vdist p (getEye ?c)"
    using lookAt_isometry [OF ok, of p "getEye ?c"] by (simp add: v view_xyz_def vdist_def vsub_zero)
  then have "\<bar>z\<bar> \<le> 500"
    using z_le_vlen [of z x y] vlen_triangle [of p "getEye ?c"] len assms(3) by (simp add: vdist_def)
  then have z: "- 500 \<le> z" by linarith
  obtain a where proj: "rn_proj r = perspective FOV a NEAR FAR" using inv by (auto simp: renderer_inv_def)
  have "m = multiply (rn_proj r) ?l"
    using assms(4) by (simp add: av orbit_view_def getViewMatrix_def t Let_def)
  then have "transform m p = transform4 (perspective FOV a NEAR FAR) (x, y, z, 1)"
    using v by (cases p) (simp add: transform_def transform4_multiply proj)
  then show ?thesis
    using z by (simp add: transform4_def perspective_def NEAR_def FAR_def Let_def) linarith
qed

theorem scene_within_far_witness:
  "case transform (the (view_mvp (computeActiveView (createRenderer 0 300 150)))) (0, 0, 300) of
     (cx, cy, cz, cw) \<Rightarrow> cz \<le> cw"
proof -
  let ?r = "createRenderer 0 300 150"
  have "reachable renderer_start renderer_step ?r" by (rule reach_init) (auto simp: renderer_start_def)
  moreover have v: "computeActiveView ?r = orbit_view ?r"
    by (simp add: computeActiveView_def createRenderer_def split: option.split)
  moreover have "\<not> fisheye (orbit_view ?r)" "view_mvp (orbit_view ?r) = Some (the (view_mvp (orbit_view ?r)))"
    by (simp_all add: orbit_view_def Let_def)
  moreover have "vlen (0, 0, 300) \<le> 300" by (simp add: vlen_def hypot3_def)
  ultimately show ?thesis
    using scene_within_far [of ?r "(0, 0, 300)" "the (view_mvp (orbit_view ?r))"] by (auto split: prod.splits)
qed

end
