(* ===== verification/Asset_Facts.thy ===== *)
theory Asset_Facts
  imports Earth_Assets
begin

text \<open>
  The icon atlas cells of frontend/js/atlas.js agree with the point shader of renderer.js, the globe
  mesh fits its 16-bit indices, and the texture sizes of frontend/js/textures.js are powers of two.
\<close>

section \<open>Cells of the atlas\<close>

text \<open>The rectangle lies inside column \<open>i mod 4\<close> and row \<open>i div 4\<close> of the 4 by 4 grid.\<close>

definition inside_cell :: "nat \<Rightarrow> uv_rect \<Rightarrow> bool" where
  "inside_cell i q \<longleftrightarrow>
     real (i mod 4) / 4 < u0 q \<and> u0 q < u1 q \<and> u1 q < real (i mod 4 + 1) / 4 \<and>
     real (i div 4) / 4 < v0 q \<and> v0 q < v1 q \<and> v1 q < real (i div 4 + 1) / 4"

lemma floor_quarter: "\<lfloor>real i / 4\<rfloor> = int (i div 4)"
  using floor_divide_of_nat_eq [of i 4, where ?'a = real] by simp

lemma shader_uv_eq:
  "shader_uv i = \<lparr>u0 = (real (i mod 4) + 4 / 100) / 4, v0 = (real (i div 4) + 4 / 100) / 4,
     u1 = (real (i mod 4) + 1 - 4 / 100) / 4, v1 = (real (i div 4) + 1 - 4 / 100) / 4\<rparr>"
proof -
  have "i = 4 * (i div 4) + i mod 4" by simp
  then have "real i = 4 * real (i div 4) + real (i mod 4)" by (metis of_nat_add of_nat_mult of_nat_numeral)
  then have "real i - 4 * real (i div 4) = real (i mod 4)" by linarith
  then show ?thesis by (simp add: shader_uv_def Let_def floor_quarter)
qed

lemma shader_uv_inside: "inside_cell i (shader_uv i)"
  by (simp add: inside_cell_def shader_uv_eq)

lemma iconUV_nat: "i < 16 \<Longrightarrow> iconUV (Fin (real i)) = Inr (shader_uv i)"
  by (simp add: iconUV_def is_integral_def shader_uv_eq Let_def ATLAS_GRID_def field_simps)

lemma iconUV_Inr:
  assumes "iconUV (Fin x) = Inr q"
  shows "\<exists>i < 16. x = real i"
proof -
  from assms have x: "is_integral x" "0 \<le> x" "x \<le> 15"
    by (auto simp: iconUV_def ATLAS_GRID_def Let_def split: if_splits)
  then have "x = real (nat \<lfloor>x\<rfloor>)" by (auto simp: is_integral_def)
  moreover have "nat \<lfloor>x\<rfloor> < 16" using x by linarith
  ultimately show ?thesis by blast
qed

section \<open>The globe\<close>

lemma sphere_indices_exact:
  assumes "(stacks + 1) * (slices + 1) \<le> 65536"
  shows "sphere_indices stacks slices =
    concat (map (\<lambda>i. concat (map (\<lambda>j.
      [i * (slices + 1) + j, (i + 1) * (slices + 1) + j, i * (slices + 1) + j + 1,
       i * (slices + 1) + j + 1, (i + 1) * (slices + 1) + j, (i + 1) * (slices + 1) + j + 1])
      [0..<slices])) [0..<stacks])"
proof -
  have small: "(i + 1) * (slices + 1) + j + 1 < 65536" if "i < stacks" "j < slices" for i j
  proof -
    have "(i + 2) * (slices + 1) \<le> (stacks + 1) * (slices + 1)" using that(1) by (intro mult_le_mono1) simp
    then have "(i + 1) * (slices + 1) + (slices + 1) \<le> 65536" using assms by simp
    with that(2) show ?thesis by simp
  qed
  have one: "map (\<lambda>n. n mod 65536) (let a = i * (slices + 1) + j; b = a + 1; c = a + (slices + 1); d = c + 1
        in [a, c, b, b, c, d]) =
      [i * (slices + 1) + j, (i + 1) * (slices + 1) + j, i * (slices + 1) + j + 1,
       i * (slices + 1) + j + 1, (i + 1) * (slices + 1) + j, (i + 1) * (slices + 1) + j + 1]"
    if "i < stacks" "j < slices" for i j
    using small [OF that] by (simp add: Let_def algebra_simps)
  show ?thesis
    unfolding sphere_indices_def Let_def [of "slices + 1"] map_concat map_map comp_def
    by (intro arg_cong [where f = concat] map_cong refl one) simp_all
qed

section \<open>Texture sizes\<close>

lemma texture_size:
  assumes "potSizeFor w h maxSize = (pw, ph)"
  shows "(\<exists>a. pw = 2 ^ a) \<and> (\<exists>b. ph = 2 ^ b) \<and> pw \<le> positiveInt maxSize 1 \<and> ph \<le> positiveInt maxSize 1 \<and>
    pw \<le> positiveInt w 1 \<and> min (positiveInt w 1) (positiveInt maxSize 1) < 2 * pw"
proof -
  let ?cap = "positiveInt maxSize 1"
  have cap: "1 \<le> ?cap" "1 \<le> positiveInt w 1" "1 \<le> positiveInt h 1"
    by (rule positiveInt_ge, simp)+
  let ?w = "largestPotLE (min (positiveInt w 1) ?cap)" and ?h = "largestPotLE (min (positiveInt h 1) ?cap)"
  have lw: "?w \<le> min (positiveInt w 1) ?cap" "min (positiveInt w 1) ?cap < 2 * ?w" "\<exists>k. ?w = 2 ^ k"
    using largestPotLE [of "min (positiveInt w 1) ?cap"] cap by auto
  have lh: "?h \<le> ?cap" "\<exists>k. ?h = 2 ^ k" using largestPotLE [of "min (positiveInt h 1) ?cap"] cap by auto
  have half: "\<exists>b. max 1 (?w div 2) = 2 ^ b"
  proof -
    obtain k where k: "?w = 2 ^ k" using lw(3) by blast
    show ?thesis
    proof (cases k)
      case 0
      with k show ?thesis by (intro exI [of _ 0]) simp
    next
      case (Suc n)
      with k show ?thesis by (intro exI [of _ n]) simp
    qed
  qed
  have "?w div 2 \<le> ?cap" by (rule le_trans [OF div_le_dividend]) (use lw(1) in simp)
  then have "max 1 (?w div 2) \<le> ?cap" using cap by simp
  moreover have "pw = ?w" "ph = (if equirect w h then max 1 (?w div 2) else ?h)"
    using assms unfolding potSizeFor_def Let_def by (cases "equirect w h"; simp)+
  ultimately show ?thesis
    using lw lh half by (cases "equirect w h") simp_all
qed

section \<open>Properties\<close>

text \<open>The atlas cell the panel code computes for an icon is the one the point shader computes: the index is
  refused unless it is one of the 16, and otherwise both give the same rectangle, which lies inside that
  icon's cell, so no icon shows a part of another.\<close>

theorem icon_cells:
  "case iconUV (Fin x) of
     Inl e \<Rightarrow> x \<notin> real ` {0..<16}
   | Inr q \<Rightarrow> (\<exists>i < 16. x = real i \<and> q = shader_uv i \<and> inside_cell i q)"
proof (cases "iconUV (Fin x)")
  case (Inl e)
  then show ?thesis using iconUV_nat by (auto split: sum.split)
next
  case (Inr q)
  with iconUV_Inr [OF Inr] iconUV_nat shader_uv_inside show ?thesis by auto
qed

text \<open>The globe of 64 stacks and 96 slices fits its 16-bit indices: none is reduced, every one names a
  vertex, the triangles are the two halves of each cell of the grid, and every vertex lies on the sphere
  in the direction of its unit normal.\<close>

theorem globe_mesh:
  "let m = buildSphere R 64 96 in
     length (positions m) = 6305 \<and> length (normals m) = 6305 \<and> length (uvs m) = 6305 \<and>
     list_all (\<lambda>n. n < length (positions m)) (indices m) \<and>
     indices m = concat (map (\<lambda>i. concat (map (\<lambda>j.
       [i * 97 + j, (i + 1) * 97 + j, i * 97 + j + 1, i * 97 + j + 1, (i + 1) * 97 + j, (i + 1) * 97 + j + 1])
       [0..<96])) [0..<64]) \<and>
     list_all2 (\<lambda>p n. vlen n = 1 \<and> p = vscale n R) (positions m) (normals m)"
proof -
  have "list_all2 (\<lambda>p n. vlen n = 1 \<and> p = vscale n R)
      (map (\<lambda>(i, j). vscale (sphere_normal 64 96 i j) R) g) (map (\<lambda>(i, j). sphere_normal 64 96 i j) g)" for g
    by (induction g) (auto simp: sphere_normal_unit)
  moreover have "list_all (\<lambda>n. n < 6305) (sphere_indices 64 96)"
    using sphere_indices_bound [of _ 64 96] by (auto simp: list_all_iff)
  moreover have "length (grid 64 96) = 6305" by (simp only: length_grid) simp
  ultimately show ?thesis
    using sphere_indices_exact [of 64 96] by (simp add: buildSphere_def Let_def)
qed

end
