(* ===== verification/Shaders.thy ===== *)
theory Shaders
  imports Draw_Facts Asset_Facts
begin

text \<open>
  The GLSL programs of frontend/js/renderer.js as functions of their attributes, uniforms and
  varyings, over exact reals: the vertex shaders give the clip position and the varyings, the
  fragment shaders a colour with its alpha, or \<open>None\<close> for a discarded fragment. A sampler is a
  function of the texture coordinates. \<open>fisheyePosition\<close> is in Cameras.
\<close>

section \<open>Built-in functions\<close>

definition gl_normalize :: "vec3 \<Rightarrow> vec3" where
  "gl_normalize v = vscale v (1 / vlen v)"

definition gl_mix :: "real \<Rightarrow> real \<Rightarrow> real \<Rightarrow> real" where
  "gl_mix x y a = x * (1 - a) + y * a"

text \<open>The defining formula of \<open>smoothstep\<close>. The specification leaves the result undefined unless
  \<open>e0 < e1\<close>; both calls in these shaders have \<open>e0 > e1\<close> and rely on the formula.\<close>

definition smoothstep :: "real \<Rightarrow> real \<Rightarrow> real \<Rightarrow> real" where
  "smoothstep e0 e1 x = (let t = clamp ((x - e0) / (e1 - e0)) 0 1 in t * t * (3 - 2 * t))"

definition mul_rgb :: "rgb \<Rightarrow> rgb \<Rightarrow> rgb" where
  "mul_rgb a b = (case (a, b) of ((ar, ag, ab), (br, bg, bb)) \<Rightarrow> (ar * br, ag * bg, ab * bb))"

section \<open>The vertex transform of all four programs\<close>

record transform_uniforms =
  uFisheye :: bool
  uMVP :: mat4
  uView :: mat4
  uThetaMax :: real
  uAspect :: real
  uDepthRange :: "real \<times> real"

definition vertex_position :: "transform_uniforms \<Rightarrow> vec3 \<Rightarrow> vec4" where
  "vertex_position u p =
     (if uFisheye u then fisheyePosition (transform (uView u) p) (uThetaMax u) (uAspect u) (uDepthRange u)
      else transform (uMVP u) p)"

definition SAT_THETA_MAX :: real where
  "SAT_THETA_MAX = SAT_FOV_DEG / 2 * DEG"

text \<open>\<open>setTransformUniforms\<close> on a program whose uniforms are \<open>u\<close>: those of the other view keep their values.\<close>

definition setTransformUniforms :: "view \<Rightarrow> transform_uniforms \<Rightarrow> transform_uniforms" where
  "setTransformUniforms activeView u =
     (let u' = u\<lparr>uFisheye := fisheye activeView\<rparr>
      in if fisheye activeView
         then u'\<lparr>uView := view_mat activeView, uThetaMax := SAT_THETA_MAX, uAspect := aspectGl activeView,
               uDepthRange := (SAT_NEAR, SAT_FAR)\<rparr>
         else (case view_mvp activeView of Some m \<Rightarrow> u'\<lparr>uMVP := m\<rparr> | None \<Rightarrow> u'))"

section \<open>Earth\<close>

record earth_varyings =
  vNormal :: vec3
  vPos :: vec3
  vUV :: "real \<times> real"

definition EARTH_VS :: "transform_uniforms \<Rightarrow> vec3 \<Rightarrow> vec3 \<Rightarrow> real \<times> real \<Rightarrow> vec4 \<times> earth_varyings" where
  "EARTH_VS u aPos aNormal aUV =
     (vertex_position u aPos, \<lparr>vNormal = aNormal, vPos = aPos, vUV = aUV\<rparr>)"

record earth_uniforms =
  uSunDir :: vec3
  uAmbient :: real
  uEye :: vec3
  uHasDay :: bool
  uHasNight :: bool
  uDay :: "real \<times> real \<Rightarrow> rgb"
  uNight :: "real \<times> real \<Rightarrow> rgb"

definition sun_cosine :: "earth_uniforms \<Rightarrow> earth_varyings \<Rightarrow> real" where
  "sun_cosine u v = dot (gl_normalize (vNormal v)) (gl_normalize (uSunDir u))"

definition earth_light :: "earth_uniforms \<Rightarrow> earth_varyings \<Rightarrow> real" where
  "earth_light u v = uAmbient u + (1 - uAmbient u) * max (sun_cosine u v) 0"

definition night_mix :: "real \<Rightarrow> real" where
  "night_mix ndl = smoothstep (5 / 100) (- (18 / 100)) ndl"

definition earth_rim :: "earth_uniforms \<Rightarrow> earth_varyings \<Rightarrow> real" where
  "earth_rim u v = (1 - max (dot (gl_normalize (vNormal v)) (gl_normalize (vsub (uEye u) (vPos v)))) 0) ^ 3"

definition EARTH_FS :: "earth_uniforms \<Rightarrow> earth_varyings \<Rightarrow> rgb \<times> real" where
  "EARTH_FS u v =
     (if uHasDay u then
        let color = vscale (uDay u (vUV v)) (earth_light u v);
            color' = (if uHasNight u then vadd color (vscale (uNight u (vUV v)) (night_mix (sun_cosine u v))) else color)
        in (vadd color' (vscale (vscale (20 / 100, 38 / 100, 66 / 100) (earth_rim u v)) (55 / 100)), 1)
      else
        let lat = snd (snd (vPos v)) / (6371 / 1000);
            base = vadd (5 / 100, 19 / 100, 44 / 100) (vscale (15 / 1000, 3 / 100, 5 / 100) (cos (lat * 9)))
        in (vscale base (earth_light u v), 1))"

section \<open>Lines\<close>

definition LINE_VS :: "transform_uniforms \<Rightarrow> vec3 \<Rightarrow> rgb \<times> real \<Rightarrow> vec4 \<times> (rgb \<times> real)" where
  "LINE_VS u aPos aColor = (vertex_position u aPos, aColor)"

definition LINE_FS :: "rgb \<times> real \<Rightarrow> rgb \<times> real" where
  "LINE_FS vColor = vColor"

section \<open>Points\<close>

record point_varyings =
  vColor :: rgb
  vUv0 :: "real \<times> real"
  vUv1 :: "real \<times> real"

text \<open>The rectangle of the icon is \<open>shader_uv\<close> of Earth_Assets.\<close>

definition POINTS_VS :: "transform_uniforms \<Rightarrow> real \<Rightarrow> real \<Rightarrow> vec3 \<Rightarrow> rgb \<Rightarrow> real \<Rightarrow> nat
    \<Rightarrow> vec4 \<times> real \<times> point_varyings" where
  "POINTS_VS u uDpr uMaxPoint aPos aColor aSize aIcon =
     (let q = shader_uv aIcon
      in (vertex_position u aPos, min (aSize * uDpr) uMaxPoint,
          \<lparr>vColor = aColor, vUv0 = (u0 q, v0 q), vUv1 = (u1 q, v1 q)\<rparr>))"

definition point_uv :: "real \<times> real \<Rightarrow> real \<times> real \<Rightarrow> real \<times> real \<Rightarrow> real \<times> real" where
  "point_uv p q c = (gl_mix (fst p) (fst q) (fst c), gl_mix (snd p) (snd q) (snd c))"

definition POINTS_FS :: "(real \<times> real \<Rightarrow> rgb \<times> real) \<Rightarrow> point_varyings \<Rightarrow> real \<times> real \<Rightarrow> (rgb \<times> real) option" where
  "POINTS_FS uAtlas v gl_PointCoord =
     (let t = uAtlas (point_uv (vUv0 v) (vUv1 v) gl_PointCoord)
      in if snd t < 5 / 100 then None else Some (mul_rgb (fst t) (vColor v), snd t))"

section \<open>Markers\<close>

definition MARKER_VS :: "transform_uniforms \<Rightarrow> vec3 \<Rightarrow> real \<Rightarrow> real \<Rightarrow> vec4 \<times> real" where
  "MARKER_VS u uWorldPos uSize aVertex = (vertex_position u uWorldPos, uSize + aVertex)"

record marker_uniforms =
  uColor :: rgb
  uUseAtlas :: bool
  uMarkerAtlas :: "real \<times> real \<Rightarrow> rgb \<times> real"
  uUv0 :: "real \<times> real"
  uUv1 :: "real \<times> real"

definition MARKER_FS :: "marker_uniforms \<Rightarrow> real \<times> real \<Rightarrow> (rgb \<times> real) option" where
  "MARKER_FS u gl_PointCoord =
     (if uUseAtlas u then
        let t = uMarkerAtlas u (point_uv (uUv0 u) (uUv1 u) gl_PointCoord)
        in if snd t < 5 / 100 then None else Some t
      else
        let r = hypot3 (fst gl_PointCoord - 1 / 2) (snd gl_PointCoord - 1 / 2) 0 * 2
        in if r > 1 then None else Some (uColor u, smoothstep 1 0 r))"

section \<open>Where a vertex lands\<close>

text \<open>The place of a clip position on the screen in CSS pixels, y down; \<open>None\<close> when the vertex is clipped
  away in front of the near plane or behind the far one.\<close>

definition window_place :: "real \<Rightarrow> real \<Rightarrow> vec4 \<Rightarrow> (real \<times> real) option" where
  "window_place w h c = (case c of (x, y, z, cw) \<Rightarrow>
     if 0 < cw \<and> - cw \<le> z \<and> z \<le> cw
     then Some ((x / cw * (1 / 2) + 1 / 2) * w, (1 - (y / cw * (1 / 2) + 1 / 2)) * h) else None)"

end
