(* ===== verification/Earth_Textures.thy ===== *)
theory Earth_Textures
  imports Asset_Facts
begin

text \<open>
  The loader of the two Earth textures (frontend/js/textures.js): \<open>createEarthTextures\<close> starts both
  loads, the \<open>onload\<close> and \<open>onerror\<close> handlers finish them. What is outside the program is an argument:
  whether the image factory or the setting of \<open>src\<close> throws, the image that was decoded, and which
  of the canvas and GL calls of an upload throw. \<open>gl_step\<close> is what the documented WebGL 1 calls do to
  the texture that is bound.
\<close>

section \<open>The GL calls of an upload\<close>

datatype asset = Day | Night

definition ASSET_FILES :: "(asset \<times> string) list" where
  "ASSET_FILES = [(Day, ''earth_day.jpg''), (Night, ''earth_night.jpg'')]"

definition MAX_ANISOTROPY :: real where "MAX_ANISOTROPY = 4"

record image =
  naturalWidth :: jsnum
  naturalHeight :: jsnum
  img_width :: jsnum
  img_height :: jsnum

datatype gl_call =
    CanvasFactory
  | SetCanvasSize nat nat
  | GetContext2d
  | DrawImage nat nat
  | GlCreateTexture
  | GlBindTexture "nat option"
  | GlTexImage2D
  | GlTexParameteri string string
  | GlGetExtension string
  | GlGetParameter string
  | GlTexParameterf string real
  | GlGenerateMipmap

text \<open>What a call does that is not the program's: the message it throws, and what GL answers.\<close>

record gl_host =
  call_throws :: "gl_call \<Rightarrow> string option"
  has_extension :: "string \<Rightarrow> bool"
  supported :: real

record tex_info =
  tex_size :: "(nat \<times> nat) option"
  tex_params :: "string \<Rightarrow> string option"
  mipmapped :: bool

record gl_world =
  canvas_size :: "nat \<times> nat"
  textures :: "tex_info list"
  bound :: "nat option"

definition power_of_two :: "nat \<Rightarrow> bool" where
  "power_of_two n \<longleftrightarrow> n = largestPotLE n \<and> 0 < n"

definition on_bound :: "(tex_info \<Rightarrow> tex_info) \<Rightarrow> gl_world \<Rightarrow> gl_world" where
  "on_bound f w = (case bound w of None \<Rightarrow> w
     | Some t \<Rightarrow> if t < length (textures w) then w\<lparr>textures := (textures w)[t := f (textures w ! t)]\<rparr> else w)"

text \<open>WebGL 1 makes mipmaps only of an image whose two sizes are powers of two.\<close>

fun gl_step :: "gl_call \<Rightarrow> gl_world \<Rightarrow> gl_world" where
  "gl_step (SetCanvasSize a b) w = w\<lparr>canvas_size := (a, b)\<rparr>"
| "gl_step GlCreateTexture w = w\<lparr>textures := textures w @ [\<lparr>tex_size = None, tex_params = Map.empty, mipmapped = False\<rparr>]\<rparr>"
| "gl_step (GlBindTexture t) w = w\<lparr>bound := t\<rparr>"
| "gl_step GlTexImage2D w = on_bound (\<lambda>i. i\<lparr>tex_size := Some (canvas_size w)\<rparr>) w"
| "gl_step (GlTexParameteri p v) w = on_bound (\<lambda>i. i\<lparr>tex_params := (tex_params i)(p \<mapsto> v)\<rparr>) w"
| "gl_step GlGenerateMipmap w = on_bound (\<lambda>i. case tex_size i of None \<Rightarrow> i
     | Some (a, b) \<Rightarrow> if power_of_two a \<and> power_of_two b then i\<lparr>mipmapped := True\<rparr> else i) w"
| "gl_step _ w = w"

fun gl_run :: "gl_host \<Rightarrow> gl_call list \<Rightarrow> gl_world \<Rightarrow> (string + unit) \<times> gl_world" where
  "gl_run host [] w = (Inr (), w)"
| "gl_run host (c # cs) w = (case call_throws host c of
      Some message \<Rightarrow> (Inl message, w)
    | None \<Rightarrow> gl_run host cs (gl_step c w))"

section \<open>The upload\<close>

definition ANISOTROPIC :: "string list" where
  "ANISOTROPIC = [''EXT_texture_filter_anisotropic'', ''MOZ_EXT_texture_filter_anisotropic'',
     ''WEBKIT_EXT_texture_filter_anisotropic'']"

text \<open>The extensions are asked for in turn until one is there.\<close>

definition applyAnisotropy :: "gl_host \<Rightarrow> gl_call list" where
  "applyAnisotropy host =
     (let (missing, rest) = (takeWhile (\<lambda>e. \<not> has_extension host e) ANISOTROPIC,
                             dropWhile (\<lambda>e. \<not> has_extension host e) ANISOTROPIC)
      in map GlGetExtension missing @
         (case rest of [] \<Rightarrow> []
          | e # es \<Rightarrow> [GlGetExtension e, GlGetParameter ''MAX_TEXTURE_MAX_ANISOTROPY_EXT'',
              GlTexParameterf ''TEXTURE_MAX_ANISOTROPY_EXT'' (min MAX_ANISOTROPY (supported host))]))"

text \<open>\<open>a || b\<close> on numbers: 0 and NaN are falsy.\<close>

definition num_or :: "jsnum \<Rightarrow> jsnum \<Rightarrow> jsnum" where
  "num_or a b = (if a = NaN \<or> a = Fin 0 then b else a)"

definition upload_calls :: "gl_host \<Rightarrow> nat \<times> nat \<Rightarrow> nat \<Rightarrow> gl_call list" where
  "upload_calls host dims tex =
     [CanvasFactory, SetCanvasSize (fst dims) (snd dims), GetContext2d, DrawImage (fst dims) (snd dims),
      GlCreateTexture, GlBindTexture (Some tex), GlTexImage2D,
      GlTexParameteri ''TEXTURE_MIN_FILTER'' ''LINEAR_MIPMAP_LINEAR'',
      GlTexParameteri ''TEXTURE_MAG_FILTER'' ''LINEAR'',
      GlTexParameteri ''TEXTURE_WRAP_S'' ''REPEAT'',
      GlTexParameteri ''TEXTURE_WRAP_T'' ''CLAMP_TO_EDGE''] @
     applyAnisotropy host @
     [GlGenerateMipmap, GlBindTexture None]"

definition uploadTexture :: "gl_host \<Rightarrow> image \<Rightarrow> jsnum \<Rightarrow> gl_world \<Rightarrow> (string + nat) \<times> gl_world" where
  "uploadTexture host img maxSize w =
     (let dims = potSizeFor (num_or (naturalWidth img) (img_width img))
                            (num_or (naturalHeight img) (img_height img)) maxSize;
          tex = length (textures w)
      in case gl_run host (upload_calls host dims tex) w of
          (Inl message, w') \<Rightarrow> (Inl message, w')
        | (Inr _, w') \<Rightarrow> (Inr tex, w'))"

section \<open>The loader\<close>

text \<open>\<open>ld_awaiting\<close> are the images whose load has started and not ended: the browser fires \<open>load\<close> or
  \<open>error\<close> once for each. A warning names the file and gives the message of the error, if there is one.\<close>

record loader =
  ld_handle :: texture_handle
  ld_warnings :: "(asset \<times> string option) list"
  ld_awaiting :: "asset list"
  ld_gl :: gl_world

definition warning_text :: "asset \<times> string option \<Rightarrow> string" where
  "warning_text wn = ''textures: failed to load '' @ the (map_of ASSET_FILES (fst wn)) @
     (case snd wn of None \<Rightarrow> '''' | Some message \<Rightarrow> '': '' @ message)"

definition warn :: "asset \<Rightarrow> string option \<Rightarrow> loader \<Rightarrow> loader" where
  "warn key message l = l\<lparr>ld_warnings := ld_warnings l @ [(key, message)]\<rparr>"

fun set_texture :: "asset \<Rightarrow> nat \<Rightarrow> texture_handle \<Rightarrow> texture_handle" where
  "set_texture Day t th = th\<lparr>day := Some t, version := version th + 1\<rparr>"
| "set_texture Night t th = th\<lparr>night := Some t, version := version th + 1\<rparr>"

text \<open>The two handlers of one image.\<close>

definition image_onload :: "jsnum \<Rightarrow> asset \<Rightarrow> image \<Rightarrow> gl_host \<Rightarrow> loader \<Rightarrow> loader" where
  "image_onload maxSize key img host l =
     (case uploadTexture host img maxSize (ld_gl l) of
        (Inl message, w) \<Rightarrow> warn key (Some message) (l\<lparr>ld_gl := w\<rparr>)
      | (Inr tex, w) \<Rightarrow> l\<lparr>ld_gl := w, ld_handle := set_texture key tex (ld_handle l)\<rparr>)"

definition image_onerror :: "asset \<Rightarrow> loader \<Rightarrow> loader" where
  "image_onerror key l = warn key None l"

text \<open>The page's part of a load: what \<open>imageFactory()\<close> and \<open>img.src = \<dots>\<close> throw, if they throw.\<close>

record image_source =
  factory_throws :: "asset \<Rightarrow> string option"
  src_throws :: "asset \<Rightarrow> string option"

definition loadOne :: "image_source \<Rightarrow> asset \<Rightarrow> loader \<Rightarrow> loader" where
  "loadOne src key l = (case factory_throws src key of
      Some message \<Rightarrow> warn key (Some message) l
    | None \<Rightarrow> (case src_throws src key of
        Some message \<Rightarrow> warn key (Some message) l
      | None \<Rightarrow> l\<lparr>ld_awaiting := ld_awaiting l @ [key]\<rparr>))"

text \<open>\<open>Math.min\<close> of the option, 4096 without one, and what \<open>getParameter\<close> gives, 4096 if it throws.\<close>

definition texture_max_size :: "jsnum option \<Rightarrow> (string + jsnum) \<Rightarrow> jsnum" where
  "texture_max_size opt getParameter =
     (let glMax = (case getParameter of Inl message \<Rightarrow> Fin 4096 | Inr v \<Rightarrow> v);
          wanted = (case opt of None \<Rightarrow> Fin 4096 | Some v \<Rightarrow> v);
          limit = real (positiveInt glMax 4096)
      in case wanted of Fin v \<Rightarrow> Fin (min v limit) | PInf \<Rightarrow> Fin limit | NInf \<Rightarrow> NInf | NaN \<Rightarrow> NaN)"

definition createEarthTextures :: "image_source \<Rightarrow> gl_world \<Rightarrow> loader" where
  "createEarthTextures src w =
     fold (loadOne src) (map fst ASSET_FILES)
       \<lparr>ld_handle = \<lparr>day = None, night = None, version = 0\<rparr>, ld_warnings = [], ld_awaiting = [], ld_gl = w\<rparr>"

datatype load_event = Onload asset image gl_host | Onerror asset

fun event_asset :: "load_event \<Rightarrow> asset" where
  "event_asset (Onload key img host) = key"
| "event_asset (Onerror key) = key"

definition load_step :: "jsnum \<Rightarrow> load_event \<Rightarrow> loader \<Rightarrow> loader" where
  "load_step maxSize e l =
     (if event_asset e \<in> set (ld_awaiting l) then
        let l' = l\<lparr>ld_awaiting := remove1 (event_asset e) (ld_awaiting l)\<rparr>
        in case e of Onload key img host \<Rightarrow> image_onload maxSize key img host l'
           | Onerror key \<Rightarrow> image_onerror key l'
      else l)"

end
