(* ===== verification/Icon_Painter.thy ===== *)
theory Icon_Painter
  imports Earth_Assets Renderer_Trails
begin

text \<open>
  The painting of the icon atlas (frontend/js/atlas.js): every painter is the list of the calls it
  makes on the canvas context, a function of the size of a cell (\<open>ICONS\<close> is in Renderer_Trails), and \<open>paintAtlas\<close> is the list of
  all calls. \<open>canvas_step\<close> is what the documented canvas context does with a call, as far as the
  place and the colour of the ink go: a mark is a colour and the boxes around what is filled or
  stroked with it, a box around the control points of a curve and around the whole circle of an arc,
  grown on every side by half the line width for a stroke.
\<close>

section \<open>Calls on the canvas\<close>

datatype colour =
    Rgba nat nat nat real
  | Hex string

datatype canvas_call =
    Save | Restore
  | Translate real real
  | FillStyle colour | StrokeStyle colour | LineWidth real
  | BeginPath
  | MoveTo real real | LineTo real real
  | BezierCurveTo "real \<times> real" "real \<times> real" "real \<times> real"
  | Arc "real \<times> real" real real real
  | Rect real real real real
  | ClosePath | Fill | Stroke

section \<open>The painters\<close>

definition PAD :: real where "PAD = 13 / 100"

definition WHITE :: colour where "WHITE = Rgba 255 255 255 1"

definition debris_pts :: "(int \<times> real) list" where
  "debris_pts = [(-60, 1), (-10, 55 / 100), (35, 95 / 100), (80, 40 / 100),
     (140, 85 / 100), (190, 35 / 100), (230, 70 / 100), (280, 30 / 100)]"

definition drawDebris :: "real \<Rightarrow> canvas_call list" where
  "drawDebris cellPx =
     (let c = cellPx / 2; r = cellPx * (1 / 2 - PAD);
          place = (\<lambda>(deg, frac). let a = of_int deg * pi / 180
                     in (c + cos a * r * frac, c + sin a * r * frac))
      in [FillStyle WHITE, BeginPath] @
         map (\<lambda>(i, p). (if i = 0 then MoveTo else LineTo) (fst (place p)) (snd (place p)))
           (enumerate 0 debris_pts) @
         [ClosePath, Fill])"

definition drawStar :: "real \<Rightarrow> canvas_call list" where
  "drawStar cellPx =
     (let c = cellPx / 2; outerLong = cellPx * (1 / 2 - PAD);
          outerShort = outerLong * (32 / 100); inner = outerLong * (14 / 100)
      in [FillStyle WHITE, BeginPath] @
         concat (map (\<lambda>i. let angle = pi / 4 * real i - pi / 2;
                             outer = (if i mod 2 = 0 then outerLong else outerShort);
                             midAngle = angle + pi / 8
           in [(if i = 0 then MoveTo else LineTo) (c + cos angle * outer) (c + sin angle * outer),
               LineTo (c + cos midAngle * inner) (c + sin midAngle * inner)]) [0..<8]) @
         [ClosePath, Fill])"

text \<open>\<open>Math.hypot(dx, dy) || 1\<close>: a length 0 is replaced by 1.\<close>

definition drawComet :: "real \<Rightarrow> canvas_call list" where
  "drawComet cellPx =
     (let nucleusR = cellPx * (11 / 100);
          headX = cellPx * (1 - PAD - 8 / 100); headY = cellPx * PAD + nucleusR;
          tailTipX = cellPx * PAD; tailTipY = cellPx * (1 - PAD);
          halfWidth = cellPx * (16 / 100);
          dx = tailTipX - headX; dy = tailTipY - headY;
          len = (if hypot3 dx dy 0 = 0 then 1 else hypot3 dx dy 0);
          px = - dy / len; py = dx / len
      in concat (map (\<lambda>(t, alpha).
             let midX = headX + dx * t; midY = headY + dy * t; w = halfWidth * t
             in [FillStyle (Rgba 255 255 255 alpha), BeginPath, MoveTo headX headY,
                 LineTo (midX + px * w) (midY + py * w), LineTo (midX - px * w) (midY - py * w),
                 ClosePath, Fill])
           [(1, 18 / 100), (66 / 100, 35 / 100), (33 / 100, 60 / 100)]) @
         [FillStyle WHITE, BeginPath, Arc (headX, headY) nucleusR 0 (pi * 2), Fill])"

definition drawSatelliteGlyph :: "real \<Rightarrow> canvas_call list" where
  "drawSatelliteGlyph cellPx =
     (let c = cellPx / 2; busW = cellPx * (22 / 100); busH = cellPx * (30 / 100);
          wingW = cellPx * (26 / 100); wingH = cellPx * (16 / 100); wingGap = cellPx * (3 / 100)
      in [FillStyle WHITE,
          BeginPath, Rect (c - busW / 2) (c - busH / 2) busW busH, Fill,
          BeginPath, Rect (c - busW / 2 - wingGap - wingW) (c - wingH / 2) wingW wingH, Fill,
          BeginPath, Rect (c + busW / 2 + wingGap) (c - wingH / 2) wingW wingH, Fill,
          StrokeStyle WHITE, LineWidth (max 1 (cellPx * (2 / 100))),
          BeginPath,
          MoveTo (c - busW / 2 - wingGap) c, LineTo (c - busW / 2) c,
          MoveTo (c + busW / 2) c, LineTo (c + busW / 2 + wingGap) c,
          Stroke])"

definition drawGroundHot :: "real \<Rightarrow> canvas_call list" where
  "drawGroundHot cellPx =
     (let c = cellPx / 2; top' = cellPx * PAD; bottom = cellPx * (1 - PAD);
          w = cellPx * (1 / 2 - PAD) * (9 / 10);
          innerTop = top' + (bottom - top') * (30 / 100); innerW = w * (1 / 2)
      in [FillStyle WHITE, BeginPath, MoveTo c top',
          BezierCurveTo (c + w, top' + (bottom - top') * (35 / 100))
            (c + w * (55 / 100), bottom * (7 / 10) + top' * (3 / 10)) (c, bottom),
          BezierCurveTo (c - w * (55 / 100), bottom * (7 / 10) + top' * (3 / 10))
            (c - w, top' + (bottom - top') * (35 / 100)) (c, top'),
          ClosePath, Fill,
          FillStyle (Rgba 255 255 255 (55 / 100)), BeginPath, MoveTo c innerTop,
          BezierCurveTo (c + innerW, innerTop + (bottom - innerTop) * (4 / 10))
            (c + innerW * (1 / 2), bottom * (85 / 100)) (c, bottom * (96 / 100)),
          BezierCurveTo (c - innerW * (1 / 2), bottom * (85 / 100))
            (c - innerW, innerTop + (bottom - innerTop) * (4 / 10)) (c, innerTop),
          ClosePath, Fill])"

text \<open>The wings are painted one after the other, the styles set again for each.\<close>

definition wing_calls :: "real \<Rightarrow> real \<Rightarrow> real \<Rightarrow> real \<Rightarrow> real \<Rightarrow> real \<Rightarrow> canvas_call list" where
  "wing_calls cellPx outlineW wingW wingH x y =
     [FillStyle (Hex ''#13294b''), StrokeStyle (Rgba 255 255 255 (85 / 100)), LineWidth outlineW,
      BeginPath, Rect x y wingW wingH, Fill, Stroke,
      StrokeStyle (Rgba 180 200 230 (9 / 10)), LineWidth (max (1 / 2) (cellPx * (1 / 100))),
      BeginPath] @
     concat (map (\<lambda>i. let gx = x + wingW * real i / 4 in [MoveTo gx y, LineTo gx (y + wingH)]) [1..<4]) @
     concat (map (\<lambda>j. let gy = y + wingH * real j / 2 in [MoveTo x gy, LineTo (x + wingW) gy]) [1..<2]) @
     [Stroke]"

definition drawSatMarker :: "real \<Rightarrow> canvas_call list" where
  "drawSatMarker cellPx =
     (let c = cellPx / 2; bodyW = cellPx * (20 / 100); bodyH = cellPx * (40 / 100);
          wingW = cellPx * (30 / 100); wingH = cellPx * (20 / 100); wingGap = cellPx * (3 / 100);
          outlineW = max 1 (cellPx * (25 / 1000)); outlineColor = Rgba 255 255 255 (85 / 100)
      in wing_calls cellPx outlineW wingW wingH (c - bodyW / 2 - wingGap - wingW) (c - wingH / 2) @
         wing_calls cellPx outlineW wingW wingH (c + bodyW / 2 + wingGap) (c - wingH / 2) @
         [FillStyle (Hex ''#c9ced6''), StrokeStyle outlineColor, LineWidth outlineW,
          BeginPath, Rect (c - bodyW / 2) (c - bodyH / 2) bodyW bodyH, Fill, Stroke,
          FillStyle (Hex ''#d4af37''),
          BeginPath, Rect (c - bodyW / 2) (c - bodyH / 2) bodyW (bodyH * (22 / 100)), Fill, Stroke,
          StrokeStyle outlineColor, LineWidth outlineW,
          BeginPath,
          MoveTo (c - bodyW / 2 - wingGap) c, LineTo (c - bodyW / 2) c,
          MoveTo (c + bodyW / 2) c, LineTo (c + bodyW / 2 + wingGap) c,
          Stroke])"

definition drawSkyDot :: "real \<Rightarrow> canvas_call list" where
  "drawSkyDot cellPx =
     (let c = cellPx / 2
      in concat (map (\<lambda>(r, alpha).
           [FillStyle (Rgba 255 255 255 alpha), BeginPath, Arc (c, c) (r * cellPx) 0 (pi * 2), Fill])
         [(48 / 100, 18 / 100), (42 / 100, 45 / 100), (36 / 100, 72 / 100), (30 / 100, 1)]))"

definition drawUnknown :: "real \<Rightarrow> canvas_call list" where
  "drawUnknown cellPx =
     (let c = cellPx / 2; hookR = cellPx * (15 / 100); hookCy = c - cellPx * (12 / 100)
      in [StrokeStyle WHITE, LineWidth (cellPx * (1 / 10)),
          BeginPath, Arc (c, hookCy) hookR pi (pi * (25 / 10)),
          LineTo c (hookCy + hookR + cellPx * (1 / 10)), Stroke,
          FillStyle WHITE,
          BeginPath, Arc (c, c + cellPx * (28 / 100)) (cellPx * (6 / 100)) 0 (pi * 2), Fill])"

text \<open>\<open>PAINTERS\<close> in the order of \<open>Object.entries\<close>: integer keys ascend.\<close>

definition PAINTERS :: "(nat \<times> (real \<Rightarrow> canvas_call list)) list" where
  "PAINTERS = sort_key fst
     [(icon ''debris'', drawDebris), (icon ''star'', drawStar),
      (icon ''comet'', drawComet), (icon ''satellite'', drawSatelliteGlyph),
      (icon ''groundHot'', drawGroundHot), (icon ''satMarker'', drawSatMarker),
      (icon ''skyDot'', drawSkyDot), (icon ''unknown'', drawUnknown)]"

definition cell_offset :: "nat \<Rightarrow> real \<Rightarrow> real \<times> real" where
  "cell_offset index cellPx =
     (real (index mod ATLAS_GRID) * cellPx, real (index div ATLAS_GRID) * cellPx)"

text \<open>The body of the loop of \<open>paintAtlas\<close>.\<close>

definition cell_calls :: "nat \<Rightarrow> real \<Rightarrow> canvas_call list \<Rightarrow> canvas_call list" where
  "cell_calls index cellPx calls =
     [Save, Translate (fst (cell_offset index cellPx)) (snd (cell_offset index cellPx))] @ calls @ [Restore]"

definition paintAtlas :: "real \<Rightarrow> canvas_call list" where
  "paintAtlas cellPx = concat (map (\<lambda>(index, paint). cell_calls index cellPx (paint cellPx)) PAINTERS)"

section \<open>The canvas\<close>

text \<open>A box is left, top, right and bottom.\<close>

type_synonym box = "real \<times> real \<times> real \<times> real"

record pen =
  origin :: "real \<times> real"
  fill_style :: colour
  stroke_style :: colour
  line_width :: real

record canvas =
  pen :: pen
  saved :: "pen list"
  path :: "box list"
  ink :: "(colour \<times> box list) list"

definition fresh_pen :: pen where
  "fresh_pen = \<lparr>origin = (0, 0), fill_style = Hex ''#000000'', stroke_style = Hex ''#000000'', line_width = 1\<rparr>"

definition blank :: canvas where
  "blank = \<lparr>pen = fresh_pen, saved = [], path = [], ink = []\<rparr>"

definition bounding :: "(real \<times> real) list \<Rightarrow> box" where
  "bounding ps = (Min (set (map fst ps)), Min (set (map snd ps)), Max (set (map fst ps)), Max (set (map snd ps)))"

fun shift_box :: "real \<times> real \<Rightarrow> box \<Rightarrow> box" where
  "shift_box (dx, dy) (l, t, r, b) = (l + dx, t + dy, r + dx, b + dy)"

fun widen :: "real \<Rightarrow> box \<Rightarrow> box" where
  "widen d (l, t, r, b) = (l - d, t - d, r + d, b + d)"

text \<open>What a path call adds to the path, in the coordinates of the cell.\<close>

fun path_box :: "canvas_call \<Rightarrow> box option" where
  "path_box (MoveTo x y) = Some (x, y, x, y)"
| "path_box (LineTo x y) = Some (x, y, x, y)"
| "path_box (BezierCurveTo p q e) = Some (bounding [p, q, e])"
| "path_box (Arc c r a0 a1) = Some (fst c - r, snd c - r, fst c + r, snd c + r)"
| "path_box (Rect x y w h) = Some (bounding [(x, y), (x + w, y + h)])"
| "path_box _ = None"

fun canvas_step :: "canvas_call \<Rightarrow> canvas \<Rightarrow> canvas" where
  "canvas_step Save s = s\<lparr>saved := pen s # saved s\<rparr>"
| "canvas_step Restore s = (case saved s of [] \<Rightarrow> s | p # ps \<Rightarrow> s\<lparr>pen := p, saved := ps\<rparr>)"
| "canvas_step (Translate x y) s =
     s\<lparr>pen := pen s\<lparr>origin := (fst (origin (pen s)) + x, snd (origin (pen s)) + y)\<rparr>\<rparr>"
| "canvas_step (FillStyle c) s = s\<lparr>pen := pen s\<lparr>fill_style := c\<rparr>\<rparr>"
| "canvas_step (StrokeStyle c) s = s\<lparr>pen := pen s\<lparr>stroke_style := c\<rparr>\<rparr>"
| "canvas_step (LineWidth w) s = (if 0 < w then s\<lparr>pen := pen s\<lparr>line_width := w\<rparr>\<rparr> else s)"
| "canvas_step BeginPath s = s\<lparr>path := []\<rparr>"
| "canvas_step ClosePath s = s"
| "canvas_step Fill s = s\<lparr>ink := ink s @ [(fill_style (pen s), path s)]\<rparr>"
| "canvas_step Stroke s =
     s\<lparr>ink := ink s @ [(stroke_style (pen s), map (widen (line_width (pen s) / 2)) (path s))]\<rparr>"
| "canvas_step c s = (case path_box c of None \<Rightarrow> s
     | Some b \<Rightarrow> s\<lparr>path := path s @ [shift_box (origin (pen s)) b]\<rparr>)"

definition run_canvas :: "canvas_call list \<Rightarrow> canvas \<Rightarrow> canvas" where
  "run_canvas = fold canvas_step"

end
