(* ===== verification/Gl_State.thy ===== *)
theory Gl_State
  imports Shaders Earth_Textures Icon_Painter
begin

text \<open>
  The GL calls of one frame of frontend/js/renderer.js, in order, and the WebGL state they act on:
  the current program, the enabled vertex attributes and where they point, the uniforms of each
  program, blending, the depth mask and the texture units. \<open>draw_calls\<close> is the body of \<open>drawEarth\<close>,
  \<open>drawLines\<close>, \<open>drawPointset\<close> and \<open>drawMarker\<close>; what a draw call sees of the state is recorded in
  \<open>drawn\<close>. \<open>webgl_step\<close> is the documented effect of each call: a uniform is set only through a
  location of the current program, and a pointer is taken to the buffer bound at that time.
\<close>

section \<open>Calls\<close>

datatype gl_program = EarthProg | LineProg | PointsProg | MarkerProg

datatype gl_buffer =
    EarthPos | EarthNrm | EarthUv | EarthIdx
  | LineVerts line_buffer
  | PosOf point_buffer | ColOf point_buffer | SizeOf point_buffer | IconOf point_buffer
  | MarkerZero

datatype gl_texture = AtlasTex | EarthTex nat

datatype uniform_value =
    UBool bool
  | UInt nat
  | UFloat real
  | UVec2 real real
  | UVec3 vec3
  | UMat4 mat4

datatype primitive = Triangles | Lines | Points

datatype webgl_call =
    UseProgram gl_program
  | SetUniform gl_program string uniform_value
  | DisableAttrib nat
  | EnableAttrib nat
  | BindArray gl_buffer
  | BindElements gl_buffer
  | AttribPointer nat nat nat nat
  | SetBlend bool
  | SetDepthMask bool
  | Viewport real real
  | ClearColor rgb
  | SetDepthTest bool
  | DepthFunc string
  | BlendFunc string string
  | ClearAll
  | ActiveTexture nat
  | BindTexture "gl_texture option"
  | DrawElements primitive nat
  | DrawArrays primitive nat

section \<open>State\<close>

text \<open>An attribute: its buffer, components, stride and offset.\<close>

type_synonym attrib = "gl_buffer \<times> nat \<times> nat \<times> nat"

record drawn =
  d_program :: "gl_program option"
  d_primitive :: primitive
  d_count :: nat
  d_attribs :: "nat \<Rightarrow> attrib option"
  d_elements :: "gl_buffer option"
  d_uniforms :: "string \<Rightarrow> uniform_value option"
  d_blend :: bool
  d_depth_mask :: bool
  d_depth_test :: bool
  d_textures :: "nat \<Rightarrow> gl_texture option"

record webgl =
  g_program :: "gl_program option"
  g_uniforms :: "gl_program \<Rightarrow> string \<Rightarrow> uniform_value option"
  g_enabled :: "nat \<Rightarrow> bool"
  g_pointer :: "nat \<Rightarrow> attrib option"
  g_array :: "gl_buffer option"
  g_elements :: "gl_buffer option"
  g_blend :: bool
  g_depth_mask :: bool
  g_depth_test :: bool
  g_viewport :: "real \<times> real"
  g_depth_func :: string
  g_blend_func :: "string \<times> string"
  g_unit :: nat
  g_textures :: "nat \<Rightarrow> gl_texture option"
  g_drawn :: "drawn list"

definition draw_record :: "primitive \<Rightarrow> nat \<Rightarrow> gl_buffer option \<Rightarrow> webgl \<Rightarrow> drawn" where
  "draw_record prim n elements g = \<lparr>d_program = g_program g, d_primitive = prim, d_count = n,
     d_attribs = (\<lambda>i. if g_enabled g i then g_pointer g i else None), d_elements = elements,
     d_uniforms = (case g_program g of None \<Rightarrow> Map.empty | Some p \<Rightarrow> g_uniforms g p),
     d_blend = g_blend g, d_depth_mask = g_depth_mask g,
     d_depth_test = g_depth_test g, d_textures = g_textures g\<rparr>"

fun webgl_step :: "webgl_call \<Rightarrow> webgl \<Rightarrow> webgl" where
  "webgl_step (UseProgram p) g = g\<lparr>g_program := Some p\<rparr>"
| "webgl_step (SetUniform p name v) g =
     (if g_program g = Some p then g\<lparr>g_uniforms := (g_uniforms g)(p := (g_uniforms g p)(name \<mapsto> v))\<rparr> else g)"
| "webgl_step (DisableAttrib i) g = g\<lparr>g_enabled := (g_enabled g)(i := False)\<rparr>"
| "webgl_step (EnableAttrib i) g = g\<lparr>g_enabled := (g_enabled g)(i := True)\<rparr>"
| "webgl_step (BindArray b) g = g\<lparr>g_array := Some b\<rparr>"
| "webgl_step (BindElements b) g = g\<lparr>g_elements := Some b\<rparr>"
| "webgl_step (AttribPointer i n stride offset) g =
     (case g_array g of None \<Rightarrow> g | Some b \<Rightarrow> g\<lparr>g_pointer := (g_pointer g)(i \<mapsto> (b, n, stride, offset))\<rparr>)"
| "webgl_step (SetBlend b) g = g\<lparr>g_blend := b\<rparr>"
| "webgl_step (SetDepthMask b) g = g\<lparr>g_depth_mask := b\<rparr>"
| "webgl_step (SetDepthTest b) g = g\<lparr>g_depth_test := b\<rparr>"
| "webgl_step (Viewport w h) g = g\<lparr>g_viewport := (w, h)\<rparr>"
| "webgl_step (DepthFunc f) g = g\<lparr>g_depth_func := f\<rparr>"
| "webgl_step (BlendFunc s d) g = g\<lparr>g_blend_func := (s, d)\<rparr>"
| "webgl_step (ClearColor c) g = g"
| "webgl_step ClearAll g = g"
| "webgl_step (ActiveTexture i) g = g\<lparr>g_unit := i\<rparr>"
| "webgl_step (BindTexture t) g = g\<lparr>g_textures := (g_textures g)(g_unit g := t)\<rparr>"
| "webgl_step (DrawElements prim n) g = g\<lparr>g_drawn := g_drawn g @ [draw_record prim n (g_elements g) g]\<rparr>"
| "webgl_step (DrawArrays prim n) g = g\<lparr>g_drawn := g_drawn g @ [draw_record prim n None g]\<rparr>"

definition webgl_run :: "webgl_call list \<Rightarrow> webgl \<Rightarrow> webgl" where
  "webgl_run = fold webgl_step"

section \<open>The draw functions\<close>

definition disableAttribs :: "webgl_call list" where
  "disableAttribs = map DisableAttrib [0..<4]"

definition transform_calls :: "gl_program \<Rightarrow> view \<Rightarrow> webgl_call list" where
  "transform_calls prog av =
     SetUniform prog ''uFisheye'' (UBool (fisheye av)) #
     (if fisheye av then
        [SetUniform prog ''uView'' (UMat4 (view_mat av)), SetUniform prog ''uThetaMax'' (UFloat SAT_THETA_MAX),
         SetUniform prog ''uAspect'' (UFloat (aspectGl av)),
         SetUniform prog ''uDepthRange'' (UVec2 SAT_NEAR SAT_FAR)]
      else (case view_mvp av of None \<Rightarrow> [] | Some m \<Rightarrow> [SetUniform prog ''uMVP'' (UMat4 m)]))"

definition use_calls :: "gl_program \<Rightarrow> view \<Rightarrow> webgl_call list" where
  "use_calls prog av = UseProgram prog # disableAttribs @ transform_calls prog av"

definition attrib_calls :: "gl_buffer \<Rightarrow> nat \<Rightarrow> nat \<Rightarrow> webgl_call list" where
  "attrib_calls buf i n = [BindArray buf, EnableAttrib i, AttribPointer i n 0 0]"

definition earthIndexCount :: nat where
  "earthIndexCount = length (indices (buildSphere EARTH_R 64 96))"

definition satUV :: uv_rect where
  "satUV = (case iconUV (Fin (real (icon ''satMarker''))) of Inr q \<Rightarrow> q | Inl e \<Rightarrow> \<lparr>u0 = 0, v0 = 0, u1 = 0, v1 = 0\<rparr>)"

text \<open>\<open>ratio\<close> is the device pixel ratio.\<close>

fun draw_calls :: "real \<Rightarrow> view \<Rightarrow> draw_cmd \<Rightarrow> webgl_call list" where
  "draw_calls ratio av (DrawEarth sunDir eye hasDay hasNight) =
     use_calls EarthProg av @
     [SetUniform EarthProg ''uSunDir'' (UVec3 sunDir), SetUniform EarthProg ''uAmbient'' (UFloat (25 / 100)),
      SetUniform EarthProg ''uEye'' (UVec3 eye), SetUniform EarthProg ''uHasDay'' (UBool hasDay),
      SetUniform EarthProg ''uHasNight'' (UBool hasNight)] @
     attrib_calls EarthPos 0 3 @ attrib_calls EarthNrm 1 3 @ attrib_calls EarthUv 2 2 @
     [BindElements EarthIdx, SetBlend False, SetDepthMask True, DrawElements Triangles earthIndexCount]"
| "draw_calls ratio av (DrawLines buf n) =
     use_calls LineProg av @
     [BindArray (LineVerts buf), EnableAttrib 0, AttribPointer 0 3 28 0, EnableAttrib 1, AttribPointer 1 4 28 12,
      SetBlend True, SetDepthMask False, DrawArrays Lines n]"
| "draw_calls ratio av (DrawPointset buf n) =
     use_calls PointsProg av @ [SetUniform PointsProg ''uDpr'' (UFloat ratio)] @
     attrib_calls (PosOf buf) 0 3 @ attrib_calls (ColOf buf) 1 3 @ attrib_calls (SizeOf buf) 2 1 @
     attrib_calls (IconOf buf) 3 1 @
     [SetBlend True, SetDepthMask False, DrawArrays Points n]"
| "draw_calls ratio av (DrawMarker pos px color useAtlas) =
     use_calls MarkerProg av @
     [SetUniform MarkerProg ''uWorldPos'' (UVec3 pos), SetUniform MarkerProg ''uSize'' (UFloat px),
      SetUniform MarkerProg ''uColor'' (UVec3 color), SetUniform MarkerProg ''uUseAtlas'' (UBool useAtlas)] @
     (if useAtlas then [SetUniform MarkerProg ''uUv0'' (UVec2 (u0 satUV) (v0 satUV)),
                        SetUniform MarkerProg ''uUv1'' (UVec2 (u1 satUV) (v1 satUV))] else []) @
     attrib_calls MarkerZero 0 1 @
     [SetBlend True, SetDepthMask False, DrawArrays Points 1]"

section \<open>A frame\<close>

definition or_atlas :: "nat option \<Rightarrow> gl_texture option" where
  "or_atlas t = Some (case t of None \<Rightarrow> AtlasTex | Some i \<Rightarrow> EarthTex i)"

definition begin_frame :: "texture_handle \<Rightarrow> renderer \<Rightarrow> webgl_call list" where
  "begin_frame tex r =
     [Viewport (canvasW r) (canvasH r), ClearColor (5 / 255, 7 / 255, 13 / 255), SetDepthTest True,
      DepthFunc ''LEQUAL'', BlendFunc ''SRC_ALPHA'' ''ONE_MINUS_SRC_ALPHA'', SetDepthMask True, ClearAll,
      ActiveTexture 0, BindTexture (or_atlas (day tex)),
      ActiveTexture 1, BindTexture (or_atlas (night tex)),
      ActiveTexture 2, BindTexture (Some AtlasTex),
      ActiveTexture 0]"

definition frame_calls :: "real \<Rightarrow> texture_handle \<Rightarrow> real \<Rightarrow> renderer \<Rightarrow> webgl_call list" where
  "frame_calls mp tex now r =
     begin_frame tex r @
     concat (map (draw_calls (dpr r) (computeActiveView r)) (fst (snd (frame mp tex now r))))"

section \<open>Before the first frame and between frames\<close>

text \<open>The samplers are bound to their units once, after linking. An upload binds its texture on whichever
  unit is active, and unbinds it if it gets that far.\<close>

definition setup_calls :: "real \<Rightarrow> webgl_call list" where
  "setup_calls maxPointSize =
     [UseProgram EarthProg, SetUniform EarthProg ''uDay'' (UInt 0), SetUniform EarthProg ''uNight'' (UInt 1),
      UseProgram PointsProg, SetUniform PointsProg ''uAtlas'' (UInt 2),
      SetUniform PointsProg ''uMaxPoint'' (UFloat maxPointSize),
      UseProgram MarkerProg, SetUniform MarkerProg ''uAtlas'' (UInt 2)]"

definition psSize :: "(real \<times> real) option \<Rightarrow> real" where
  "psSize psRange = (case psRange of Some (a, b) \<Rightarrow> if b \<noteq> 0 then b else 64 | None \<Rightarrow> 64)"

datatype gl_event =
    Frame texture_handle real renderer
  | Upload nat bool

fun event_calls :: "real \<Rightarrow> gl_event \<Rightarrow> webgl_call list" where
  "event_calls mp (Frame tex now r) = frame_calls mp tex now r"
| "event_calls mp (Upload t completes) =
     BindTexture (Some (EarthTex t)) # (if completes then [BindTexture None] else [])"

definition fresh_webgl :: webgl where
  "fresh_webgl = \<lparr>g_program = None, g_uniforms = (\<lambda>p. Map.empty), g_enabled = (\<lambda>i. False), g_pointer = Map.empty,
     g_array = None, g_elements = None, g_blend = False, g_depth_mask = True, g_depth_test = False, g_viewport = (0, 0),
     g_depth_func = ''LESS'', g_blend_func = (''ONE'', ''ZERO''), g_unit = 0,
     g_textures = Map.empty, g_drawn = []\<rparr>"

end
