(* ===== verification/Shader_Facts.thy ===== *)
theory Shader_Facts
  imports Shaders
begin

text \<open>
  The shaders of frontend/js/renderer.js: a vertex lands where the overlay puts labels and picking
  looks, the light on the globe, and what a sprite samples of the atlas.
\<close>

section \<open>Where a vertex lands\<close>

lemma clip_planes:
  assumes "transform (perspective FOV a NEAR FAR) (x, y, z) = (cx, cy, cz, cw)"
  shows "cw = - z" "0 < cw \<and> - cw \<le> cz \<and> cz \<le> cw \<longleftrightarrow> NEAR \<le> cw \<and> cw \<le> FAR"
proof -
  show cw: "cw = - z" using assms by (simp add: transform_def transform4_def perspective_def Let_def)
  have "cz = (FAR + NEAR) / (NEAR - FAR) * z + 2 * FAR * NEAR / (NEAR - FAR)"
    using assms by (simp add: transform_def transform4_def perspective_def Let_def)
  then show "0 < cw \<and> - cw \<le> cz \<and> cz \<le> cw \<longleftrightarrow> NEAR \<le> cw \<and> cw \<le> FAR"
    unfolding cw by (auto simp: NEAR_def FAR_def)
qed

lemma fisheye_place:
  "window_place w h (fisheyePosition (transform m p) (fov / 2 * DEG) aspect (SAT_NEAR, SAT_FAR)) =
     map_option (\<lambda>q. ((ndc_x q * (1 / 2) + 1 / 2) * w, (1 - (ndc_y q * (1 / 2) + 1 / 2)) * h))
       (fisheyeProjectNdc m p aspect fov)"
  if "aspect \<noteq> 0"
proof (cases "fisheyeProjectNdc m p aspect fov")
  case None
  then show ?thesis unfolding fisheye_agree by (simp add: window_place_def)
next
  case (Some q)
  with fisheye_range [OF Some that] show ?thesis unfolding fisheye_agree by (simp add: window_place_def)
qed

lemma orbit_place:
  assumes "renderer_inv r" "\<not> fisheye (computeActiveView r)"
  obtains m x y z a where "view_mvp (computeActiveView r) = Some m"
    "transform m p = transform (perspective FOV a NEAR FAR) (x, y, z)"
proof -
  have cam: "scene_camera (rn_camera r)" using assms(1) by (simp add: renderer_inv_def)
  obtain a where proj: "rn_proj r = perspective FOV a NEAR FAR" using assms(1) by (auto simp: renderer_inv_def)
  from cam obtain eye up where m: "view_mat (computeActiveView r) = lookAt eye (0, 0, 0) up"
    and ok: "view_ok eye (0, 0, 0) up"
    and "view_eye (computeActiveView r) = eye"
    and "fisheye (computeActiveView r) \<longrightarrow> 1 / 10 ^ 9 \<le> vlen eye"
    and orb: "\<not> fisheye (computeActiveView r) \<longrightarrow> 8 \<le> vlen eye \<and>
      view_mvp (computeActiveView r) = Some (multiply (rn_proj r) (view_mat (computeActiveView r)))"
    by (rule active_view_cases)
  obtain x y z where "view_xyz (transform (lookAt eye (0, 0, 0) up) p) = (x, y, z)" by (metis prod_cases3)
  with transform_w [OF ok, of p] have "transform (lookAt eye (0, 0, 0) up) p = (x, y, z, 1)" by simp
  then have "transform (multiply (perspective FOV a NEAR FAR) (lookAt eye (0, 0, 0) up)) p =
      transform (perspective FOV a NEAR FAR) (x, y, z)"
    by (cases p) (simp add: transform_def transform4_multiply)
  then show thesis using that orb assms(2) m proj by simp
qed

text \<open>C11: The GPU and the overlay put the world in the same place: in every reachable state, whatever a program's
  uniforms held before, the vertex shader with the uniforms of the active view puts a vertex on the pixel
  where \<open>projectToScreen\<close> puts labels and picking looks for it, in the fisheye view with exactly the same
  points having no place, in the orbit view between the near and the far plane; provided the two
  aspect ratios agree, which rounding of the canvas size can break.\<close>

theorem gpu_and_overlay_agree:
  fixes u :: transform_uniforms and p :: vec3
  assumes "reachable renderer_start renderer_step r" and "aspectGl (computeActiveView r) = aspectCss (computeActiveView r)"
    and "aspectGl (computeActiveView r) \<noteq> 0"
  defines "av \<equiv> computeActiveView r"
  defines "c \<equiv> vertex_position (setTransformUniforms av u) p"
  shows "window_place w h c =
    (if fisheye av \<or> NEAR \<le> snd (snd (snd c)) \<and> snd (snd (snd c)) \<le> FAR then projectToScreen av w h p else None)"
proof (cases "fisheye av")
  case True
  have "projectToScreen av w h p = map_option
      (\<lambda>q. ((ndc_x q * (1 / 2) + 1 / 2) * w, (1 - (ndc_y q * (1 / 2) + 1 / 2)) * h))
      (fisheyeProjectNdc (view_mat av) p (aspectGl av) SAT_FOV_DEG)"
    using True assms(2) by (simp add: projectToScreen_def av_def split: option.splits)
  moreover have "c = fisheyePosition (transform (view_mat av) p) (SAT_FOV_DEG / 2 * DEG) (aspectGl av) (SAT_NEAR, SAT_FAR)"
    using True by (simp add: c_def vertex_position_def setTransformUniforms_def Let_def SAT_THETA_MAX_def)
  ultimately show ?thesis using True assms(3) fisheye_place [of "aspectGl av"] by (simp only: av_def simp_thms if_True)
next
  case False
  have inv: "renderer_inv r" by (rule renderer_machine.inv_reachable [OF assms(1)])
  from False obtain m x y z a where m: "view_mvp av = Some m"
    and t: "transform m p = transform (perspective FOV a NEAR FAR) (x, y, z)"
    unfolding av_def by (rule orbit_place [OF inv])
  obtain cx cy cz cw where c: "transform (perspective FOV a NEAR FAR) (x, y, z) = (cx, cy, cz, cw)"
    by (metis prod_cases4)
  have "c = (cx, cy, cz, cw)"
    using False m t c by (simp add: c_def vertex_position_def setTransformUniforms_def Let_def)
  moreover have "projectToScreen av w h p = (if cw \<le> 1 / 10 ^ 6 then None
      else Some ((cx / cw * (1 / 2) + 1 / 2) * w, (1 - (cy / cw * (1 / 2) + 1 / 2)) * h))"
    using False m t c by (simp add: projectToScreen_def Let_def)
  ultimately show ?thesis
    using False clip_planes(2) [OF c] by (auto simp: window_place_def NEAR_def)
qed

theorem gpu_and_overlay_agree_witness:
  "\<exists>r. reachable renderer_start renderer_step r \<and>
     (\<forall>u p. snd (snd (snd (vertex_position (setTransformUniforms (computeActiveView r) u) p))) = 20 \<longrightarrow>
        window_place 800 600 (vertex_position (setTransformUniforms (computeActiveView r) u) p) =
        projectToScreen (computeActiveView r) 800 600 p)"
proof -
  let ?r = "resize 800 600 2 (createRenderer 0 300 150)"
  have "reachable renderer_start renderer_step (createRenderer 0 300 150)"
    by (rule reach_init) (auto simp: renderer_start_def)
  then have r: "reachable renderer_start renderer_step ?r" by (rule reach_step) (rule r_resize)
  have "rn_snapshot ?r = None" "canvasW ?r = 1600" "canvasH ?r = 1200" "cssW ?r = 800" "cssH ?r = 600"
    by (simp_all add: resize_def createRenderer_def first_nonzero_def js_round_def Let_def)
  then have "aspectGl (computeActiveView ?r) = 4 / 3" "aspectCss (computeActiveView ?r) = 4 / 3"
    by (simp_all add: computeActiveView_def orbit_view_def Let_def)
  then have "window_place 800 600 (vertex_position (setTransformUniforms (computeActiveView ?r) u) p) =
      projectToScreen (computeActiveView ?r) 800 600 p"
    if "snd (snd (snd (vertex_position (setTransformUniforms (computeActiveView ?r) u) p))) = 20" for u p
    using gpu_and_overlay_agree [OF r, of 800 600 u p] that by (simp add: NEAR_def FAR_def)
  with r show ?thesis by blast
qed

section \<open>Lighting\<close>

lemma gl_normalize_unit: "v \<noteq> (0, 0, 0) \<Longrightarrow> vlen (gl_normalize v) = 1"
  by (simp add: gl_normalize_def vlen_scale)

lemma smoothstep_range: "0 \<le> smoothstep a b x \<and> smoothstep a b x \<le> 1"
proof -
  define t where "t = clamp ((x - a) / (b - a)) 0 1"
  have t: "0 \<le> t" "t \<le> 1" by (simp_all add: t_def clamp_def)
  have "0 \<le> t * t * (3 - 2 * t)" using t by simp
  moreover have "1 - t * t * (3 - 2 * t) = (1 - t) * (1 - t) * (1 + 2 * t)" by (simp add: algebra_simps)
  then have "0 \<le> 1 - t * t * (3 - 2 * t)" using t by simp
  ultimately show ?thesis by (simp add: smoothstep_def Let_def t_def [symmetric])
qed

lemma gl_dot_range:
  assumes "a \<noteq> (0, 0, 0)" "b \<noteq> (0, 0, 0)"
  shows "\<bar>dot (gl_normalize a) (gl_normalize b)\<bar> \<le> 1"
  by (rule dot_unit) (use gl_normalize_unit [OF assms(1)] gl_normalize_unit [OF assms(2)] vlen_sq in \<open>metis one_power2\<close>)+

lemma night_mix_ends: "5 / 100 \<le> x \<Longrightarrow> night_mix x = 0" "x \<le> - (18 / 100) \<Longrightarrow> night_mix x = 1"
  by (simp_all add: night_mix_def smoothstep_def clamp_def Let_def field_simps)

text \<open>The Earth shader: with the ambient light the renderer sets, a point of the surface gets at least a
  quarter of the light and at most all of it, exactly the ambient quarter where the Sun is below the horizon;
  city lights are absent wherever the Sun stands clearly above the horizon and full on the deep night
  side; the atmospheric rim is a fraction; and without the day texture neither texture nor the eye
  changes anything.\<close>

theorem earth_shading:
  assumes "vNormal v \<noteq> (0, 0, 0)" and "uSunDir u \<noteq> (0, 0, 0)" and "vsub (uEye u) (vPos v) \<noteq> (0, 0, 0)"
    and "uAmbient u = 25 / 100"
  shows "25 / 100 \<le> earth_light u v \<and> earth_light u v \<le> 1 \<and>
    (sun_cosine u v \<le> 0 \<longrightarrow> earth_light u v = 25 / 100) \<and> (sun_cosine u v = 1 \<longrightarrow> earth_light u v = 1) \<and>
    0 \<le> earth_rim u v \<and> earth_rim u v \<le> 1 \<and>
    (5 / 100 \<le> sun_cosine u v \<longrightarrow> EARTH_FS (u\<lparr>uHasNight := True\<rparr>) v = EARTH_FS (u\<lparr>uHasNight := False\<rparr>) v) \<and>
    (sun_cosine u v \<le> - (18 / 100) \<and> uHasDay u \<and> uHasNight u \<longrightarrow>
      EARTH_FS u v = (vadd (vadd (vscale (uDay u (vUV v)) (25 / 100)) (uNight u (vUV v)))
        (vscale (vscale (20 / 100, 38 / 100, 66 / 100) (earth_rim u v)) (55 / 100)), 1)) \<and>
    (\<not> uHasDay u \<longrightarrow> EARTH_FS (u\<lparr>uHasNight := b, uDay := dt, uNight := nt, uEye := e\<rparr>) v = EARTH_FS u v)"
proof -
  have c: "\<bar>sun_cosine u v\<bar> \<le> 1" unfolding sun_cosine_def by (rule gl_dot_range [OF assms(1,2)])
  define k where "k = 1 - max (dot (gl_normalize (vNormal v)) (gl_normalize (vsub (uEye u) (vPos v)))) 0"
  have "0 \<le> k" "k \<le> 1" using gl_dot_range [OF assms(1,3)] by (auto simp: k_def)
  then have "0 \<le> k ^ 3" "k ^ 3 \<le> 1" by (simp_all add: power_le_one)
  then have rim: "0 \<le> earth_rim u v" "earth_rim u v \<le> 1" by (simp_all add: earth_rim_def k_def)
  have same: "sun_cosine (u\<lparr>uHasNight := x\<rparr>) v = sun_cosine u v" "earth_light (u\<lparr>uHasNight := x\<rparr>) v = earth_light u v"
    "earth_rim (u\<lparr>uHasNight := x\<rparr>) v = earth_rim u v" for x
    by (simp_all add: sun_cosine_def earth_light_def earth_rim_def)
  have zero: "vadd a (vscale q 0) = a" "vscale q 1 = q" for a q by (cases a; cases q; simp add: vadd_def vscale_def)+
  have "25 / 100 \<le> earth_light u v \<and> earth_light u v \<le> 1 \<and>
      (sun_cosine u v \<le> 0 \<longrightarrow> earth_light u v = 25 / 100) \<and> (sun_cosine u v = 1 \<longrightarrow> earth_light u v = 1)"
    using c by (auto simp: earth_light_def max_def assms(4))
  moreover have "5 / 100 \<le> sun_cosine u v \<longrightarrow> EARTH_FS (u\<lparr>uHasNight := True\<rparr>) v = EARTH_FS (u\<lparr>uHasNight := False\<rparr>) v"
    by (simp add: EARTH_FS_def same night_mix_ends zero Let_def)
  moreover have "sun_cosine u v \<le> - (18 / 100) \<and> uHasDay u \<and> uHasNight u \<longrightarrow>
      EARTH_FS u v = (vadd (vadd (vscale (uDay u (vUV v)) (25 / 100)) (uNight u (vUV v)))
        (vscale (vscale (20 / 100, 38 / 100, 66 / 100) (earth_rim u v)) (55 / 100)), 1)"
    by (auto simp: EARTH_FS_def night_mix_ends zero earth_light_def max_def Let_def assms(4))
  moreover have "\<not> uHasDay u \<longrightarrow> EARTH_FS (u\<lparr>uHasNight := b, uDay := dt, uNight := nt, uEye := e\<rparr>) v = EARTH_FS u v"
    by (simp add: EARTH_FS_def earth_light_def sun_cosine_def Let_def)
  ultimately show ?thesis using rim by blast
qed

definition noon_uniforms :: earth_uniforms where
  "noon_uniforms = \<lparr>uSunDir = (1, 0, 0), uAmbient = 25 / 100, uEye = (25, 0, 0), uHasDay = True, uHasNight = True,
     uDay = (\<lambda>_. (1, 1, 1)), uNight = (\<lambda>_. (1, 0, 0))\<rparr>"

theorem earth_shading_witness:
  "let v = \<lparr>vNormal = (1, 0, 0), vPos = (6, 0, 0), vUV = (0, 0)\<rparr>
   in earth_light noon_uniforms v = 1 \<and> earth_rim noon_uniforms v \<le> 1 \<and>
      EARTH_FS (noon_uniforms\<lparr>uHasNight := True\<rparr>) v = EARTH_FS (noon_uniforms\<lparr>uHasNight := False\<rparr>) v"
proof -
  let ?v = "\<lparr>vNormal = (1, 0, 0), vPos = (6, 0, 0), vUV = (0, 0)\<rparr>"
  have "sun_cosine noon_uniforms ?v = 1"
    by (simp add: sun_cosine_def gl_normalize_def noon_uniforms_def vlen_def hypot3_def vscale_def dot_def)
  with earth_shading [of ?v noon_uniforms] show ?thesis
    by (simp add: noon_uniforms_def vsub_def Let_def)
qed

section \<open>Sprites\<close>

lemma gl_mix_between:
  assumes "0 \<le> a" "a \<le> 1" "x \<le> y"
  shows "x \<le> gl_mix x y a \<and> gl_mix x y a \<le> y"
proof -
  have "0 \<le> (y - x) * a" "(y - x) * a \<le> y - x" using assms by (simp_all add: mult_left_le)
  then show ?thesis by (simp add: gl_mix_def algebra_simps)
qed

text \<open>A point sprite samples the atlas only inside the rectangle \<open>iconUV\<close> gives for its icon, which lies in
  the icon's own cell; it is never larger than what the GPU can draw; and where the atlas is white, as
  it is for every tinted icon, it shows exactly the colour of the object, or nothing where the icon
  is nearly transparent.\<close>

theorem sprites_show_their_icon:
  assumes "aIcon < 16" and "0 \<le> fst pc \<and> fst pc \<le> 1 \<and> 0 \<le> snd pc \<and> snd pc \<le> 1"
  shows "case POINTS_VS u ratio maxPoint aPos aColor aSize aIcon of (position, px, v) \<Rightarrow>
    px \<le> maxPoint \<and> px \<le> aSize * ratio \<and> position = vertex_position u aPos \<and>
    (\<exists>q. iconUV (Fin (real aIcon)) = Inr q \<and> inside_cell aIcon q \<and>
      (case point_uv (vUv0 v) (vUv1 v) pc of (s, t) \<Rightarrow> u0 q \<le> s \<and> s \<le> u1 q \<and> v0 q \<le> t \<and> t \<le> v1 q) \<and>
      POINTS_FS (\<lambda>_. ((1, 1, 1), alpha)) v pc = (if alpha < 5 / 100 then None else Some (aColor, alpha)))"
proof -
  let ?q = "shader_uv aIcon"
  have in_cell: "inside_cell aIcon ?q" by (rule shader_uv_inside)
  have "u0 ?q \<le> u1 ?q" "v0 ?q \<le> v1 ?q" using in_cell by (simp_all add: inside_cell_def)
  from gl_mix_between [OF _ _ this(1), of "fst pc"] gl_mix_between [OF _ _ this(2), of "snd pc"] assms(2)
  have "u0 ?q \<le> gl_mix (u0 ?q) (u1 ?q) (fst pc) \<and> gl_mix (u0 ?q) (u1 ?q) (fst pc) \<le> u1 ?q \<and>
      v0 ?q \<le> gl_mix (v0 ?q) (v1 ?q) (snd pc) \<and> gl_mix (v0 ?q) (v1 ?q) (snd pc) \<le> v1 ?q" by blast
  moreover have "mul_rgb (1, 1, 1) aColor = aColor" by (cases aColor) (simp add: mul_rgb_def)
  ultimately show ?thesis
    using iconUV_nat [OF assms(1)] in_cell by (simp add: POINTS_VS_def POINTS_FS_def point_uv_def Let_def)
qed

theorem sprites_show_their_icon_witness:
  "\<exists>q. iconUV (Fin 2) = Inr q \<and> inside_cell 2 q"
  using sprites_show_their_icon [where aIcon = 2 and pc = "(0, 0)" and ratio = 1 and maxPoint = 64 and aSize = 10 and
    aPos = "(0, 0, 0)" and aColor = "(1, 1, 1)" and alpha = 1 and u = "\<lparr>uFisheye = False, uMVP = mat_identity,
      uView = mat_identity, uThetaMax = 1, uAspect = 1, uDepthRange = (0, 1)\<rparr>"]
  by (auto simp: split_beta)

text \<open>The marker's disc fades from its centre to its rim and ends there.\<close>

lemma disc_alpha: "smoothstep 1 0 0 = 1" "smoothstep 1 0 1 = 0"
  by (simp_all add: smoothstep_def clamp_def)

lemma disc_fades:
  assumes "uUseAtlas u = False"
  shows "case MARKER_FS u pc of
     None \<Rightarrow> 1 / 2 < hypot3 (fst pc - 1 / 2) (snd pc - 1 / 2) 0
   | Some (c, a) \<Rightarrow> c = uColor u \<and> 0 \<le> a \<and> a \<le> 1"
  using assms smoothstep_range [of 1 0] by (simp add: MARKER_FS_def Let_def)

end
