(* ===== verification/Gl_Facts.thy ===== *)
theory Gl_Facts
  imports Gl_State Shader_Facts
begin

text \<open>
  The stateful GL calls of a frame draw exactly the commands of \<open>frame\<close> in Renderer_Draw: each draw
  call finds the program, attributes, uniforms, textures and switches of its command, whatever the
  draws before it and the texture uploads between frames left behind.
\<close>

section \<open>What a draw call has to find\<close>

fun program_of :: "draw_cmd \<Rightarrow> gl_program" where
  "program_of (DrawEarth s e d n) = EarthProg"
| "program_of (DrawLines b n) = LineProg"
| "program_of (DrawPointset b n) = PointsProg"
| "program_of (DrawMarker p x c a) = MarkerProg"

fun primitive_of :: "draw_cmd \<Rightarrow> primitive \<times> nat" where
  "primitive_of (DrawEarth s e d n) = (Triangles, earthIndexCount)"
| "primitive_of (DrawLines b n) = (Lines, n)"
| "primitive_of (DrawPointset b n) = (Points, n)"
| "primitive_of (DrawMarker p x c a) = (Points, 1)"

fun layout_of :: "draw_cmd \<Rightarrow> (nat \<times> attrib) list" where
  "layout_of (DrawEarth s e d n) = [(0, EarthPos, 3, 0, 0), (1, EarthNrm, 3, 0, 0), (2, EarthUv, 2, 0, 0)]"
| "layout_of (DrawLines b n) = [(0, LineVerts b, 3, 28, 0), (1, LineVerts b, 4, 28, 12)]"
| "layout_of (DrawPointset b n) =
     [(0, PosOf b, 3, 0, 0), (1, ColOf b, 3, 0, 0), (2, SizeOf b, 1, 0, 0), (3, IconOf b, 1, 0, 0)]"
| "layout_of (DrawMarker p x c a) = [(0, MarkerZero, 1, 0, 0)]"

definition view_uniforms :: "view \<Rightarrow> (string \<times> uniform_value) list" where
  "view_uniforms av =
     (''uFisheye'', UBool (fisheye av)) #
     (if fisheye av then
        [(''uView'', UMat4 (view_mat av)), (''uThetaMax'', UFloat SAT_THETA_MAX), (''uAspect'', UFloat (aspectGl av)),
         (''uDepthRange'', UVec2 SAT_NEAR SAT_FAR)]
      else (case view_mvp av of None \<Rightarrow> [] | Some m \<Rightarrow> [(''uMVP'', UMat4 m)]))"

fun uniforms_of :: "real \<Rightarrow> real \<Rightarrow> draw_cmd \<Rightarrow> (string \<times> uniform_value) list" where
  "uniforms_of mp ratio (DrawEarth s e d n) =
     [(''uSunDir'', UVec3 s), (''uAmbient'', UFloat (25 / 100)), (''uEye'', UVec3 e), (''uHasDay'', UBool d),
      (''uHasNight'', UBool n), (''uDay'', UInt 0), (''uNight'', UInt 1)]"
| "uniforms_of mp ratio (DrawLines b n) = []"
| "uniforms_of mp ratio (DrawPointset b n) =
     [(''uDpr'', UFloat ratio), (''uMaxPoint'', UFloat mp), (''uAtlas'', UInt 2)]"
| "uniforms_of mp ratio (DrawMarker p x c a) =
     [(''uWorldPos'', UVec3 p), (''uSize'', UFloat x), (''uColor'', UVec3 c), (''uUseAtlas'', UBool a), (''uAtlas'', UInt 2)] @
     (if a then [(''uUv0'', UVec2 (u0 satUV) (v0 satUV)), (''uUv1'', UVec2 (u1 satUV) (v1 satUV))] else [])"

definition has_uniforms :: "(string \<Rightarrow> uniform_value option) \<Rightarrow> (string \<times> uniform_value) list \<Rightarrow> bool" where
  "has_uniforms f us \<longleftrightarrow> list_all (\<lambda>(name, v). f name = Some v) us"

definition faithful :: "real \<Rightarrow> texture_handle \<Rightarrow> real \<Rightarrow> view \<Rightarrow> draw_cmd \<Rightarrow> drawn \<Rightarrow> bool" where
  "faithful mp tex ratio av cmd d \<longleftrightarrow>
     d_program d = Some (program_of cmd) \<and> (d_primitive d, d_count d) = primitive_of cmd \<and>
     d_attribs d = map_of (layout_of cmd) \<and>
     d_elements d = (if program_of cmd = EarthProg then Some EarthIdx else None) \<and>
     has_uniforms (d_uniforms d) (view_uniforms av) \<and> has_uniforms (d_uniforms d) (uniforms_of mp ratio cmd) \<and>
     d_blend d = (program_of cmd \<noteq> EarthProg) \<and> d_depth_mask d = depth_mask cmd \<and> d_depth_test d \<and>
     d_textures d 0 = or_atlas (day tex) \<and> d_textures d 1 = or_atlas (night tex) \<and> d_textures d 2 = Some AtlasTex"

section \<open>State between the calls\<close>

definition samplers :: "real \<Rightarrow> webgl \<Rightarrow> bool" where
  "samplers mp g \<longleftrightarrow>
     has_uniforms (g_uniforms g EarthProg) [(''uDay'', UInt 0), (''uNight'', UInt 1)] \<and>
     has_uniforms (g_uniforms g PointsProg) [(''uAtlas'', UInt 2), (''uMaxPoint'', UFloat mp)] \<and>
     has_uniforms (g_uniforms g MarkerProg) [(''uAtlas'', UInt 2)]"

definition gl_ready :: "real \<Rightarrow> webgl \<Rightarrow> bool" where
  "gl_ready mp g \<longleftrightarrow> samplers mp g \<and> (\<forall>i. g_enabled g i \<longrightarrow> i < 4)"

definition textured :: "texture_handle \<Rightarrow> webgl \<Rightarrow> bool" where
  "textured tex g \<longleftrightarrow> g_textures g 0 = or_atlas (day tex) \<and> g_textures g 1 = or_atlas (night tex) \<and>
     g_textures g 2 = Some AtlasTex \<and> g_depth_test g"

lemma webgl_run_simps [simp]:
  "webgl_run [] g = g"
  "webgl_run (c # cs) g = webgl_run cs (webgl_step c g)"
  "webgl_run (cs @ ds) g = webgl_run ds (webgl_run cs g)"
  by (simp_all add: webgl_run_def)

text \<open>After \<open>useProgram\<close>, \<open>disableAttribs\<close> and \<open>setTransformUniforms\<close>.\<close>

definition started :: "gl_program \<Rightarrow> view \<Rightarrow> webgl \<Rightarrow> webgl \<Rightarrow> bool" where
  "started prog av g g' \<longleftrightarrow>
     g_program g' = Some prog \<and> (\<forall>i. \<not> g_enabled g' i) \<and> has_uniforms (g_uniforms g' prog) (view_uniforms av) \<and>
     g_textures g' = g_textures g \<and> g_drawn g' = g_drawn g \<and> g_depth_test g' = g_depth_test g"

lemma use_calls_started:
  assumes "gl_ready mp g"
  shows "started prog av g (webgl_run (use_calls prog av) g) \<and> samplers mp (webgl_run (use_calls prog av) g)"
proof -
  have four: "[0..<4] = [0, 1, 2, 3::nat]" by (simp add: upt_rec)
  have "\<not> g_enabled (webgl_run (use_calls prog av) g) i" for i
    using assms by (cases "i < 4") (auto simp: gl_ready_def use_calls_def disableAttribs_def transform_calls_def four split: option.splits)
  moreover have "has_uniforms (g_uniforms (webgl_run (use_calls prog av) g) prog) (view_uniforms av)"
    by (auto simp: use_calls_def disableAttribs_def transform_calls_def four has_uniforms_def view_uniforms_def split: option.splits)
  moreover have "samplers mp (webgl_run (use_calls prog av) g)"
    using assms by (cases prog) (auto simp: gl_ready_def samplers_def use_calls_def disableAttribs_def transform_calls_def four
      has_uniforms_def split: option.splits)
  ultimately show ?thesis
    by (auto simp: started_def use_calls_def disableAttribs_def transform_calls_def four split: option.splits)
qed

lemma attribs_0123:
  fixes f :: "nat \<Rightarrow> attrib option"
  shows "f 0 = map_of xs 0 \<Longrightarrow> f 1 = map_of xs 1 \<Longrightarrow> f 2 = map_of xs 2 \<Longrightarrow> f 3 = map_of xs 3 \<Longrightarrow>
    (\<And>i. 4 \<le> i \<Longrightarrow> f i = map_of xs i) \<Longrightarrow> f = map_of xs"
proof (rule ext)
  fix i :: nat
  assume *: "f 0 = map_of xs 0" "f 1 = map_of xs 1" "f 2 = map_of xs 2" "f 3 = map_of xs 3"
    "\<And>i. 4 \<le> i \<Longrightarrow> f i = map_of xs i"
  have "i = 0 \<or> i = 1 \<or> i = 2 \<or> i = 3 \<or> 4 \<le> i" by linarith
  with * show "f i = map_of xs i" by blast
qed

definition draws_cmd :: "real \<Rightarrow> texture_handle \<Rightarrow> real \<Rightarrow> view \<Rightarrow> draw_cmd \<Rightarrow> webgl \<Rightarrow> webgl \<Rightarrow> bool" where
  "draws_cmd mp tex ratio av cmd g g' \<longleftrightarrow>
     (\<exists>d. g_drawn g' = g_drawn g @ [d] \<and> faithful mp tex ratio av cmd d) \<and>
     gl_ready mp g' \<and> textured tex g'"

lemma draw_calls_use: "draw_calls ratio av cmd =
    use_calls (program_of cmd) av @ drop (length (use_calls (program_of cmd) av)) (draw_calls ratio av cmd)"
  by (cases cmd) simp_all

lemma view_uniform_names:
  "has_uniforms f (view_uniforms av) \<Longrightarrow>
     name \<notin> {''uFisheye'', ''uView'', ''uThetaMax'', ''uAspect'', ''uDepthRange'', ''uMVP''} \<Longrightarrow>
     has_uniforms (f(name \<mapsto> v)) (view_uniforms av)"
  by (auto simp: has_uniforms_def view_uniforms_def split: option.splits if_splits)

lemma draw_faithful:
  assumes "gl_ready mp g" and "textured tex g"
  shows "draws_cmd mp tex ratio av cmd g (webgl_run (draw_calls ratio av cmd) g)"
proof -
  define g1 where "g1 = webgl_run (use_calls (program_of cmd) av) g"
  have st: "started (program_of cmd) av g g1" "samplers mp g1"
    using use_calls_started [OF assms(1)] by (simp_all add: g1_def)
  have eq: "webgl_run (draw_calls ratio av cmd) g =
      webgl_run (drop (length (use_calls (program_of cmd) av)) (draw_calls ratio av cmd)) g1"
    by (subst draw_calls_use) (simp only: webgl_run_simps g1_def)
  show ?thesis unfolding eq using st assms(2)
    by (cases cmd) (auto simp: draws_cmd_def faithful_def started_def attrib_calls_def draw_record_def gl_ready_def
        samplers_def textured_def view_uniform_names intro!: attribs_0123, simp_all add: has_uniforms_def)
qed

lemma draws_faithful:
  assumes "gl_ready mp g" and "textured tex g"
  shows "\<exists>ds. g_drawn (webgl_run (concat (map (draw_calls ratio av) cmds)) g) = g_drawn g @ ds \<and>
    list_all2 (faithful mp tex ratio av) cmds ds \<and>
    gl_ready mp (webgl_run (concat (map (draw_calls ratio av) cmds)) g)"
  using assms
proof (induction cmds arbitrary: g)
  case (Cons cmd cmds)
  from draw_faithful [OF Cons.prems, of ratio av cmd] obtain d where
    d: "g_drawn (webgl_run (draw_calls ratio av cmd) g) = g_drawn g @ [d]" "faithful mp tex ratio av cmd d"
    and ready: "gl_ready mp (webgl_run (draw_calls ratio av cmd) g)" "textured tex (webgl_run (draw_calls ratio av cmd) g)"
    by (auto simp: draws_cmd_def)
  from Cons.IH [OF ready] obtain ds where
    "g_drawn (webgl_run (concat (map (draw_calls ratio av) (cmd # cmds))) g) = g_drawn g @ (d # ds)"
    "list_all2 (faithful mp tex ratio av) cmds ds"
    "gl_ready mp (webgl_run (concat (map (draw_calls ratio av) (cmd # cmds))) g)"
    by (auto simp: d(1))
  with d(2) show ?case by (intro exI [of _ "d # ds"]) simp
qed simp

lemma begin_frame_ready:
  assumes "gl_ready mp g"
  shows "gl_ready mp (webgl_run (begin_frame tex r) g) \<and> textured tex (webgl_run (begin_frame tex r) g) \<and>
    g_drawn (webgl_run (begin_frame tex r) g) = g_drawn g"
  using assms by (simp add: begin_frame_def gl_ready_def samplers_def textured_def)

lemma frame_calls_ready:
  assumes "gl_ready mp g"
  shows "\<exists>ds. g_drawn (webgl_run (frame_calls mp tex now r) g) = g_drawn g @ ds \<and>
    list_all2 (faithful mp tex (dpr r) (computeActiveView r)) (fst (snd (frame mp tex now r))) ds \<and>
    gl_ready mp (webgl_run (frame_calls mp tex now r) g)"
  using draws_faithful [of mp "webgl_run (begin_frame tex r) g" tex] begin_frame_ready [OF assms, of tex r]
  by (simp add: frame_calls_def)

lemma event_ready: "gl_ready mp g \<Longrightarrow> gl_ready mp (webgl_run (event_calls mp e) g)"
proof (cases e)
  case (Frame tex now r)
  assume "gl_ready mp g"
  from frame_calls_ready [OF this, of tex now r] show ?thesis by (auto simp: Frame)
next
  case (Upload t completes)
  assume "gl_ready mp g"
  then show ?thesis by (simp add: Upload gl_ready_def samplers_def)
qed

lemma setup_ready: "gl_ready mp (webgl_run (setup_calls mp) fresh_webgl)"
  by (simp add: setup_calls_def fresh_webgl_def gl_ready_def samplers_def has_uniforms_def)

section \<open>Properties\<close>

text \<open>C7: The GL calls of a frame refine the list of draws of \<open>frame\<close>: after the setup and any earlier frames, in
  either view, and any texture uploads between them, completed or cut off by an error, each draw call
  sees the program of its draw, exactly that program's attributes with their buffers and strides, the
  transform of the active view, the draw's own uniforms, the samplers on their units with the Earth
  textures or the atlas in place of one that is missing, and the right blending and depth switches.\<close>

theorem frame_calls_faithful:
  "let g = fold (\<lambda>e. webgl_run (event_calls mp e)) evs (webgl_run (setup_calls mp) fresh_webgl)
   in \<exists>ds. g_drawn (webgl_run (frame_calls mp tex now r) g) = g_drawn g @ ds \<and>
     list_all2 (faithful mp tex (dpr r) (computeActiveView r)) (fst (snd (frame mp tex now r))) ds"
proof -
  have "gl_ready mp (fold (\<lambda>e. webgl_run (event_calls mp e)) evs g)" if "gl_ready mp g" for g
    using that by (induction evs arbitrary: g) (simp_all add: event_ready)
  from frame_calls_ready [OF this [OF setup_ready], of tex now r] show ?thesis unfolding Let_def by blast
qed

end
