(* ===== verification/Gl_Setup.thy ===== *)
theory Gl_Setup
  imports Gl_Facts
begin

text \<open>
  The first part of \<open>createRenderer\<close> of frontend/js/renderer.js: the contexts, the four programs with
  their attribute locations and every way this throws, and the sizes of the buffers. What the browser
  gives or refuses is the argument \<open>gl_api\<close>.
\<close>

section \<open>Contexts and programs\<close>

datatype shader_type = VertexShader | FragmentShader

text \<open>Contexts the canvases give, and the log of a shader that does not compile or a program that does
  not link.\<close>

record gl_api =
  gives_context :: "string \<Rightarrow> bool"
  gives_2d :: bool
  compile_log :: "gl_program \<Rightarrow> shader_type \<Rightarrow> string option"
  link_log :: "gl_program \<Rightarrow> string option"

datatype setup_error =
    NoWebGL
  | No2D
  | CompileFailed string
  | LinkFailed string

datatype setup_call =
    GetContext string
  | GetOverlay2d
  | CreateProgram gl_program
  | CreateShader gl_program shader_type
  | CompileShader gl_program shader_type
  | DeleteShader gl_program shader_type
  | AttachShader gl_program shader_type
  | BindAttribLocation gl_program nat string
  | LinkProgram gl_program

text \<open>A step is its outcome and the calls made up to there; \<open>then_do\<close> goes on unless it threw.\<close>

type_synonym 'a gl_init = "(setup_error + 'a) \<times> setup_call list"

definition calls_only :: "setup_call list \<Rightarrow> unit gl_init" where
  "calls_only cs = (Inr (), cs)"

definition then_do :: "'a gl_init \<Rightarrow> 'b gl_init \<Rightarrow> 'b gl_init" where
  "then_do m n = (case fst m of Inl e \<Rightarrow> (Inl e, snd m) | Inr _ \<Rightarrow> (fst n, snd m @ snd n))"

definition throw_if :: "bool \<Rightarrow> setup_error \<Rightarrow> unit gl_init" where
  "throw_if b e = (if b then Inl e else Inr (), [])"

definition compile :: "gl_api \<Rightarrow> gl_program \<Rightarrow> shader_type \<Rightarrow> unit gl_init" where
  "compile api p ty =
     (case compile_log api p ty of
        None \<Rightarrow> (Inr (), [CreateShader p ty, CompileShader p ty])
      | Some info \<Rightarrow> (Inl (CompileFailed info), [CreateShader p ty, CompileShader p ty, DeleteShader p ty]))"

definition program :: "gl_api \<Rightarrow> gl_program \<Rightarrow> (string \<times> nat) list \<Rightarrow> unit gl_init" where
  "program api p attribBindings =
     then_do (calls_only [CreateProgram p])
     (then_do (compile api p VertexShader)
     (then_do (compile api p FragmentShader)
     (then_do (calls_only ([AttachShader p VertexShader, AttachShader p FragmentShader] @
        map (\<lambda>(name, i). BindAttribLocation p i name) attribBindings @ [LinkProgram p]))
     (case link_log api p of
        Some info \<Rightarrow> (Inl (LinkFailed info), [])
      | None \<Rightarrow> calls_only [DeleteShader p VertexShader, DeleteShader p FragmentShader]))))"

fun ATTRIBS :: "gl_program \<Rightarrow> (string \<times> nat) list" where
  "ATTRIBS EarthProg = [(''aPos'', 0), (''aNormal'', 1), (''aUV'', 2)]"
| "ATTRIBS LineProg = [(''aPos'', 0), (''aColor'', 1)]"
| "ATTRIBS PointsProg = [(''aPos'', 0), (''aColor'', 1), (''aSize'', 2), (''aIcon'', 3)]"
| "ATTRIBS MarkerProg = [(''aVertex'', 0)]"

definition get_contexts :: "gl_api \<Rightarrow> unit gl_init" where
  "get_contexts api =
     then_do (if gives_context api ''webgl'' then calls_only [GetContext ''webgl'']
              else if gives_context api ''experimental-webgl''
              then calls_only [GetContext ''webgl'', GetContext ''experimental-webgl'']
              else (Inl NoWebGL, [GetContext ''webgl'', GetContext ''experimental-webgl'']))
     (then_do (calls_only [GetOverlay2d]) (throw_if (\<not> gives_2d api) No2D))"

definition create_programs :: "gl_api \<Rightarrow> unit gl_init" where
  "create_programs api =
     then_do (get_contexts api)
     (then_do (program api EarthProg (ATTRIBS EarthProg))
     (then_do (program api LineProg (ATTRIBS LineProg))
     (then_do (program api PointsProg (ATTRIBS PointsProg))
              (program api MarkerProg (ATTRIBS MarkerProg)))))"

section \<open>Buffers\<close>

definition PLANET_CAP :: nat where "PLANET_CAP = length PLANET_NAMES"

text \<open>The buffers allocated at the start with the number of their elements (floats, or indices for
  \<open>EarthIdx\<close>); the trail and velocity buffers are created empty.\<close>

definition initial_buffers :: "(gl_buffer \<times> nat) list" where
  "initial_buffers =
     (let sphere = buildSphere EARTH_R 64 96; graticule = buildGraticule EARTH_R
      in [(EarthPos, 3 * length (positions sphere)), (EarthNrm, 3 * length (normals sphere)),
          (EarthUv, 2 * length (uvs sphere)), (EarthIdx, length (indices sphere)),
          (LineVerts GratBuf, 7 * length graticule),
          (PosOf ObjectPoints, MAX_OBJECTS * 3), (ColOf ObjectPoints, MAX_OBJECTS * 3),
          (SizeOf ObjectPoints, MAX_OBJECTS), (IconOf ObjectPoints, MAX_OBJECTS),
          (ColOf StarPoints, STAR_COUNT * 3), (SizeOf StarPoints, STAR_COUNT), (IconOf StarPoints, STAR_COUNT),
          (PosOf StarPoints, STAR_COUNT * 3),
          (PosOf PlanetPoints, PLANET_CAP * 3), (ColOf PlanetPoints, PLANET_CAP * 3),
          (SizeOf PlanetPoints, PLANET_CAP), (IconOf PlanetPoints, PLANET_CAP),
          (LineVerts TrailBuf, 0), (LineVerts VelBuf, 0), (MarkerZero, 1)])"

text \<open>The size of a buffer in a state: only the trail and velocity buffers are allocated anew, with the
  floats there are; the other updates write into what was allocated.\<close>

definition buffer_floats :: "renderer \<Rightarrow> gl_buffer \<Rightarrow> nat" where
  "buffer_floats r b =
     (case b of
        LineVerts TrailBuf \<Rightarrow> 7 * length (tb_vertices (trailBuf r))
      | LineVerts VelBuf \<Rightarrow> (case velSegment r of None \<Rightarrow> 0 | Some s \<Rightarrow> 14)
      | _ \<Rightarrow> (case map_of initial_buffers b of None \<Rightarrow> 0 | Some n \<Rightarrow> n))"

text \<open>The floats an attribute reads for \<open>n\<close> vertices, stride and offset in bytes.\<close>

fun floats_read :: "nat \<Rightarrow> attrib \<Rightarrow> nat" where
  "floats_read n (b, components, stride, offset) =
     (if n = 0 then 0
      else (n - 1) * (if stride = 0 then components else stride div 4) + offset div 4 + components)"

text \<open>The vertices a draw touches: the largest index of the globe, or the count.\<close>

definition vertices_drawn :: "draw_cmd \<Rightarrow> nat" where
  "vertices_drawn cmd = (case cmd of
      DrawEarth s e d n \<Rightarrow> Max (set (indices (buildSphere EARTH_R 64 96))) + 1
    | _ \<Rightarrow> snd (primitive_of cmd))"

section \<open>The atlas texture\<close>

text \<open>The canvas is sized, painted with \<open>paintAtlas (CELL * atlasScale)\<close> and uploaded once; the texture has
  its mipmaps before its parameters.\<close>

definition atlas_cell :: "real \<Rightarrow> real" where
  "atlas_cell devicePixelRatio = real CELL * of_int (atlasScale devicePixelRatio)"

definition atlas_calls :: "real \<Rightarrow> nat \<Rightarrow> gl_call list" where
  "atlas_calls devicePixelRatio tex =
     [CanvasFactory,
      SetCanvasSize (nat (atlas_canvas_size devicePixelRatio)) (nat (atlas_canvas_size devicePixelRatio)),
      GetContext2d, GlCreateTexture, GlBindTexture (Some tex), GlTexImage2D, GlGenerateMipmap,
      GlTexParameteri ''TEXTURE_MIN_FILTER'' ''LINEAR_MIPMAP_LINEAR'',
      GlTexParameteri ''TEXTURE_MAG_FILTER'' ''LINEAR'',
      GlTexParameteri ''TEXTURE_WRAP_S'' ''CLAMP_TO_EDGE'',
      GlTexParameteri ''TEXTURE_WRAP_T'' ''CLAMP_TO_EDGE'']"

definition create_atlas :: "real \<Rightarrow> gl_world \<Rightarrow> canvas \<times> gl_world" where
  "create_atlas devicePixelRatio w =
     (run_canvas (paintAtlas (atlas_cell devicePixelRatio)) blank,
      fold gl_step (atlas_calls devicePixelRatio (length (textures w))) w)"

end
