(* ===== verification/Live_Page.thy ===== *)
theory Live_Page
  imports Whole_Page Gl_Setup
begin

text \<open>
  The whole of frontend/js/main.js: the page of Whole_Page with the renderer. \<open>boot\<close> makes the renderer
  or shows why it cannot, the store's listener and the connection's callback hand it settings and
  snapshots, a pointer on the canvas turns the camera and picks, and each animation frame advances
  its clock. \<open>dateNow\<close> is \<open>Date.now()\<close>, \<open>now\<close> is \<open>performance.now()\<close>.
\<close>

section \<open>State\<close>

record live =
  page_of :: "ui \<times> app"
  scene :: renderer
  clicks :: drag

section \<open>Callbacks\<close>

definition live_effect :: "(string \<Rightarrow> real option) \<Rightarrow> real \<Rightarrow> real \<Rightarrow> effect
    \<Rightarrow> (ui \<times> app) \<times> renderer \<Rightarrow> (ui \<times> app) \<times> renderer" where
  "live_effect dp dateNow now e q =
     (let p' = page_effect dp dateNow now e (fst q)
      in (p', case e of
            CallState m \<Rightarrow> setSnapshot dp (Some (getSnapshot (a_model (snd p')))) now (snd q)
          | _ \<Rightarrow> snd q))"

definition live_conn :: "(string \<Rightarrow> real option) \<Rightarrow> real \<Rightarrow> real \<Rightarrow> conn_event
    \<Rightarrow> (ui \<times> app) \<times> renderer \<Rightarrow> (ui \<times> app) \<times> renderer" where
  "live_conn dp dateNow now ev q =
     (case q of ((u, a), r) \<Rightarrow>
        let (w', es) = deliver ev (a_world a)
        in fold (live_effect dp dateNow now) es ((u, a\<lparr>a_world := w'\<rparr>), r))"

definition live_endpoint :: "(string \<Rightarrow> real option) \<Rightarrow> real \<Rightarrow> real \<Rightarrow> bool \<Rightarrow> string \<Rightarrow> int
    \<Rightarrow> (ui \<times> app) \<times> renderer \<Rightarrow> (ui \<times> app) \<times> renderer" where
  "live_endpoint dp dateNow now ok h p q =
     (case q of ((u, a), r) \<Rightarrow>
        live_conn dp dateNow now (SetEndpoint h p ok) ((u, a\<lparr>currentHost := h, currentPort := p\<rparr>), r))"

text \<open>The listener of \<open>boot\<close>; \<open>a_renderer\<close> records what the renderer was given.\<close>

definition live_settings :: "(string \<Rightarrow> real option) \<Rightarrow> real \<Rightarrow> real \<Rightarrow> bool \<Rightarrow> settings
    \<Rightarrow> (ui \<times> app) \<times> renderer \<Rightarrow> (ui \<times> app) \<times> renderer" where
  "live_settings dp dateNow now ok next q =
     (case q of ((u, a), r) \<Rightarrow>
        let a1 = a\<lparr>a_renderer := normalizeSettings (applyRendererSettings next)\<rparr>;
            r1 = setSettings (applyRendererSettings next) r;
            resolved = resolveHost (a_hostname a1) next
        in if resolved \<noteq> currentHost a1 \<or> port next \<noteq> currentPort a1
           then live_endpoint dp dateNow now ok resolved (port next) ((u, a1), r1) else ((u, a1), r1))"

definition live_calls :: "(string \<Rightarrow> real option) \<Rightarrow> real \<Rightarrow> real \<Rightarrow> bool \<Rightarrow> calls
    \<Rightarrow> (ui \<times> app) \<times> renderer \<Rightarrow> (ui \<times> app) \<times> renderer" where
  "live_calls dp dateNow now ok calls q =
     fold (\<lambda>(cb, s) q. if cb = main_listener then live_settings dp dateNow now ok s q else q) calls q"

definition live_callback :: "(string \<Rightarrow> real option) \<Rightarrow> real \<Rightarrow> real \<Rightarrow> bool \<Rightarrow> ui_callback
    \<Rightarrow> (ui \<times> app) \<times> renderer \<Rightarrow> (ui \<times> app) \<times> renderer" where
  "live_callback dp dateNow now ok cb q =
     (case cb of
        OnReconnect \<Rightarrow>
          let s = get (a_store (snd (fst q)))
          in live_endpoint dp dateNow now ok (resolveHost (a_hostname (snd (fst q))) s) (port s) q
      | OnSelect i \<Rightarrow> (fst q, setSelected (Some i) (snd q)))"

section \<open>Boot\<close>

fun setup_message :: "setup_error \<Rightarrow> string" where
  "setup_message NoWebGL = ''WebGL is not available: getContext(\"webgl\") returned null. The renderer requires a WebGL 1 context.''"
| "setup_message No2D = ''Overlay 2D context is not available (getContext(\"2d\") returned null).''"
| "setup_message (CompileFailed info) = ''Shader compile failed: '' @ info"
| "setup_message (LinkFailed info) = ''Program link failed: '' @ info"

definition showFatalError :: "setup_error \<Rightarrow> string" where
  "showFatalError err = ''Unable to initialize the WebGL renderer: '' @ setup_message err"

datatype started_page = Fatal string | Running live

text \<open>The sizes of the canvas and its device pixel ratio, before the first \<open>resize\<close>.\<close>

record canvas_box =
  clientW :: real
  clientH :: real
  glW :: real
  glH :: real
  pixelRatio :: real

definition live_boot :: "(string \<Rightarrow> real option) \<Rightarrow> storage \<Rightarrow> jsval \<Rightarrow> string \<Rightarrow> bool \<Rightarrow> gl_api \<Rightarrow> canvas_box \<Rightarrow> real
    \<Rightarrow> js_error + started_page" where
  "live_boot dp stg siteDefaults hostname ok api box dateNow =
     rbind (createSettings stg siteDefaults) (\<lambda>store0.
       case fst (create_programs api) of
         Inl e \<Rightarrow> Inr (Fatal (showFatalError e))
       | Inr _ \<Rightarrow>
           let s = get store0;
               h = resolveHost hostname s;
               r = setSettings (applyRendererSettings s) (createRenderer dateNow (glW box) (glH box));
               (u, store1) = createUi store0;
               store2 = onChange main_listener store1;
               u1 = updateConnection Connecting (wsUrl h (port s)) u;
               a = \<lparr>a_hostname = hostname, a_store = store2, a_model = createModel,
                    a_world = \<lparr>the_conn = createConnection h (port s), pending = {}, live = {}, opened = {}\<rparr>,
                    a_renderer = normalizeSettings (applyRendererSettings s), a_snapshot = None,
                    currentHost = h, currentPort = port s,
                    shown_status = Connecting, shown_url = wsUrl h (port s)\<rparr>;
               q = live_conn dp 0 0 (Connect ok) ((u1, a), resize (clientW box) (clientH box) (pixelRatio box) r)
           in Inr (Running \<lparr>page_of = fst q, scene = snd q, clicks = drag_start\<rparr>))"

text \<open>The start of main.js: the site's defaults are what \<open>loadSiteConfig\<close> makes of the fetch, whose warnings
  go to the console.\<close>

definition loadSiteDefaults :: "fetch_result \<Rightarrow> jsval" where
  "loadSiteDefaults fetched = JObj (fst (loadSiteConfig fetched))"

definition start_page :: "(string \<Rightarrow> real option) \<Rightarrow> fetch_result \<Rightarrow> storage \<Rightarrow> string \<Rightarrow> bool \<Rightarrow> gl_api
    \<Rightarrow> canvas_box \<Rightarrow> real \<Rightarrow> js_error + started_page" where
  "start_page dp fetched stg = live_boot dp stg (loadSiteDefaults fetched)"

section \<open>Steps\<close>

datatype live_event =
    LiveUi ui_event bool
  | LiveNet conn_event
  | PointerDown real real int
  | PointerMove real real
  | PointerUp real real real real
  | PointerCancel
  | Wheel real
  | WindowResize real real real
  | AnimationFrame real

text \<open>A press on the canvas: the camera's handler, then the one of \<open>wireOverlayPicking\<close>.\<close>

definition live_up :: "real \<Rightarrow> real \<Rightarrow> real \<Rightarrow> real \<Rightarrow> live \<Rightarrow> live" where
  "live_up left top' x y l =
     (let r = (scene l)\<lparr>rn_camera := onUp (rn_camera (scene l))\<rparr>
      in case pointerup left top' x y (clicks l) of
          None \<Rightarrow> l\<lparr>scene := r\<rparr>
        | Some (px, py) \<Rightarrow>
            let i = pick r px py
            in l\<lparr>scene := setSelected i r, page_of := (ui_setSelected i (fst (page_of l)), snd (page_of l))\<rparr>)"

text \<open>The panel's events but \<open>setSelected\<close>, which only a click on the canvas calls.\<close>

fun form_event :: "ui_event \<Rightarrow> bool" where
  "form_event (CallSetSelected i) \<longleftrightarrow> False"
| "form_event ev \<longleftrightarrow> page_event ev"

inductive live_step :: "(string \<Rightarrow> real option) \<Rightarrow> live \<Rightarrow> live_event \<times> real \<times> real \<Rightarrow> live \<Rightarrow> bool" for dp where
  live_ui: "form_event ev \<Longrightarrow> page_of l = (u, a) \<Longrightarrow> ui_handle dp ev (u, a_store a) = Inr ((u', st'), calls) \<Longrightarrow>
    lastSnapNow (scene l) \<le> now \<Longrightarrow>
    q = fold (live_callback dp dateNow now ok) (ui_callbacks ev)
      (live_calls dp dateNow now ok calls ((u', a\<lparr>a_store := st'\<rparr>), scene l)) \<Longrightarrow>
    live_step dp l (LiveUi ev ok, dateNow, now) (l\<lparr>page_of := fst q, scene := snd q\<rparr>)"
| live_net: "network_event ev \<Longrightarrow> enabled ev (a_world (snd (page_of l))) \<Longrightarrow> lastSnapNow (scene l) \<le> now \<Longrightarrow>
    q = live_conn dp dateNow now ev (page_of l, scene l) \<Longrightarrow>
    live_step dp l (LiveNet ev, dateNow, now) (l\<lparr>page_of := fst q, scene := snd q\<rparr>)"
| live_down: "live_step dp l (PointerDown x y pid, dateNow, now)
    (l\<lparr>scene := (scene l)\<lparr>rn_camera := onDown x y pid (rn_camera (scene l))\<rparr>, clicks := pointerdown x y (clicks l)\<rparr>)"
| live_move: "live_step dp l (PointerMove x y, dateNow, now)
    (l\<lparr>scene := (scene l)\<lparr>rn_camera := onMove x y (rn_camera (scene l))\<rparr>, clicks := pointermove x y (clicks l)\<rparr>)"
| live_up_step: "live_step dp l (PointerUp left top' x y, dateNow, now) (live_up left top' x y l)"
| live_cancel: "live_step dp l (PointerCancel, dateNow, now)
    (l\<lparr>scene := (scene l)\<lparr>rn_camera := onUp (rn_camera (scene l))\<rparr>\<rparr>)"
| live_wheel: "live_step dp l (Wheel dy, dateNow, now)
    (l\<lparr>scene := (scene l)\<lparr>rn_camera := onWheel dy (rn_camera (scene l))\<rparr>\<rparr>)"
| live_resize: "live_step dp l (WindowResize w h d, dateNow, now) (l\<lparr>scene := resize w h d (scene l)\<rparr>)"
| live_frame: "live_step dp l (AnimationFrame t, dateNow, now) (l\<lparr>scene := snd (sceneNowMs t (scene l))\<rparr>)"

inductive_cases live_stepE: "live_step dp l e l'"

definition live_start :: "(string \<Rightarrow> real option) \<Rightarrow> live \<Rightarrow> bool" where
  "live_start dp l \<longleftrightarrow> (\<exists>stg site hostname ok api box dateNow.
     live_boot dp stg site hostname ok api box dateNow = Inr (Running l))"

end
