(* ===== verification/Icon_Facts.thy ===== *)
theory Icon_Facts
  imports Icon_Painter Asset_Facts
begin

text \<open>
  The painters of frontend/js/atlas.js keep to their cells: the calls of a painter change neither
  the stack nor the origin, so what one icon leaves behind never reaches the next, and the bounds of
  each painter's own calls bound its ink.
\<close>

section \<open>Running the calls of one painter\<close>

fun plain :: "canvas_call \<Rightarrow> bool" where
  "plain Save = False"
| "plain Restore = False"
| "plain (Translate x y) = False"
| "plain _ = True"

text \<open>The first call that concerns the path is \<open>beginPath\<close>.\<close>

fun path_first :: "canvas_call list \<Rightarrow> bool" where
  "path_first (BeginPath # cs) = True"
| "path_first (FillStyle c # cs) = path_first cs"
| "path_first (StrokeStyle c # cs) = path_first cs"
| "path_first (LineWidth w # cs) = path_first cs"
| "path_first _ = False"

definition fits :: "real \<Rightarrow> real \<Rightarrow> box \<Rightarrow> bool" where
  "fits lo hi b = (case b of (l, t, r, bt) \<Rightarrow> lo \<le> l \<and> lo \<le> t \<and> r \<le> hi \<and> bt \<le> hi)"

definition call_fits :: "real \<Rightarrow> real \<Rightarrow> real \<Rightarrow> canvas_call \<Rightarrow> bool" where
  "call_fits lo hi d c \<longleftrightarrow>
     plain c \<and> (case path_box c of None \<Rightarrow> True | Some b \<Rightarrow> fits lo hi b) \<and>
     (case c of LineWidth w \<Rightarrow> w \<le> 2 * d | _ \<Rightarrow> True)"

text \<open>A box in the cell with the given offset, in the coordinates of the atlas.\<close>

definition in_cell :: "real \<times> real \<Rightarrow> real \<Rightarrow> real \<Rightarrow> box \<Rightarrow> bool" where
  "in_cell off lo hi b \<longleftrightarrow> (case b of (l, t, r, bt) \<Rightarrow>
     fst off + lo \<le> l \<and> snd off + lo \<le> t \<and> r \<le> fst off + hi \<and> bt \<le> snd off + hi)"

fun ink_colours :: "colour \<Rightarrow> colour \<Rightarrow> canvas_call list \<Rightarrow> colour list" where
  "ink_colours f k [] = []"
| "ink_colours f k (FillStyle c # cs) = ink_colours c k cs"
| "ink_colours f k (StrokeStyle c # cs) = ink_colours f c cs"
| "ink_colours f k (Fill # cs) = f # ink_colours f k cs"
| "ink_colours f k (Stroke # cs) = k # ink_colours f k cs"
| "ink_colours f k (c # cs) = ink_colours f k cs"

lemma run_canvas_simps [simp]:
  "run_canvas [] s = s"
  "run_canvas (c # cs) s = run_canvas cs (canvas_step c s)"
  "run_canvas (cs @ ds) s = run_canvas ds (run_canvas cs s)"
  by (simp_all add: run_canvas_def)

lemma plain_step:
  assumes "plain c"
  shows "saved (canvas_step c s) = saved s" "origin (pen (canvas_step c s)) = origin (pen s)"
    "canvas_step c (s\<lparr>saved := q\<rparr>) = (canvas_step c s)\<lparr>saved := q\<rparr>"
    "canvas_step c (s\<lparr>ink := k @ ink s\<rparr>) = (canvas_step c s)\<lparr>ink := k @ ink (canvas_step c s)\<rparr>"
  using assms by (cases c; simp)+

lemma plain_run:
  assumes "list_all plain cs"
  shows "saved (run_canvas cs s) = saved s"
    "run_canvas cs (s\<lparr>saved := q\<rparr>) = (run_canvas cs s)\<lparr>saved := q\<rparr>"
    "run_canvas cs (s\<lparr>ink := k @ ink s\<rparr>) = (run_canvas cs s)\<lparr>ink := k @ ink (run_canvas cs s)\<rparr>"
  using assms by (induction cs arbitrary: s) (simp_all add: plain_step)

lemma style_step_path:
  "canvas_step (FillStyle c) (s\<lparr>path := p\<rparr>) = (canvas_step (FillStyle c) s)\<lparr>path := p\<rparr>"
  "canvas_step (StrokeStyle c) (s\<lparr>path := p\<rparr>) = (canvas_step (StrokeStyle c) s)\<lparr>path := p\<rparr>"
  "canvas_step (LineWidth w) (s\<lparr>path := p\<rparr>) = (canvas_step (LineWidth w) s)\<lparr>path := p\<rparr>"
  by simp_all

lemma path_first_run: "path_first cs \<Longrightarrow> run_canvas cs (s\<lparr>path := p\<rparr>) = run_canvas cs s"
  by (induction cs arbitrary: s rule: path_first.induct)
    (simp_all add: style_step_path del: canvas_step.simps(4-6))

lemma run_colours:
  "map fst (ink (run_canvas cs s)) =
     map fst (ink s) @ ink_colours (fill_style (pen s)) (stroke_style (pen s)) cs" if "list_all plain cs"
  using that
proof (induction cs arbitrary: s)
  case (Cons c cs)
  then show ?case by (cases c) simp_all
qed simp

lemma call_fits_step:
  assumes "call_fits lo hi d c" and "line_width (pen s) \<le> 2 * d"
    and "\<forall>b \<in> set (path s). in_cell (origin (pen s)) lo hi b"
    and "\<forall>(_, bs) \<in> set (ink s). \<forall>b \<in> set bs. in_cell (origin (pen s)) (lo - d) (hi + d) b"
    and "0 \<le> d"
  shows "line_width (pen (canvas_step c s)) \<le> 2 * d \<and>
    (\<forall>b \<in> set (path (canvas_step c s)). in_cell (origin (pen s)) lo hi b) \<and>
    (\<forall>(_, bs) \<in> set (ink (canvas_step c s)). \<forall>b \<in> set bs. in_cell (origin (pen s)) (lo - d) (hi + d) b)"
proof -
  have grow: "in_cell off (lo - d) (hi + d) b" "in_cell off (lo - d) (hi + d) (widen (w / 2) b)"
    if "in_cell off lo hi b" "w \<le> 2 * d" for off b w
    using that assms(5) by (auto simp: in_cell_def split: prod.splits)
  have put: "in_cell off lo hi (shift_box off b)" if "fits lo hi b" for off b
    using that by (cases off; cases b) (auto simp: fits_def in_cell_def)
  show ?thesis
    using assms grow put by (cases c) (auto simp: call_fits_def split: if_splits)
qed

lemma call_fits_run:
  assumes "list_all (call_fits lo hi d) cs" and "line_width (pen s) \<le> 2 * d" and "0 \<le> d"
    and "\<forall>b \<in> set (path s). in_cell (origin (pen s)) lo hi b"
    and "\<forall>(_, bs) \<in> set (ink s). \<forall>b \<in> set bs. in_cell (origin (pen s)) (lo - d) (hi + d) b"
  shows "\<forall>(_, bs) \<in> set (ink (run_canvas cs s)). \<forall>b \<in> set bs. in_cell (origin (pen s)) (lo - d) (hi + d) b"
  using assms
proof (induction cs arbitrary: s)
  case (Cons c cs)
  from Cons.prems have c: "call_fits lo hi d c" and cs: "list_all (call_fits lo hi d) cs" by simp_all
  then have o: "origin (pen (canvas_step c s)) = origin (pen s)"
    by (simp add: call_fits_def plain_step)
  from call_fits_step [OF c Cons.prems(2,4,5,3)] Cons.IH [OF cs, of "canvas_step c s"] Cons.prems(3)
  show ?case by (simp add: o)
qed simp

section \<open>The calls of each painter\<close>

definition painter :: "nat \<Rightarrow> real \<Rightarrow> canvas_call list" where
  "painter i = snd (PAINTERS ! i)"

lemma PAINTERS_eq: "PAINTERS = [(0, drawDebris), (1, drawStar), (2, drawComet), (3, drawSatelliteGlyph),
    (4, drawGroundHot), (5, drawSatMarker), (6, drawSkyDot), (7, drawUnknown)]"
  by (simp add: PAINTERS_def icon_def ICONS_def)

lemma painter_simps [simp]: "painter 0 = drawDebris" "painter (Suc 0) = drawStar" "painter 2 = drawComet"
    "painter 3 = drawSatelliteGlyph" "painter 4 = drawGroundHot" "painter 5 = drawSatMarker"
    "painter 6 = drawSkyDot" "painter 7 = drawUnknown"
  by (simp_all add: painter_def PAINTERS_eq)

lemma call_fits_simps [simp]:
  "call_fits lo hi d (MoveTo x y) \<longleftrightarrow> lo \<le> x \<and> lo \<le> y \<and> x \<le> hi \<and> y \<le> hi"
  "call_fits lo hi d (LineTo x y) \<longleftrightarrow> lo \<le> x \<and> lo \<le> y \<and> x \<le> hi \<and> y \<le> hi"
  "call_fits lo hi d (Arc c r a0 a1) \<longleftrightarrow> lo \<le> fst c - r \<and> lo \<le> snd c - r \<and> fst c + r \<le> hi \<and> snd c + r \<le> hi"
  "call_fits lo hi d (Rect x y w h) \<longleftrightarrow> lo \<le> min x (x + w) \<and> lo \<le> min y (y + h) \<and> max x (x + w) \<le> hi \<and> max y (y + h) \<le> hi"
  "call_fits lo hi d (BezierCurveTo p q e) \<longleftrightarrow>
     list_all (\<lambda>(x, y). lo \<le> x \<and> lo \<le> y \<and> x \<le> hi \<and> y \<le> hi) [p, q, e]"
  "call_fits lo hi d (LineWidth w) \<longleftrightarrow> w \<le> 2 * d"
  "call_fits lo hi d (FillStyle k)" "call_fits lo hi d (StrokeStyle k)"
  "call_fits lo hi d BeginPath" "call_fits lo hi d ClosePath" "call_fits lo hi d Fill" "call_fits lo hi d Stroke"
  by (auto simp: call_fits_def fits_def bounding_def)

lemma on_circle:
  fixes r c lo hi a :: real
  assumes "0 \<le> r" "r \<le> c - lo" "r \<le> hi - c"
  shows "lo \<le> c + cos a * r" "c + cos a * r \<le> hi" "lo \<le> c + sin a * r" "c + sin a * r \<le> hi"
proof -
  have "- r \<le> cos a * r \<and> cos a * r \<le> r \<and> - r \<le> sin a * r \<and> sin a * r \<le> r"
    using mult_right_mono [OF cos_ge_minus_one, of r a] mult_right_mono [OF cos_le_one, of r a]
      mult_right_mono [OF sin_ge_minus_one, of r a] mult_right_mono [OF sin_le_one, of r a] assms(1) by simp
  then show "lo \<le> c + cos a * r" "c + cos a * r \<le> hi" "lo \<le> c + sin a * r" "c + sin a * r \<le> hi"
    using assms by linarith+
qed

text \<open>The part of a cell the calls of an icon keep to, as fractions of the cell, and half the widest line.\<close>

definition icon_margin :: "nat \<Rightarrow> real" where
  "icon_margin i = [13 / 100, 13 / 100, 13 / 1000, 10 / 100, 13 / 100, 7 / 100, 2 / 100, 13 / 100] ! i"

definition icon_line :: "nat \<Rightarrow> real" where
  "icon_line i = (if i = 7 then 1 / 20 else 1 / 80)"

lemma move_or_line: "call_fits lo hi d ((if b then MoveTo else LineTo) x y) \<longleftrightarrow>
    lo \<le> x \<and> lo \<le> y \<and> x \<le> hi \<and> y \<le> hi"
  by simp

lemma outline_fits:
  assumes "\<And>q. q \<in> set qs \<Longrightarrow> lo \<le> fst (place q) \<and> lo \<le> snd (place q) \<and> fst (place q) \<le> hi \<and> snd (place q) \<le> hi"
  shows "list_all (call_fits lo hi d)
    (map (\<lambda>(i, p). (if i = 0 then MoveTo else LineTo) (fst (place p)) (snd (place p))) (enumerate n qs))"
  using assms by (induction qs arbitrary: n) simp_all

lemma fits_concat: "(\<And>x. x \<in> set xs \<Longrightarrow> list_all P (f x)) \<Longrightarrow> list_all P (concat (map f xs))"
  by (auto simp: list_all_iff)

lemma debris_fits:
  assumes "0 \<le> s"
  shows "list_all (call_fits (s * (13 / 100)) (s * (87 / 100)) d) (drawDebris s)"
proof -
  have pts: "list_all (\<lambda>(deg, frac). 0 \<le> frac \<and> frac \<le> 1) debris_pts" by (simp add: debris_pts_def)
  have r: "0 \<le> s * (1 / 2 - PAD)" using assms by (simp add: PAD_def)
  have place: "s * (13 / 100) \<le> s / 2 + f a * (s * (1 / 2 - PAD)) * frac \<and>
      s / 2 + f a * (s * (1 / 2 - PAD)) * frac \<le> s * (87 / 100)"
    if "0 \<le> frac" "frac \<le> 1" "f = cos \<or> f = sin" for a frac and f :: "real \<Rightarrow> real"
  proof -
    have "s * (1 / 2 - PAD) * frac \<le> s * (1 / 2 - PAD)" using mult_left_le [OF that(2) r] .
    then have "s * (1 / 2 - PAD) * frac \<le> s / 2 - s * (13 / 100)" "s * (1 / 2 - PAD) * frac \<le> s * (87 / 100) - s / 2"
      by (simp_all add: PAD_def)
    from on_circle [OF mult_nonneg_nonneg [OF r that(1)] this, of a] that(3)
    show ?thesis by (auto simp only: mult.assoc)
  qed
  show ?thesis unfolding drawDebris_def Let_def list_all_append
    by (intro conjI outline_fits) (use pts place in \<open>auto simp del: divide_le_eq_numeral1 le_divide_eq_numeral1 simp: list_all_iff\<close>)
qed

lemma star_fits:
  assumes "0 \<le> s"
  shows "list_all (call_fits (s * (13 / 100)) (s * (87 / 100)) d) (drawStar s)"
proof -
  define l where "l = s * (1 / 2 - PAD)"
  have l: "0 \<le> l" "l = s / 2 - s * (13 / 100)" "l = s * (87 / 100) - s / 2" "l * (32 / 100) \<le> l" "l * (14 / 100) \<le> l"
    using assms by (simp_all add: l_def PAD_def)
  have place: "s * (13 / 100) \<le> s / 2 + f a * r \<and> s / 2 + f a * r \<le> s * (87 / 100)"
    if "0 \<le> r" "r \<le> l" "f = cos \<or> f = sin" for a r and f :: "real \<Rightarrow> real"
    using on_circle [OF that(1), of "s / 2" "s * (13 / 100)" "s * (87 / 100)" a] that(2,3) l(2,3) by auto
  have point: "list_all (call_fits (s * (13 / 100)) (s * (87 / 100)) d)
      [(if b then MoveTo else LineTo) (s / 2 + cos a * r) (s / 2 + sin a * r),
       LineTo (s / 2 + cos a' * r') (s / 2 + sin a' * r')]"
    if "0 \<le> r \<and> r \<le> l \<and> 0 \<le> r' \<and> r' \<le> l" for a a' r r' b
    using place [of r cos a] place [of r sin a] place [of r' cos a'] place [of r' sin a'] that
    by (simp only: list.pred_inject move_or_line call_fits_simps simp_thms)
  show ?thesis unfolding drawStar_def Let_def l_def [symmetric] list_all_append
    by (intro conjI fits_concat point) (use l in auto)
qed

text \<open>The axis of the comet: \<open>px\<close> and \<open>py\<close> of the painter, and its calls over them.\<close>

lemma comet_axis:
  assumes "0 < s"
  obtains px py where "- (7 / 10) \<le> px" "px \<le> - (68 / 100)" "- (73 / 100) \<le> py" "py \<le> - (72 / 100)"
    "drawComet s = concat (map (\<lambda>(t, alpha).
       let midX = s * (79 / 100) - s * (66 / 100) * t; midY = s * (24 / 100) + s * (63 / 100) * t; w = s * (16 / 100) * t
       in [FillStyle (Rgba 255 255 255 alpha), BeginPath, MoveTo (s * (79 / 100)) (s * (24 / 100)),
           LineTo (midX + px * w) (midY + py * w), LineTo (midX - px * w) (midY - py * w), ClosePath, Fill])
       [(1, 18 / 100), (66 / 100, 35 / 100), (33 / 100, 60 / 100)]) @
     [FillStyle WHITE, BeginPath, Arc (s * (79 / 100), s * (24 / 100)) (s * (11 / 100)) 0 (pi * 2), Fill]"
proof -
  define len where "len = hypot3 (- (s * (66 / 100))) (s * (63 / 100)) 0"
  have sq: "len\<^sup>2 = s\<^sup>2 * (8325 / 10000)" unfolding len_def hypot2_sq by (simp add: power2_eq_square)
  have "(s * (91 / 100))\<^sup>2 \<le> len\<^sup>2" unfolding sq by (simp add: power2_eq_square)
  then have len: "s * (91 / 100) \<le> len" by (rule power2_le_imp_le) (simp add: len_def hypot3_ge_0)
  have "len\<^sup>2 \<le> (s * (913 / 1000))\<^sup>2" unfolding sq by (simp add: power2_eq_square)
  then have len': "len \<le> s * (913 / 1000)" by (rule power2_le_imp_le) (use assms in simp)
  define px where "px = - (s * (63 / 100)) / len"
  define py where "py = - (s * (66 / 100)) / len"
  have pos: "0 < len" and len0: "len \<noteq> 0" using len assms by simp_all
  have eq: "s * PAD - s * (1 - PAD - 8 / 100) = - (s * (66 / 100))"
    "s * (1 - PAD) - (s * PAD + s * (11 / 100)) = s * (63 / 100)"
    by (simp_all add: PAD_def algebra_simps)
  show thesis
  proof (rule that)
    show "- (7 / 10) \<le> px" "px \<le> - (68 / 100)" "- (73 / 100) \<le> py" "py \<le> - (72 / 100)"
      using len len' pos assms by (simp_all add: px_def py_def field_simps)
    show "drawComet s = concat (map (\<lambda>(t, alpha).
       let midX = s * (79 / 100) - s * (66 / 100) * t; midY = s * (24 / 100) + s * (63 / 100) * t; w = s * (16 / 100) * t
       in [FillStyle (Rgba 255 255 255 alpha), BeginPath, MoveTo (s * (79 / 100)) (s * (24 / 100)),
           LineTo (midX + px * w) (midY + py * w), LineTo (midX - px * w) (midY - py * w), ClosePath, Fill])
       [(1, 18 / 100), (66 / 100, 35 / 100), (33 / 100, 60 / 100)]) @
     [FillStyle WHITE, BeginPath, Arc (s * (79 / 100), s * (24 / 100)) (s * (11 / 100)) 0 (pi * 2), Fill]"
      unfolding drawComet_def Let_def eq len_def [symmetric] if_not_P [OF len0] px_def [symmetric] py_def [symmetric]
      by (simp add: PAD_def)
  qed
qed

lemma comet_fits:
  assumes "0 < s"
  shows "list_all (call_fits (s * (13 / 1000)) (s * (987 / 1000)) d) (drawComet s)"
proof -
  obtain px py where p: "- (7 / 10) \<le> px" "px \<le> - (68 / 100)" "- (73 / 100) \<le> py" "py \<le> - (72 / 100)"
    and eq: "drawComet s = concat (map (\<lambda>(t, alpha).
       let midX = s * (79 / 100) - s * (66 / 100) * t; midY = s * (24 / 100) + s * (63 / 100) * t; w = s * (16 / 100) * t
       in [FillStyle (Rgba 255 255 255 alpha), BeginPath, MoveTo (s * (79 / 100)) (s * (24 / 100)),
           LineTo (midX + px * w) (midY + py * w), LineTo (midX - px * w) (midY - py * w), ClosePath, Fill])
       [(1, 18 / 100), (66 / 100, 35 / 100), (33 / 100, 60 / 100)]) @
     [FillStyle WHITE, BeginPath, Arc (s * (79 / 100), s * (24 / 100)) (s * (11 / 100)) 0 (pi * 2), Fill]"
    by (rule comet_axis [OF assms])
  have "- (s * (7 / 10)) \<le> s * px" "s * px \<le> 0" "- (s * (73 / 100)) \<le> s * py" "s * py \<le> 0"
    using mult_left_mono [OF p(1), of s] mult_left_mono [OF p(3), of s] p(2,4) assms
    by (simp_all add: mult_nonneg_nonpos)
  then show ?thesis unfolding eq using p assms by (simp add: Let_def algebra_simps)
qed

lemma satellite_fits: "64 \<le> s \<Longrightarrow> list_all (call_fits (s * (1 / 10)) (s * (9 / 10)) (s * (1 / 80))) (drawSatelliteGlyph s)"
  by (simp add: drawSatelliteGlyph_def Let_def)

lemma groundHot_fits: "0 \<le> s \<Longrightarrow> list_all (call_fits (s * (13 / 100)) (s * (87 / 100)) d) (drawGroundHot s)"
  by (simp add: drawGroundHot_def PAD_def Let_def)

lemma satMarker_fits: "64 \<le> s \<Longrightarrow> list_all (call_fits (s * (7 / 100)) (s * (93 / 100)) (s * (1 / 80))) (drawSatMarker s)"
  by (simp add: drawSatMarker_def wing_calls_def Let_def upt_conv_Cons)

lemma skyDot_fits: "0 \<le> s \<Longrightarrow> list_all (call_fits (s * (2 / 100)) (s * (98 / 100)) d) (drawSkyDot s)"
  by (simp add: drawSkyDot_def Let_def)

lemma unknown_fits: "0 \<le> s \<Longrightarrow> list_all (call_fits (s * (13 / 100)) (s * (87 / 100)) (s * (1 / 20))) (drawUnknown s)"
  by (simp add: drawUnknown_def Let_def)

lemma less_8: "i < 8 \<longleftrightarrow> i \<in> {0, 1, 2, 3, 4, 5, 6, 7::nat}"
  by auto

lemma painter_fits:
  assumes "i < 8" "64 \<le> s"
  shows "list_all (call_fits (s * icon_margin i) (s * (1 - icon_margin i)) (s * icon_line i)) (painter i s)"
  using assms debris_fits [of s] star_fits [of s] satellite_fits [of s]
    groundHot_fits [of s] satMarker_fits [of s] skyDot_fits [of s] unknown_fits [of s]
    comet_fits [of s]
  unfolding less_8 by (auto simp: icon_margin_def icon_line_def)

lemma painter_plain: "i < 8 \<Longrightarrow> 64 \<le> s \<Longrightarrow> list_all plain (painter i s)"
  by (rule list.pred_mono_strong [OF painter_fits]) (auto simp: call_fits_def)

lemma painter_path_first: "i < 8 \<Longrightarrow> path_first (painter i s)"
  unfolding less_8
  by (auto simp: drawDebris_def drawStar_def drawComet_def drawSatelliteGlyph_def drawGroundHot_def
      drawSatMarker_def wing_calls_def drawSkyDot_def drawUnknown_def Let_def)

definition white :: "colour \<Rightarrow> bool" where
  "white c \<longleftrightarrow> (case c of Rgba r g b a \<Rightarrow> r = 255 \<and> g = 255 \<and> b = 255 | Hex h \<Rightarrow> False)"

lemma painter_white:
  assumes "i < 8" "i \<noteq> 5"
  shows "list_all white (ink_colours f k (painter i s)) \<and> ink_colours f k (painter i s) \<noteq> []"
  using assms unfolding less_8
  by (auto simp: drawDebris_def drawStar_def drawComet_def drawSatelliteGlyph_def drawGroundHot_def
      drawSkyDot_def drawUnknown_def Let_def white_def WHITE_def debris_pts_def upt_conv_Cons)

section \<open>The ink of an icon\<close>

text \<open>The pen a painter starts with, and the ink it leaves on an empty canvas.\<close>

definition icon_ink :: "nat \<Rightarrow> real \<Rightarrow> (colour \<times> box list) list" where
  "icon_ink i cellPx =
     ink (run_canvas (painter i cellPx) (blank\<lparr>pen := fresh_pen\<lparr>origin := cell_offset i cellPx\<rparr>\<rparr>))"

definition sampled :: "nat \<Rightarrow> real \<Rightarrow> box \<Rightarrow> bool" where
  "sampled i cellPx b = (case iconUV (Fin (real i)) of
      Inl e \<Rightarrow> False
    | Inr q \<Rightarrow> (case b of (l, t, r, bt) \<Rightarrow>
        u0 q * (real ATLAS_GRID * cellPx) \<le> l \<and> v0 q * (real ATLAS_GRID * cellPx) \<le> t \<and>
        r \<le> u1 q * (real ATLAS_GRID * cellPx) \<and> bt \<le> v1 q * (real ATLAS_GRID * cellPx)))"

lemma icon_ink_in:
  assumes "i < 8" "64 \<le> s" "(c, bs) \<in> set (icon_ink i s)" "b \<in> set bs"
  shows "in_cell (cell_offset i s) (s * icon_margin i - s * icon_line i)
    (s * (1 - icon_margin i) + s * icon_line i) b"
proof -
  have "0 \<le> s * icon_line i" "1 \<le> 2 * (s * icon_line i)" using assms(2) by (simp_all add: icon_line_def)
  with call_fits_run [OF painter_fits [OF assms(1,2)], of "blank\<lparr>pen := fresh_pen\<lparr>origin := cell_offset i s\<rparr>\<rparr>"]
  have "\<forall>(_, bs) \<in> set (icon_ink i s). \<forall>b \<in> set bs. in_cell (cell_offset i s) (s * icon_margin i - s * icon_line i)
    (s * (1 - icon_margin i) + s * icon_line i) b"
    by (simp add: icon_ink_def blank_def fresh_pen_def)
  with assms(3,4) show ?thesis by blast
qed

lemma in_cell_mono: "in_cell off lo hi b \<Longrightarrow> lo' \<le> lo \<Longrightarrow> hi \<le> hi' \<Longrightarrow> in_cell off lo' hi' b"
  by (auto simp: in_cell_def split: prod.splits)

lemma sampled_iff:
  assumes "i < 16"
  shows "sampled i s b \<longleftrightarrow> in_cell (cell_offset i s) (s * (4 / 100)) (s * (96 / 100)) b"
  by (cases b) (auto simp: sampled_def in_cell_def iconUV_nat [OF assms] shader_uv_eq ATLAS_GRID_def
      cell_offset_def field_simps)

lemma icon_margins:
  assumes "i < 8"
  shows "0 \<le> icon_margin i - icon_line i"
    "i \<noteq> 2 \<Longrightarrow> i \<noteq> 6 \<Longrightarrow> 4 / 100 \<le> icon_margin i - icon_line i"
  using assms unfolding less_8 by (auto simp: icon_margin_def icon_line_def)

lemma icon_block:
  assumes "i < 8" "64 \<le> s" "pen st = fresh_pen" "saved st = []"
  shows "pen (run_canvas (cell_calls i s (painter i s)) st) = fresh_pen"
    "saved (run_canvas (cell_calls i s (painter i s)) st) = []"
    "ink (run_canvas (cell_calls i s (painter i s)) st) =
       ink st @ icon_ink i s"
proof -
  note plain = painter_plain [OF assms(1,2)]
  let ?b = "blank\<lparr>pen := fresh_pen\<lparr>origin := cell_offset i s\<rparr>\<rparr>"
  have st: "run_canvas [Save, Translate (fst (cell_offset i s)) (snd (cell_offset i s))] st =
      ?b\<lparr>saved := [fresh_pen], ink := ink st @ ink ?b, path := path st\<rparr>"
    using assms(3,4) by (simp add: blank_def fresh_pen_def)
  have "run_canvas (painter i s) (?b\<lparr>saved := [fresh_pen], ink := ink st @ ink ?b, path := path st\<rparr>) =
      (run_canvas (painter i s) ?b)\<lparr>saved := [fresh_pen], ink := ink st @ icon_ink i s\<rparr>"
    using path_first_run [OF painter_path_first [OF assms(1), of s], where s = "?b\<lparr>saved := [fresh_pen], ink := ink st @ ink ?b\<rparr>" and p = "path st"]
      plain_run(3) [OF plain, where k = "ink st" and s = "?b\<lparr>saved := [fresh_pen]\<rparr>"]
      plain_run(2) [OF plain, where s = ?b and q = "[fresh_pen]"]
    by (simp add: icon_ink_def)
  then have "run_canvas (cell_calls i s (painter i s)) st =
      canvas_step Restore ((run_canvas (painter i s) ?b)\<lparr>saved := [fresh_pen], ink := ink st @ icon_ink i s\<rparr>)"
    by (simp only: cell_calls_def run_canvas_simps(3) st) simp
  then show "pen (run_canvas (cell_calls i s (painter i s)) st) = fresh_pen"
    "saved (run_canvas (cell_calls i s (painter i s)) st) = []"
    "ink (run_canvas (cell_calls i s (painter i s)) st) =
       ink st @ icon_ink i s"
    by (simp_all only: canvas_step.simps) simp_all
qed

lemma paint_blocks:
  assumes "\<forall>i \<in> set is. i < 8" "64 \<le> s" "pen st = fresh_pen" "saved st = []"
    and "end = run_canvas (concat (map (\<lambda>i. cell_calls i s (painter i s)) is)) st"
  shows "pen end = fresh_pen \<and> saved end = [] \<and> ink end = ink st @ concat (map (\<lambda>i. icon_ink i s) is)"
  using assms
proof (induction "is" arbitrary: st)
  case (Cons i js)
  let ?st = "run_canvas (cell_calls i s (painter i s)) st"
  have "i < 8" using Cons.prems(1) by simp
  note b = icon_block [OF this Cons.prems(2-4)]
  have "end = run_canvas (concat (map (\<lambda>i. cell_calls i s (painter i s)) js)) ?st"
    using Cons.prems(5) by (simp only: list.map concat.simps run_canvas_simps)
  from Cons.IH [OF _ Cons.prems(2) b(1,2) this] Cons.prems(1) b(3) show ?case by simp
qed simp

lemma paintAtlas_blocks:
  "paintAtlas s = concat (map (\<lambda>i. cell_calls i s (painter i s)) [0..<8])"
proof -
  have "[0..<8] = [0, 1, 2, 3, 4, 5, 6, 7::nat]" by (simp add: upt_rec)
  then show ?thesis by (simp add: paintAtlas_def PAINTERS_eq)
qed

lemma icon_ink_colours:
  assumes "i < 8" "64 \<le> s"
  shows "map fst (icon_ink i s) = ink_colours (Hex ''#000000'') (Hex ''#000000'') (painter i s)"
  using run_colours [OF painter_plain [OF assms]] by (simp add: icon_ink_def blank_def fresh_pen_def)

lemma icon_ink_nonempty:
  assumes "i < 8" "64 \<le> s"
  shows "icon_ink i s \<noteq> []"
proof (cases "i = 5")
  case True
  have "ink_colours f k (drawSatMarker s) \<noteq> []" for f k
    by (simp add: drawSatMarker_def wing_calls_def Let_def)
  with icon_ink_colours [OF assms] True show ?thesis by (metis list.map_disc_iff painter_simps(6))
next
  case False
  with icon_ink_colours [OF assms] painter_white [OF assms(1)] show ?thesis by (metis list.map_disc_iff)
qed

lemma icon_ink_white:
  assumes "i < 8" "i \<noteq> 5" "64 \<le> s"
  shows "list_all white (map fst (icon_ink i s))"
  using painter_white [OF assms(1,2)] icon_ink_colours [OF assms(1,3)] by simp

text \<open>C16: On an atlas of at least the base size, \<open>paintAtlas\<close> leaves the drawing state as it found it, and what is
  painted is the ink of the eight icons in index order, each as if it were painted alone: no style or
  path leaks from one icon to the next. All ink, strokes included, stays inside the icon's own cell;
  except for the comet's tail and the rim of the sky dot it even stays inside the rectangle that \<open>iconUV\<close>
  gives the renderer, so nothing is cut off; and every icon but the satellite marker is pure white,
  which the renderer's tinting needs.\<close>

theorem icons_stay_in_cells:
  assumes "real CELL \<le> cellPx"
  defines "s \<equiv> run_canvas (paintAtlas cellPx) blank"
  shows "pen s = fresh_pen \<and> saved s = [] \<and> ink s = concat (map (\<lambda>i. icon_ink i cellPx) [0..<8]) \<and>
    (\<forall>i < 8. icon_ink i cellPx \<noteq> [] \<and>
      (\<forall>(c, bs) \<in> set (icon_ink i cellPx).
        (i \<noteq> icon ''satMarker'' \<longrightarrow> white c) \<and>
        (\<forall>b \<in> set bs. in_cell (cell_offset i cellPx) 0 cellPx b \<and>
          (i \<noteq> icon ''comet'' \<longrightarrow> i \<noteq> icon ''skyDot'' \<longrightarrow> sampled i cellPx b))))"
proof -
  have s: "64 \<le> cellPx" using assms(1) by (simp add: CELL_def)
  have "pen blank = fresh_pen" "saved blank = []" "ink blank = []" by (simp_all add: blank_def)
  then have ends: "pen s = fresh_pen \<and> saved s = [] \<and> ink s = concat (map (\<lambda>i. icon_ink i cellPx) [0..<8])"
    using paint_blocks [of "[0..<8]" cellPx blank s] s by (simp add: s_def paintAtlas_blocks)
  have names: "icon ''satMarker'' = 5" "icon ''comet'' = 2" "icon ''skyDot'' = 6"
    by (simp_all add: icon_def ICONS_def)
  have "white c" if "i < 8" "i \<noteq> 5" "(c, bs) \<in> set (icon_ink i cellPx)" for i c bs
    using icon_ink_white [OF that(1,2) s] that(3) by (force simp: list_all_iff)
  moreover have "in_cell (cell_offset i cellPx) 0 cellPx b \<and> (i \<noteq> 2 \<longrightarrow> i \<noteq> 6 \<longrightarrow> sampled i cellPx b)"
    if "i < 8" "(c, bs) \<in> set (icon_ink i cellPx)" "b \<in> set bs" for i c bs b
  proof -
    note b = in_cell_mono [OF icon_ink_in [OF that(1) s that(2,3)]]
    have "0 \<le> cellPx * (icon_margin i - icon_line i)"
      using icon_margins(1) [OF that(1)] s by (intro mult_nonneg_nonneg) simp_all
    then have "in_cell (cell_offset i cellPx) 0 cellPx b" by (intro b) (simp_all add: algebra_simps)
    moreover have "sampled i cellPx b" if "i \<noteq> 2" "i \<noteq> 6"
    proof -
      have "cellPx * (4 / 100) \<le> cellPx * (icon_margin i - icon_line i)"
        using icon_margins(2) [OF \<open>i < 8\<close> that] s by (intro mult_left_mono) simp_all
      then have "in_cell (cell_offset i cellPx) (cellPx * (4 / 100)) (cellPx * (96 / 100)) b"
        by (intro b) (simp_all add: algebra_simps)
      then show ?thesis using \<open>i < 8\<close> by (subst sampled_iff) simp_all
    qed
    ultimately show ?thesis by blast
  qed
  moreover have "icon_ink i cellPx \<noteq> []" if "i < 8" for i
    using icon_ink_nonempty [OF that s] .
  ultimately show ?thesis unfolding names using ends by blast
qed

theorem icons_stay_in_cells_witness:
  "list_all (\<lambda>(c, bs). white c \<and> list_all (sampled 3 64) bs) (icon_ink 3 64)"
  unfolding list_all_iff
  using icons_stay_in_cells [of 64, THEN conjunct2, THEN conjunct2, THEN conjunct2, THEN spec, of 3]
  by (simp add: CELL_def icon_def ICONS_def) blast

text \<open>The exception is real: the wide end of the comet's tail leaves the sampled rectangle.\<close>

lemma comet_tail_clipped: "\<exists>(c, bs) \<in> set (icon_ink 2 64). \<exists>b \<in> set bs. \<not> sampled 2 64 b"
  by (rule comet_axis [of 64])
    (auto simp: icon_ink_def Let_def sampled_iff in_cell_def cell_offset_def blank_def fresh_pen_def)

end
