(* ===== verification/Texture_Facts.thy ===== *)
theory Texture_Facts
  imports Earth_Textures
begin

text \<open>
  The loader of frontend/js/textures.js: what an upload leaves in GL, and that the two loads are
  independent of each other and each ends in a texture or in one warning.
\<close>

section \<open>Uploads\<close>

lemma gl_run_Inr: "gl_run host cs w = (Inr u, w') \<Longrightarrow> w' = fold gl_step cs w"
  by (induction cs arbitrary: w) (auto split: option.splits)

lemma gl_run_total: "\<forall>c \<in> set cs. call_throws host c = None \<Longrightarrow> gl_run host cs w = (Inr (), fold gl_step cs w)"
  by (induction cs arbitrary: w) auto

lemma power_of_two_pow: "power_of_two (2 ^ k)"
proof -
  have "largestPotLE (2 ^ k) \<le> 2 ^ k" "2 ^ k < 2 * largestPotLE (2 ^ k)" "\<exists>j. largestPotLE (2 ^ k) = 2 ^ j"
    using largestPotLE [of "2 ^ k"] by auto
  then obtain j where j: "largestPotLE (2 ^ k) = 2 ^ j" "(2::nat) ^ j \<le> 2 ^ k" "(2::nat) ^ k < 2 ^ Suc j" by auto
  then have "j \<le> k" "k < Suc j" by (simp_all only: power_increasing_iff power_strict_increasing_iff)
  with j(1) show ?thesis by (simp add: power_of_two_def)
qed

text \<open>What the renderer needs of a texture it samples with mipmaps and repeats around the globe.\<close>

definition ready_texture :: "jsnum \<Rightarrow> tex_info \<Rightarrow> bool" where
  "ready_texture maxSize i \<longleftrightarrow>
     (case tex_size i of None \<Rightarrow> False | Some (a, b) \<Rightarrow>
        power_of_two a \<and> power_of_two b \<and> a \<le> positiveInt maxSize 1 \<and> b \<le> positiveInt maxSize 1) \<and>
     mipmapped i \<and> tex_params i ''TEXTURE_MIN_FILTER'' = Some ''LINEAR_MIPMAP_LINEAR'' \<and>
     tex_params i ''TEXTURE_WRAP_S'' = Some ''REPEAT'' \<and> tex_params i ''TEXTURE_WRAP_T'' = Some ''CLAMP_TO_EDGE''"

lemma fold_anisotropy: "fold gl_step (applyAnisotropy host) w = w"
  by (simp add: applyAnisotropy_def ANISOTROPIC_def)

lemma upload_effect:
  "fold gl_step (upload_calls host (a, b) (length (textures w))) w =
     w\<lparr>canvas_size := (a, b), bound := None,
       textures := textures w @ [\<lparr>tex_size = Some (a, b),
         tex_params = [''TEXTURE_MIN_FILTER'' \<mapsto> ''LINEAR_MIPMAP_LINEAR'', ''TEXTURE_MAG_FILTER'' \<mapsto> ''LINEAR'',
           ''TEXTURE_WRAP_S'' \<mapsto> ''REPEAT'', ''TEXTURE_WRAP_T'' \<mapsto> ''CLAMP_TO_EDGE''],
         mipmapped = power_of_two a \<and> power_of_two b\<rparr>]\<rparr>"
  by (simp add: upload_calls_def on_bound_def fold_anisotropy)

lemma uploadTexture_Inr:
  assumes "uploadTexture host img maxSize w = (Inr t, w')"
  shows "t = length (textures w) \<and> bound w' = None \<and>
    (\<exists>i. textures w' = textures w @ [i] \<and> ready_texture maxSize i)"
proof -
  obtain a b where ab: "potSizeFor (num_or (naturalWidth img) (img_width img))
      (num_or (naturalHeight img) (img_height img)) maxSize = (a, b)" by (meson surj_pair)
  from texture_size [OF ab] power_of_two_pow have "power_of_two a" "power_of_two b"
    "a \<le> positiveInt maxSize 1" "b \<le> positiveInt maxSize 1" by auto
  moreover have "t = length (textures w)"
    "w' = fold gl_step (upload_calls host (a, b) (length (textures w))) w"
    using assms gl_run_Inr by (auto simp: uploadTexture_def ab Let_def split: prod.splits sum.splits)
  ultimately show ?thesis by (simp add: upload_effect ready_texture_def)
qed

text \<open>The textures there were are the same after an upload, also after one that throws: what is
  bound while a call can touch a texture is the new one.\<close>

definition above :: "tex_info list \<Rightarrow> gl_world \<Rightarrow> bool" where
  "above old v \<longleftrightarrow> take (length old) (textures v) = old \<and> (\<forall>t. bound v = Some t \<longrightarrow> length old \<le> t)"

lemma above_step:
  assumes "above old v" "\<forall>y. c = GlBindTexture y \<longrightarrow> y = None"
  shows "above old (gl_step c v)"
proof -
  have le: "length old \<le> length (textures v)" using assms(1) by (metis above_def length_take min.bounded_iff order_refl)
  show ?thesis
    using assms le by (cases c) (auto simp: above_def on_bound_def split: option.splits)
qed

lemma above_run:
  assumes "above old v" "\<forall>c \<in> set cs. \<forall>y. c = GlBindTexture y \<longrightarrow> y = None"
  shows "above old (snd (gl_run host cs v))"
  using assms by (induction cs arbitrary: v) (auto simp: above_step split: option.splits)

lemma upload_keeps: "take (length (textures w)) (textures (snd (uploadTexture host img maxSize w))) = textures w"
proof -
  obtain a b where ab: "potSizeFor (num_or (naturalWidth img) (img_width img))
      (num_or (naturalHeight img) (img_height img)) maxSize = (a, b)" by (meson surj_pair)
  let ?n = "length (textures w)"
  let ?rest = "drop 6 (upload_calls host (a, b) ?n)"
  have eq: "upload_calls host (a, b) ?n = [CanvasFactory, SetCanvasSize a b, GetContext2d, DrawImage a b,
      GlCreateTexture, GlBindTexture (Some ?n)] @ ?rest" by (simp add: upload_calls_def)
  have rest: "\<forall>c \<in> set ?rest. \<forall>y. c = GlBindTexture y \<longrightarrow> y = None"
    by (auto simp: upload_calls_def applyAnisotropy_def split: list.splits)
  have "take ?n (textures (snd (gl_run host (upload_calls host (a, b) ?n) w))) = textures w"
    using above_run [OF _ rest, of "textures w" "w\<lparr>canvas_size := (a, b), textures := textures w @ [i], bound := Some ?n\<rparr>" host for i]
    by (subst eq) (auto simp: above_def split: option.splits)
  then show ?thesis
    by (auto simp: uploadTexture_def ab Let_def split: prod.splits sum.splits)
qed

section \<open>The two loads\<close>

fun texture_of :: "asset \<Rightarrow> texture_handle \<Rightarrow> nat option" where
  "texture_of Day th = day th"
| "texture_of Night th = night th"

definition warned :: "asset \<Rightarrow> loader \<Rightarrow> nat" where
  "warned a l = length (filter (\<lambda>w. fst w = a) (ld_warnings l))"

text \<open>Each image is loading, or there is its texture, or there is one warning of it; a texture is ready,
  and the version counts them.\<close>

definition loader_inv :: "jsnum \<Rightarrow> loader \<Rightarrow> bool" where
  "loader_inv maxSize l \<longleftrightarrow>
     distinct (ld_awaiting l) \<and>
     (\<forall>a. (if a \<in> set (ld_awaiting l) then texture_of a (ld_handle l) = None \<and> warned a l = 0
           else warned a l = (if texture_of a (ld_handle l) = None then 1 else 0))) \<and>
     (\<forall>a t. texture_of a (ld_handle l) = Some t \<longrightarrow>
        t < length (textures (ld_gl l)) \<and> ready_texture maxSize (textures (ld_gl l) ! t)) \<and>
     (day (ld_handle l) = None \<or> day (ld_handle l) \<noteq> night (ld_handle l)) \<and>
     version (ld_handle l) = length (filter (\<lambda>a. texture_of a (ld_handle l) \<noteq> None) [Day, Night])"

text \<open>Whether the load of an image starts at all.\<close>

definition load_starts :: "image_source \<Rightarrow> asset \<Rightarrow> bool" where
  "load_starts src a \<longleftrightarrow> factory_throws src a = None \<and> src_throws src a = None"

lemma asset_neq: "a \<noteq> Day \<longleftrightarrow> a = Night" "a \<noteq> Night \<longleftrightarrow> a = Day"
  by (cases a; simp)+

lemma all_assets: "(\<forall>a. P a) \<longleftrightarrow> P Day \<and> P Night"
  by (metis asset.exhaust)

lemma texture_of_set: "texture_of a (set_texture b t th) = (if a = b then Some t else texture_of a th)"
  by (cases a; cases b) simp_all

lemma version_set: "version (set_texture b t th) = version th + 1"
  by (cases b) simp_all

lemma createEarthTextures_eq:
  "ld_handle (createEarthTextures src w) = \<lparr>day = None, night = None, version = 0\<rparr>"
  "a \<in> set (ld_awaiting (createEarthTextures src w)) \<longleftrightarrow> load_starts src a"
  by (cases a; auto simp: createEarthTextures_def ASSET_FILES_def loadOne_def warn_def load_starts_def split: option.splits)+

lemma createEarthTextures_inv: "loader_inv m (createEarthTextures src w)"
  by (auto simp: loader_inv_def all_assets createEarthTextures_def ASSET_FILES_def loadOne_def warn_def warned_def
      split: option.splits)

lemma image_onload_cases:
  obtains (failed) message w where "uploadTexture host img m (ld_gl l) = (Inl message, w)"
      "image_onload m a img host l = l\<lparr>ld_gl := w, ld_warnings := ld_warnings l @ [(a, Some message)]\<rparr>"
  | (loaded) t w where "uploadTexture host img m (ld_gl l) = (Inr t, w)"
      "image_onload m a img host l = l\<lparr>ld_gl := w, ld_handle := set_texture a t (ld_handle l)\<rparr>"
  by (cases "uploadTexture host img m (ld_gl l)"; cases "fst (uploadTexture host img m (ld_gl l))")
    (auto simp: image_onload_def warn_def)

lemma loader_inv_fail:
  assumes "loader_inv m l" "a \<in> set (ld_awaiting l)" "take (length (textures (ld_gl l))) (textures w) = textures (ld_gl l)"
  shows "loader_inv m (l\<lparr>ld_awaiting := remove1 a (ld_awaiting l), ld_gl := w, ld_warnings := ld_warnings l @ [(a, msg)]\<rparr>)"
proof -
  have "t < length (textures w) \<and> textures w ! t = textures (ld_gl l) ! t" if "t < length (textures (ld_gl l))" for t
    using that assms(3) by (metis length_take min_less_iff_conj nth_take)
  with assms(1,2) show ?thesis
    by (cases a) (auto simp: loader_inv_def all_assets warned_def)
qed

lemma loader_inv_loaded:
  assumes "loader_inv m l" "a \<in> set (ld_awaiting l)" "uploadTexture host img m (ld_gl l) = (Inr t, w)"
  shows "loader_inv m (l\<lparr>ld_awaiting := remove1 a (ld_awaiting l), ld_gl := w, ld_handle := set_texture a t (ld_handle l)\<rparr>)"
proof -
  from uploadTexture_Inr [OF assms(3)] obtain i where t: "t = length (textures (ld_gl l))"
    and w: "textures w = textures (ld_gl l) @ [i]" "ready_texture m i" by blast
  from assms(1,2) show ?thesis
    by (cases a) (auto simp: loader_inv_def all_assets warned_def texture_of_set version_set nth_append w t)
qed

lemma load_step_inv: "loader_inv m l \<Longrightarrow> loader_inv m (load_step m e l)"
proof -
  assume inv: "loader_inv m l"
  show ?thesis
  proof (cases e)
    case (Onload a img host)
    show ?thesis
    proof (cases "a \<in> set (ld_awaiting l)")
      case True
      let ?l = "l\<lparr>ld_awaiting := remove1 a (ld_awaiting l)\<rparr>"
      show ?thesis
      proof (cases rule: image_onload_cases [of host img m ?l a])
        case (failed message w)
        with loader_inv_fail [OF inv True, of w "Some message"] upload_keeps [of "ld_gl l" host img m] True Onload
        show ?thesis by (simp add: load_step_def)
      next
        case (loaded t w)
        with loader_inv_loaded [OF inv True] True Onload show ?thesis by (simp add: load_step_def)
      qed
    qed (use inv Onload in \<open>simp add: load_step_def\<close>)
  next
    case (Onerror a)
    then show ?thesis
      using inv loader_inv_fail [OF inv, of a "ld_gl l" None]
      by (auto simp: load_step_def image_onerror_def warn_def)
  qed
qed

text \<open>An event of the other image changes nothing of this one.\<close>

lemma load_step_other:
  assumes "event_asset e \<noteq> a \<or> a \<notin> set (ld_awaiting l)"
  shows "texture_of a (ld_handle (load_step m e l)) = texture_of a (ld_handle l) \<and>
    (a \<in> set (ld_awaiting (load_step m e l)) \<longleftrightarrow> a \<in> set (ld_awaiting l))"
proof (cases e)
  case (Onload b img host)
  then show ?thesis using assms
    by (cases rule: image_onload_cases [of host img m "l\<lparr>ld_awaiting := remove1 b (ld_awaiting l)\<rparr>" b])
      (auto simp: load_step_def texture_of_set)
next
  case (Onerror b)
  then show ?thesis using assms by (auto simp: load_step_def image_onerror_def warn_def)
qed

lemma load_step_same:
  assumes "loader_inv m l" "event_asset e = a" "a \<in> set (ld_awaiting l)"
  shows "a \<notin> set (ld_awaiting (load_step m e l)) \<and>
    (e = Onerror a \<longrightarrow> texture_of a (ld_handle (load_step m e l)) = None) \<and>
    (\<forall>img host. e = Onload a img host \<longrightarrow> (\<forall>c. call_throws host c = None) \<longrightarrow>
       texture_of a (ld_handle (load_step m e l)) \<noteq> None)"
proof -
  have d: "a \<notin> set (remove1 a (ld_awaiting l))" "texture_of a (ld_handle l) = None"
    using assms(1,3) by (auto simp: loader_inv_def)
  show ?thesis
  proof (cases e)
    case (Onload b img host)
    have ok: "\<exists>t w. uploadTexture host img m v = (Inr t, w)" if "\<forall>c. call_throws host c = None" for v
      using that by (simp add: uploadTexture_def Let_def gl_run_total)
    show ?thesis
    proof (cases rule: image_onload_cases [of host img m "l\<lparr>ld_awaiting := remove1 b (ld_awaiting l)\<rparr>" b])
      case (failed message w)
      have "\<not> (\<forall>c. call_throws host c = None)"
      proof
        assume "\<forall>c. call_throws host c = None"
        from ok [OF this, of "ld_gl l"] failed(1) show False by simp
      qed
      then have ex: "\<exists>c y. call_throws host c = Some y" by (metis not_None_eq)
      with ex assms(2,3) d Onload failed(2) show ?thesis by (simp add: load_step_def)
    next
      case (loaded t w)
      with assms(2,3) d Onload show ?thesis by (simp add: load_step_def texture_of_set)
    qed
  next
    case (Onerror b)
    then show ?thesis using assms(2,3) d by (auto simp: load_step_def image_onerror_def warn_def)
  qed
qed

lemma loads_inv: "loader_inv m l \<Longrightarrow> loader_inv m (fold (load_step m) evs l)"
  by (induction evs arbitrary: l) (simp_all add: load_step_inv)

lemma loads_settled:
  "a \<notin> set (ld_awaiting l) \<Longrightarrow> a \<notin> set (ld_awaiting (fold (load_step m) evs l)) \<and>
     texture_of a (ld_handle (fold (load_step m) evs l)) = texture_of a (ld_handle l)"
  by (induction evs arbitrary: l) (simp_all add: load_step_other)

lemma loads_fate:
  assumes "loader_inv m l" "a \<in> set (ld_awaiting l)"
  shows "case find (\<lambda>e. event_asset e = a) evs of
      None \<Rightarrow> a \<in> set (ld_awaiting (fold (load_step m) evs l))
    | Some (Onerror b) \<Rightarrow> a \<notin> set (ld_awaiting (fold (load_step m) evs l)) \<and>
        texture_of a (ld_handle (fold (load_step m) evs l)) = None
    | Some (Onload b img host) \<Rightarrow> a \<notin> set (ld_awaiting (fold (load_step m) evs l)) \<and>
        ((\<forall>c. call_throws host c = None) \<longrightarrow> texture_of a (ld_handle (fold (load_step m) evs l)) \<noteq> None)"
  using assms
proof (induction evs arbitrary: l)
  case (Cons e evs)
  show ?case
  proof (cases "event_asset e = a")
    case True
    note same = load_step_same [OF Cons.prems(1) True Cons.prems(2)]
    then have "a \<notin> set (ld_awaiting (load_step m e l))" by blast
    from loads_settled [OF this, of m evs] same True show ?thesis by (cases e) auto
  next
    case False
    with Cons.IH [OF load_step_inv [OF Cons.prems(1)], of e] load_step_other [of e a l m] Cons.prems(2)
    show ?thesis by (simp add: False split: option.splits load_event.splits)
  qed
qed simp

section \<open>Properties\<close>

text \<open>C15: Whatever throws or fails, and in whichever order the images come, loading the Earth textures only
  ever fills the handle: an image whose load never starts, or fails, gives exactly one warning and no
  texture; an image that loads while no call throws gives a texture, whatever became of the other; a
  texture in the handle has sizes that are powers of two within the limit, its mipmaps, and the wrapping
  the shader relies on; the two are different; and the version counts the textures that are there.\<close>

theorem earth_textures_load:
  "let l = fold (load_step m) evs (createEarthTextures src w) in
     loader_inv m l \<and>
     (if load_starts src a
      then (case find (\<lambda>e. event_asset e = a) evs of
          None \<Rightarrow> texture_of a (ld_handle l) = None \<and> warned a l = 0
        | Some (Onerror b) \<Rightarrow> texture_of a (ld_handle l) = None \<and> warned a l = 1
        | Some (Onload b img host) \<Rightarrow>
            (if \<forall>c. call_throws host c = None then texture_of a (ld_handle l) \<noteq> None \<and> warned a l = 0
             else (texture_of a (ld_handle l) = None) = (warned a l = 1)))
      else texture_of a (ld_handle l) = None \<and> warned a l = 1)"
proof -
  let ?l0 = "createEarthTextures src w"
  define l where "l = fold (load_step m) evs ?l0"
  have inv: "loader_inv m l" unfolding l_def by (rule loads_inv [OF createEarthTextures_inv])
  have await: "a \<in> set (ld_awaiting l) \<Longrightarrow> texture_of a (ld_handle l) = None \<and> warned a l = 0"
    and settled: "a \<notin> set (ld_awaiting l) \<Longrightarrow> warned a l = (if texture_of a (ld_handle l) = None then 1 else 0)"
    using inv by (simp_all add: loader_inv_def)
  have none: "texture_of a (ld_handle ?l0) = None" by (cases a) (simp_all add: createEarthTextures_eq)
  show ?thesis
  proof (cases "load_starts src a")
    case True
    then have "a \<in> set (ld_awaiting ?l0)" by (simp add: createEarthTextures_eq)
    from loads_fate [OF createEarthTextures_inv this, of m evs] inv await settled True
    show ?thesis unfolding l_def [symmetric] Let_def
      by (auto split: option.splits load_event.splits)
  next
    case False
    then have "a \<notin> set (ld_awaiting ?l0)" by (simp add: createEarthTextures_eq)
    from loads_settled [OF this, of m evs] none settled inv False
    show ?thesis by (simp add: Let_def l_def)
  qed
qed

end
