(* ===== verification/Setup_Facts.thy ===== *)
theory Setup_Facts
  imports Gl_Setup Icon_Facts Texture_Facts
begin

text \<open>
  The setup of the renderer: which error is thrown when, that a successful setup leaves no shader
  behind, that the attribute locations are those the draw functions use, and that no draw reads past
  the end of a buffer.
\<close>

section \<open>Programs\<close>

lemma then_do_Inr: "fst (then_do m n) = Inr x \<longleftrightarrow> (\<exists>y. fst m = Inr y) \<and> fst n = Inr x"
  by (auto simp: then_do_def split: sum.splits)

lemma then_do_Inl: "fst (then_do m n) = Inl e \<longleftrightarrow> fst m = Inl e \<or> (\<exists>y. fst m = Inr y) \<and> fst n = Inl e"
  by (auto simp: then_do_def split: sum.splits)

lemma snd_then_do: "fst m = Inr y \<Longrightarrow> snd (then_do m n) = snd m @ snd n"
  by (simp add: then_do_def)

text \<open>What is wrong with a program, the first fault first.\<close>

definition program_fault :: "gl_api \<Rightarrow> gl_program \<Rightarrow> setup_error option" where
  "program_fault api p =
     (case compile_log api p VertexShader of Some info \<Rightarrow> Some (CompileFailed info)
      | None \<Rightarrow> (case compile_log api p FragmentShader of Some info \<Rightarrow> Some (CompileFailed info)
        | None \<Rightarrow> map_option LinkFailed (link_log api p)))"

definition first_fault :: "gl_api \<Rightarrow> setup_error option" where
  "first_fault api =
     (if \<not> gives_context api ''webgl'' \<and> \<not> gives_context api ''experimental-webgl'' then Some NoWebGL
      else if \<not> gives_2d api then Some No2D
      else case find (\<lambda>p. program_fault api p \<noteq> None) [EarthProg, LineProg, PointsProg, MarkerProg] of
          None \<Rightarrow> None | Some p \<Rightarrow> program_fault api p)"

lemma program_outcome:
  "fst (program api p bs) = (case program_fault api p of None \<Rightarrow> Inr () | Some e \<Rightarrow> Inl e)"
  by (simp add: program_def compile_def then_do_def calls_only_def program_fault_def split: option.split)

definition deleted :: "setup_call list \<Rightarrow> (gl_program \<times> shader_type) set" where
  "deleted cs = {(p, ty). DeleteShader p ty \<in> set cs}"

definition created :: "setup_call list \<Rightarrow> (gl_program \<times> shader_type) set" where
  "created cs = {(p, ty). CreateShader p ty \<in> set cs}"

lemma program_shaders:
  "fst (program api p bs) = Inr () \<Longrightarrow> created (snd (program api p bs)) = deleted (snd (program api p bs))"
  by (auto simp: program_def compile_def then_do_def calls_only_def created_def deleted_def split: option.splits sum.splits)

lemma contexts_outcome:
  "fst (get_contexts api) =
     (if \<not> gives_context api ''webgl'' \<and> \<not> gives_context api ''experimental-webgl'' then Inl NoWebGL
      else if \<not> gives_2d api then Inl No2D else Inr ())"
  by (simp add: get_contexts_def then_do_def calls_only_def throw_if_def)

lemma contexts_shaders: "created (snd (get_contexts api)) = {}" "deleted (snd (get_contexts api)) = {}"
  by (auto simp: get_contexts_def then_do_def calls_only_def throw_if_def created_def deleted_def split: if_splits)

lemma create_programs_outcome:
  "fst (create_programs api) = (case first_fault api of None \<Rightarrow> Inr () | Some e \<Rightarrow> Inl e)"
  by (simp add: create_programs_def then_do_def contexts_outcome program_outcome first_fault_def split: option.split)

lemma create_programs_shaders:
  assumes "first_fault api = None"
  shows "created (snd (create_programs api)) = deleted (snd (create_programs api))"
proof -
  have none: "program_fault api p = None" for p
    using assms by (cases p) (auto simp: first_fault_def split: if_splits)
  have ok: "fst (get_contexts api) = Inr ()" "fst (program api p bs) = Inr ()" for p bs
    using assms by (auto simp: first_fault_def contexts_outcome program_outcome none split: if_splits)
  have app: "created (xs @ ys) = created xs \<union> created ys" "deleted (xs @ ys) = deleted xs \<union> deleted ys" for xs ys
    by (auto simp: created_def deleted_def)
  show ?thesis
    by (simp add: create_programs_def then_do_def ok app contexts_shaders program_shaders)
qed

text \<open>Every attribute location a draw uses is one that was bound for its program.\<close>

lemma layouts_bound: "map fst (layout_of cmd) = map snd (ATTRIBS (program_of cmd))"
  by (cases cmd) simp_all

lemma attribs_small: "list_all (\<lambda>(name, i). i < 4) (ATTRIBS p) \<and> distinct (map snd (ATTRIBS p))"
  by (cases p) simp_all

section \<open>Buffers\<close>

lemma object_rows_bound: "n \<le> MAX_OBJECTS \<Longrightarrow> n + length (object_rows s n bs) \<le> MAX_OBJECTS"
  unfolding object_rows_eq length_take by simp

lemma sphere_lengths:
  "length (positions (buildSphere R a b)) = (a + 1) * (b + 1)"
  "length (normals (buildSphere R a b)) = (a + 1) * (b + 1)" "length (uvs (buildSphere R a b)) = (a + 1) * (b + 1)"
  by (simp_all only: buildSphere_def mesh.simps length_map length_grid)

lemma earth_vertices: "vertices_drawn (DrawEarth s e d n) \<le> 6305"
proof -
  let ?is = "sphere_indices 64 96"
  have "?is \<noteq> []" using sphere_indices_length [of 64 96] by (metis length_0_conv mult_is_0 zero_neq_numeral)
  moreover have "\<forall>k \<in> set ?is. k < 6305" using sphere_indices_bound [of _ 64 96] by simp
  ultimately have "Max (set ?is) < 6305" by (subst Max_less_iff) simp_all
  then show ?thesis by (simp add: vertices_drawn_def buildSphere_def)
qed

lemma buffer_sizes:
  "buffer_floats r EarthPos = 3 * 6305" "buffer_floats r EarthNrm = 3 * 6305" "buffer_floats r EarthUv = 2 * 6305"
  "buffer_floats r (LineVerts GratBuf) = 7 * gratVertCount"
  "buffer_floats r (PosOf ObjectPoints) = MAX_OBJECTS * 3" "buffer_floats r (ColOf ObjectPoints) = MAX_OBJECTS * 3"
  "buffer_floats r (SizeOf ObjectPoints) = MAX_OBJECTS" "buffer_floats r (IconOf ObjectPoints) = MAX_OBJECTS"
  "buffer_floats r (PosOf StarPoints) = STAR_COUNT * 3" "buffer_floats r (ColOf StarPoints) = STAR_COUNT * 3"
  "buffer_floats r (SizeOf StarPoints) = STAR_COUNT" "buffer_floats r (IconOf StarPoints) = STAR_COUNT"
  "buffer_floats r (PosOf PlanetPoints) = PLANET_CAP * 3" "buffer_floats r (ColOf PlanetPoints) = PLANET_CAP * 3"
  "buffer_floats r (SizeOf PlanetPoints) = PLANET_CAP" "buffer_floats r (IconOf PlanetPoints) = PLANET_CAP"
  "buffer_floats r MarkerZero = 1"
  by (simp_all add: buffer_floats_def initial_buffers_def Let_def sphere_lengths gratVertCount_def)

lemma grown_buffers:
  "buffer_floats r (LineVerts TrailBuf) = 7 * length (tb_vertices (trailBuf r))"
  "velSegment r \<noteq> None \<Longrightarrow> buffer_floats r (LineVerts VelBuf) = 14"
  by (auto simp: buffer_floats_def)

lemma floats_read_packed: "floats_read n (b, c, 0, 0) = n * c"
  by (cases n) simp_all

definition frame_cmd :: "renderer \<Rightarrow> draw_cmd \<Rightarrow> bool" where
  "frame_cmd r cmd \<longleftrightarrow> (case cmd of
      DrawEarth s e d n \<Rightarrow> True
    | DrawMarker p x c a \<Rightarrow> True
    | DrawLines GratBuf n \<Rightarrow> n = gratVertCount
    | DrawLines TrailBuf n \<Rightarrow> n = tb_vertCount (trailBuf r) \<and> n \<noteq> 0
    | DrawLines VelBuf n \<Rightarrow> n = 2 \<and> velSegment r \<noteq> None
    | DrawPointset StarPoints n \<Rightarrow> n = STAR_COUNT
    | DrawPointset PlanetPoints n \<Rightarrow> n = length (planetRender (rn_sky r))
    | DrawPointset ObjectPoints n \<Rightarrow> n = length (renderObjects r))"

lemma frame_cmds: "list_all (frame_cmd r) (fst (snd (frame mp tex now r)))"
proof -
  have "list_all (frame_cmd r) (draw_sky mp r)"
    by (simp add: draw_sky_def drawPointset_def drawMarker_def frame_cmd_def)
  moreover have "list_all (frame_cmd r) (draw_satellite mp r av)" for av
    by (auto simp: draw_satellite_def drawLines_def drawMarker_def frame_cmd_def split: option.split)
  ultimately show ?thesis
    by (simp add: frame_eq Let_def frame_cmd_def drawLines_def drawPointset_def grat_count)
qed

section \<open>The atlas\<close>

lemma atlasScale_cases:
  assumes "0 < d"
  shows "atlasScale d = (if d < 1 / 2 then 0 else if d < 3 / 2 then 1 else 2)"
  using assms by (auto simp: atlasScale_def Let_def min_def floor_eq_iff)

lemma atlas_world:
  "textures (snd (create_atlas d w)) = textures w @ [\<lparr>tex_size = Some (nat (atlas_canvas_size d), nat (atlas_canvas_size d)),
     tex_params = [''TEXTURE_MIN_FILTER'' \<mapsto> ''LINEAR_MIPMAP_LINEAR'', ''TEXTURE_MAG_FILTER'' \<mapsto> ''LINEAR'',
       ''TEXTURE_WRAP_S'' \<mapsto> ''CLAMP_TO_EDGE'', ''TEXTURE_WRAP_T'' \<mapsto> ''CLAMP_TO_EDGE''],
     mipmapped = power_of_two (nat (atlas_canvas_size d))\<rparr>]"
  by (simp add: create_atlas_def atlas_calls_def on_bound_def)

text \<open>C36: The icon atlas for a device pixel ratio of at least 1/2 is a texture of 256 or 512 pixels with its
  mipmaps, painted with cells of at least the base size, which is what the icons need to stay inside
  their cells. For a smaller ratio, as in a browser zoomed far out, the canvas has size 0 and there are no
  mipmaps: the sprites have no atlas to sample.\<close>

theorem atlas_texture:
  assumes "0 < d"
  shows "let i = last (textures (snd (create_atlas d w)))
    in if d < 1 / 2 then tex_size i = Some (0, 0) \<and> \<not> mipmapped i
       else (tex_size i = Some (256, 256) \<or> tex_size i = Some (512, 512)) \<and> mipmapped i \<and>
         real CELL \<le> atlas_cell d \<and> tex_size i = Some (nat \<lfloor>4 * atlas_cell d\<rfloor>, nat \<lfloor>4 * atlas_cell d\<rfloor>)"
proof -
  have "power_of_two 256" "power_of_two 512" using power_of_two_pow [of 8] power_of_two_pow [of 9] by simp_all
  moreover have "\<not> power_of_two 0" by (simp add: power_of_two_def)
  ultimately show ?thesis
    using assms by (simp add: atlas_world atlas_canvas_size_def atlas_cell_def atlasScale_cases CELL_def ATLAS_GRID_def Let_def)
qed

theorem atlas_texture_witness:
  "tex_size (last (textures (snd (create_atlas (3 / 10) \<lparr>canvas_size = (0, 0), textures = [], bound = None\<rparr>)))) =
     Some (0, 0)"
  using atlas_texture [of "3 / 10" "\<lparr>canvas_size = (0, 0), textures = [], bound = None\<rparr>"] by (simp add: Let_def)

section \<open>Properties\<close>

text \<open>C19: No draw call of a frame reads past the end of a buffer: in every reachable state of the renderer, each
  attribute of each draw lies inside what was allocated for it, the globe's indices included.\<close>

theorem draws_within_buffers:
  assumes "reachable renderer_start renderer_step r" and "cmd \<in> set (fst (snd (frame mp tex now r)))"
    and "(i, a) \<in> set (layout_of cmd)"
  shows "floats_read (vertices_drawn cmd) a \<le> buffer_floats r (fst a)"
proof -
  have inv: "renderer_inv r" by (rule renderer_machine.inv_reachable [OF assms(1)])
  have objects: "length (renderObjects r) \<le> MAX_OBJECTS"
    using inv object_rows_bound [of 0] by (auto simp: renderer_inv_def rebuildObjectBuffer_def split: option.split)
  have planets: "length (planetRender (rn_sky r)) \<le> PLANET_CAP"
    using inv by (simp add: renderer_inv_def sky_at_def rebuildSky_def PLANET_CAP_def Let_def)
  have trails: "tb_vertCount (trailBuf r) \<noteq> 0 \<Longrightarrow> length (tb_vertices (trailBuf r)) = tb_vertCount (trailBuf r)"
    using inv by (auto simp: renderer_inv_def buffer_ok_def split: jsnum.splits if_splits)
  have "frame_cmd r cmd" using frame_cmds assms(2) by (auto simp: list_all_iff)
  moreover have earth: "vertices_drawn (DrawEarth s e d n) \<le> 6305" for s e d n by (rule earth_vertices)
  ultimately show ?thesis using assms(3) objects planets trails
  proof (cases cmd)
    case (DrawEarth s e d n)
    with assms(3) earth [of s e d n] show ?thesis by (auto simp: buffer_sizes)
  next
    case (DrawLines b n)
    with \<open>frame_cmd r cmd\<close> assms(3) trails show ?thesis
      by (cases b) (auto simp: buffer_sizes grown_buffers frame_cmd_def vertices_drawn_def)
  next
    case (DrawPointset b n)
    with \<open>frame_cmd r cmd\<close> assms(3) objects planets show ?thesis
      by (cases b) (auto simp: buffer_sizes frame_cmd_def vertices_drawn_def floats_read_packed simp del: floats_read.simps)
  next
    case (DrawMarker p x c a')
    with assms(3) show ?thesis by (auto simp: buffer_sizes vertices_drawn_def)
  qed
qed

theorem draws_within_buffers_witness:
  "\<exists>r. reachable renderer_start renderer_step r \<and>
     (let cmd = DrawLines GratBuf 2760
      in cmd \<in> set (fst (snd (frame 64 \<lparr>day = None, night = None, version = 0\<rparr> 0 r))) \<and>
         floats_read (vertices_drawn cmd) (LineVerts GratBuf, 4, 28, 12) \<le> buffer_floats r (LineVerts GratBuf))"
proof -
  let ?r = "createRenderer 0 300 150"
  have r: "reachable renderer_start renderer_step ?r" by (rule reach_init) (auto simp: renderer_start_def)
  have cmd: "DrawLines GratBuf 2760 \<in> set (fst (snd (frame 64 \<lparr>day = None, night = None, version = 0\<rparr> 0 ?r)))"
    by (simp add: frame_eq Let_def)
  from draws_within_buffers [OF r cmd, of 1 "(LineVerts GratBuf, 4, 28, 12)"] r cmd show ?thesis
    by (auto simp: Let_def)
qed

text \<open>\<open>createRenderer\<close> either throws exactly the first fault there is - no WebGL context, no 2D context, a
  shader that does not compile, with its log, or a program that does not link - or it makes the four
  programs, deletes every shader it created, and the attribute locations it bound are exactly those
  each draw enables, all among the four that \<open>disableAttribs\<close> switches off.\<close>

theorem renderer_programs:
  "(case first_fault api of
      Some e \<Rightarrow> fst (create_programs api) = Inl e
    | None \<Rightarrow> fst (create_programs api) = Inr () \<and> created (snd (create_programs api)) = deleted (snd (create_programs api))) \<and>
   map fst (layout_of cmd) = map snd (ATTRIBS (program_of cmd)) \<and>
   DisableAttrib ` set (map fst (layout_of cmd)) \<subseteq> set disableAttribs"
proof -
  have "DisableAttrib ` set (map fst (layout_of cmd)) \<subseteq> set disableAttribs"
    by (cases cmd) (simp_all add: disableAttribs_def)
  then show ?thesis
    using layouts_bound [of cmd] create_programs_outcome [of api] create_programs_shaders [of api]
    by (simp split: option.split)
qed

end
