(* ===== verification/Live_Facts.thy ===== *)
theory Live_Facts
  imports Live_Page Setup_Facts
begin

text \<open>
  The renderer agrees with the page in every reachable state of frontend/js/main.js: its settings, its
  snapshot and its selection are the page's, so what is drawn and picked is what the panel shows.
\<close>

section \<open>The page inside\<close>

lemma live_effect_page [simp]: "fst (live_effect dp dn now e q) = page_effect dp dn now e (fst q)"
  by (simp add: live_effect_def Let_def)

lemma live_effects_page: "fst (fold (live_effect dp dn now) es q) = fold (page_effect dp dn now) es (fst q)"
  by (induction es arbitrary: q) simp_all

lemma live_conn_page [simp]: "fst (live_conn dp dn now ev q) = page_conn dp dn now ev (fst q)"
  by (simp add: live_conn_def page_conn_def live_effects_page split: prod.split)

lemma live_endpoint_page [simp]: "fst (live_endpoint dp dn now ok h p q) = page_endpoint dp dn now ok h p (fst q)"
  by (simp add: live_endpoint_def page_endpoint_def split: prod.split)

lemma live_settings_page [simp]: "fst (live_settings dp dn now ok s q) = page_settings dp dn now ok s (fst q)"
  by (simp add: live_settings_def page_settings_def Let_def split: prod.split)

lemma live_calls_page [simp]: "fst (live_calls dp dn now ok calls q) = page_calls dp dn now ok calls (fst q)"
  unfolding live_calls_def page_calls_def by (induction calls arbitrary: q) (auto split: prod.split)

lemma live_callback_page [simp]: "fst (live_callback dp dn now ok cb q) = run_callback dp dn now ok cb (fst q)"
  by (simp add: live_callback_def run_callback_def page_reconnect_def Let_def split: ui_callback.split)

lemma live_callbacks_page:
  "fst (fold (live_callback dp dn now ok) cbs q) = fold (run_callback dp dn now ok) cbs (fst q)"
  by (induction cbs arbitrary: q) simp_all

section \<open>Agreement\<close>

definition agrees :: "real \<Rightarrow> (ui \<times> app) \<times> renderer \<Rightarrow> bool" where
  "agrees now q \<longleftrightarrow> (case q of ((u, a), r) \<Rightarrow>
     renderer_inv r \<and> lastSnapNow r \<le> now \<and> rn_settings r = a_renderer a \<and> rn_snapshot r = a_snapshot a \<and>
     rn_selectedId r = ui_selectedId u)"

lemma setSnapshot_selected [simp]: "rn_selectedId (setSnapshot dp snap now r) = rn_selectedId r"
  by (simp add: setSnapshot_def rebuild_sky_def rebuild_trails_def rebuild_objects_def rebuildSatellite_def
      anchor_epoch_def Let_def split: option.split)

lemma setSettings_fields [simp]:
  "rn_selectedId (setSettings s r) = rn_selectedId r" "rn_snapshot (setSettings s r) = rn_snapshot r"
  "lastSnapNow (setSettings s r) = lastSnapNow r" "rn_settings (setSettings s r) = normalizeSettings s"
  by (simp_all add: setSettings_def rebuild_trails_def rebuild_objects_def)

lemma setSettings_inv: "renderer_inv r \<Longrightarrow> renderer_inv (setSettings s r)"
  by (rule renderer_step_inv [OF _ r_settings])

lemma selected_kept [simp]:
  "ui_selectedId (updateConnection s url u) = ui_selectedId u"
  "ui_selectedId (updateData dp dn st m u) = ui_selectedId u"
  by (simp_all add: updateConnection_def updateData_def Let_def renderList_def updateViewBadge_def
      updateDataTimeText_def split: option.split prod.split)

lemma live_effect_agrees: "agrees now q \<Longrightarrow> agrees now (live_effect dp dn now e q)"
  by (cases q; cases e)
    (auto simp: agrees_def live_effect_def page_effect_def Let_def setSnapshot_fields setSnapshot_inv split: prod.splits)

lemma live_conn_agrees: "agrees now q \<Longrightarrow> agrees now (live_conn dp dn now ev q)"
proof -
  assume q: "agrees now q"
  obtain u a r where q': "q = ((u, a), r)" by (metis surj_pair)
  obtain w' es where d: "deliver ev (a_world a) = (w', es)" by (meson surj_pair)
  have "agrees now ((u, a\<lparr>a_world := w'\<rparr>), r)" using q by (simp add: q' agrees_def)
  then have "agrees now (fold (live_effect dp dn now) es ((u, a\<lparr>a_world := w'\<rparr>), r))"
    by (rule fold_keeps) (rule live_effect_agrees)
  then show ?thesis by (simp add: live_conn_def q' d)
qed

lemma live_endpoint_agrees:
  assumes "agrees now q"
  shows "agrees now (live_endpoint dp dn now ok h p q)"
proof -
  obtain u a r where q: "q = ((u, a), r)" by (metis surj_pair)
  have "agrees now ((u, a\<lparr>currentHost := h, currentPort := p\<rparr>), r)" using assms by (simp add: q agrees_def)
  then show ?thesis by (simp add: live_endpoint_def q live_conn_agrees)
qed

lemma live_settings_agrees: "agrees now q \<Longrightarrow> agrees now (live_settings dp dn now ok s q)"
proof -
  assume q: "agrees now q"
  obtain u a r where q': "q = ((u, a), r)" by (metis surj_pair)
  have "agrees now ((u, a\<lparr>a_renderer := normalizeSettings (applyRendererSettings s)\<rparr>), setSettings (applyRendererSettings s) r)"
    using q by (simp add: q' agrees_def setSettings_inv)
  then show ?thesis by (simp add: live_settings_def q' Let_def live_endpoint_agrees)
qed

lemma live_calls_agrees: "agrees now q \<Longrightarrow> agrees now (live_calls dp dn now ok calls q)"
  unfolding live_calls_def by (erule fold_keeps) (auto intro: live_settings_agrees)

lemma live_callback_agrees:
  "agrees now q \<Longrightarrow> cb = OnReconnect \<Longrightarrow> agrees now (live_callback dp dn now ok cb q)"
  by (simp add: live_callback_def Let_def live_endpoint_agrees)

text \<open>A panel event changes the selection only by a click on a row, which also calls \<open>onSelect\<close>.\<close>

lemma run_listener_selected: "ui_selectedId (run_listener st calls u) = ui_selectedId u"
  unfolding run_listener_def by (induction calls arbitrary: u) (auto simp: ui_on_change_keeps)

lemma set_modal_selected: "ui_selectedId (set_modal m b u) = ui_selectedId u"
  by (cases m) simp_all

lemma form_event_page: "form_event ev \<Longrightarrow> page_event ev"
  by (cases ev) auto

lemma ui_handle_selected:
  assumes "form_event ev" and "ui_handle dp ev (u, st) = Inr ((u', st'), calls)"
  shows "ui_selectedId u' = (case ev of ClickRow (Some i) \<Rightarrow> Some i | _ \<Rightarrow> ui_selectedId u)"
proof (cases "ui_patch ev (u, st)")
  case (Some q)
  then obtain u1 patch where q: "ui_patch ev (u, st) = Some (u1, patch)" by (cases q) auto
  then obtain f where f: "u1 = u\<lparr>the_form := f\<rparr>" using ui_patch_form by blast
  from assms(2) q obtain st2 calls2 where "u' = run_listener st2 calls2 u1"
    by (auto simp: ui_patch_handle store_update_def res_simps)
  moreover have "\<not> (\<exists>i. ev = ClickRow i)" using q by auto
  ultimately show ?thesis by (auto simp: run_listener_selected f split: ui_event.split)
next
  case None
  then show ?thesis
    using assms
    by (cases ev) (auto simp: quiet_def keydown_def Let_def anyModalOpen_def closeAllModals_def closeModal_def
        openModal_def set_modal_selected panel_toggle_def chip_click_def setFilter_def renderList_def ui_setSelected_def
        syncSettingsForm_def tick_def updateDataTimeText_def click_reset_def run_listener_selected
        split: if_splits option.splits prod.splits modal.splits)
qed

section \<open>The invariant\<close>

definition live_inv :: "live \<Rightarrow> bool" where
  "live_inv l \<longleftrightarrow> page_inv (page_of l) \<and> agrees (lastSnapNow (scene l)) (page_of l, scene l)"

lemma agrees_now: "agrees now (p, r) \<Longrightarrow> agrees (lastSnapNow r) (p, r)"
  by (simp add: agrees_def split: prod.splits)

lemma agrees_later: "agrees (lastSnapNow r) (p, r) \<Longrightarrow> lastSnapNow r \<le> now \<Longrightarrow> agrees now (p, r)"
  by (simp add: agrees_def split: prod.splits)

text \<open>The canvas and the clock only move the camera, the size and the anchor of the clock.\<close>

lemma agrees_scene:
  assumes "agrees (lastSnapNow r) (p, r)" and "renderer_step r e r'"
    and "\<exists>c. e = CameraEvent c \<or> (\<exists>w h d. e = Resize w h d) \<or> (\<exists>t. e = FrameTime t)"
  shows "agrees (lastSnapNow r') (p, r')"
proof -
  obtain u a where p: "p = (u, a)" by (cases p)
  have "renderer_inv r'" using renderer_step_inv [OF _ assms(2)] assms(1) by (simp add: agrees_def p)
  moreover have "rn_settings r' = rn_settings r \<and> rn_snapshot r' = rn_snapshot r \<and> rn_selectedId r' = rn_selectedId r"
    using assms(2,3) by (auto elim!: renderer_stepE simp: resize_def Let_def sceneNowMs_def split: option.splits)
  ultimately show ?thesis using assms(1) by (simp add: agrees_def p)
qed

lemma agrees_select:
  assumes "agrees now ((u, a), r)"
  shows "agrees now ((ui_setSelected i u, a), setSelected i r)"
  using assms renderer_step_inv [OF _ r_selected, of r i] by (simp add: agrees_def ui_setSelected_def setSelected_def)

section \<open>Every step keeps it\<close>

lemma select_page_inv: "page_inv (u, a) \<Longrightarrow> page_inv (ui_setSelected i u, a)"
proof -
  assume inv: "page_inv (u, a)"
  have "page_step (\<lambda>s. None) (u, a) (PageUi (CallSetSelected i) True, 0, 0)
      (fold (run_callback (\<lambda>s. None) 0 0 True) (ui_callbacks (CallSetSelected i))
        (page_calls (\<lambda>s. None) 0 0 True [] (ui_setSelected i u, a\<lparr>a_store := a_store a\<rparr>)))"
    by (rule page_ui) (simp_all add: quiet_def)
  from page_step_inv [OF inv this] show ?thesis by (simp add: page_calls_def)
qed

lemma live_ui_agrees:
  assumes "form_event ev" and "ui_handle dp ev (u, a_store a) = Inr ((u', st'), calls)" and "agrees now ((u, a), r)"
  shows "agrees now (fold (live_callback dp dn now ok) (ui_callbacks ev)
      (live_calls dp dn now ok calls ((u', a\<lparr>a_store := st'\<rparr>), r)))"
proof (cases "\<exists>i. ev = ClickRow (Some i)")
  case True
  then obtain i where ev: "ev = ClickRow (Some i)" by blast
  with assms(2) have u': "u' = ui_setSelected (Some i) u" "st' = a_store a" "calls = []" by (auto simp: quiet_def)
  have "agrees now ((ui_setSelected (Some i) u, a), setSelected (Some i) r)" by (rule agrees_select [OF assms(3)])
  then show ?thesis by (simp add: ev u' live_calls_def live_callback_def)
next
  case False
  then have sel: "ui_selectedId u' = ui_selectedId u"
    using ui_handle_selected [OF assms(1,2)] by (auto split: ui_event.splits option.splits)
  have cbs: "ui_callbacks ev = [] \<or> ui_callbacks ev = [OnReconnect]"
    using False by (cases ev rule: ui_callbacks.cases) auto
  have "agrees now ((u', a\<lparr>a_store := st'\<rparr>), r)" using assms(3) sel by (simp add: agrees_def)
  then have "agrees now (live_calls dp dn now ok calls ((u', a\<lparr>a_store := st'\<rparr>), r))" by (rule live_calls_agrees)
  with cbs show ?thesis using live_callback_agrees by (elim disjE) simp_all
qed

lemma scene_step_inv:
  assumes "live_inv l" and "renderer_step (scene l) e r'"
    and "\<exists>c. e = CameraEvent c \<or> (\<exists>w h d. e = Resize w h d) \<or> (\<exists>t. e = FrameTime t)"
  shows "live_inv (l\<lparr>scene := r'\<rparr>)" "live_inv (l\<lparr>scene := r', clicks := d\<rparr>)"
  using assms(1) agrees_scene [OF _ assms(2,3), of "page_of l"] by (simp_all add: live_inv_def)

lemma live_up_inv:
  assumes "live_inv l"
  shows "live_inv (live_up x0 y0 x y l)"
proof -
  define r where "r = (scene l)\<lparr>rn_camera := onUp (rn_camera (scene l))\<rparr>"
  have "renderer_step (scene l) (CameraEvent CamUp) r" unfolding r_def by (rule r_camera) (rule cam_up)
  from scene_step_inv(1) [OF assms this] have inv: "live_inv (l\<lparr>scene := r\<rparr>)" by blast
  show ?thesis
  proof (cases "pointerup x0 y0 x y (clicks l)")
    case None
    then show ?thesis using inv by (simp add: live_up_def Let_def flip: r_def)
  next
    case (Some q)
    obtain px py where q: "q = (px, py)" by (cases q)
    obtain u a where p: "page_of l = (u, a)" by (cases "page_of l")
    from inv p have "page_inv (u, a)" "agrees (lastSnapNow r) ((u, a), r)" by (simp_all add: live_inv_def)
    then have "page_inv (ui_setSelected i u, a)"
      "agrees (lastSnapNow (setSelected i r)) ((ui_setSelected i u, a), setSelected i r)" for i
      using select_page_inv agrees_select by (simp_all add: setSelected_def)
    then show ?thesis by (simp add: live_up_def Let_def Some q p live_inv_def flip: r_def)
  qed
qed

lemma live_ui_inv:
  assumes "live_inv l" and ev: "form_event ev" and p: "page_of l = (u, a)"
    and h: "ui_handle dp ev (u, a_store a) = Inr ((u', st'), calls)" and now: "lastSnapNow (scene l) \<le> now"
    and q: "q = fold (live_callback dp dn now ok) (ui_callbacks ev)
      (live_calls dp dn now ok calls ((u', a\<lparr>a_store := st'\<rparr>), scene l))"
  shows "live_inv (l\<lparr>page_of := fst q, scene := snd q\<rparr>)"
proof -
  from assms(1) p have inv: "page_inv (u, a)" and "agrees (lastSnapNow (scene l)) ((u, a), scene l)"
    by (simp_all add: live_inv_def)
  then have "agrees now q" unfolding q by (intro live_ui_agrees [OF ev h] agrees_later [OF _ now])
  moreover have "page_inv (fst q)"
    unfolding q live_callbacks_page live_calls_page
    using page_step_inv [OF inv page_ui [OF form_event_page [OF ev] h]] by simp
  ultimately show ?thesis using agrees_now [of now "fst q" "snd q"] by (simp add: live_inv_def)
qed

lemma live_net_inv:
  assumes "live_inv l" and ev: "network_event ev" "enabled ev (a_world (snd (page_of l)))"
    and now: "lastSnapNow (scene l) \<le> now" and q: "q = live_conn dp dn now ev (page_of l, scene l)"
  shows "live_inv (l\<lparr>page_of := fst q, scene := snd q\<rparr>)"
proof -
  obtain u a where p: "page_of l = (u, a)" by (cases "page_of l")
  from assms(1) have inv: "page_inv (u, a)" and "agrees (lastSnapNow (scene l)) (page_of l, scene l)"
    by (simp_all add: live_inv_def p)
  then have "agrees now q" unfolding q by (intro live_conn_agrees agrees_later [OF _ now])
  moreover have "page_inv (fst q)"
    unfolding q live_conn_page using page_step_inv [OF inv page_net] ev by (simp add: p)
  ultimately show ?thesis using agrees_now [of now "fst q" "snd q"] by (simp add: live_inv_def)
qed

lemma live_step_inv:
  assumes "live_inv l" and "live_step dp l e l'"
  shows "live_inv l'"
  using assms(2)
  by (rule live_stepE; hypsubst)
    (rule live_ui_inv [OF assms(1) _ _ _ _ refl] live_net_inv [OF assms(1) _ _ _ refl] live_up_inv [OF assms(1)]
      scene_step_inv [OF assms(1) r_camera] scene_step_inv [OF assms(1) r_resize] scene_step_inv [OF assms(1) r_frame];
      (assumption | rule camera_step.intros | blast))+

lemma live_boot_page:
  assumes "live_boot dp stg site hostname ok api box dn = Inr (Running l)"
  shows "page_boot dp stg site hostname ok = Inr (page_of l)"
proof -
  from assms obtain st where st: "createSettings stg site = Inr st" by (auto simp: live_boot_def res_simps)
  obtain u st1 where c: "createUi st = (u, st1)" by (cases "createUi st")
  show ?thesis using assms
    by (auto simp: live_boot_def page_boot_def st c Let_def split: sum.splits)
qed

lemma live_boot_inv:
  assumes "live_boot dp stg site hostname ok api box dn = Inr (Running l)"
  shows "live_inv l"
proof -
  from assms obtain st where st: "createSettings stg site = Inr st" by (auto simp: live_boot_def res_simps)
  obtain u st1 where c: "createUi st = (u, st1)" by (cases "createUi st")
  define r where "r = resize (clientW box) (clientH box) (pixelRatio box)
    (setSettings (applyRendererSettings (get st)) (createRenderer dn (glW box) (glH box)))"
  have "renderer_inv (createRenderer dn (glW box) (glH box))" by (rule renderer_start_inv) (auto simp: renderer_start_def)
  then have r: "renderer_inv r" unfolding r_def by (intro renderer_step_inv [OF _ r_resize] setSettings_inv)
  have sel: "rn_selectedId r = None" "rn_snapshot r = None" "lastSnapNow r = 0"
    "rn_settings r = normalizeSettings (applyRendererSettings (get st))"
    by (simp_all add: r_def resize_def Let_def) (simp_all add: createRenderer_def)
  have u: "ui_selectedId u = None"
    using c by (auto simp: createUi_def Let_def view_simps setFilter_def syncSettingsForm_def page_def split: if_splits)
  obtain ps where "fst (create_programs api) = Inr ps"
    using assms by (cases "fst (create_programs api)") (auto simp: live_boot_def st)
  then obtain u1 a where
    l: "(page_of l, scene l) = live_conn dp 0 0 (Connect ok) ((u1, a), r)"
    and a: "a_renderer a = rn_settings r" "a_snapshot a = None" "ui_selectedId u1 = None"
    using assms that [of "updateConnection Connecting (wsUrl (resolveHost hostname (get st)) (port (get st))) u"]
    by (auto simp: live_boot_def st c Let_def sel(4) u simp del: live_conn_page simp flip: r_def)
  have "agrees 0 ((u1, a), r)" using r sel a by (simp add: agrees_def)
  then have "agrees 0 (page_of l, scene l)" unfolding l by (rule live_conn_agrees)
  with page_boot_inv [OF live_boot_page [OF assms]] show ?thesis by (simp add: live_inv_def agrees_now)
qed

interpretation live_page: stepper "live_start dp" "live_step dp" live_inv
  by unfold_locales (auto simp: live_start_def intro: live_boot_inv live_step_inv)

text \<open>Nothing the connection does changes the settings or the size of the renderer.\<close>

definition view_setup :: "renderer \<Rightarrow> r_settings \<times> real \<times> real \<times> mat4" where
  "view_setup r = (rn_settings r, canvasW r, canvasH r, rn_proj r)"

lemma live_conn_setup: "view_setup (snd (live_conn dp dn now ev q)) = view_setup (snd q)"
proof -
  obtain u a r where q: "q = ((u, a), r)" by (metis surj_pair)
  have "view_setup (setSnapshot dp snap now r) = view_setup r" for snap r
    by (simp add: view_setup_def setSnapshot_def rebuild_sky_def rebuild_trails_def rebuild_objects_def
        rebuildSatellite_def anchor_epoch_def Let_def split: option.split)
  then have "view_setup (snd (live_effect dp dn now e p)) = view_setup (snd p)" for e p
    by (simp add: live_effect_def Let_def split: effect.split)
  then have "view_setup (snd (fold (live_effect dp dn now) es p)) = view_setup (snd p)" for es p
    by (induction es arbitrary: p) simp_all
  then show ?thesis by (simp add: live_conn_def q split: prod.split)
qed

lemma boot_runs:
  assumes st: "createSettings stg site = Inr st" and none: "first_fault api = None"
  shows "\<exists>l. live_boot dp stg site hostname ok api box dn = Inr (Running l) \<and>
    view_setup (scene l) = (normalizeSettings (applyRendererSettings (get st)),
      max 1 (js_round (first_nonzero (clientW box) (glW box) * first_nonzero (pixelRatio box) 1)),
      max 1 (js_round (first_nonzero (clientH box) (glH box) * first_nonzero (pixelRatio box) 1)),
      perspective FOV (canvasW (scene l) / canvasH (scene l)) NEAR FAR) \<and>
    conn_endpoint (the_conn (a_world (snd (page_of l)))) = (resolveHost hostname (get st), port (get st))"
proof -
  obtain u st1 where c: "createUi st = (u, st1)" by (cases "createUi st")
  from none have "fst (create_programs api) = Inr ()" by (simp add: create_programs_outcome)
  then obtain u1 a r l where l: "live_boot dp stg site hostname ok api box dn = Inr (Running l)"
    "(page_of l, scene l) = live_conn dp 0 0 (Connect ok) ((u1, a), r)"
    and r: "r = resize (clientW box) (clientH box) (pixelRatio box)
      (setSettings (applyRendererSettings (get st)) (createRenderer dn (glW box) (glH box)))"
    and a: "conn_endpoint (the_conn (a_world a)) = (resolveHost hostname (get st), port (get st))"
    by (simp add: live_boot_def st c Let_def conn_endpoint_def createConnection_def del: live_conn_page)
  have q: "scene l = snd (live_conn dp 0 0 (Connect ok) ((u1, a), r))"
    "page_of l = page_conn dp 0 0 (Connect ok) (u1, a)"
    using arg_cong [OF l(2), of snd] arg_cong [OF l(2), of fst] by simp_all
  have "view_setup (scene l) = view_setup r" by (simp add: q(1) live_conn_setup)
  moreover have "conn_endpoint (the_conn (a_world (snd (page_of l)))) = (resolveHost hostname (get st), port (get st))"
    by (simp add: q(2) page_conn_app conn_act_endpoint a)
  moreover have "view_setup r = (normalizeSettings (applyRendererSettings (get st)),
      max 1 (js_round (first_nonzero (clientW box) (glW box) * first_nonzero (pixelRatio box) 1)),
      max 1 (js_round (first_nonzero (clientH box) (glH box) * first_nonzero (pixelRatio box) 1)),
      perspective FOV (canvasW r / canvasH r) NEAR FAR)"
    by (simp add: view_setup_def r resize_def Let_def first_nonzero_def setSettings_def rebuild_trails_def
      rebuild_objects_def createRenderer_def)
  ultimately show ?thesis using l(1) by (auto simp: view_setup_def)
qed

section \<open>Properties\<close>

text \<open>C3: After any sequence of panel and canvas events, frames, connection events, timers and animation
  frames, the renderer and the panel show one state: the renderer runs on the settings of the store, its
  object points are those of the snapshot it holds, which is the model's, every row of the table names
  an object of that snapshot, and the rows marked as selected are those of the object the renderer marks.\<close>

theorem scene_matches_page:
  assumes "reachable (live_start dp) (live_step dp) l"
  shows "case page_of l of (u, a) \<Rightarrow>
    rn_settings (scene l) = normalizeSettings (applyRendererSettings (get (a_store a))) \<and>
    renderObjects (scene l) = rebuildObjectBuffer (rn_settings (scene l)) (rn_snapshot (scene l)) \<and>
    (case rn_snapshot (scene l) of
       None \<Rightarrow> objectRows u = []
     | Some snap \<Rightarrow> snap = getSnapshot (a_model a) \<and> dataset_id ` set (objectRows u) \<subseteq> obj_id ` set (snap_objects snap)) \<and>
    map tr_selected (objectRows u) = map (\<lambda>tr. rn_selectedId (scene l) = Some (dataset_id tr)) (objectRows u)"
proof -
  obtain u a where p: "page_of l = (u, a)" by (cases "page_of l")
  from live_page.inv_reachable [OF assms] p have inv: "app_inv a" "reflects (u, a)"
    and ag: "agrees (lastSnapNow (scene l)) ((u, a), scene l)"
    by (simp_all add: live_inv_def page_inv_def)
  have rows: "lastModel u = map_option (\<lambda>s. a_model a) (a_snapshot a)" "list_shown u"
    using inv(2) by (simp_all add: reflects_def panel_inv_def)
  have "(case a_snapshot a of
       None \<Rightarrow> objectRows u = []
     | Some snap \<Rightarrow> snap = getSnapshot (a_model a) \<and> dataset_id ` set (objectRows u) \<subseteq> obj_id ` set (snap_objects snap)) \<and>
    map tr_selected (objectRows u) = map (\<lambda>tr. ui_selectedId u = Some (dataset_id tr)) (objectRows u)"
    using inv(2) rows
    by (cases "a_snapshot a")
      (auto simp: reflects_def list_shown_def make_tr_def getSnapshot_def getListRows_def Let_def comp_def
        dest!: in_set_takeD split: option.splits if_splits)
  with ag inv(1) show ?thesis
    by (simp add: p agrees_def renderer_inv_def app_inv_def in_force_def get_current)
qed


theorem scene_matches_page_witness:
  "\<exists>l. live_boot (\<lambda>s. None) empty_storage (JObj []) [] True
       \<lparr>gives_context = \<lambda>s. True, gives_2d = True, compile_log = \<lambda>p t. None, link_log = \<lambda>p. None\<rparr>
       \<lparr>clientW = 800, clientH = 600, glW = 300, glH = 150, pixelRatio = 1\<rparr> 0 = Inr (Running l) \<and>
     rn_settings (scene l) = normalizeSettings (applyRendererSettings (get (a_store (snd (page_of l))))) \<and>
     renderObjects (scene l) = rebuildObjectBuffer (rn_settings (scene l)) (rn_snapshot (scene l))"
proof -
  let ?api = "\<lparr>gives_context = \<lambda>s. True, gives_2d = True, compile_log = \<lambda>p t. None, link_log = \<lambda>p. None\<rparr>"
  have "first_fault ?api = None" by (simp add: first_fault_def program_fault_def)
  from boot_runs [OF createSettings_empty this] obtain l where
    l: "live_boot (\<lambda>s. None) empty_storage (JObj []) [] True ?api
       \<lparr>clientW = 800, clientH = 600, glW = 300, glH = 150, pixelRatio = 1\<rparr> 0 = Inr (Running l)"
    by blast
  then have "reachable (live_start (\<lambda>s. None)) (live_step (\<lambda>s. None)) l"
    unfolding live_start_def by (intro reach_init) blast
  from scene_matches_page [OF this] l show ?thesis by (auto split: prod.splits)
qed

text \<open>C22: Opening the page ends in exactly one of three ways, whatever becomes of fetching config.toml, whose
  values never stop it.  A stored item in which the port or the trail length cannot be converted to a
  number (an object with a property toString, alone or within an array) stops it with a TypeError; else,
  a browser without a context, or whose driver refuses a shader or a program, leaves the text of the
  first of these faults on the page and nothing else; otherwise it runs on the stored settings over
  the site's, with the renderer on them, its back buffer and projection at the size of the canvas
  before the first frame, and the connection on the resolved host and port.\<close>

theorem boot_outcome:
  "let page = start_page dp fetched stg hostname ok api box dn in
   if \<exists>v. loadStored stg = Some v \<and> bad_number v then page = Inl TypeError
   else case first_fault api of
       Some e \<Rightarrow> page = Inr (Fatal (''Unable to initialize the WebGL renderer: '' @ setup_message e))
     | None \<Rightarrow> \<exists>eff s l. mergeSiteDefaults (loadSiteDefaults fetched) = Inr eff \<and>
         (case loadStored stg of None \<Rightarrow> s = eff | Some v \<Rightarrow> applyPatch eff v = Inr s) \<and>
         page = Inr (Running l) \<and>
         view_setup (scene l) = (normalizeSettings (applyRendererSettings s),
           max 1 (js_round (first_nonzero (clientW box) (glW box) * first_nonzero (pixelRatio box) 1)),
           max 1 (js_round (first_nonzero (clientH box) (glH box) * first_nonzero (pixelRatio box) 1)),
           perspective FOV (canvasW (scene l) / canvasH (scene l)) NEAR FAR) \<and>
         conn_endpoint (the_conn (a_world (snd (page_of l)))) = (resolveHost hostname s, port s)"
proof -
  obtain eff where eff: "mergeSiteDefaults (loadSiteDefaults fetched) = Inr eff" "settings_wf eff"
    using config_reaches_settings [of fetched] by (auto simp: loadSiteDefaults_def)
  note current = createSettings_current [OF eff(1), of stg]
  note start = start_page_def live_boot_def
  show ?thesis
  proof (cases "\<exists>v. loadStored stg = Some v \<and> bad_number v")
    case True
    then obtain v where v: "loadStored stg = Some v" "bad_number v" by blast
    then have "applyPatch eff v = Inl TypeError" by (simp add: applyPatch_throws bad_number_def)
    with v True show ?thesis by (auto simp: start current)
  next
    case False
    obtain s where s: "case loadStored stg of None \<Rightarrow> s = eff | Some v \<Rightarrow> applyPatch eff v = Inr s"
    proof (cases "loadStored stg")
      case (Some v)
      with False have "applyPatch eff v \<noteq> Inl e" for e by (simp add: applyPatch_throws bad_number_def)
      then obtain s where "applyPatch eff v = Inr s" by (cases "applyPatch eff v") auto
      with Some that show ?thesis by simp
    qed simp
    have wf: "settings_wf s"
      using s eff(2) applyPatch_wf [OF _ eff(2)] by (auto split: option.splits)
    let ?st = "\<lparr>current = s, effectiveDefaults = eff, listeners = [], storage = stg\<rparr>"
    have st: "createSettings stg (loadSiteDefaults fetched) = Inr ?st"
      using s by (simp add: current split: option.splits)
    have g: "get ?st = s" using wf by (simp add: get_def)
    show ?thesis
    proof (cases "first_fault api")
      case None
      then show ?thesis
        using boot_runs [OF st, where dp = dp and hostname = hostname and ok = ok and box = box and dn = dn and api = api] False s eff(1)
        by (auto simp: start_page_def g)
    next
      case (Some e)
      with False st show ?thesis by (simp add: start create_programs_outcome showFatalError_def)
    qed
  qed
qed

section \<open>A frame reaches the screen\<close>

lemma live_message:
  assumes "socket (the_conn (a_world a)) = Some ws"
  shows "\<exists>w'. live_conn dp dn now (WsMessage ws data) ((u, a), r) =
    live_effect dp dn now (outcome data) ((u, a\<lparr>a_world := w'\<rparr>), r)"
proof -
  obtain w' where "deliver (WsMessage ws data) (a_world a) = (w', [outcome data])"
    using onmessage_outcome [OF assms] by (simp add: deliver_def handle_def)
  then show ?thesis by (intro exI [of _ w']) (simp add: live_conn_def)
qed

lemma updateData_rows:
  "objectRows (updateData dp dn st m u) = map (make_tr (ui_selectedId u)) (fst (getListRows (currentFilter u) 1000 m))"
proof -
  obtain u' where "updateData dp dn st m u = renderList m (updateViewBadge st u')" "currentFilter u' = currentFilter u"
    using updateData_eq [of dp dn st m u] by blast
  moreover have "ui_selectedId (updateData dp dn st m u) = ui_selectedId u" by simp
  ultimately show ?thesis by (simp add: renderList_def updateViewBadge_keeps split: prod.splits)
qed

definition state_snapshot :: "state_msg \<Rightarrow> snapshot" where
  "state_snapshot m = \<lparr>snap_satellite = satellite m, snap_objects = objects m, snap_lastDataTime = lastDataTime m,
     snap_serverTime = Some (serverTime m), snap_trailPoints = trailPoints m\<rparr>"

lemma applied_snapshot: "getSnapshot (applyState (State m) now c) = state_snapshot m"
  by (simp add: getSnapshot_def applyState_def state_snapshot_def)

lemma applied_objects: "m_objects (applyState (State m) now c) = objects m"
  by (simp add: applyState_def)

lemma state_shown:
  "live_effect dp dn now (CallState m) ((u, a), r) = ((u', a'), r') \<Longrightarrow>
    r' = setSnapshot dp (Some (state_snapshot m)) now r \<and> a_store a' = a_store a \<and>
    objectRows u' = map (make_tr (ui_selectedId u)) (fst (getListRows (currentFilter u) 1000 (a_model a'))) \<and>
    m_objects (a_model a') = objects m"
  by (auto simp: live_effect_def page_effect_def Let_def applied_snapshot updateData_rows applied_objects)

lemma boot_socket:
  assumes "live_boot dp stg site hostname True api box dn = Inr (Running l)"
  shows "socket (the_conn (a_world (snd (page_of l)))) = Some 0 \<and> 0 < next_socket (the_conn (a_world (snd (page_of l))))"
proof -
  have "boot stg site hostname True = Inr (snd (page_of l))"
    using page_boot_app [of dp stg site hostname True] live_boot_page [OF assms] by simp
  then obtain a0 h p where "snd (page_of l) = conn_act 0 (Connect True) a0" "the_conn (a_world a0) = createConnection h p"
    by (cases "createSettings stg site") (auto simp: boot_def Let_def eq_commute [of _ "snd (page_of l)"])
  then show ?thesis
    by (auto simp: conn_act_world deliver_def handle_def handler_simps createConnection_def)
qed

text \<open>C4: A frame of the server reaches the screen in one step: from any reachable state of the page, a text on the
  current socket that is a state message makes the renderer hold exactly that message's snapshot,
  with its object points rebuilt from it under the settings in force and its trails extended by it, and
  makes the table show the objects of the message that pass the filter, by id, at most 1000 of them; any
  other text leaves the panel and the scene as they were.\<close>

theorem frame_reaches_screen:
  assumes "reachable (live_start dp) (live_step dp) l" and "page_of l = (u, a)"
    and "socket (the_conn (a_world a)) = Some ws"
    and "live_step dp l (LiveNet (WsMessage ws data), dateNow, now) l'"
  shows "case parseStateMessage data of
      Inr (State m) \<Rightarrow>
        rn_snapshot (scene l') = Some (state_snapshot m) \<and>
        renderObjects (scene l') = object_rows (normalizeSettings (applyRendererSettings (get (a_store a)))) 0 (objects m) \<and>
        rn_trails (scene l') = appendTrails dp (Some (state_snapshot m)) now (rn_trails (scene l)) \<and>
        map dataset_id (objectRows (fst (page_of l'))) =
          map obj_id (take 1000 (sort_key obj_id (filter (\<lambda>b. case currentFilter u of None \<Rightarrow> True | Some f \<Rightarrow> f = [] \<or> cat b = f) (objects m))))
    | _ \<Rightarrow> fst (page_of l') = u \<and> scene l' = scene l"
proof -
  from live_page.inv_reachable [OF assms(1)] assms(2) have "app_inv a"
    and ag: "agrees (lastSnapNow (scene l)) ((u, a), scene l)"
    by (simp_all add: live_inv_def page_inv_def)
  then have settings: "rn_settings (scene l) = normalizeSettings (applyRendererSettings (get (a_store a)))"
    by (simp add: agrees_def app_inv_def in_force_def get_current)
  obtain w' where w': "live_conn dp dateNow now (WsMessage ws data) ((u, a), scene l) =
      live_effect dp dateNow now (outcome data) ((u, a\<lparr>a_world := w'\<rparr>), scene l)"
    using live_message [OF assms(3)] by blast
  have "page_of l' = fst (live_conn dp dateNow now (WsMessage ws data) (page_of l, scene l))"
    "scene l' = snd (live_conn dp dateNow now (WsMessage ws data) (page_of l, scene l))"
    using assms(4) by (auto elim!: live_stepE)
  then have "(page_of l', scene l') = live_effect dp dateNow now (outcome data) ((u, a\<lparr>a_world := w'\<rparr>), scene l)"
    unfolding assms(2) w' by (simp add: prod_eq_iff)
  moreover obtain u' a' where p: "page_of l' = (u', a')" by (cases "page_of l'")
  ultimately have e: "live_effect dp dateNow now (outcome data) ((u, a\<lparr>a_world := w'\<rparr>), scene l) = ((u', a'), scene l')"
    by simp
  show ?thesis
  proof (cases "parseStateMessage data")
    case (Inl err)
    with e show ?thesis by (auto simp: p outcome_def live_effect_def page_effect_def Let_def)
  next
    case (Inr msg)
    show ?thesis
    proof (cases msg)
      case (Hello h)
      with e Inr show ?thesis by (auto simp: p outcome_def live_effect_def page_effect_def Let_def)
    next
      case (State m)
      from e have "live_effect dp dateNow now (CallState m) ((u, a\<lparr>a_world := w'\<rparr>), scene l) = ((u', a'), scene l')"
        by (simp add: outcome_def Inr State)
      from state_shown [OF this] show ?thesis
        by (auto simp: Inr State p setSnapshot_fields settings rebuildObjectBuffer_def state_snapshot_def
            getListRows_def Let_def make_tr_def comp_def split: option.split if_splits)
    qed
  qed
qed

theorem frame_reaches_screen_witness:
  "\<exists>l l'. reachable (live_start (\<lambda>s. None)) (live_step (\<lambda>s. None)) l \<and>
     live_step (\<lambda>s. None) l (LiveNet (WsMessage 0
       ''{\"type\":\"state\",\"serverTime\":\"12:00\",\"lastDataTime\":null,\"satellite\":null,\"objects\":[],\"stats\":{}}''),
       0, lastSnapNow (scene l)) l' \<and>
     map_option snap_serverTime (rn_snapshot (scene l')) = Some (Some ''12:00'')"
proof -
  let ?api = "\<lparr>gives_context = \<lambda>s. True, gives_2d = True, compile_log = \<lambda>p t. None, link_log = \<lambda>p. None\<rparr>"
  let ?text = "''{\"type\":\"state\",\"serverTime\":\"12:00\",\"lastDataTime\":null,\"satellite\":null,\"objects\":[],\"stats\":{}}''"
  let ?m = "\<lparr>serverTime = ''12:00'', lastDataTime = None, satellite = None, objects = [], stats = JObj [], trailPoints = []\<rparr>"
  have "first_fault ?api = None" by (simp add: first_fault_def program_fault_def)
  from boot_runs [OF createSettings_empty this] obtain l where
    l: "live_boot (\<lambda>s. None) empty_storage (JObj []) [] True ?api
       \<lparr>clientW = 800, clientH = 600, glW = 300, glH = 150, pixelRatio = 1\<rparr> 0 = Inr (Running l)"
    by blast
  then have r: "reachable (live_start (\<lambda>s. None)) (live_step (\<lambda>s. None)) l"
    unfolding live_start_def by (intro reach_init) blast
  obtain u a where p: "page_of l = (u, a)" by (cases "page_of l")
  from boot_socket [OF l] p have ws: "socket (the_conn (a_world a)) = Some 0" "0 < next_socket (the_conn (a_world a))"
    by simp_all
  then obtain l' where step: "live_step (\<lambda>s. None) l (LiveNet (WsMessage 0 ?text), 0, lastSnapNow (scene l)) l'"
    using live_net [of "WsMessage 0 ?text" l "lastSnapNow (scene l)"] p by fastforce
  have "parseStateMessage ?text = Inr (State ?m)" by code_simp
  with frame_reaches_screen [OF r p ws(1) step] have "rn_snapshot (scene l') = Some (state_snapshot ?m)" by simp
  with r step show ?thesis by (intro exI conjI) (assumption | simp add: state_snapshot_def)+
qed

text \<open>C21: On a first visit in a browser that can show the page (it gives a WebGL and a 2D context, and its driver
  takes the shaders and programs; without these it shows that fault instead), the site's
  configuration is what is on the screen: with nothing stored, or nothing that can be read, and
  whatever becomes of fetching config.toml, the page starts, each setting is the configured value, unchanged, or
  the built-in default where the configuration has none, and the renderer and the connection start with
  these settings.\<close>

theorem first_visit:
  assumes "loadStored stg = None" and "first_fault api = None"
  shows "\<exists>l eff. start_page dp fetched stg hostname ok api box dn = Inr (Running l) \<and> settings_wf eff \<and>
    (\<forall>k. get_prop (jval (settings_lit eff)) k =
      (case map_of (fst (loadSiteConfig fetched)) k of
         Some v \<Rightarrow> v
       | None \<Rightarrow> get_prop (jval (settings_lit DEFAULTS)) k)) \<and>
    rn_settings (scene l) = normalizeSettings (applyRendererSettings eff) \<and>
    conn_endpoint (the_conn (a_world (snd (page_of l)))) = (resolveHost hostname eff, port eff)"
proof -
  obtain eff where eff: "mergeSiteDefaults (loadSiteDefaults fetched) = Inr eff" "settings_wf eff"
    "\<forall>k. get_prop (jval (settings_lit eff)) k =
      (case map_of (fst (loadSiteConfig fetched)) k of
         Some v \<Rightarrow> v
       | None \<Rightarrow> get_prop (jval (settings_lit DEFAULTS)) k)"
    using config_reaches_settings [of fetched] by (auto simp: loadSiteDefaults_def)
  let ?st = "\<lparr>current = eff, effectiveDefaults = eff, listeners = [], storage = stg\<rparr>"
  have "createSettings stg (loadSiteDefaults fetched) = Inr ?st"
    by (simp add: createSettings_current [OF eff(1)] assms(1))
  from boot_runs [where dp = dp and hostname = hostname and ok = ok and box = box and dn = dn, OF this assms(2)]
  obtain l where
    "live_boot dp stg (loadSiteDefaults fetched) hostname ok api box dn = Inr (Running l)"
    "rn_settings (scene l) = normalizeSettings (applyRendererSettings (get ?st))"
    "conn_endpoint (the_conn (a_world (snd (page_of l)))) = (resolveHost hostname (get ?st), port (get ?st))"
    by (auto simp: view_setup_def)
  moreover have "get ?st = eff" using eff(2) by (simp add: get_def clone_id)
  ultimately show ?thesis using eff(2,3) by (auto simp: start_page_def)
qed

theorem first_visit_witness:
  "\<exists>l eff. start_page (\<lambda>s. None) (Body (''[display]'' @ LF # ''show_labels = false'')) empty_storage [] True
       \<lparr>gives_context = \<lambda>s. True, gives_2d = True, compile_log = \<lambda>p t. None, link_log = \<lambda>p. None\<rparr>
       \<lparr>clientW = 800, clientH = 600, glW = 300, glH = 150, pixelRatio = 1\<rparr> 0 = Inr (Running l) \<and>
     get_prop (jval (settings_lit eff)) ''showLabels'' = JBool False \<and>
     rn_settings (scene l) = normalizeSettings (applyRendererSettings eff)"
proof -
  let ?api = "\<lparr>gives_context = \<lambda>s. True, gives_2d = True, compile_log = \<lambda>p t. None, link_log = \<lambda>p. None\<rparr>"
  let ?box = "\<lparr>clientW = 800, clientH = 600, glW = 300, glH = 150, pixelRatio = 1\<rparr>"
  let ?text = "''[display]'' @ LF # ''show_labels = false''"
  have fault: "first_fault ?api = None" by (simp add: first_fault_def program_fault_def)
  have stored: "loadStored empty_storage = None" by (simp add: loadStored_def empty_storage_def)
  have "parseToml ?text = Inr [(''display.show_labels'', JBool False)]" by code_simp
  then have conf: "fst (loadSiteConfig (Body ?text)) = [(''showLabels'', JBool False)]"
    by (simp add: loadSiteConfig_Body accepted_def stored_as_def schema_at_def SITE_CONFIG_SCHEMA_def isValidValue_def)
  obtain l eff where l: "start_page (\<lambda>s. None) (Body ?text) empty_storage [] True ?api ?box 0 = Inr (Running l)"
    and eff: "\<forall>k. get_prop (jval (settings_lit eff)) k =
      (case map_of (fst (loadSiteConfig (Body ?text))) k of
         Some v \<Rightarrow> v | None \<Rightarrow> get_prop (jval (settings_lit DEFAULTS)) k)"
    and r: "rn_settings (scene l) = normalizeSettings (applyRendererSettings eff)"
    using first_visit [OF stored fault, where dp = "\<lambda>s. None" and fetched = "Body ?text" and hostname = "[]" and ok = True
        and box = ?box and dn = 0] by blast
  have "get_prop (jval (settings_lit eff)) ''showLabels'' = JBool False"
    using spec [OF eff, of "''showLabels''"] unfolding conf by simp
  with l r show ?thesis by blast
qed

end
