(* ===== verification/Docs_Site.thy ===== *)
theory Docs_Site
  imports Js_Prelude "HOL-Library.Multiset"
begin

text \<open>
  docs/site/assets/docs.js: the script of the documentation pages.  Navigation texts are strings;
  what is highlighted or searched is a list of UTF-16 code units, as the script counts them.  The
  regular expressions are terms of a small language with the matching order of a backtracking
  matcher.  The generated index of assets/search-index.js and \<open>toLowerCase\<close> are arguments.
\<close>

section \<open>Navigation\<close>

record nav_item =
  path :: string
  nav_label :: string

definition nav_items :: "(string \<times> string) list \<Rightarrow> nav_item list" where
  "nav_items = map (\<lambda>(p, l). \<lparr>path = p, nav_label = l\<rparr>)"

definition NAV :: "(string \<times> nav_item list) list" where
  "NAV =
    [(''Start'', nav_items [(''index'', ''Home'')]),
     (''Overview'', nav_items
       [(''overview/overview'', ''Project Overview''),
        (''overview/architecture'', ''Architecture at a Glance''),
        (''overview/repository'', ''Repository & Technology''),
        (''overview/faq'', ''FAQ'')]),
     (''User Guide'', nav_items
       [(''user-guide/installation'', ''Installation''),
        (''user-guide/configuration'', ''Configuration''),
        (''user-guide/getting-started'', ''Getting Started''),
        (''user-guide/usage'', ''Usage''),
        (''user-guide/tutorials'', ''Tutorials''),
        (''user-guide/troubleshooting'', ''Troubleshooting''),
        (''user-guide/best-practices'', ''Best Practices'')]),
     (''Developer Guide'', nav_items
       [(''developer-guide/repo-structure'', ''Repository Structure''),
        (''developer-guide/architecture'', ''Architecture in Depth''),
        (''developer-guide/build-system'', ''Build System''),
        (''developer-guide/source-walkthrough'', ''Source Walkthrough''),
        (''developer-guide/api'', ''API Documentation''),
        (''developer-guide/extending'', ''Extending the Software''),
        (''developer-guide/new-interface'', ''Adding a New Interface''),
        (''developer-guide/testing'', ''Testing''),
        (''developer-guide/debugging'', ''Debugging''),
        (''developer-guide/coding-standards'', ''Coding Standards''),
        (''developer-guide/release-process'', ''Release Process'')]),
     (''Reference'', nav_items
       [(''reference/configuration'', ''Configuration Reference''),
        (''reference/cli'', ''Command-Line Reference''),
        (''reference/protocol-udp'', ''OLV1 UDP Protocol''),
        (''reference/protocol-dis'', ''DIS Input Protocol''),
        (''reference/protocol-olv2'', ''OLV2 UDP Protocol''),
        (''reference/protocol-ws'', ''WebSocket Protocol''),
        (''reference/file-formats'', ''File Formats''),
        (''reference/glossary'', ''Glossary & Acronyms'')])]"

definition FLAT :: "nav_item list" where
  "FLAT = concat (map snd NAV)"

text \<open>Assignments in the order of \<open>NAV\<close>; a later one would win.\<close>

definition SECTION_OF :: "string \<Rightarrow> string option" where
  "SECTION_OF = fold (\<lambda>(title, items) m. fold (\<lambda>it m. m(path it \<mapsto> title)) items m) NAV Map.empty"

definition page_url :: "string \<Rightarrow> string \<Rightarrow> string" where
  "page_url base p = base @ ''/'' @ p @ ''.html''"

text \<open>The elements of the sidebar: headings and lists of links, each with whether it is current.\<close>

datatype side_el = Heading string | Links "(string \<times> string \<times> bool) list"

definition sidebar :: "string \<Rightarrow> string \<Rightarrow> side_el list" where
  "sidebar base page =
     concat (map (\<lambda>(title, items).
       (if title \<noteq> ''Start'' then [Heading title] else []) @
       [Links (map (\<lambda>it. (page_url base (path it), nav_label it, path it = page)) items)]) NAV)"

definition link_html :: "string \<Rightarrow> string \<Rightarrow> string" where
  "link_html url body = ''<a href='' @ [QUOTE] @ url @ [QUOTE] @ ''>'' @ body @ ''</a>''"

definition span_html :: "string \<Rightarrow> string" where
  "span_html body = ''<span>'' @ body @ ''</span>''"

definition separator :: string where
  "separator = ''<span class='' @ [QUOTE] @ ''sep'' @ [QUOTE] @ ''>'' @
     [CHR 0xE2, CHR 0x80, CHR 0xBA] @ ''</span>''"

fun join :: "string \<Rightarrow> string list \<Rightarrow> string" where
  "join sep [] = []"
| "join sep [x] = x"
| "join sep (x # y # xs) = x @ sep @ join sep (y # xs)"

definition breadcrumbs :: "string \<Rightarrow> string \<Rightarrow> string option" where
  "breadcrumbs base page =
     (if page = ''index'' then None
      else let cur = find (\<lambda>it. path it = page) FLAT;
          crumb = (case (cur, SECTION_OF page) of
              (Some _, Some sec) \<Rightarrow> if sec \<noteq> [] \<and> sec \<noteq> ''Start'' then [span_html sec] else []
            | _ \<Rightarrow> [])
        in Some (join separator
          (link_html (page_url base ''index'') ''Home'' # crumb @
           [span_html (case cur of Some it \<Rightarrow> nav_label it | None \<Rightarrow> page)])))"

text \<open>\<open>indexOf\<close>, with \<open>None\<close> for -1, and the neighbours it gives.\<close>

fun index_of :: "string \<Rightarrow> nav_item list \<Rightarrow> nat option" where
  "index_of p [] = None"
| "index_of p (it # its) = (if path it = p then Some 0 else map_option Suc (index_of p its))"

definition prev_page :: "string \<Rightarrow> nav_item option" where
  "prev_page page = (case index_of page FLAT of
      Some (Suc i) \<Rightarrow> Some (FLAT ! i)
    | _ \<Rightarrow> None)"

definition next_page :: "string \<Rightarrow> nav_item option" where
  "next_page page = (case index_of page FLAT of
      Some i \<Rightarrow> if i < length FLAT - 1 then Some (FLAT ! Suc i) else None
    | None \<Rightarrow> None)"

definition page_nav :: "string \<Rightarrow> string \<Rightarrow> string" where
  "page_nav base page =
     (case prev_page page of
        Some p \<Rightarrow> link_html (page_url base (path p)) (''&larr; '' @ nav_label p)
      | None \<Rightarrow> ''<span></span>'') @
     (case next_page page of
        Some n \<Rightarrow> link_html (page_url base (path n)) (nav_label n @ '' &rarr;'')
      | None \<Rightarrow> [])"

section \<open>Regular expressions\<close>

type_synonym units = "nat list"

definition units_of :: "string \<Rightarrow> units" where
  "units_of s = map of_char s"

datatype re =
    Cls "nat \<Rightarrow> bool"
  | Eps
  | Seq re re
  | Alt re re
  | Many re
  | Lazy re
  | LineStart
  | WordB

definition line_end :: "nat \<Rightarrow> bool" where
  "line_end c \<longleftrightarrow> c \<in> {10, 13, 0x2028, 0x2029}"

definition word_char :: "nat \<Rightarrow> bool" where
  "word_char c \<longleftrightarrow> 48 \<le> c \<and> c \<le> 57 \<or> 65 \<le> c \<and> c \<le> 90 \<or> 97 \<le> c \<and> c \<le> 122 \<or> c = 95"

definition white :: "nat \<Rightarrow> bool" where
  "white c \<longleftrightarrow> 9 \<le> c \<and> c \<le> 13 \<or> 0x2000 \<le> c \<and> c \<le> 0x200A \<or>
     c \<in> {32, 0xA0, 0x1680, 0x2028, 0x2029, 0x202F, 0x205F, 0x3000, 0xFEFF}"

text \<open>Where a match that starts at a position may end, in the order a backtracking matcher tries
  them; an iteration that consumes nothing is rejected.\<close>

function ends :: "re \<Rightarrow> units \<Rightarrow> nat \<Rightarrow> nat list" where
  "ends (Cls P) s i = (if i < length s \<and> P (s ! i) then [Suc i] else [])"
| "ends Eps s i = [i]"
| "ends (Seq a b) s i = concat (map (ends b s) (ends a s i))"
| "ends (Alt a b) s i = ends a s i @ ends b s i"
| "ends (Many r) s i =
     concat (map (\<lambda>j. if i < j \<and> j \<le> length s then ends (Many r) s j else []) (ends r s i)) @ [i]"
| "ends (Lazy r) s i =
     i # concat (map (\<lambda>j. if i < j \<and> j \<le> length s then ends (Lazy r) s j else []) (ends r s i))"
| "ends LineStart s i = (if i = 0 \<or> line_end (s ! (i - 1)) then [i] else [])"
| "ends WordB s i =
     (if (0 < i \<and> word_char (s ! (i - 1))) \<noteq> (i < length s \<and> word_char (s ! i)) then [i] else [])"
  by pat_completeness auto
termination by (relation "measures [\<lambda>(r, s, i). size r, \<lambda>(r, s, i). length s - i]") auto

text \<open>\<open>re.exec(s)\<close> from \<open>lastIndex\<close>: the leftmost match, its first end.\<close>

definition exec :: "re \<Rightarrow> units \<Rightarrow> nat \<Rightarrow> (nat \<times> nat) option" where
  "exec r s pos =
     map_option (\<lambda>i. (i, hd (ends r s i))) (find (\<lambda>i. ends r s i \<noteq> []) [pos..<Suc (length s)])"

section \<open>The expressions of the script\<close>

definition one :: "char \<Rightarrow> re" where "one c = Cls (\<lambda>x. x = of_char c)"

definition among :: "string \<Rightarrow> re" where "among cs = Cls (\<lambda>x. x \<in> of_char ` set cs)"

definition none_of :: "string \<Rightarrow> re" where "none_of cs = Cls (\<lambda>x. x \<notin> of_char ` set cs)"

definition not_line_end :: re where "not_line_end = Cls (\<lambda>x. \<not> line_end x)"

definition any_unit :: re where "any_unit = Cls (\<lambda>x. True)"

definition digit_unit :: re where "digit_unit = Cls (\<lambda>x. 48 \<le> x \<and> x \<le> 57)"

definition opt :: "re \<Rightarrow> re" where "opt r = Alt r Eps"

definition plus :: "re \<Rightarrow> re" where "plus r = Seq r (Many r)"

fun lit :: "string \<Rightarrow> re" where
  "lit [] = Eps"
| "lit (c # cs) = Seq (one c) (lit cs)"

fun words :: "string list \<Rightarrow> re" where
  "words [] = Cls (\<lambda>x. False)"
| "words (w # ws) = Alt (lit w) (words ws)"

definition bounded :: "re \<Rightarrow> re" where "bounded r = Seq WordB (Seq r WordB)"

text \<open>A string between two quotes, in which the backslash escapes.\<close>

definition quoted :: "char \<Rightarrow> re" where
  "quoted q = Seq (one q) (Seq (Many (Alt (none_of [q, BACKSLASH]) (Seq (one BACKSLASH) not_line_end))) (one q))"

definition APOS :: char where "APOS = CHR 0x27"

definition one_char_literal :: re where
  "one_char_literal = Seq (one APOS) (Seq (Alt (none_of [APOS, BACKSLASH]) (Seq (one BACKSLASH) not_line_end)) (one APOS))"

definition line_comment :: re where
  "line_comment = Seq (lit ''//'') (Many (none_of [LF]))"

definition block_comment :: re where
  "block_comment = Seq (lit ''/*'') (Seq (Lazy any_unit) (lit ''*/''))"

definition hash_comment :: re where
  "hash_comment = Seq (one (CHR ''#'')) (Many (none_of [LF]))"

definition fraction :: re where
  "fraction = opt (Seq (one (CHR ''.'')) (plus digit_unit))"

definition hex_number :: re where
  "hex_number = Seq (lit ''0x'') (plus (among ''0123456789abcdefABCDEF''))"

record lang =
  comment_re :: "re option"
  string_re :: "re option"
  keyword_re :: "re option"
  number_re :: "re option"

definition sh_keywords :: "string list" where
  "sh_keywords = [''if'', ''then'', ''else'', ''elif'', ''fi'', ''for'', ''in'', ''do'', ''done'', ''while'',
     ''case'', ''esac'', ''function'', ''exit'', ''return'', ''export'', ''local'', ''set'', ''trap'', ''sudo'', ''cd'']"

definition cpp_keywords :: "string list" where
  "cpp_keywords = [''auto'', ''bool'', ''break'', ''case'', ''catch'', ''char'', ''class'', ''const'',
     ''constexpr'', ''continue'', ''default'', ''delete'', ''double'', ''else'', ''enum'', ''explicit'', ''extern'',
     ''false'', ''float'', ''for'', ''friend'', ''if'', ''inline'', ''int'', ''long'', ''mutable'', ''namespace'',
     ''new'', ''noexcept'', ''nullptr'', ''operator'', ''override'', ''private'', ''protected'', ''public'',
     ''return'', ''short'', ''signed'', ''sizeof'', ''static'', ''struct'', ''switch'', ''template'', ''this'',
     ''throw'', ''true'', ''try'', ''typedef'', ''typename'', ''uint8_t'', ''uint16_t'', ''uint32_t'', ''uint64_t'',
     ''int32_t'', ''size_t'', ''union'', ''unsigned'', ''using'', ''virtual'', ''void'', ''volatile'', ''while'']"

definition js_keywords :: "string list" where
  "js_keywords = [''async'', ''await'', ''break'', ''case'', ''catch'', ''class'', ''const'', ''continue'',
     ''default'', ''delete'', ''do'', ''else'', ''export'', ''extends'', ''false'', ''finally'', ''for'', ''function'',
     ''if'', ''import'', ''in'', ''instanceof'', ''let'', ''new'', ''null'', ''of'', ''return'', ''static'', ''switch'',
     ''this'', ''throw'', ''true'', ''try'', ''typeof'', ''undefined'', ''var'', ''while'', ''yield'']"

definition LANGS :: "(string \<times> lang) list" where
  "LANGS =
    [(''sh'', \<lparr>comment_re = Some (Seq (Alt LineStart (Cls white)) hash_comment),
        string_re = Some (Alt (quoted QUOTE) (Seq (one APOS) (Seq (Many (none_of [APOS])) (one APOS)))),
        keyword_re = Some (bounded (words sh_keywords)), number_re = None\<rparr>),
     (''cpp'', \<lparr>comment_re = Some (Alt line_comment block_comment),
        string_re = Some (Alt (quoted QUOTE) one_char_literal),
        keyword_re = Some (bounded (words cpp_keywords)),
        number_re = Some (bounded (Alt hex_number
          (Seq (plus digit_unit) (Seq fraction (Many (among ''uUlLfF'')))))) \<rparr>),
     (''js'', \<lparr>comment_re = Some (Alt line_comment block_comment),
        string_re = Some (Alt (quoted QUOTE) (Alt (quoted APOS) (quoted (CHR 0x60)))),
        keyword_re = Some (bounded (words js_keywords)),
        number_re = Some (bounded (Alt hex_number (Seq (plus digit_unit) fraction)))\<rparr>),
     (''toml'', \<lparr>comment_re = Some hash_comment, string_re = Some (quoted QUOTE),
        keyword_re = Some (Seq LineStart (Seq (Many (Cls white))
          (Seq (one (CHR ''['')) (Seq (plus (none_of '']'')) (one (CHR '']'')))))),
        number_re = Some (bounded (Alt (Seq (plus digit_unit) fraction) (words [''true'', ''false''])))\<rparr>),
     (''json'', \<lparr>comment_re = None, string_re = Some (quoted QUOTE), keyword_re = None,
        number_re = Some (bounded (Alt (Seq (opt (one (CHR ''-''))) (Seq (plus digit_unit) (Seq fraction
            (opt (Seq (among ''eE'') (Seq (opt (among ''+-'')) (plus digit_unit)))))))
          (words [''true'', ''false'', ''null''])))\<rparr>),
     (''csv'', \<lparr>comment_re = Some hash_comment, string_re = None, keyword_re = None, number_re = None\<rparr>)]"

section \<open>Syntax highlighting\<close>

definition esc_unit :: "nat \<Rightarrow> units" where
  "esc_unit c = (if c = 38 then units_of ''&amp;'' else if c = 60 then units_of ''&lt;''
     else if c = 62 then units_of ''&gt;'' else [c])"

definition esc :: "units \<Rightarrow> units" where "esc s = concat (map esc_unit s)"

record token =
  tok_start :: nat
  tok_end :: nat
  tok_cls :: string

definition clash :: "nat \<Rightarrow> nat \<Rightarrow> token \<Rightarrow> bool" where
  "clash s e t \<longleftrightarrow> s < tok_end t \<and> tok_start t < e"

declare ends.simps(5,6) [simp del]

lemma in_ends_Many:
  "j \<in> set (ends (Many r) s i) \<longleftrightarrow> j = i \<or> (\<exists>k \<in> set (ends r s i). i < k \<and> k \<le> length s \<and> j \<in> set (ends (Many r) s k))"
  "j \<in> set (ends (Lazy r) s i) \<longleftrightarrow> j = i \<or> (\<exists>k \<in> set (ends r s i). i < k \<and> k \<le> length s \<and> j \<in> set (ends (Lazy r) s k))"
  by (auto simp: ends.simps(5) [of r s i] ends.simps(6) [of r s i])

lemma ends_bounds: "j \<in> set (ends r s i) \<Longrightarrow> i \<le> length s \<Longrightarrow> i \<le> j \<and> j \<le> length s"
proof (induction r s i arbitrary: j rule: ends.induct)
  case (1 P s i)
  then show ?case by (simp split: if_splits)
next
  case (2 s i)
  then show ?case by simp
next
  case (3 a b s i)
  from "3.prems"(1) obtain k where "k \<in> set (ends a s i)" "j \<in> set (ends b s k)" by auto
  with "3.IH"(1) [of k] "3.IH"(2) [of k j] "3.prems"(2) show ?case by simp
next
  case (4 a b s i)
  from "4.prems"(1) have "j \<in> set (ends a s i) \<or> j \<in> set (ends b s i)" by simp
  with "4.IH"(1) [of j] "4.IH"(2) [of j] "4.prems"(2) show ?case by blast
next
  case (5 r s i)
  from "5.prems"(1) consider "j = i" | k where "k \<in> set (ends r s i)" "i < k" "k \<le> length s" "j \<in> set (ends (Many r) s k)"
    using in_ends_Many(1) [of j r s i] by blast
  then show ?case
  proof cases
    case 1
    with "5.prems"(2) show ?thesis by simp
  next
    case 2
    with "5.IH"(2) [of k j] show ?thesis by simp
  qed
next
  case (6 r s i)
  from "6.prems"(1) consider "j = i" | k where "k \<in> set (ends r s i)" "i < k" "k \<le> length s" "j \<in> set (ends (Lazy r) s k)"
    using in_ends_Many(2) [of j r s i] by blast
  then show ?case
  proof cases
    case 1
    with "6.prems"(2) show ?thesis by simp
  next
    case 2
    with "6.IH"(2) [of k j] show ?thesis by simp
  qed
next
  case (7 s i)
  then show ?case by (simp split: if_splits)
next
  case (8 s i)
  then show ?case by (simp split: if_splits)
qed

lemma exec_bounds:
  assumes "exec r s pos = Some (i, j)"
  shows "pos \<le> i \<and> i \<le> j \<and> j \<le> length s \<and> j \<in> set (ends r s i)"
proof -
  from assms have f: "find (\<lambda>i. ends r s i \<noteq> []) [pos..<Suc (length s)] = Some i" and j: "j = hd (ends r s i)"
    by (auto simp: exec_def)
  from f have "i \<in> set [pos..<Suc (length s)]" "ends r s i \<noteq> []"
    by (auto simp: find_Some_iff simp del: upt_Suc)
  then have "j \<in> set (ends r s i)" "pos \<le> i" "i \<le> length s" using j by auto
  with ends_bounds show ?thesis by blast
qed

text \<open>The loop of \<open>claim\<close> over the matches of one expression.\<close>

function claim_loop :: "re \<Rightarrow> string \<Rightarrow> units \<Rightarrow> nat \<Rightarrow> token list \<Rightarrow> token list" where
  "claim_loop r cls src pos tokens =
     (case exec r src pos of
        None \<Rightarrow> tokens
      | Some (s, e) \<Rightarrow>
          claim_loop r cls src (if s = e then Suc e else e)
            (if list_ex (clash s e) tokens then tokens
             else tokens @ [\<lparr>tok_start = s, tok_end = e, tok_cls = cls\<rparr>]))"
  by pat_completeness auto
termination
  by (relation "measure (\<lambda>(r, cls, src, pos, tokens). Suc (length src) - pos)")
    (auto dest!: exec_bounds split: if_splits)

declare claim_loop.simps [simp del]

definition claim :: "units \<Rightarrow> re option \<Rightarrow> string \<Rightarrow> token list \<Rightarrow> token list" where
  "claim src r cls tokens = (case r of None \<Rightarrow> tokens | Some re \<Rightarrow> claim_loop re cls src 0 tokens)"

definition tokens_of :: "lang \<Rightarrow> units \<Rightarrow> token list" where
  "tokens_of spec src =
     (let t1 = claim src (comment_re spec) ''tok-c'' [];
          t2 = claim src (string_re spec) ''tok-s'' t1;
          t3 = claim src (keyword_re spec) ''tok-k'' t2
      in claim src (number_re spec) ''tok-n'' t3)"

definition slice :: "units \<Rightarrow> nat \<Rightarrow> nat \<Rightarrow> units" where
  "slice s a b = take (b - a) (drop a s)"

definition tok_html :: "units \<Rightarrow> token \<Rightarrow> units" where
  "tok_html src t =
     units_of (''<span class='' @ [QUOTE] @ tok_cls t @ [QUOTE] @ ''>'') @
     esc (slice src (tok_start t) (tok_end t)) @ units_of ''</span>''"

definition render :: "units \<Rightarrow> token list \<Rightarrow> units" where
  "render src tokens =
     (let (out, off) = fold (\<lambda>t (out, off). (out @ esc (slice src off (tok_start t)) @ tok_html src t, tok_end t))
            tokens ([], 0)
      in out @ esc (drop off src))"

definition highlight :: "units \<Rightarrow> string \<Rightarrow> units" where
  "highlight src lang =
     (case map_of LANGS lang of
        None \<Rightarrow> esc src
      | Some spec \<Rightarrow> render src (sort_key tok_start (tokens_of spec src)))"

section \<open>Search\<close>

record entry =
  e_page :: units
  e_title :: units
  e_section :: units
  e_anchor :: units
  e_text :: units

definition site_index :: "entry list \<Rightarrow> entry list" where
  "site_index generated = generated @ map (\<lambda>it. \<lparr>e_page = units_of (path it), e_title = units_of (nav_label it),
     e_section = [], e_anchor = [], e_text = units_of (nav_label it)\<rparr>) FLAT"

definition trim :: "units \<Rightarrow> units" where
  "trim s = rev (dropWhile white (rev (dropWhile white s)))"

text \<open>\<open>split(/\s+/)\<close>.\<close>

function split_white :: "units \<Rightarrow> units list" where
  "split_white s =
     (case dropWhile (\<lambda>c. \<not> white c) s of
        [] \<Rightarrow> [s]
      | _ # rest \<Rightarrow> takeWhile (\<lambda>c. \<not> white c) s # split_white (dropWhile white rest))"
  by pat_completeness auto
termination
proof (relation "measure length", goal_cases)
  case (2 s c rest)
  have "length (dropWhile white rest) \<le> length rest" by (rule length_dropWhile_le)
  moreover have "length (dropWhile (\<lambda>c. \<not> white c) s) \<le> length s" by (rule length_dropWhile_le)
  ultimately show ?case using 2 by simp
qed simp

declare split_white.simps [simp del]

fun occurs :: "'a list \<Rightarrow> 'a list \<Rightarrow> bool" where
  "occurs t [] \<longleftrightarrow> t = []"
| "occurs t (c # s) \<longleftrightarrow> take (length t) (c # s) = t \<or> occurs t s"

definition hay :: "(units \<Rightarrow> units) \<Rightarrow> entry \<Rightarrow> units" where
  "hay lower e = lower (e_title e @ [32] @ e_section e @ [32] @ e_text e)"

definition entry_key :: "entry \<Rightarrow> units" where
  "entry_key e = e_page e @ units_of ''#'' @ e_anchor e"

fun dedupe :: "units set \<Rightarrow> entry list \<Rightarrow> entry list" where
  "dedupe seen [] = []"
| "dedupe seen (e # es) =
     (if entry_key e \<in> seen then dedupe seen es else e # dedupe (insert (entry_key e) seen) es)"

definition search_hits :: "(units \<Rightarrow> units) \<Rightarrow> entry list \<Rightarrow> units \<Rightarrow> entry list" where
  "search_hits lower index q =
     (let terms = split_white q;
          hits = filter (\<lambda>e. list_all (\<lambda>t. occurs t (hay lower e)) terms) index
      in take 20 (dedupe {} hits))"

datatype search_view = NoMatches | Hits "(units \<times> units) list"

definition hit_html :: "units \<Rightarrow> entry \<Rightarrow> units \<times> units" where
  "hit_html base e =
     (base @ units_of ''/'' @ e_page e @ units_of ''.html'' @
        (if e_anchor e \<noteq> [] then units_of ''#'' @ e_anchor e else []),
      units_of (''<div class='' @ [QUOTE] @ ''r-page'' @ [QUOTE] @ ''>'') @ esc (e_title e) @ units_of ''</div>'' @
        (if e_section e \<noteq> [] then
           units_of (''<div class='' @ [QUOTE] @ ''r-sec'' @ [QUOTE] @ ''>'') @ esc (e_section e) @ units_of ''</div>''
         else []))"

record search_box =
  box_text :: units
  box_focused :: bool
  results_view :: search_view
  results_open :: bool

definition runSearch :: "(units \<Rightarrow> units) \<Rightarrow> entry list \<Rightarrow> units \<Rightarrow> units \<Rightarrow> search_box \<Rightarrow> search_box" where
  "runSearch lower index base q0 b =
     (let q = lower (trim q0) in
      if length q < 2 then b\<lparr>results_view := Hits [], results_open := False\<rparr>
      else let hits = search_hits lower index q
        in b\<lparr>results_view := (if hits = [] then NoMatches else Hits (map (hit_html base) hits)),
             results_open := True\<rparr>)"

text \<open>The listeners: text entered, the box focused, a click inside or outside, a key with the tag of
  the active element.\<close>

definition box_input :: "(units \<Rightarrow> units) \<Rightarrow> entry list \<Rightarrow> units \<Rightarrow> units \<Rightarrow> search_box \<Rightarrow> search_box" where
  "box_input lower index base q b = runSearch lower index base q (b\<lparr>box_text := q\<rparr>)"

definition box_focus :: "(units \<Rightarrow> units) \<Rightarrow> entry list \<Rightarrow> units \<Rightarrow> search_box \<Rightarrow> search_box" where
  "box_focus lower index base b =
     (let b' = b\<lparr>box_focused := True\<rparr>
      in if box_text b' \<noteq> [] then runSearch lower index base (box_text b') b' else b')"

definition box_click :: "bool \<Rightarrow> search_box \<Rightarrow> search_box" where
  "box_click inside b = (if inside then b else b\<lparr>results_open := False\<rparr>)"

definition box_key :: "(units \<Rightarrow> units) \<Rightarrow> entry list \<Rightarrow> units \<Rightarrow> string \<Rightarrow> string \<Rightarrow> search_box \<Rightarrow> search_box" where
  "box_key lower index base key tag b =
     (let b1 = (if key = ''Escape'' then b\<lparr>results_open := False\<rparr> else b)
      in if key = ''/'' \<and> \<not> box_focused b1 \<and> \<not> occurs ''INPUT'' tag \<and> \<not> occurs ''TEXTAREA'' tag
         then box_focus lower index base b1 else b1)"

end
