(* ===== verification/Docs_Facts.thy ===== *)
theory Docs_Facts
  imports Docs_Site "HOL-Library.Sublist"
begin

text \<open>
  Facts of docs/site/assets/docs.js: the navigation links are consistent, highlighting only adds
  marks to the text, and a search shows the first page sections that contain every term.
\<close>

section \<open>Expressions that match no empty text\<close>

fun consumes :: "re \<Rightarrow> bool" where
  "consumes (Cls P) \<longleftrightarrow> True"
| "consumes (Seq a b) \<longleftrightarrow> consumes a \<or> consumes b"
| "consumes (Alt a b) \<longleftrightarrow> consumes a \<and> consumes b"
| "consumes _ \<longleftrightarrow> False"

lemma consumes_ends:
  "consumes r \<Longrightarrow> j \<in> set (ends r s i) \<Longrightarrow> i \<le> length s \<Longrightarrow> i < j"
proof (induction r arbitrary: i j)
  case (Cls P)
  then show ?case by (simp split: if_splits)
next
  case (Seq a b)
  from Seq.prems(2) obtain k where k: "k \<in> set (ends a s i)" "j \<in> set (ends b s k)" by auto
  have "i \<le> k" "k \<le> length s" "k \<le> j"
    using ends_bounds [OF k(1) Seq.prems(3)] ends_bounds [OF k(2)] by auto
  moreover have "i < k \<or> k < j"
    using Seq.prems(1) Seq.IH(1) [OF _ k(1) Seq.prems(3)] Seq.IH(2) [OF _ k(2) \<open>k \<le> length s\<close>] by auto
  ultimately show ?case by linarith
next
  case (Alt a b)
  from Alt.prems(2) have "j \<in> set (ends a s i) \<or> j \<in> set (ends b s i)" by simp
  with Alt.IH(1) [of j i] Alt.IH(2) [of j i] Alt.prems(1,3) show ?case by auto
qed simp_all

lemma consumes_words: "list_all (\<lambda>w. w \<noteq> []) ws \<Longrightarrow> consumes (words ws)"
proof (induction ws)
  case (Cons w ws)
  then show ?case by (cases w) (simp_all add: one_def)
qed simp

definition lang_consumes :: "lang \<Rightarrow> bool" where
  "lang_consumes spec \<longleftrightarrow>
     (\<forall>r. r \<in> {comment_re spec, string_re spec, keyword_re spec, number_re spec} \<longrightarrow>
        (case r of None \<Rightarrow> True | Some re \<Rightarrow> consumes re))"

lemmas re_defs = one_def among_def none_of_def not_line_end_def any_unit_def digit_unit_def opt_def plus_def bounded_def
  quoted_def one_char_literal_def line_comment_def block_comment_def hash_comment_def fraction_def hex_number_def

lemma langs_consume: "(l, spec) \<in> set LANGS \<Longrightarrow> lang_consumes spec"
  by (auto simp: LANGS_def lang_consumes_def re_defs sh_keywords_def cpp_keywords_def js_keywords_def
      intro!: consumes_words)

section \<open>Tokens\<close>

definition TOK_CLASSES :: "string set" where
  "TOK_CLASSES = {''tok-c'', ''tok-s'', ''tok-k'', ''tok-n''}"

definition toks_ok :: "units \<Rightarrow> token list \<Rightarrow> bool" where
  "toks_ok src ts \<longleftrightarrow> distinct ts \<and>
     (\<forall>t \<in> set ts. tok_start t < tok_end t \<and> tok_end t \<le> length src \<and> tok_cls t \<in> TOK_CLASSES) \<and>
     (\<forall>t \<in> set ts. \<forall>t' \<in> set ts. t \<noteq> t' \<longrightarrow> \<not> clash (tok_start t) (tok_end t) t')"

lemma toks_ok_snoc:
  assumes "toks_ok src ts" and "s < e" and "e \<le> length src" and "c \<in> TOK_CLASSES"
    and "\<not> list_ex (clash s e) ts"
  shows "toks_ok src (ts @ [\<lparr>tok_start = s, tok_end = e, tok_cls = c\<rparr>])"
  using assms by (auto simp: toks_ok_def clash_def list_ex_iff)

lemma claim_loop_ok:
  "consumes r \<Longrightarrow> cls \<in> TOK_CLASSES \<Longrightarrow> toks_ok src ts \<Longrightarrow> toks_ok src (claim_loop r cls src k ts)"
proof (induction r cls src k ts rule: claim_loop.induct [case_names step])
  case (step r cls src k ts)
  show ?case
  proof (cases "exec r src k")
    case None
    with step.prems show ?thesis by (simp add: claim_loop.simps)
  next
    case (Some m)
    then obtain s e where m: "exec r src k = Some (s, e)" by (cases m) auto
    from exec_bounds [OF m] have b: "s \<le> length src" "e \<le> length src" "e \<in> set (ends r src s)" by auto
    have "s < e" by (rule consumes_ends [OF step.prems(1) b(3,1)])
    then have "toks_ok src (if list_ex (clash s e) ts then ts
        else ts @ [\<lparr>tok_start = s, tok_end = e, tok_cls = cls\<rparr>])"
      using step.prems b toks_ok_snoc by simp
    from step.IH [OF m refl step.prems(1,2) this] m show ?thesis
      by (simp add: claim_loop.simps [of r cls src k])
  qed
qed

lemma claim_ok:
  assumes "toks_ok src ts" and "case r of None \<Rightarrow> True | Some re \<Rightarrow> consumes re" and "cls \<in> TOK_CLASSES"
  shows "toks_ok src (claim src r cls ts)"
  using assms by (cases r) (auto simp: claim_def intro: claim_loop_ok)

lemma tokens_of_ok: "lang_consumes spec \<Longrightarrow> toks_ok src (tokens_of spec src)"
  unfolding tokens_of_def Let_def lang_consumes_def
  by (intro claim_ok) (auto simp: TOK_CLASSES_def toks_ok_def)

text \<open>Sorted by their starts, the tokens follow one another.\<close>

definition in_order :: "token list \<Rightarrow> bool" where
  "in_order ts \<longleftrightarrow> sorted_wrt (\<lambda>t t'. tok_end t \<le> tok_start t') ts"

lemma toks_ok_order:
  assumes "toks_ok src ts"
  shows "in_order (sort_key tok_start ts)"
proof -
  let ?s = "sort_key tok_start ts"
  have "distinct ?s" using assms by (simp add: toks_ok_def)
  moreover have "sorted_wrt (\<lambda>t t'. tok_start t \<le> tok_start t') ?s"
    using sorted_sort_key [of tok_start ts] by (simp add: sorted_map)
  ultimately have "sorted_wrt (\<lambda>t t'. t \<noteq> t' \<and> tok_start t \<le> tok_start t') ?s"
    by (simp add: sorted_wrt_iff_nth_less distinct_conv_nth)
  then show ?thesis
    unfolding in_order_def
  proof (rule sorted_wrt_mono_rel [rotated])
    fix t t' assume "t \<in> set ?s" "t' \<in> set ?s" "t \<noteq> t' \<and> tok_start t \<le> tok_start t'"
    with assms have "\<not> clash (tok_start t) (tok_end t) t'" "tok_start t' < tok_end t'"
      "tok_start t \<le> tok_start t'"
      by (auto simp: toks_ok_def)
    then show "tok_end t \<le> tok_start t'" by (simp add: clash_def)
  qed
qed

section \<open>The text of a piece of HTML\<close>

text \<open>What a browser shows of the marked text: tags are dropped, the three entities are read.\<close>

function html_text :: "units \<Rightarrow> units" where
  "html_text [] = []"
| "html_text (c # s) =
     (if c = 60 then html_text (drop 1 (dropWhile (\<lambda>x. x \<noteq> 62) s))
      else if c = 38 \<and> take 4 s = units_of ''amp;'' then 38 # html_text (drop 4 s)
      else if c = 38 \<and> take 3 s = units_of ''lt;'' then 60 # html_text (drop 3 s)
      else if c = 38 \<and> take 3 s = units_of ''gt;'' then 62 # html_text (drop 3 s)
      else c # html_text s)"
  by pat_completeness auto
termination
  by (relation "measure length") (auto simp: less_Suc_eq_le intro: le_trans [OF diff_le_self length_dropWhile_le])

lemma html_text_esc_unit: "html_text (esc_unit c @ r) = c # html_text r"
  by (simp add: esc_unit_def units_of_def)

lemma html_text_esc: "html_text (esc s @ r) = s @ html_text r"
  by (induction s) (simp_all add: esc_def html_text_esc_unit)

lemma html_text_tag:
  assumes "62 \<notin> set s"
  shows "html_text (60 # s @ 62 # r) = html_text r"
proof -
  have "dropWhile (\<lambda>x. x \<noteq> 62) (s @ 62 # r) = 62 # r"
    using assms by (induction s) auto
  then show ?thesis by simp
qed

lemma html_text_tok:
  assumes "tok_cls t \<in> TOK_CLASSES"
  shows "html_text (tok_html src t @ r) = slice src (tok_start t) (tok_end t) @ html_text r"
proof -
  have 1: "html_text (units_of (''<span class='' @ [QUOTE] @ tok_cls t @ [QUOTE] @ ''>'') @ r') = html_text r'" for r'
    using assms html_text_tag [of "units_of (''span class='' @ [QUOTE] @ tok_cls t @ [QUOTE])" r']
    by (auto simp: units_of_def TOK_CLASSES_def)
  have 2: "html_text (units_of ''</span>'' @ r') = html_text r'" for r'
    using html_text_tag [of "units_of ''/span''" r'] by (simp add: units_of_def)
  show ?thesis unfolding tok_html_def append_assoc 1 html_text_esc 2 ..
qed

lemma slice_append: "a \<le> b \<Longrightarrow> b \<le> c \<Longrightarrow> slice s a b @ slice s b c = slice s a c"
  using take_add [of "b - a" "c - b" "drop a s"] by (simp add: slice_def)

text \<open>One step of the rendering.\<close>

definition render_step :: "units \<Rightarrow> token \<Rightarrow> units \<times> nat \<Rightarrow> units \<times> nat" where
  "render_step src t = (\<lambda>(out, off). (out @ esc (slice src off (tok_start t)) @ tok_html src t, tok_end t))"

lemma render_step_eq [simp]:
  "render_step src t (out, off) = (out @ esc (slice src off (tok_start t)) @ tok_html src t, tok_end t)"
  by (simp add: render_step_def)

lemma render_fold:
  assumes "in_order ts" and "\<forall>t \<in> set ts. off \<le> tok_start t"
    and "\<forall>t \<in> set ts. tok_start t < tok_end t \<and> tok_end t \<le> length src \<and> tok_cls t \<in> TOK_CLASSES"
    and "off \<le> length src"
  shows "\<exists>more k. fold (render_step src) ts (out, off) = (out @ more, k) \<and> off \<le> k \<and> k \<le> length src \<and>
    (\<forall>r. html_text (more @ r) = slice src off k @ html_text r)"
  using assms
proof (induction ts arbitrary: out off)
  case Nil
  then show ?case by (intro exI [of _ "[]"] exI [of _ off]) (simp add: slice_def)
next
  case (Cons t ts)
  let ?piece = "esc (slice src off (tok_start t)) @ tok_html src t"
  have t: "off \<le> tok_start t" "tok_start t \<le> tok_end t" "tok_end t \<le> length src" "tok_cls t \<in> TOK_CLASSES"
    using Cons.prems by auto
  have "in_order ts" "\<forall>t' \<in> set ts. tok_end t \<le> tok_start t'"
    using Cons.prems(1) by (simp_all add: in_order_def)
  then obtain more k where mk: "fold (render_step src) ts (out @ ?piece, tok_end t) = ((out @ ?piece) @ more, k)"
    "tok_end t \<le> k" "k \<le> length src" "\<forall>r. html_text (more @ r) = slice src (tok_end t) k @ html_text r"
    using Cons.IH [of "tok_end t" "out @ ?piece"] Cons.prems(3) t(3) by auto
  have "(slice src off (tok_start t) @ slice src (tok_start t) (tok_end t)) @ slice src (tok_end t) k = slice src off k"
    using slice_append [OF t(1,2), of src] slice_append [of off "tok_end t" k src] t(1,2) mk(2) by simp
  then have "html_text ((?piece @ more) @ r) = slice src off k @ html_text r" for r
    using mk(4) t(4) by (simp add: html_text_esc html_text_tok)
  with mk t show ?case
    by (intro exI [of _ "?piece @ more"] exI [of _ k]) simp
qed

lemma render_text:
  assumes "in_order ts" and "\<forall>t \<in> set ts. tok_start t < tok_end t \<and> tok_end t \<le> length src \<and> tok_cls t \<in> TOK_CLASSES"
  shows "html_text (render src ts) = src"
proof -
  obtain more k where mk: "fold (render_step src) ts ([], 0) = ([] @ more, k)" "k \<le> length src"
    "\<forall>r. html_text (more @ r) = slice src 0 k @ html_text r"
    using render_fold [OF assms(1) _ assms(2), of 0 "[]"] by auto
  have "render src ts = more @ esc (drop k src)"
    using mk(1) by (simp add: render_def render_step_def [abs_def])
  then show ?thesis
    using mk(2,3) html_text_esc [of "drop k src" "[]"] by (simp add: slice_def)
qed

section \<open>Navigation\<close>

lemma FLAT_distinct: "distinct (map path FLAT)"
  by (simp add: FLAT_def NAV_def nav_items_def)

lemma index_of_Some: "index_of p its = Some i \<Longrightarrow> i < length its \<and> path (its ! i) = p"
  by (induction its arbitrary: i) (auto split: if_splits)

lemma index_of_nth: "distinct (map path its) \<Longrightarrow> i < length its \<Longrightarrow> index_of (path (its ! i)) its = Some i"
proof (induction its arbitrary: i)
  case (Cons it its)
  show ?case
  proof (cases i)
    case (Suc n)
    then have "path (its ! n) \<in> path ` set its" using Cons.prems(2) by simp
    with Suc Cons show ?thesis by auto
  qed simp
qed simp

lemma index_of_FLAT: "index_of p FLAT = Some i \<longleftrightarrow> i < length FLAT \<and> path (FLAT ! i) = p"
  using index_of_Some index_of_nth [OF FLAT_distinct] by blast

lemma next_page_iff:
  "next_page p = Some it \<longleftrightarrow> (\<exists>i. Suc i < length FLAT \<and> path (FLAT ! i) = p \<and> it = FLAT ! Suc i)"
proof -
  have "next_page p = Some it \<longleftrightarrow> (\<exists>i. index_of p FLAT = Some i \<and> Suc i < length FLAT \<and> it = FLAT ! Suc i)"
    by (simp add: next_page_def split: option.split) auto
  then show ?thesis unfolding index_of_FLAT by auto
qed

lemma prev_page_iff:
  "prev_page q = Some it \<longleftrightarrow> (\<exists>i. Suc i < length FLAT \<and> path (FLAT ! Suc i) = q \<and> it = FLAT ! i)"
proof -
  have "prev_page q = Some it \<longleftrightarrow> (\<exists>i. index_of q FLAT = Some (Suc i) \<and> it = FLAT ! i)"
    by (simp add: prev_page_def split: option.split nat.split) auto
  then show ?thesis unfolding index_of_FLAT by auto
qed

lemma path_nth_eq: "i < length FLAT \<Longrightarrow> j < length FLAT \<Longrightarrow> path (FLAT ! i) = path (FLAT ! j) \<longleftrightarrow> i = j"
  using nth_eq_iff_index_eq [OF FLAT_distinct, of i j] by simp

lemma FLAT_length: "length FLAT = 31"
  by (simp add: FLAT_def NAV_def nav_items_def)

lemma FLAT_ends: "path (FLAT ! 0) = ''index''" "path (FLAT ! 30) = ''reference/glossary''"
  by (simp_all add: FLAT_def NAV_def nav_items_def)

text \<open>The links of the sidebar are the pages, in order.\<close>

definition side_links :: "side_el \<Rightarrow> (string \<times> string \<times> bool) list" where
  "side_links el = (case el of Heading h \<Rightarrow> [] | Links ls \<Rightarrow> ls)"

lemma sidebar_links:
  "concat (map side_links (sidebar base p)) = map (\<lambda>it. (page_url base (path it), nav_label it, path it = p)) FLAT"
proof -
  have "concat (map side_links (concat (map (\<lambda>(title, items).
         (if title \<noteq> ''Start'' then [Heading title] else []) @
         [Links (map (\<lambda>it. (page_url base (path it), nav_label it, path it = p)) items)]) nav))) =
      map (\<lambda>it. (page_url base (path it), nav_label it, path it = p)) (concat (map snd nav))" for nav
    by (induction nav) (auto simp: side_links_def)
  then show ?thesis by (simp add: sidebar_def FLAT_def)
qed

lemma count_distinct:
  "distinct (map f xs) \<Longrightarrow> length (filter (\<lambda>x. f x = p) xs) = (if p \<in> f ` set xs then 1 else 0)"
proof (induction xs)
  case (Cons x xs)
  then show ?case by (auto simp: filter_empty_conv)
qed simp

section \<open>Search\<close>

lemma dedupe_subseq: "subseq (dedupe seen es) es"
  by (induction es arbitrary: seen) auto

lemma dedupe_distinct: "distinct (map entry_key (dedupe seen es)) \<and> set (map entry_key (dedupe seen es)) \<inter> seen = {}"
proof (induction es arbitrary: seen)
  case (Cons e es)
  show ?case using Cons.IH [of seen] Cons.IH [of "insert (entry_key e) seen"] by auto
qed simp

lemma dedupe_set: "set (dedupe seen es) \<subseteq> set es"
  by (induction es arbitrary: seen) auto

lemma dedupe_complete: "e \<in> set es \<Longrightarrow> entry_key e \<notin> seen \<Longrightarrow> entry_key e \<in> entry_key ` set (dedupe seen es)"
proof (induction es arbitrary: seen)
  case (Cons x es)
  show ?case
  proof (cases "entry_key x \<in> seen")
    case True
    with Cons show ?thesis by auto
  next
    case False
    show ?thesis
    proof (cases "entry_key e = entry_key x")
      case True
      with False show ?thesis by auto
    next
      case ne: False
      then have "entry_key e \<in> entry_key ` set (dedupe (insert (entry_key x) seen) es)"
        using Cons by auto
      with False show ?thesis by simp
    qed
  qed
qed simp

lemma occurs_iff: "occurs t s \<longleftrightarrow> (\<exists>a b. s = a @ t @ b)"
proof (induction s)
  case (Cons c s)
  have "take (length t) (c # s) = t \<longleftrightarrow> (\<exists>b. c # s = t @ b)"
    by (metis append_eq_conv_conj append_take_drop_id)
  moreover have "(\<exists>a b. c # s = a @ t @ b) \<longleftrightarrow> (\<exists>b. c # s = t @ b) \<or> (\<exists>a b. s = a @ t @ b)"
    by (metis append_Cons append_Nil list.exhaust list.inject)
  ultimately show ?case using Cons.IH by simp
qed auto

section \<open>Properties\<close>

text \<open>Highlighting keeps the text: whatever the language and the source, dropping the marks from the
  highlighted HTML and reading its entities gives the source back, so no part of the code is lost,
  repeated or reordered, and no character of it is taken for markup.\<close>

theorem highlight_keeps_text: "html_text (highlight src lang) = src"
proof (cases "map_of LANGS lang")
  case None
  then show ?thesis using html_text_esc [of src "[]"] by (simp add: highlight_def)
next
  case (Some spec)
  then have ok: "toks_ok src (tokens_of spec src)"
    by (intro tokens_of_ok langs_consume) (rule map_of_SomeD)
  then have "html_text (render src (sort_key tok_start (tokens_of spec src))) = src"
    by (intro render_text toks_ok_order [OF ok]) (simp_all add: toks_ok_def)
  with Some show ?thesis by (simp add: highlight_def)
qed

text \<open>A search shows at most 20 entries of the index, in its order, no page section twice, and each
  with every term of the query somewhere in its title, section and text; when it shows fewer than 20,
  every section that has all the terms is among them.\<close>

theorem search_results:
  "let hits = search_hits lower index q;
       matching = (\<lambda>e. \<forall>t \<in> set (split_white q). \<exists>a b. hay lower e = a @ t @ b)
   in length hits \<le> 20 \<and> subseq hits index \<and> distinct (map entry_key hits) \<and>
      list_all matching hits \<and>
      (length hits < 20 \<longrightarrow> list_all (\<lambda>e. matching e \<longrightarrow> entry_key e \<in> entry_key ` set hits) index)"
proof -
  let ?matching = "\<lambda>e. \<forall>t \<in> set (split_white q). \<exists>a b. hay lower e = a @ t @ b"
  let ?all = "dedupe {} (filter ?matching index)"
  have hits: "search_hits lower index q = take 20 ?all"
    by (simp add: search_hits_def Let_def list_all_iff occurs_iff)
  have sub: "subseq ?all index" by (rule subseq_order.order_trans [OF dedupe_subseq subseq_filter_left])
  have dist: "distinct (map entry_key ?all)" using dedupe_distinct [of "{}"] by blast
  have match: "set ?all \<subseteq> {e. ?matching e}" using dedupe_set [of "{}" "filter ?matching index"] by auto
  have "length (take 20 ?all) < 20 \<Longrightarrow> take 20 ?all = ?all" by simp
  then have "length (take 20 ?all) < 20 \<longrightarrow>
      list_all (\<lambda>e. ?matching e \<longrightarrow> entry_key e \<in> entry_key ` set (take 20 ?all)) index"
    using dedupe_complete [of _ "filter ?matching index" "{}"] by (auto simp: list_all_iff simp del: take_all_iff)
  moreover have "subseq (take 20 ?all) index"
    by (rule subseq_order.order_trans [OF prefix_imp_subseq [OF take_is_prefix] sub])
  ultimately show ?thesis
    unfolding Let_def hits
    using dist match by (auto simp: list_all_iff distinct_take take_map [symmetric] dest: in_set_takeD)
qed

definition sample_index :: "entry list" where
  "sample_index =
     [\<lparr>e_page = units_of ''api'', e_title = units_of ''API'', e_section = units_of ''Shared headers'',
        e_anchor = units_of ''cpp'', e_text = []\<rparr>,
      \<lparr>e_page = units_of ''api'', e_title = units_of ''API'', e_section = units_of ''Shared headers'',
        e_anchor = units_of ''cpp'', e_text = units_of ''again''\<rparr>,
      \<lparr>e_page = units_of ''cli'', e_title = units_of ''CLI'', e_section = [], e_anchor = [], e_text = []\<rparr>]"

theorem search_results_witness:
  "length (search_hits (\<lambda>x. x) sample_index (units_of ''API head'')) = 1 \<and>
   list_all (\<lambda>e. \<exists>a b. hay (\<lambda>x. x) e = a @ units_of ''API'' @ b)
     (search_hits (\<lambda>x. x) sample_index (units_of ''API head''))"
proof -
  have split: "split_white (units_of ''API head'') = [units_of ''API'', units_of ''head'']"
    by (simp add: units_of_def split_white.simps white_def)
  have "length (search_hits (\<lambda>x. x) sample_index (units_of ''API head'')) = 1"
    by (simp add: search_hits_def sample_index_def units_of_def hay_def entry_key_def Let_def
        split_white.simps white_def)
  with split search_results [of "\<lambda>x. x" sample_index "units_of ''API head''"] show ?thesis
    by (simp add: Let_def list_all_iff)
qed

text \<open>The previous and next links of the pages fit together: a page's next page is the one whose previous
  page it is; every page but the first has a previous page and every page but the last a next one, and
  the sidebar marks exactly one link of a listed page as current.\<close>

theorem navigation_links:
  "((\<exists>it. next_page p = Some it \<and> path it = q) \<longleftrightarrow> (\<exists>it. prev_page q = Some it \<and> path it = p)) \<and>
   (p \<in> path ` set FLAT \<longrightarrow> (prev_page p = None \<longleftrightarrow> p = ''index'') \<and>
      (next_page p = None \<longleftrightarrow> p = ''reference/glossary'')) \<and>
   length (filter (\<lambda>(u, l, cur). cur) (concat (map side_links (sidebar base p)))) =
     (if p \<in> path ` set FLAT then 1 else 0)"
proof (intro conjI impI)
  show "(\<exists>it. next_page p = Some it \<and> path it = q) \<longleftrightarrow> (\<exists>it. prev_page q = Some it \<and> path it = p)"
    unfolding next_page_iff prev_page_iff by auto
next
  assume "p \<in> path ` set FLAT"
  then obtain i where i: "i < length FLAT" "p = path (FLAT ! i)" by (auto simp: in_set_conv_nth)
  have "prev_page p = None \<longleftrightarrow> (\<nexists>k. Suc k < length FLAT \<and> path (FLAT ! Suc k) = p)"
    using prev_page_iff [of p] by (metis not_None_eq)
  also have "\<dots> \<longleftrightarrow> i = 0" using i path_nth_eq by (cases i) auto
  also have "\<dots> \<longleftrightarrow> p = ''index''"
    using path_nth_eq [of i 0] i FLAT_length by (simp add: FLAT_ends)
  finally show "prev_page p = None \<longleftrightarrow> p = ''index''" .
  have "next_page p = None \<longleftrightarrow> (\<nexists>k. Suc k < length FLAT \<and> path (FLAT ! k) = p)"
    using next_page_iff [of p] by (metis not_None_eq)
  also have "\<dots> \<longleftrightarrow> \<not> Suc i < length FLAT" using i path_nth_eq by auto
  also have "\<dots> \<longleftrightarrow> i = 30" using i(1) FLAT_length by auto
  also have "\<dots> \<longleftrightarrow> p = ''reference/glossary''"
    using path_nth_eq [of i 30] i FLAT_length by (simp add: FLAT_ends)
  finally show "next_page p = None \<longleftrightarrow> p = ''reference/glossary''" .
next
  show "length (filter (\<lambda>(u, l, cur). cur) (concat (map side_links (sidebar base p)))) =
      (if p \<in> path ` set FLAT then 1 else 0)"
    using count_distinct [OF FLAT_distinct, of p] by (simp add: sidebar_links filter_map comp_def)
qed

theorem navigation_links_witness:
  "prev_page ''index'' = None \<and> map_option path (next_page ''index'') = Some ''overview/overview'' \<and>
   map_option path (prev_page ''overview/overview'') = Some ''index''"
proof -
  have "''index'' \<in> path ` set FLAT" by (simp add: FLAT_def NAV_def nav_items_def)
  moreover have "map_option path (next_page ''index'') = Some ''overview/overview''"
    by (simp add: next_page_def FLAT_def NAV_def nav_items_def)
  ultimately show ?thesis
    using navigation_links [of "''index''" "''overview/overview''"] by auto
qed

end
