(* ===== verification/Loop_Facts.thy ===== *)
theory Loop_Facts
  imports View_Facts Texture_Facts Docs_Facts "HOL-Library.While_Combinator"
begin

text \<open>
  The while loops whose end depends on data, as \<open>while_option\<close> of the test and the body the code has:
  that of docs.js over the matches of an expression, and the two that double a size (the trail buffer of
  renderer.js, the texture size of textures.js). They return, with the value of the recursive
  definition of the model. The loops of toml.js advance an index in every iteration.
\<close>

section \<open>The loop over the matches returns\<close>

text \<open>The loop of \<open>claim\<close> as the code writes it: a test that runs the expression from \<open>lastIndex\<close>, and a
  body that moves \<open>lastIndex\<close> and may add a token.\<close>

definition another_match :: "re \<Rightarrow> units \<Rightarrow> nat \<times> token list \<Rightarrow> bool" where
  "another_match r src = (\<lambda>(pos, tokens). exec r src pos \<noteq> None)"

definition claim_body :: "re \<Rightarrow> string \<Rightarrow> units \<Rightarrow> nat \<times> token list \<Rightarrow> nat \<times> token list" where
  "claim_body r cls src = (\<lambda>(pos, tokens).
     let (s, e) = the (exec r src pos)
     in (if s = e then Suc e else e,
         if list_ex (clash s e) tokens then tokens else tokens @ [\<lparr>tok_start = s, tok_end = e, tok_cls = cls\<rparr>]))"

lemma claim_loop_while:
  "\<exists>k p. k \<le> Suc (length src) - pos \<and> (claim_body r cls src ^^ k) (pos, tokens) = (p, claim_loop r cls src pos tokens) \<and>
    while_option (another_match r src) (claim_body r cls src) (pos, tokens) = Some (p, claim_loop r cls src pos tokens)"
proof (induction r cls src pos tokens rule: claim_loop.induct)
  case (1 r cls src pos tokens)
  show ?case
  proof (cases "exec r src pos")
    case None
    then show ?thesis
      by (intro exI [of _ 0] exI [of _ pos]) (simp add: another_match_def claim_loop.simps while_option_unfold)
  next
    case (Some m)
    obtain s e where m: "m = (s, e)" by (cases m)
    let ?q = "claim_body r cls src (pos, tokens)"
    let ?rest = "claim_loop r cls src (fst ?q) (snd ?q)"
    have q: "?q = (if s = e then Suc e else e,
        if list_ex (clash s e) tokens then tokens else tokens @ [\<lparr>tok_start = s, tok_end = e, tok_cls = cls\<rparr>])"
      by (simp add: claim_body_def Some m)
    have more: "pos < fst ?q" "pos \<le> length src" using exec_bounds [OF Some [unfolded m]] by (auto simp: q)
    have loop: "claim_loop r cls src pos tokens = ?rest" by (subst claim_loop.simps) (simp add: Some m q)
    obtain k p where k: "k \<le> Suc (length src) - fst ?q" "(claim_body r cls src ^^ k) ?q = (p, ?rest)"
      "while_option (another_match r src) (claim_body r cls src) ?q = Some (p, ?rest)"
      using 1 [OF Some m [symmetric]] by (auto simp: q)
    moreover have "while_option (another_match r src) (claim_body r cls src) (pos, tokens) =
        while_option (another_match r src) (claim_body r cls src) ?q"
      by (subst while_option_unfold) (simp add: another_match_def Some)
    ultimately show ?thesis
      unfolding loop using more by (intro exI [of _ "Suc k"] exI [of _ p]) (simp add: funpow_Suc_right del: funpow.simps)
  qed
qed

text \<open>C17: Highlighting returns, for every source text and every expression, those that match the empty string
  included: the loop over the matches runs at most once per position of the text and once at its end,
  and leaves the tokens the model computes. Without the step past an empty match it would not return.\<close>

theorem highlight_returns:
  "(\<exists>k p. k \<le> Suc (length src) \<and> (claim_body r cls src ^^ k) (0, tokens) = (p, claim src (Some r) cls tokens) \<and>
     while_option (another_match r src) (claim_body r cls src) (0, tokens) = Some (p, claim src (Some r) cls tokens)) \<and>
   while_option (another_match Eps src) (\<lambda>(pos, ts). (snd (the (exec Eps src pos)), ts)) (0, tokens) = None"
proof
  show "\<exists>k p. k \<le> Suc (length src) \<and> (claim_body r cls src ^^ k) (0, tokens) = (p, claim src (Some r) cls tokens) \<and>
     while_option (another_match r src) (claim_body r cls src) (0, tokens) = Some (p, claim src (Some r) cls tokens)"
    using claim_loop_while [of src 0 r cls tokens] by (simp add: claim_def)
  have e: "exec Eps src 0 = Some (0, 0)" by (simp add: exec_def upt_rec [of 0])
  let ?stuck = "\<lambda>(pos, ts). (snd (the (exec Eps src pos)), ts)"
  have "(?stuck ^^ k) (0, tokens) = (0, tokens)" for k by (induction k) (simp_all add: e)
  then have "another_match Eps src ((?stuck ^^ k) (0, tokens))" for k by (simp add: another_match_def e)
  then show "while_option (another_match Eps src) ?stuck (0, tokens) = None"
    by (simp add: while_option_def)
qed


section \<open>Doubling\<close>

lemma while_grow: "0 < cap \<Longrightarrow> while_option (\<lambda>c. c < needed) (\<lambda>c. c * 2) cap = Some (grow cap needed)"
proof (induction cap needed rule: grow.induct)
  case (1 cap needed)
  show ?case
  proof (cases "cap < needed")
    case True
    with 1 have "while_option (\<lambda>c. c < needed) (\<lambda>c. c * 2) (cap * 2) = Some (grow (cap * 2) needed)" by simp
    with True 1(2) show ?thesis by (subst while_option_unfold, subst grow.simps) simp
  next
    case False
    with 1(2) show ?thesis by (subst while_option_unfold, subst grow.simps) simp
  qed
qed

lemma while_pot: "0 < p \<Longrightarrow> while_option (\<lambda>p. p * 2 \<le> n) (\<lambda>p. p * 2) p = Some (pot_loop p n)"
proof (induction p n rule: pot_loop.induct)
  case (1 p n)
  show ?case
  proof (cases "p * 2 \<le> n")
    case True
    with 1 have "while_option (\<lambda>p. p * 2 \<le> n) (\<lambda>p. p * 2) (p * 2) = Some (pot_loop (p * 2) n)" by simp
    with True 1(2) show ?thesis by (subst while_option_unfold, subst pot_loop.simps) simp
  next
    case False
    with 1(2) show ?thesis by (subst while_option_unfold, subst pot_loop.simps) simp
  qed
qed

lemma while_stuck: "0 < needed \<Longrightarrow> while_option (\<lambda>c. c < needed) (\<lambda>c. c * 2) (0::nat) = None"
proof -
  assume n: "0 < needed"
  have "((\<lambda>c::nat. c * 2) ^^ k) 0 = 0" for k by (induction k) simp_all
  then show ?thesis using n by (simp add: while_option_def)
qed

lemma grow_less: "0 < cap \<Longrightarrow> grow cap needed = cap \<or> grow cap needed < 2 * needed"
proof (induction cap needed rule: grow.induct)
  case (1 cap needed)
  show ?case
  proof (cases "cap < needed")
    case True
    with 1 have "grow (cap * 2) needed = cap * 2 \<or> grow (cap * 2) needed < 2 * needed" by simp
    with True 1(2) show ?thesis by (subst (1 2) grow.simps) auto
  next
    case False
    then show ?thesis by (subst (1 2) grow.simps) simp
  qed
qed

text \<open>C18: The two loops that double a size return: the one that grows the trail buffer, because no
  reachable renderer has a buffer of capacity 0 (from 0 it would never return), with a capacity that
  holds the trails and is less than twice what they need if it grew at all; the one that rounds a texture
  size, because it starts at 1, with the largest power of two in the limit.\<close>

theorem doubling_loops_return:
  assumes "reachable renderer_start renderer_step r" and "0 < n"
  shows "(\<exists>cap. while_option (\<lambda>c. c < n) (\<lambda>c. c * 2) (tb_capacity (trailBuf r)) = Some cap \<and>
      cap = grow (tb_capacity (trailBuf r)) n \<and> n \<le> cap \<and> (cap = tb_capacity (trailBuf r) \<or> cap < 2 * n)) \<and>
    while_option (\<lambda>c. c < n) (\<lambda>c. c * 2) (0::nat) = None \<and>
    (\<exists>p. while_option (\<lambda>p. p * 2 \<le> n) (\<lambda>p. p * 2) 1 = Some p \<and> p = largestPotLE n \<and> p \<le> n \<and> n < 2 * p)"
proof -
  have cap: "0 < tb_capacity (trailBuf r)"
    using renderer_machine.inv_reachable [OF assms(1)] by (simp add: renderer_inv_def buffer_ok_def)
  show ?thesis
    using while_grow [OF cap] grow_enough [OF cap] grow_less [OF cap] while_stuck [OF assms(2)]
      while_pot [of 1 n] pot_loop_bounds [of 1 n] assms(2)
    by (simp add: largestPotLE_def)
qed

theorem doubling_loops_return_witness:
  "while_option (\<lambda>c. c < 100) (\<lambda>c. c * 2) (tb_capacity (trailBuf (createRenderer 0 300 150)))
      = Some (grow (tb_capacity (trailBuf (createRenderer 0 300 150))) 100) \<and>
    while_option (\<lambda>p. p * 2 \<le> 100) (\<lambda>p. p * 2) 1 = Some (largestPotLE 100)"
proof -
  have "reachable renderer_start renderer_step (createRenderer 0 300 150)"
    by (rule reach_init) (auto simp: renderer_start_def)
  from doubling_loops_return [OF this, of 100] show ?thesis by auto
qed

end
