(* ===== verification/Search_Index.thy ===== *)
theory Search_Index
  imports Docs_Facts
begin

text \<open>
  docs/site/assets/search-index.js: the entries the documentation search looks through, which the script
  docs/site/tools/build_search_index.py makes from the pages. The file lists, page by page, the page
  itself and its headings; an entry's text is its title followed by its heading. The lemmas show that
  the entries fit the navigation of docs.js, so that no search result is a dead page or shown twice.
\<close>

section \<open>Entries\<close>

text \<open>A page, its title, and its headings with their anchors.\<close>

type_synonym indexed_page = "string \<times> units \<times> (units \<times> string) list"

definition entries_of :: "indexed_page \<Rightarrow> entry list" where
  "entries_of = (\<lambda>(page, title, headings).
     \<lparr>e_page = units_of page, e_title = title, e_section = [], e_anchor = [], e_text = title\<rparr> #
     map (\<lambda>(heading, anchor). \<lparr>e_page = units_of page, e_title = title, e_section = heading,
       e_anchor = units_of anchor, e_text = title @ [32] @ heading\<rparr>) headings)"

definition index_developer_guide_api :: indexed_page where
  "index_developer_guide_api = (''developer-guide/api'', units_of ''API Documentation'',
    [(units_of ''C++ shared headers (olv_proto)'', ''cpp-shared''),
     (units_of ''olv/protocol.hpp '' @ [0x2014] @ units_of '' namespace olv::proto'', ''protocol''),
     (units_of ''olv/protocol_olv2.hpp '' @ [0x2014] @ units_of '' namespace olv::proto::olv2'', ''protocol-olv2''),
     (units_of ''olv/toml.hpp '' @ [0x2014] @ units_of '' namespace olv::toml'', ''toml-hpp''),
     (units_of ''olv/dis_entity_id.hpp'', ''entity-id''),
     (units_of ''Backend internal interfaces'', ''cpp-backend''),
     (units_of ''Frontend module APIs'', ''js-api''),
     (units_of ''Test framework (test/support/olv_test.hpp)'', ''test-api''),
     (units_of ''Worked examples'', ''examples''),
     (units_of ''Encode and send an OLV1 packet (C++)'', ''ex-encode''),
     (units_of ''Encode and send an OLV2 track datagram (C++)'', ''ex-encode-olv2''),
     (units_of ''Consume the WebSocket feed (JavaScript, outside the app)'', ''ex-parse'')])"

definition index_developer_guide_architecture :: indexed_page where
  "index_developer_guide_architecture = (''developer-guide/architecture'', units_of ''Architecture in Depth'',
    [(units_of ''Backend threading & concurrency model'', ''threads''),
     (units_of ''StateStore::apply '' @ [0x2014] @ units_of '' the merge rules'', ''apply-semantics''),
     (units_of ''StateStore::applyTrack '' @ [0x2014] @ units_of '' OLV2's additive path'', ''applytrack-semantics''),
     (units_of ''The InputSource strategy seam'', ''input-seam''),
     (units_of ''Memory ownership'', ''memory''),
     (units_of ''Error handling'', ''errors''),
     (units_of ''Logging'', ''logging''),
     (units_of ''Configuration system'', ''config-system''),
     (units_of ''Frontend runtime model'', ''frontend-runtime''),
     (units_of ''Design patterns in use'', ''patterns'')])"

definition index_developer_guide_build_system :: indexed_page where
  "index_developer_guide_build_system = (''developer-guide/build-system'', units_of ''Build System'',
    [(units_of ''Target map'', ''targets''),
     (units_of ''Top-level CMakeLists.txt: toolchain, options, shared targets'', ''common''),
     (units_of ''find_package(OpenDIS)'', ''open-dis''),
     (units_of ''Subproject layout'', ''subprojects''),
     (units_of ''Compiler options'', ''flags''),
     (units_of ''Quality targets'', ''quality-targets''),
     (units_of ''Dependency management'', ''dependency-mgmt''),
     (units_of ''CTest & CI integration'', ''ctest''),
     (units_of ''Container builds'', ''containers-build'')])"

definition index_developer_guide_coding_standards :: indexed_page where
  "index_developer_guide_coding_standards = (''developer-guide/coding-standards'', units_of ''Coding Standards'',
    [(units_of ''Formatting (enforced)'', ''formatting''),
     (units_of ''Naming conventions (as practiced in the codebase)'', ''naming''),
     (units_of ''Code organization rules'', ''organization''),
     (units_of ''Documentation expectations'', ''documentation''),
     (units_of ''Review checklist'', ''review'')])"

definition index_developer_guide_debugging :: indexed_page where
  "index_developer_guide_debugging = (''developer-guide/debugging'', units_of ''Debugging'',
    [(units_of ''The general workflow'', ''workflow''),
     (units_of ''Logging & tracing'', ''logging''),
     (units_of ''Watching the wire'', ''wire-debugging''),
     (units_of ''Native debugging (gdb/lldb)'', ''gdb''),
     (units_of ''Sanitizers'', ''sanitizers''),
     (units_of ''Frontend debugging'', ''frontend-debugging''),
     (units_of ''Profiling'', ''profiling''),
     (units_of ''Container debugging'', ''container-debugging'')])"

definition index_developer_guide_extending :: indexed_page where
  "index_developer_guide_extending = (''developer-guide/extending'', units_of ''Extending the Software'',
    [(units_of ''Add a new input source (e.g. another protocol)'', ''new-input-source''),
     (units_of ''Add a new object category'', ''new-object-type''),
     (units_of ''Add a configuration option'', ''new-config''),
     (units_of ''Add a UI panel or renderer feature'', ''new-panel''),
     (units_of ''Add a CLI tool'', ''new-command''),
     (units_of ''Add unit tests'', ''unit-tests''),
     (units_of ''Extend the integration test'', ''integration-tests''),
     (units_of ''Evolve the OLV1 protocol itself'', ''protocol-evolution'')])"

definition index_developer_guide_new_interface :: indexed_page where
  "index_developer_guide_new_interface = (''developer-guide/new-interface'', units_of ''Adding a New Interface'',
    [(units_of ''1. Anatomy of an interface'', ''anatomy''),
     (units_of ''2. Write the spec first'', ''design-first''),
     (units_of ''3. Implement the InputSource'', ''implementation''),
     (units_of ''4. Wire the mode switch and configuration'', ''factory''),
     (units_of ''5. Test the interface'', ''testing-new''),
     (units_of ''6. If the interface needs a third-party decoder'', ''deps''),
     (units_of ''7. Output interfaces (new consumers)'', ''output-interfaces''),
     (units_of ''8. Ship checklist'', ''checklist''),
     (units_of ''9. OLV2: the same recipe, run twice'', ''second-example'')])"

definition index_developer_guide_release_process :: indexed_page where
  "index_developer_guide_release_process = (''developer-guide/release-process'', units_of ''Release Process'',
    [(units_of ''Versioning'', ''versioning''),
     (units_of ''Recommended release workflow'', ''workflow''),
     (units_of ''Packaging & deployment'', ''packaging''),
     (units_of ''Compatibility rules for releases'', ''compat''),
     (units_of ''Toward automated releases'', ''future-ci'')])"

definition index_developer_guide_repo_structure :: indexed_page where
  "index_developer_guide_repo_structure = (''developer-guide/repo-structure'', units_of ''Repository Structure'',
    [(units_of ''Top level'', ''top-level''),
     (units_of ''Backend: include/, src/, test/, tools/'', ''backend''),
     (units_of ''tools/simulator/'', ''simulator''),
     (units_of ''frontend/'', ''frontend''),
     (units_of ''docs/, config/, scripts/, containers/, sbom/'', ''other''),
     (units_of ''Code-sharing map'', ''ownership'')])"

definition index_developer_guide_source_walkthrough :: indexed_page where
  "index_developer_guide_source_walkthrough = (''developer-guide/source-walkthrough'', units_of ''Source Walkthrough'',
    [(units_of ''Backend lifecycle (olv_backend)'', ''backend-lifecycle''),
     (units_of ''olv/protocol.hpp '' @ [0x2014] @ units_of '' the wire format in one header'', ''protocol-hpp''),
     (units_of ''StateStore'', ''statestore''),
     (units_of ''WsServer & sessions'', ''wsserver''),
     (units_of ''json_writer'', ''json-writer''),
     (units_of ''DisInputSource'', ''dis-source''),
     (units_of ''Olv2InputSource'', ''olv2-source''),
     (units_of ''Simulator lifecycle (olv_sim)'', ''sim-lifecycle''),
     (units_of ''Frontend module walkthrough'', ''frontend''),
     (units_of ''Module dependency graph'', ''frontend-graph''),
     (units_of ''Module responsibilities'', ''frontend-modules''),
     (units_of ''One render frame (renderer.frame)'', ''frame''),
     (units_of ''End-to-end sequence (one update cycle)'', ''sequence'')])"

definition index_developer_guide_testing :: indexed_page where
  "index_developer_guide_testing = (''developer-guide/testing'', units_of ''Testing'',
    [(units_of ''Running everything'', ''run-everything''),
     (units_of ''C++ unit tests'', ''cpp-unit''),
     (units_of ''olv_backend_tests (CTest: backend_unit)'', ''backend-tests''),
     (units_of ''olv_sim_tests (CTest: sim_unit)'', ''sim-tests''),
     (units_of ''Running a single case'', ''run-one''),
     (units_of ''Frontend logic tests'', ''frontend-tests''),
     (units_of ''Integration test (CTest: integration)'', ''integration''),
     (units_of ''System & regression testing'', ''system-regression''),
     (units_of ''Performance testing'', ''performance-testing''),
     (units_of ''Known gaps'', ''coverage-gaps'')])"

definition index_index :: indexed_page where
  "index_index = (''index'', units_of ''Orbital LOS Viewer'',
    [(units_of ''What is it?'', ''what-is-it''),
     (units_of ''Start here'', ''start-here''),
     (units_of ''60-second quick start'', ''quick-start''),
     (units_of ''Highlights'', ''highlights''),
     (units_of ''Documentation map'', ''doc-map'')])"

definition index_overview_architecture :: indexed_page where
  "index_overview_architecture = (''overview/architecture'', units_of ''Architecture at a Glance'',
    [(units_of ''System diagram'', ''system-diagram''),
     (units_of ''Major software components'', ''components''),
     (units_of ''Data flow, step by step'', ''data-flow''),
     (units_of ''Threading model (summary)'', ''threading''),
     (units_of ''Interface summary'', ''interfaces''),
     (units_of ''Notable architecture decisions'', ''tech-choices'')])"

definition index_overview_faq :: indexed_page where
  "index_overview_faq = (''overview/faq'', units_of ''FAQ'',
    [(units_of ''General'', ''general''),
     (units_of ''What does \"LOS\" stand for?'', ''what-does-los-mean''),
     (units_of ''Does it display real satellite data?'', ''is-this-real-data''),
     (units_of ''Does it need internet access?'', ''internet''),
     (units_of ''How many objects can it handle?'', ''how-many-objects''),
     (units_of ''Security & deployment'', ''security-q''),
     (units_of ''Why is there no TLS or authentication?'', ''why-no-tls''),
     (units_of ''Do the containers run as root?'', ''run-as-root''),
     (units_of ''Usage'', ''usage-q''),
     (units_of ''The page loads but the globe is empty '' @ [0x2014] @ units_of '' why?'', ''empty-globe''),
     (units_of ''Can I open frontend/index.html directly from disk?'', ''file-url''),
     (units_of ''Can it update faster than 1 Hz?'', ''faster-than-1hz''),
     (units_of ''OLV1, DIS, or OLV2 '' @ [0x2014] @ units_of '' which input mode should I use?'', ''which-protocol''),
     (units_of ''Can the backend listen for more than one input mode at the same time?'', ''both-modes''),
     (units_of ''Development'', ''dev-q''),
     (units_of ''Why no Three.js / React / toml++ / Catch2?'', ''why-no-frameworks''),
     (units_of ''Do I need Node.js to run the frontend?'', ''node-required''),
     (units_of ''Where are the authoritative protocol specs?'', ''where-are-specs''),
     (units_of ''Are simulator runs reproducible?'', ''deterministic'')])"

definition index_overview_overview :: indexed_page where
  "index_overview_overview = (''overview/overview'', units_of ''Project Overview'',
    [(units_of ''Executive summary'', ''executive-summary''),
     (units_of ''The problem being solved'', ''problem''),
     (units_of ''Intended audience'', ''audience''),
     (units_of ''Major capabilities'', ''capabilities''),
     (units_of ''High-level architecture'', ''architecture''),
     (units_of ''Design philosophy'', ''design-philosophy''),
     (units_of ''Typical workflows'', ''workflows''),
     (units_of ''Deployment overview'', ''deployment''),
     (units_of ''Example use cases'', ''use-cases''),
     (units_of ''Major interfaces'', ''interfaces''),
     (units_of ''Terminology & FAQ'', ''glossary-faq'')])"

definition index_overview_repository :: indexed_page where
  "index_overview_repository = (''overview/repository'', units_of ''Repository & Technology'',
    [(units_of ''Repository organization'', ''organization''),
     (units_of ''Technology stack'', ''stack''),
     (units_of ''Supported platforms, compilers, build systems'', ''platforms''),
     (units_of ''Third-party libraries & external dependencies'', ''third-party''),
     (units_of ''Air-gap posture'', ''air-gap''),
     (units_of ''CI/CD status'', ''ci''),
     (units_of ''Licensing'', ''license'')])"

definition index_reference_cli :: indexed_page where
  "index_reference_cli = (''reference/cli'', units_of ''Command-Line Reference'',
    [(units_of ''olv_backend'', ''olv-backend''),
     (units_of ''olv_sim'', ''olv-sim''),
     (units_of ''olv_ws_probe'', ''ws-probe''),
     (units_of ''Scripts'', ''scripts''),
     (units_of ''scripts/build_builder.sh'', ''build-builder''),
     (units_of ''scripts/build.sh'', ''build''),
     (units_of ''scripts/test.sh'', ''test''),
     (units_of ''scripts/package.sh'', ''package''),
     (units_of ''scripts/build_all.sh'', ''build-all''),
     (units_of ''scripts/run_all.sh'', ''run-all''),
     (units_of ''scripts/integration_test.sh'', ''integration-test''),
     (units_of ''scripts/serve_frontend.sh'', ''serve-frontend''),
     (units_of ''scripts/serve_docs.sh'', ''serve-docs''),
     (units_of ''scripts/make_example_csv.py'', ''make-csv''),
     (units_of ''scripts/cleanup.sh'', ''cleanup''),
     (units_of ''Build-tree quality targets'', ''quality''),
     (units_of ''Default ports summary'', ''ports'')])"

definition index_reference_configuration :: indexed_page where
  "index_reference_configuration = (''reference/configuration'', units_of ''Configuration Reference'',
    [(units_of ''backend.toml (olv_backend --config)'', ''backend-toml''),
     (units_of ''simulator.toml (olv_sim --config)'', ''simulator-toml''),
     (units_of ''frontend/config.toml (site defaults, lenient)'', ''frontend-toml''),
     (units_of ''Browser settings (localStorage olv.settings.v1)'', ''settings''),
     (units_of ''Environment variables'', ''env''),
     (units_of ''CMake configure options'', ''cmake-opts'')])"

definition index_reference_file_formats :: indexed_page where
  "index_reference_file_formats = (''reference/file-formats'', units_of ''File Formats'',
    [(units_of ''Mission CSV (olv_sim --csv)'', ''csv''),
     (units_of ''The TOML subset'', ''toml''),
     (units_of ''Backend log format'', ''log''),
     (units_of ''Captured frame files (olv_ws_probe --out)'', ''frames''),
     (units_of ''SBOM files (sbom/*.cdx.json)'', ''sbom''),
     (units_of ''Frontend settings blob (localStorage)'', ''settings-blob'')])"

definition index_reference_glossary :: indexed_page where
  "index_reference_glossary = (''reference/glossary'', units_of ''Glossary & Acronyms'',
    [(units_of ''Project terms'', ''terms''),
     (units_of ''Acronyms'', ''acronyms''),
     (units_of ''Ports at a glance'', ''ports-summary''),
     (units_of ''Magic numbers worth memorizing'', ''numbers'')])"

definition index_reference_protocol_dis :: indexed_page where
  "index_reference_protocol_dis = (''reference/protocol-dis'', units_of ''DIS Input Protocol'',
    [(units_of ''General rules'', ''rules''),
     (units_of ''Accepted PDU subset'', ''accepted''),
     (units_of ''Satellite promotion'', ''satellite''),
     (units_of ''EntityID '' @ [0x2192] @ units_of '' OLV id (FNV-1a fold)'', ''id-fold''),
     (units_of ''EntityType '' @ [0x2192] @ units_of '' category mapping'', ''mapping''),
     (units_of ''Per-entity timestamp staleness'', ''staleness''),
     (units_of ''Validation order & stats accounting'', ''validation''),
     (units_of ''Configuration keys'', ''config''),
     (units_of ''Simulator DIS emission (olv_sim --protocol dis)'', ''emission'')])"

definition index_reference_protocol_olv2 :: indexed_page where
  "index_reference_protocol_olv2 = (''reference/protocol-olv2'', units_of ''OLV2 UDP Protocol'',
    [(units_of ''General rules'', ''rules''),
     (units_of ''Limits'', ''limits''),
     (units_of ''Packet layout '' @ [0x2014] @ units_of '' TRACK_UPDATE (msg_type = 1)'', ''layout''),
     (units_of ''Point (84 bytes)'', ''point''),
     (units_of ''Target type'', ''target-type''),
     (units_of ''Receiver validation (normative)'', ''validation''),
     (units_of ''Backend mapping (informative)'', ''mapping''),
     (units_of ''Configuration'', ''config''),
     (units_of ''Versioning'', ''versioning'')])"

definition index_reference_protocol_udp :: indexed_page where
  "index_reference_protocol_udp = (''reference/protocol-udp'', units_of ''OLV1 UDP Protocol'',
    [(units_of ''Constants & limits'', ''constants''),
     (units_of ''Packet header (STATE_UPDATE, msg_type = 1)'', ''header''),
     (units_of ''Object record (48 bytes)'', ''record''),
     (units_of ''Object type enum'', ''types''),
     (units_of ''CRC'', ''crc''),
     (units_of ''Ordered validation (receiver MUST, in order)'', ''validation''),
     (units_of ''Versioning rules'', ''versioning'')])"

definition index_reference_protocol_ws :: indexed_page where
  "index_reference_protocol_ws = (''reference/protocol-ws'', units_of ''WebSocket Protocol'',
    [(units_of ''hello (once, immediately after the handshake)'', ''hello''),
     (units_of ''state (broadcast at broadcastHz)'', ''state''),
     (units_of ''Field semantics'', ''fields''),
     (units_of ''Object row columns (fixed order, 11 columns)'', ''rows''),
     (units_of ''trailPoints (optional)'', ''trail-points''),
     (units_of ''Required client behavior'', ''client-rules''),
     (units_of ''Server behavior notes'', ''server-behavior'')])"

definition index_user_guide_best_practices :: indexed_page where
  "index_user_guide_best_practices = (''user-guide/best-practices'', units_of ''Best Practices'',
    [(units_of ''Recommended workflows'', ''workflows''),
     (units_of ''Performance recommendations'', ''performance''),
     (units_of ''Security considerations'', ''security''),
     (units_of ''Deployment recommendations'', ''deployment''),
     (units_of ''Data-source hygiene'', ''data-hygiene'')])"

definition index_user_guide_configuration :: indexed_page where
  "index_user_guide_configuration = (''user-guide/configuration'', units_of ''Configuration'',
    [(units_of ''The configuration model'', ''model''),
     (units_of ''The TOML subset'', ''toml-subset''),
     (units_of ''Backend configuration'', ''backend''),
     (units_of ''Simulator configuration'', ''simulator''),
     (units_of ''Frontend configuration'', ''frontend''),
     (units_of ''Recommended settings by scenario'', ''recommended'')])"

definition index_user_guide_getting_started :: indexed_page where
  "index_user_guide_getting_started = (''user-guide/getting-started'', units_of ''Getting Started'',
    [(units_of ''First run '' @ [0x2014] @ units_of '' containers (recommended)'', ''first-run-containers''),
     (units_of ''What you should see'', ''what-you-see''),
     (units_of ''First run '' @ [0x2014] @ units_of '' binaries you built'', ''first-run-native''),
     (units_of ''Configuration walkthrough (5 minutes)'', ''config-walkthrough''),
     (units_of ''Five things to try next'', ''try-features''),
     (units_of ''Verification steps'', ''verification'')])"

definition index_user_guide_installation :: indexed_page where
  "index_user_guide_installation = (''user-guide/installation'', units_of ''Installation'',
    [(units_of ''Prerequisites'', ''prerequisites''),
     (units_of ''Building the binaries'', ''building-from-source''),
     (units_of ''Container installation'', ''containers''),
     (units_of ''The one-liner'', ''one-liner''),
     (units_of ''Building images manually'', ''manual-images''),
     (units_of ''Container environment variables'', ''env-vars''),
     (units_of ''Air-gapped installation'', ''air-gapped''),
     (units_of ''Verifying the installation'', ''verify'')])"

definition index_user_guide_troubleshooting :: indexed_page where
  "index_user_guide_troubleshooting = (''user-guide/troubleshooting'', units_of ''Troubleshooting'',
    [(units_of ''Where the logs are'', ''logs''),
     (units_of ''Build-time problems'', ''build''),
     (units_of ''Could NOT find Boost (native build only)'', ''boost-not-found''),
     (units_of ''open-dis-cpp not found at configure time (native build only)'', ''open-dis-not-found''),
     (units_of ''Weird CMake errors after moving/copying the repo'', ''stale-cache''),
     (units_of ''Runtime problems'', ''runtime''),
     (units_of ''Backend/simulator exits immediately with a config error'', ''config-error''),
     (units_of ''bind: address already in use on 8765'', ''ws-busy''),
     (units_of ''Simulator packets never arrive (Stats stays at 0)'', ''udp-blocked''),
     (units_of ''Stats shows drops climbing'', ''drops''),
     (units_of ''DIS mode: PDUs arrive but nothing displays'', ''dis-nothing''),
     (units_of ''OLV2 mode: datagrams arrive but tracks blink or don't appear'', ''olv2-nothing''),
     (units_of ''Display problems'', ''display''),
     (units_of ''Page loads but the globe stays empty / status \"stalled\"'', ''globe-empty''),
     (units_of ''Blank page when opening index.html directly'', ''file-origin''),
     (units_of ''\"WebGL initialization failed\" overlay'', ''webgl''),
     (units_of ''Settings seem stuck or corrupted'', ''settings-stuck''),
     (units_of ''Recovery procedures'', ''recovery'')])"

definition index_user_guide_tutorials :: indexed_page where
  "index_user_guide_tutorials = (''user-guide/tutorials'', units_of ''Tutorials'',
    [(units_of ''Tutorial 1 (beginner): the containerized demo, explored'', ''t1''),
     (units_of ''Tutorial 2 (beginner): author and replay your own mission'', ''t2''),
     (units_of ''Tutorial 3 (intermediate): remote backend on a LAN'', ''t3''),
     (units_of ''Tutorial 4 (intermediate): capacity load test with live stats'', ''t4''),
     (units_of ''Tutorial 5 (advanced): end-to-end DIS, and observing its lossy mapping'', ''t5''),
     (units_of ''Tutorial 6 (advanced): scripted capture & validation pipeline'', ''t6''),
     (units_of ''Tutorial 7 (advanced): end-to-end OLV2, and tuning its batch period'', ''t7'')])"

definition index_user_guide_usage :: indexed_page where
  "index_user_guide_usage = (''user-guide/usage'', units_of ''Usage'',
    [(units_of ''The viewer'', ''viewer''),
     (units_of ''View modes'', ''views''),
     (units_of ''Selection & labels'', ''selection''),
     (units_of ''Panels'', ''panels''),
     (units_of ''Settings (persisted to localStorage)'', ''settings-panel''),
     (units_of ''Keyboard shortcuts'', ''keyboard''),
     (units_of ''The simulator (olv_sim)'', ''simulator''),
     (units_of ''CSV mission replay'', ''csv-replay''),
     (units_of ''Synthetic generation (load testing)'', ''generate''),
     (units_of ''Destination, pacing, chunking'', ''chunking''),
     (units_of ''The backend (olv_backend)'', ''backend''),
     (units_of ''DIS input mode'', ''dis''),
     (units_of ''OLV2 input mode'', ''olv2''),
     (units_of ''WebSocket probe (olv_ws_probe)'', ''probe''),
     (units_of ''Automation examples'', ''automation''),
     (units_of ''Common tasks quick table'', ''common-tasks'')])"

definition SEARCH_PAGES :: "indexed_page list" where
  "SEARCH_PAGES =
    [index_developer_guide_api, index_developer_guide_architecture, index_developer_guide_build_system,
     index_developer_guide_coding_standards, index_developer_guide_debugging, index_developer_guide_extending,
     index_developer_guide_new_interface, index_developer_guide_release_process, index_developer_guide_repo_structure,
     index_developer_guide_source_walkthrough, index_developer_guide_testing, index_index,
     index_overview_architecture, index_overview_faq, index_overview_overview,
     index_overview_repository, index_reference_cli, index_reference_configuration,
     index_reference_file_formats, index_reference_glossary, index_reference_protocol_dis,
     index_reference_protocol_olv2, index_reference_protocol_udp, index_reference_protocol_ws,
     index_user_guide_best_practices, index_user_guide_configuration, index_user_guide_getting_started,
     index_user_guide_installation, index_user_guide_troubleshooting, index_user_guide_tutorials,
     index_user_guide_usage]"

definition SEARCH_INDEX :: "entry list" where
  "SEARCH_INDEX = concat (map entries_of SEARCH_PAGES)"

lemmas index_defs = SEARCH_PAGES_def index_developer_guide_api_def index_developer_guide_architecture_def index_developer_guide_build_system_def
  index_developer_guide_coding_standards_def index_developer_guide_debugging_def index_developer_guide_extending_def
  index_developer_guide_new_interface_def index_developer_guide_release_process_def index_developer_guide_repo_structure_def
  index_developer_guide_source_walkthrough_def index_developer_guide_testing_def index_index_def
  index_overview_architecture_def index_overview_faq_def index_overview_overview_def
  index_overview_repository_def index_reference_cli_def index_reference_configuration_def
  index_reference_file_formats_def index_reference_glossary_def index_reference_protocol_dis_def
  index_reference_protocol_olv2_def index_reference_protocol_udp_def index_reference_protocol_ws_def
  index_user_guide_best_practices_def index_user_guide_configuration_def index_user_guide_getting_started_def
  index_user_guide_installation_def index_user_guide_troubleshooting_def index_user_guide_tutorials_def
  index_user_guide_usage_def

section \<open>Keys\<close>

definition anchors_of :: "indexed_page \<Rightarrow> (string \<times> string) list" where
  "anchors_of = (\<lambda>(page, title, headings). map (Pair page) ([] # map snd headings))"

definition page_ok :: "indexed_page \<Rightarrow> bool" where
  "page_ok = (\<lambda>(page, title, headings). CHR ''#'' \<notin> set page \<and>
     list_all (\<lambda>(heading, anchor). anchor \<noteq> [] \<and> CHR ''#'' \<notin> set anchor) headings \<and> distinct (map snd headings))"

definition pair_key :: "string \<times> string \<Rightarrow> units" where
  "pair_key q = units_of (fst q) @ units_of ''#'' @ units_of (snd q)"

lemma units_of_simps [simp]: "units_of [] = []" "units_of (a @ b) = units_of a @ units_of b"
  by (simp_all add: units_of_def)

lemma units_of_inject: "units_of a = units_of b \<longleftrightarrow> a = b"
  unfolding units_of_def by (rule inj_map_eq_map) (simp add: inj_def)

lemma pair_key_eq: "pair_key q = units_of (fst q @ CHR ''#'' # snd q)"
  by (simp add: pair_key_def units_of_def)

lemma pair_key_inject:
  assumes "CHR ''#'' \<notin> set (fst q)" "CHR ''#'' \<notin> set (snd q)" "pair_key q = pair_key q'"
  shows "q = q'"
proof -
  have "fst q @ CHR ''#'' # snd q = fst q' @ CHR ''#'' # snd q'"
    using assms(3) by (simp only: pair_key_eq units_of_inject)
  then have "fst q = fst q' \<and> snd q = snd q'" by (simp only: append_Cons_eq_iff [OF assms(1,2)])
  then show ?thesis by (simp only: prod_eq_iff)
qed

lemma entries_keys: "map entry_key (entries_of pg) = map pair_key (anchors_of pg)"
  by (cases pg) (auto simp: entries_of_def anchors_of_def entry_key_def pair_key_def)

lemma index_keys: "map entry_key SEARCH_INDEX = map pair_key (concat (map anchors_of SEARCH_PAGES))"
  by (simp add: SEARCH_INDEX_def map_concat comp_def entries_keys)

lemma anchors_of_page: "fst ` set (anchors_of pg) = {fst pg}"
  by (cases pg) (auto simp: anchors_of_def)

lemma page_anchors: "page_ok pg \<Longrightarrow> distinct (anchors_of pg)"
  by (cases pg) (auto simp: anchors_of_def page_ok_def distinct_map list_all_iff inj_on_def)

lemma anchors_apart: "fst pg \<notin> fst ` set pages \<Longrightarrow> set (anchors_of pg) \<inter> (\<Union>q \<in> set pages. set (anchors_of q)) = {}"
proof (rule equals0I)
  fix k assume new: "fst pg \<notin> fst ` set pages"
    and k: "k \<in> set (anchors_of pg) \<inter> (\<Union>q \<in> set pages. set (anchors_of q))"
  then obtain q where q: "q \<in> set pages" "k \<in> set (anchors_of q)" by blast
  from k have "fst k \<in> fst ` set (anchors_of pg)" by blast
  moreover from q(2) have "fst k \<in> fst ` set (anchors_of q)" by blast
  ultimately have "fst q = fst pg" unfolding anchors_of_page by simp
  with q(1) new show False by (metis image_eqI)
qed

lemma anchors_distinct:
  "distinct (map fst pages) \<Longrightarrow> list_all page_ok pages \<Longrightarrow> distinct (concat (map anchors_of pages))"
proof (induction pages)
  case (Cons pg pages)
  then have "fst pg \<notin> fst ` set pages" "distinct (anchors_of pg)" "distinct (concat (map anchors_of pages))"
    by (simp_all add: page_anchors)
  with anchors_apart [of pg pages] show ?case by (simp only: list.map concat.simps distinct_append set_concat set_map) simp
qed simp

lemma pages_ok: "list_all page_ok SEARCH_PAGES"
  by (simp add: index_defs page_ok_def)

lemma pages_distinct: "distinct (map fst SEARCH_PAGES)"
  by (simp add: index_defs)

text \<open>The pages are those of the navigation, under their labels except for the home page.\<close>

lemma pages_listed:
  "list_all (\<lambda>(page, title, headings). list_ex (\<lambda>it. path it = page \<and>
     (page = ''index'' \<or> title = units_of (nav_label it))) FLAT) SEARCH_PAGES"
  by (simp add: index_defs FLAT_def NAV_def nav_items_def)

section \<open>What a search shows\<close>

definition listed_entry :: "entry \<Rightarrow> bool" where
  "listed_entry e = list_ex (\<lambda>it. e_page e = units_of (path it) \<and>
     (path it = ''index'' \<or> e_title e = units_of (nav_label it))) FLAT"

lemma entries_listed: "list_all listed_entry (site_index SEARCH_INDEX)"
proof -
  have "listed_entry e" if "e \<in> set (entries_of pg)" "pg \<in> set SEARCH_PAGES" for e pg
    using pages_listed that by (cases pg) (fastforce simp: list_all_iff list_ex_iff listed_entry_def entries_of_def)
  moreover have "listed_entry \<lparr>e_page = units_of (path it), e_title = units_of (nav_label it),
      e_section = [], e_anchor = [], e_text = units_of (nav_label it)\<rparr>" if "it \<in> set FLAT" for it
    using that by (auto simp: listed_entry_def list_ex_iff)
  ultimately show ?thesis by (auto simp: list_all_iff site_index_def SEARCH_INDEX_def)
qed

text \<open>C35: On the documentation site, whatever is typed, the search box never offers a dead page: every result
  links to a page of the navigation, under its label there (the home page under either of its titles),
  with an anchor of the index or none; and no two entries of the index have the same page and anchor,
  so that none of them can hide another.\<close>

theorem search_links_resolve:
  "distinct (map entry_key SEARCH_INDEX) \<and>
   list_all (\<lambda>e. list_ex (\<lambda>it. fst (hit_html base e) = base @ units_of (''/'' @ path it @ ''.html'') @
         (if e_anchor e = [] then [] else units_of ''#'' @ e_anchor e) \<and>
       (path it = ''index'' \<or> e_title e = units_of (nav_label it))) FLAT \<and>
     (e_anchor e = [] \<or> e \<in> set SEARCH_INDEX))
   (search_hits lower (site_index SEARCH_INDEX) q)"
proof -
  let ?keys = "concat (map anchors_of SEARCH_PAGES)" and ?hits = "search_hits lower (site_index SEARCH_INDEX) q"
  have "CHR ''#'' \<notin> set (fst k) \<and> CHR ''#'' \<notin> set (snd k)" if "k \<in> set ?keys" for k
  proof -
    from that obtain pg where pg: "pg \<in> set SEARCH_PAGES" "k \<in> set (anchors_of pg)" by auto
    with pages_ok have "page_ok pg" by (simp add: list_all_iff)
    with pg(2) show ?thesis by (cases pg) (force simp: page_ok_def anchors_of_def list_all_iff)
  qed
  then have "inj_on pair_key (set ?keys)" by (intro inj_onI pair_key_inject) blast+
  then have dist: "distinct (map entry_key SEARCH_INDEX)"
    unfolding index_keys distinct_map using anchors_distinct [OF pages_distinct pages_ok] by blast
  have sub: "e \<in> set (site_index SEARCH_INDEX)" if "e \<in> set ?hits" for e
    using that dedupe_set [of "{}" "filter (\<lambda>e. list_all (\<lambda>t. occurs t (hay lower e)) (split_white q)) (site_index SEARCH_INDEX)"]
    by (auto simp: search_hits_def Let_def dest: in_set_takeD)
  have link: "fst (hit_html base e) = base @ units_of (''/'' @ p @ ''.html'') @
      (if e_anchor e = [] then [] else units_of ''#'' @ e_anchor e)" if "e_page e = units_of p" for e p
    using that by (simp add: hit_html_def units_of_def)
  have "list_ex (\<lambda>it. fst (hit_html base e) = base @ units_of (''/'' @ path it @ ''.html'') @
         (if e_anchor e = [] then [] else units_of ''#'' @ e_anchor e) \<and>
       (path it = ''index'' \<or> e_title e = units_of (nav_label it))) FLAT \<and>
     (e_anchor e = [] \<or> e \<in> set SEARCH_INDEX)" if "e \<in> set ?hits" for e
  proof
    from entries_listed sub [OF that] have "listed_entry e" by (simp add: list_all_iff)
    then show "list_ex (\<lambda>it. fst (hit_html base e) = base @ units_of (''/'' @ path it @ ''.html'') @
         (if e_anchor e = [] then [] else units_of ''#'' @ e_anchor e) \<and>
       (path it = ''index'' \<or> e_title e = units_of (nav_label it))) FLAT"
      unfolding listed_entry_def list_ex_iff by (elim bexE) (rule bexI, use link in blast, assumption)
    show "e_anchor e = [] \<or> e \<in> set SEARCH_INDEX" using sub [OF that] by (auto simp: site_index_def)
  qed
  with dist show ?thesis by (simp only: list_all_iff) blast
qed

end
