(* ===== verification/Docs_Page.thy ===== *)
theory Docs_Page
  imports Search_Index
begin

text \<open>
  What docs/site/assets/docs.js does to a page of the documentation when it is opened: the sidebar,
  breadcrumbs and page links for the page named by \<open>data-page\<close>, an anchor on every heading, and the
  code blocks highlighted in the language their class names.
\<close>

text \<open>\<open>body.getAttribute(\<dots>) || d\<close>.\<close>

definition attr_or :: "string option \<Rightarrow> string \<Rightarrow> string" where
  "attr_or a d = (case a of None \<Rightarrow> d | Some s \<Rightarrow> if s = [] then d else s)"

record anchor =
  a_class :: string
  a_href :: string
  a_text :: units
  a_label :: string

definition heading_anchor :: "string \<Rightarrow> anchor" where
  "heading_anchor heading_id = \<lparr>a_class = ''anchor'', a_href = ''#'' @ heading_id, a_text = [0xB6],
     a_label = ''Link to this section''\<rparr>"

text \<open>\<open>className.match(/language-([a-z]+)/)\<close>, and the text of its group.\<close>

definition language_re :: re where
  "language_re = Seq (lit ''language-'') (plus (Cls (\<lambda>x. 97 \<le> x \<and> x \<le> 122)))"

definition code_language :: "units \<Rightarrow> string option" where
  "code_language className =
     map_option (\<lambda>(i, j). map char_of (slice className (i + length ''language-'') j)) (exec language_re className 0)"

definition code_html :: "units \<Rightarrow> units \<Rightarrow> units option" where
  "code_html className textContent = map_option (highlight textContent) (code_language className)"

record doc_page =
  doc_sidebar :: "side_el list"
  doc_menu_open :: bool
  doc_breadcrumbs :: "string option"
  doc_links :: string
  doc_anchors :: "anchor list"
  doc_code :: "units option list"

definition open_page :: "string option \<Rightarrow> string option \<Rightarrow> string list \<Rightarrow> (units \<times> units) list \<Rightarrow> doc_page" where
  "open_page data_page data_root headings blocks =
     (let this = attr_or data_page ''index''; base = attr_or data_root ''.''
      in \<lparr>doc_sidebar = sidebar base this, doc_menu_open = False, doc_breadcrumbs = breadcrumbs base this,
          doc_links = page_nav base this, doc_anchors = map heading_anchor headings,
          doc_code = map (\<lambda>(className, textContent). code_html className textContent) blocks\<rparr>)"

definition menu_click :: "doc_page \<Rightarrow> doc_page" where
  "menu_click d = d\<lparr>doc_menu_open := \<not> doc_menu_open d\<rparr>"

lemma filter_distinct_key:
  "distinct (map f xs) \<Longrightarrow> filter (\<lambda>x. f x = y) xs = (case find (\<lambda>x. f x = y) xs of None \<Rightarrow> [] | Some x \<Rightarrow> [x])"
proof (induction xs)
  case (Cons x xs)
  show ?case
  proof (cases "f x = y")
    case True
    with Cons.prems have "y \<notin> f ` set xs" by auto
    then have "filter (\<lambda>x. f x = y) xs = []" by (auto simp: filter_empty_conv)
    with True show ?thesis by simp
  qed (use Cons in simp)
qed simp

text \<open>C34: Opening a page of the documentation keeps its code: every block whose class names a language, known or
  not, gets HTML that reads as the block's text again, whatever it contains, and the others are left
  alone; each heading gets, in order, a link to itself; the sidebar links every listed page, in the
  order of the navigation, under its own address and name; and the links it marks are just the one
  of the opened page, or none if that page is not listed.\<close>

theorem opened_page:
  "let d = open_page data_page data_root headings blocks;
       this = attr_or data_page ''index''; base = attr_or data_root ''.'';
       links = concat (map side_links (doc_sidebar d)) in
     map (map_option html_text) (doc_code d) =
       map (\<lambda>(cls, src). if code_language cls = None then None else Some src) blocks \<and>
     map a_href (doc_anchors d) = map (\<lambda>h. ''#'' @ h) headings \<and>
     map (\<lambda>(url, text, marked). (url, text)) links = map (\<lambda>it. (page_url base (path it), nav_label it)) FLAT \<and>
     filter (\<lambda>(url, text, marked). marked) links =
       (case find (\<lambda>it. path it = this) FLAT of
          None \<Rightarrow> []
        | Some it \<Rightarrow> [(page_url base this, nav_label it, True)])"
proof -
  let ?pg = "attr_or data_page ''index''" and ?base = "attr_or data_root ''.''"
  have links: "concat (map side_links (sidebar ?base ?pg)) =
      map (\<lambda>it. (page_url ?base (path it), nav_label it, path it = ?pg)) FLAT"
    by (rule sidebar_links)
  have "filter (\<lambda>(url, text, marked). marked) (concat (map side_links (sidebar ?base ?pg))) =
      map (\<lambda>it. (page_url ?base (path it), nav_label it, path it = ?pg)) (filter (\<lambda>it. path it = ?pg) FLAT)"
    by (simp add: links filter_map comp_def)
  also have "\<dots> = (case find (\<lambda>it. path it = ?pg) FLAT of None \<Rightarrow> []
      | Some it \<Rightarrow> [(page_url ?base ?pg, nav_label it, True)])"
  proof (cases "find (\<lambda>it. path it = ?pg) FLAT")
    case (Some it)
    then have "path it = ?pg" by (auto simp: find_Some_iff)
    with Some show ?thesis by (simp add: filter_distinct_key [OF FLAT_distinct])
  qed (simp add: filter_distinct_key [OF FLAT_distinct])
  finally show ?thesis
    by (auto simp: open_page_def Let_def code_html_def heading_anchor_def highlight_keeps_text links split: option.split)
qed

end
