(* ===== verification/Page_Elements.thy ===== *)
theory Page_Elements
  imports Ui_Panel
begin

text \<open>
  The elements of frontend/index.html that frontend/js/ui.js and main.js look up when the page starts.
  Every look-up finds exactly one element and no two fields of \<open>nodes\<close> share one, which is what lets
  Ui_Panel give each of them a field of its own.
\<close>

datatype selector = ById string | ByFilter string

text \<open>The elements with an identifier and the chips with their \<open>data-filter\<close>, in document order.\<close>

definition PAGE_ELEMENTS :: "selector list" where
  "PAGE_ELEMENTS =
    [ById ''viewport'', ById ''glcanvas'', ById ''overlay'', ById ''viewBadge'',
     ById ''panel'', ById ''section-connection'', ById ''statusDot'', ById ''statusText'',
     ById ''wsUrl'', ById ''lastDataTime'', ById ''lastDataRelative'', ById ''staleWarning'',
     ById ''section-stats'', ById ''statUdpReceived'', ById ''statUdpAccepted'', ById ''statUdpDropped'',
     ById ''statUdpRateHz'', ById ''statWsClients'', ById ''statObjectCount'', ById ''statBroadcastSeq'',
     ById ''section-satellite'', ById ''satId'', ById ''satSeq'', ById ''satX'',
     ById ''satY'', ById ''satZ'', ById ''satSpeed'', ById ''satAlt'',
     ById ''section-objects'', ById ''categoryChips'', ByFilter '''', ById ''countAll'',
     ByFilter ''debris'', ById ''countDebris'', ByFilter ''star'', ById ''countStar'',
     ByFilter ''comet'', ById ''countComet'', ByFilter ''satellite'', ById ''countSatellite'',
     ByFilter ''groundHot'', ById ''countGroundHot'', ByFilter ''unknown'', ById ''countUnknown'',
     ById ''objectRows'', ById ''objectTableFooter'', ById ''panelToggle'', ById ''viewToggle'',
     ById ''btnView3d'', ById ''btnViewSat'', ById ''btnSettings'', ById ''btnAbout'',
     ById ''settingsModal'', ById ''settingsTitle'', ById ''settingShowTrails'', ById ''trailSecondsValue'',
     ById ''settingTrailSeconds'', ById ''settingShowLabels'', ById ''settingShowSky'', ById ''catDebris'',
     ById ''catStar'', ById ''catComet'', ById ''catSatellite'', ById ''catGroundHot'',
     ById ''catUnknown'', ById ''settingHost'', ById ''settingPort'', ById ''btnReconnect'',
     ById ''btnResetDefaults'', ById ''aboutModal'', ById ''aboutTitle'', ById ''fatalError'']"

text \<open>\<open>capitalize\<close>; the upper case of a letter outside ASCII is not needed for a category.\<close>

definition upper_ascii :: "char \<Rightarrow> char" where
  "upper_ascii c = (if 97 \<le> code c \<and> code c \<le> 122 then char_of (code c - 32) else c)"

fun capitalize :: "string \<Rightarrow> string" where
  "capitalize [] = []"
| "capitalize (c # s) = upper_ascii c # s"

definition fixed_nodes :: "(string \<times> selector) list" where
  "fixed_nodes =
    [(''statusDot'', ById ''statusDot''), (''statusText'', ById ''statusText''), (''wsUrl'', ById ''wsUrl''),
     (''lastDataTime'', ById ''lastDataTime''), (''lastDataRelative'', ById ''lastDataRelative''), (''staleWarning'', ById ''staleWarning''),
     (''statUdpReceived'', ById ''statUdpReceived''), (''statUdpAccepted'', ById ''statUdpAccepted''), (''statUdpDropped'', ById ''statUdpDropped''),
     (''statUdpRateHz'', ById ''statUdpRateHz''), (''statWsClients'', ById ''statWsClients''), (''statObjectCount'', ById ''statObjectCount''),
     (''statBroadcastSeq'', ById ''statBroadcastSeq''), (''satId'', ById ''satId''), (''satSeq'', ById ''satSeq''),
     (''satX'', ById ''satX''), (''satY'', ById ''satY''), (''satZ'', ById ''satZ''),
     (''satSpeed'', ById ''satSpeed''), (''satAlt'', ById ''satAlt''), (''objectRows'', ById ''objectRows''),
     (''objectTableFooter'', ById ''objectTableFooter''), (''countAll'', ById ''countAll''), (''chipAll'', ByFilter ''''),
     (''panel'', ById ''panel''), (''panelToggle'', ById ''panelToggle''), (''btnView3d'', ById ''btnView3d''),
     (''btnViewSat'', ById ''btnViewSat''), (''viewBadge'', ById ''viewBadge''), (''btnSettings'', ById ''btnSettings''),
     (''btnAbout'', ById ''btnAbout''), (''settingsModal'', ById ''settingsModal''), (''aboutModal'', ById ''aboutModal''),
     (''settingShowTrails'', ById ''settingShowTrails''), (''settingTrailSeconds'', ById ''settingTrailSeconds''), (''trailSecondsValue'', ById ''trailSecondsValue''),
     (''settingShowLabels'', ById ''settingShowLabels''), (''settingShowSky'', ById ''settingShowSky''), (''settingHost'', ById ''settingHost''),
     (''settingPort'', ById ''settingPort''), (''btnReconnect'', ById ''btnReconnect''), (''btnResetDefaults'', ById ''btnResetDefaults'')]"

definition category_nodes :: "string \<Rightarrow> (string \<times> selector) list" where
  "category_nodes k =
    [(''cat_'' @ k, ById (''cat'' @ capitalize k)), (''chip_'' @ k, ByFilter k),
     (''count_'' @ k, ById (''count'' @ capitalize k))]"

definition nodes :: "(string \<times> selector) list" where
  "nodes = fixed_nodes @ concat (map category_nodes CATEGORY_LIST)"

definition boot_elements :: "selector list" where
  "boot_elements = [ById ''glcanvas'', ById ''overlay'', ById ''fatalError'']"

lemma category_nodes_eq:
  "concat (map category_nodes CATEGORY_LIST) =
    [(''cat_debris'', ById ''catDebris''), (''chip_debris'', ByFilter ''debris''), (''count_debris'', ById ''countDebris''),
     (''cat_star'', ById ''catStar''), (''chip_star'', ByFilter ''star''), (''count_star'', ById ''countStar''),
     (''cat_comet'', ById ''catComet''), (''chip_comet'', ByFilter ''comet''), (''count_comet'', ById ''countComet''),
     (''cat_satellite'', ById ''catSatellite''), (''chip_satellite'', ByFilter ''satellite''),
     (''count_satellite'', ById ''countSatellite''),
     (''cat_groundHot'', ById ''catGroundHot''), (''chip_groundHot'', ByFilter ''groundHot''),
     (''count_groundHot'', ById ''countGroundHot''),
     (''cat_unknown'', ById ''catUnknown''), (''chip_unknown'', ByFilter ''unknown''),
     (''count_unknown'', ById ''countUnknown'')]"
  by code_simp

lemma page_elements_distinct: "distinct PAGE_ELEMENTS"
  by (simp add: PAGE_ELEMENTS_def)

theorem elements_found:
  "set (map snd nodes @ boot_elements) \<subseteq> set PAGE_ELEMENTS \<and> distinct (map fst nodes) \<and>
   distinct (map snd nodes @ boot_elements) \<and> distinct PAGE_ELEMENTS"
proof (intro conjI page_elements_distinct)
  show "set (map snd nodes @ boot_elements) \<subseteq> set PAGE_ELEMENTS"
    unfolding nodes_def category_nodes_eq by (simp add: fixed_nodes_def boot_elements_def PAGE_ELEMENTS_def)
  show "distinct (map fst nodes)" "distinct (map snd nodes @ boot_elements)"
    unfolding nodes_def category_nodes_eq by (simp_all add: fixed_nodes_def boot_elements_def)
qed

end
