(* ===== verification/Gl_Uniforms.thy ===== *)
theory Gl_Uniforms
  imports Gl_Facts
begin

text \<open>
  The uniform locations \<open>createRenderer\<close> of frontend/js/renderer.js looks up after linking, and the
  uniforms the GLSL sources declare with their types: every location exists, and every value the
  set-up or a frame gives has the declared type.
\<close>

section \<open>Declarations and look-ups\<close>

datatype glsl_type = GBool | GFloat | GVec2 | GVec3 | GMat4 | GSampler

text \<open>The declarations that the four vertex shaders share, then those of each program.\<close>

definition transform_declared :: "(string \<times> glsl_type) list" where
  "transform_declared = [(''uMVP'', GMat4), (''uFisheye'', GBool), (''uView'', GMat4), (''uThetaMax'', GFloat),
     (''uAspect'', GFloat), (''uDepthRange'', GVec2)]"

fun declared_uniforms :: "gl_program \<Rightarrow> (string \<times> glsl_type) list" where
  "declared_uniforms EarthProg = transform_declared @
     [(''uSunDir'', GVec3), (''uAmbient'', GFloat), (''uEye'', GVec3), (''uHasDay'', GBool), (''uHasNight'', GBool),
      (''uDay'', GSampler), (''uNight'', GSampler)]"
| "declared_uniforms LineProg = transform_declared"
| "declared_uniforms PointsProg = transform_declared @
     [(''uDpr'', GFloat), (''uMaxPoint'', GFloat), (''uAtlas'', GSampler)]"
| "declared_uniforms MarkerProg = transform_declared @
     [(''uWorldPos'', GVec3), (''uSize'', GFloat), (''uColor'', GVec3), (''uUseAtlas'', GBool), (''uAtlas'', GSampler),
      (''uUv0'', GVec2), (''uUv1'', GVec2)]"

text \<open>The names behind the location bundles \<open>earthU\<close>, \<open>lineU\<close>, \<open>pointsU\<close> and \<open>markerU\<close>.\<close>

definition fisheyeUniforms :: "string list" where
  "fisheyeUniforms = [''uFisheye'', ''uView'', ''uThetaMax'', ''uAspect'', ''uDepthRange'']"

fun uniform_locations :: "gl_program \<Rightarrow> string list" where
  "uniform_locations EarthProg = ''uMVP'' # fisheyeUniforms @
     [''uSunDir'', ''uAmbient'', ''uEye'', ''uHasDay'', ''uHasNight'', ''uDay'', ''uNight'']"
| "uniform_locations LineProg = ''uMVP'' # fisheyeUniforms"
| "uniform_locations PointsProg = ''uMVP'' # fisheyeUniforms @ [''uDpr'', ''uMaxPoint'', ''uAtlas'']"
| "uniform_locations MarkerProg = ''uMVP'' # fisheyeUniforms @
     [''uWorldPos'', ''uSize'', ''uColor'', ''uUseAtlas'', ''uAtlas'', ''uUv0'', ''uUv1'']"

section \<open>Calls\<close>

text \<open>\<open>uniform1i\<close> sets a bool or the unit of a sampler.\<close>

fun value_type :: "uniform_value \<Rightarrow> glsl_type" where
  "value_type (UBool b) = GBool"
| "value_type (UInt n) = GSampler"
| "value_type (UFloat x) = GFloat"
| "value_type (UVec2 x y) = GVec2"
| "value_type (UVec3 v) = GVec3"
| "value_type (UMat4 m) = GMat4"

fun well_typed :: "webgl_call \<Rightarrow> bool" where
  "well_typed (SetUniform p name v) \<longleftrightarrow>
     name \<in> set (uniform_locations p) \<and> (name, value_type v) \<in> set (declared_uniforms p)"
| "well_typed c \<longleftrightarrow> True"

lemma transform_well_typed: "list_all well_typed (transform_calls p av)"
  by (cases p) (simp_all add: transform_calls_def transform_declared_def fisheyeUniforms_def split: option.split)

lemma use_well_typed: "list_all well_typed (use_calls p av)"
  using transform_well_typed [of p av] by (auto simp: use_calls_def disableAttribs_def list_all_iff)

lemma draw_well_typed: "list_all well_typed (draw_calls ratio av cmd)"
  by (cases cmd) (simp_all add: use_well_typed attrib_calls_def fisheyeUniforms_def)

lemma frame_well_typed: "list_all well_typed (frame_calls mp tex now r)"
  using draw_well_typed by (simp add: frame_calls_def begin_frame_def list_all_iff)

text \<open>C20: No uniform is missed: the locations looked up for each program are distinct and are exactly the uniforms
  its shaders declare, and every value that the set-up, a frame or a texture upload gives a uniform goes
  to one of these locations with the declared type.\<close>

theorem uniforms_declared:
  "set (uniform_locations p) = fst ` set (declared_uniforms p) \<and> distinct (uniform_locations p) \<and>
   length (uniform_locations p) = length (declared_uniforms p) \<and>
   list_all well_typed (setup_calls (psSize range')) \<and> list_all well_typed (event_calls mp ev)"
proof (intro conjI)
  show "set (uniform_locations p) = fst ` set (declared_uniforms p)" "distinct (uniform_locations p)"
    "length (uniform_locations p) = length (declared_uniforms p)"
    by (cases p; auto simp: transform_declared_def fisheyeUniforms_def)+
  show "list_all well_typed (setup_calls (psSize range'))"
    by (simp add: setup_calls_def fisheyeUniforms_def)
  show "list_all well_typed (event_calls mp ev)"
    using frame_well_typed by (cases ev) simp_all
qed

end
