(* ===== verification/Spec2Isabelle.thy ===== *)
theory Spec2Isabelle
  imports Live_Facts Loop_Facts Docs_Page Page_Elements Gl_Uniforms
begin

text \<open>
  Verification library of the browser client of the Orbital LOS Viewer (src/frontend/js) and of the
  script of its documentation pages (src/docs/site/assets/docs.js).

  The program.  A C++ backend turns UDP datagrams into JSON frames on a WebSocket.  The client, plain
  JavaScript modules without dependencies, reads the site's config.toml and the stored settings, keeps
  one WebSocket alive, parses every frame strictly, keeps the last state, and shows it twice: on a WebGL
  canvas with a 2D overlay (Earth, sky, objects, trails, labels, picking) and in a panel of tables and
  forms.  main.js wires the modules: the settings store notifies the panel and the renderer and moves
  the connection; the connection's callbacks fill the model, the renderer and the panel; a click on the
  canvas is a pick that both sides select.

  Theories and code, in the order of the data flow.
  Js_Prelude, Js_Value, Json_Text and Json_Print hold what the code uses of the language: results of
  code that throws, numbers (Js_Value.jsnum), the value tree, \<open>Boolean\<close> and \<open>Number\<close>,
  \<open>JSON.parse\<close> and \<open>JSON.stringify\<close>.  Transition holds reachability and the locale
  \<open>stepper\<close> of invariants, interpreted by every stateful component below.
  Toml_Parser and Toml_Facts: toml.js, the parser and its round trip with a printer of the subset.
  Site_Config: site_config.js, from the outcome of \<open>fetch\<close> to the accepted keys and the warnings.
  Settings_Store and Settings_Facts: settings.js; \<open>store\<close> is the closure's state, \<open>storage\<close> the
  injected localStorage, which may throw; every operation keeps \<open>store_inv\<close>.
  Ws_Protocol: net.js, \<open>parseStateMessage\<close> and the row parsers.  Ws_Connection and
  Connection_Facts: net.js, \<open>createConnection\<close>; \<open>conn\<close> is the closure's state, \<open>handle\<close> runs one
  call or event and gives the effects, \<open>world\<close> adds the timers and sockets that exist.
  Client_Model: model.js.  Renderer_Settings: the settings as the renderer keeps them.
  App_Wiring and App_Facts: main.js without the panel; the connection's contract is the locale
  \<open>endpoint_client\<close>, interpreted on \<open>setEndpoint\<close>.  Ui_Panel and Ui_Facts: ui.js; \<open>ui\<close> is the
  closure's state and what the page shows, \<open>ui_handle\<close> one event.  Whole_Page: main.js with the panel,
  whose invariant combines those of the two and of the connection.
  Math3, Cameras: math3.js, camera.js, sat_camera.js and the fisheye projection of the vertex shaders.
  Sun, Star_Catalog, Sky, Sky_Facts: sun.js, star_catalog.js, sky.js.
  Renderer_Trails, Trail_Facts: object points and trails of renderer.js, as buffer contents.
  Renderer_Sky, Renderer_View, View_Facts: the renderer's state and public operations, the choice of
  the view, projection and picking.  Renderer_Draw, Draw_Facts: the draws of a frame and the marks of
  the overlay.  Earth_Assets, Asset_Facts: meshes of renderer.js, sizes of textures.js, atlas cells of
  atlas.js.  Icon_Painter, Icon_Facts: atlas.js, the painters as lists of canvas calls and the canvas
  they act on.  Earth_Textures, Texture_Facts: textures.js, the loader and its GL uploads, any of which
  may throw.  Shaders, Shader_Facts: the GLSL programs of renderer.js.  Gl_State, Gl_Facts: the GL calls
  of a frame and the WebGL state they act on.  Gl_Setup, Setup_Facts: contexts, programs, buffers and
  the atlas texture.  Gl_Uniforms: uniform declarations, their locations and the types of what is set.
  Page_Elements: the elements of index.html that are looked up.  Live_Page, Live_Facts: main.js with
  panel and renderer; \<open>live\<close> is the whole page, \<open>live_step\<close> one event of the panel, the canvas, the window,
  the network or a timer, \<open>start_page\<close> the start from the fetched config.toml.  Loop_Facts: the while loops.  Docs_Site, Docs_Facts, Docs_Page: docs.js, with its regular expressions.  Search_Index:
  the entries of search-index.js.

  What is shown.  Parsers: round trips (TOML, JSON, state frames), the line or row an error names, and
  totality.  State: every settings store, connection, application, panel, renderer and page that can
  come about from any input, in any order of events, satisfies its invariant, so that what is stored,
  on the wire, in the buffers and on the screen agrees with the settings and the last frame.
  End to end: a first visit starts with the configured settings, and a state message on the current
  socket is in the buffers and in the table after one step.
  Geometry: cameras are rigid motions, the vertex shaders and the overlay put a point in the same place,
  the two occlusion tests agree, picking finds a nearest target.  GPU: every draw of a frame runs with
  the program, attributes, uniforms and textures it needs whatever came before, and stays within its
  buffers; the icons stay in their cells.  Sky: every body is a unit direction, Kepler's equation is solved.
  Bounds: trails, rows, labels, texture sizes and mesh indices stay within their limits.

  Conventions.  Finite doubles are exact reals; a result whose magnitude reaches \<open>overflow_threshold\<close>
  is infinite, but rounding to 53 bits, \<open>Float32Array\<close> rounding and the sign of zero are not
  modelled.  Strings are bytes of the UTF-8 form of each UTF-16 code unit, except in Docs_Site,
  Docs_Page and Search_Index, which count code units.  \<open>JSON.stringify\<close> does not escape lone surrogates.  Error texts are constructors.
  \<open>Date.parse\<close> and \<open>toLowerCase\<close> are arguments; whether a socket can be created is an input of each
  event that tries.  Callbacks do not throw and do not call back into the component that calls them.
  Maps with insertion order are association lists.

  Fuel and loops.  \<open>json_parse\<close> starts with fuel twice the length of the text plus 2: every level of
  nesting and every element consumes a character, and Json_Text proves that no result depends on more.
  All other loops are recursive functions with a termination proof; \<open>pot_loop\<close> and \<open>grow\<close> test for a
  size of 0 only for the sake of termination, and are called with at least 1.  The Kepler iteration has
  the six steps of the code.

  Assumed of the browser: the effects of GL and canvas calls are the documented ones (Gl_State.webgl_step,
  Icon_Painter.canvas_step, Earth_Textures.gl_step); ink is tracked by bounding boxes; a shader's
  \<open>smoothstep\<close> is its defining formula.

  Not modelled: the C++ backend, simulator and their tests, the Python and shell tools, HTML and CSS
  beyond the initial contents of the panel, rasterisation and the pixels of the vendored images, fonts
  and line styles of the overlay, the getters \<open>getStats\<close> and \<open>getLastDataTime\<close> of model.js,
  and \<open>toMs\<close> of sky.js, since every time here is a number.
\<close>

section \<open>The whole page\<close>

text \<open>C8: After any sequence of user actions, frames, connection events and timers, everything the page shows and
  does follows one settings object and one model: the renderer draws with these settings, the
  connection is on their endpoint and the address shown is that endpoint's; the status shown is "open"
  when the connection's current socket has fired its open event and "connecting" when it has not, and
  without a socket it is "closed" or "connecting"; an open settings form, both view buttons and the
  badge of the satellite view show these settings; and the renderer's snapshot and the object table
  are those of the same model.\<close>

theorem page_in_agreement:
  assumes "reachable (page_start dp) (page_step dp) (u, a)"
  shows "let s = get (a_store a) in
    a_renderer a = normalizeSettings (applyRendererSettings s) \<and>
    conn_endpoint (the_conn (a_world a)) = (resolveHost (a_hostname a) s, port s) \<and>
    wsUrl_text u = wsUrl (resolveHost (a_hostname a) s) (port s) \<and>
    (case socket (the_conn (a_world a)) of
       Some ws \<Rightarrow> statusText u = (if ws \<in> opened (a_world a) then ''open'' else ''connecting'')
     | None \<Rightarrow> statusText u = ''closed'' \<or> statusText u = ''connecting'') \<and>
    (settings_open u \<longrightarrow> the_form u = form_of s) \<and>
    view3d_active u = (viewMode s = Orbit) \<and> viewSat_active u = (viewMode s = Sat) \<and>
    badge_hidden u = (viewMode s = Orbit) \<and>
    (case a_snapshot a of
       None \<Rightarrow> objectRows u = []
     | Some snap \<Rightarrow> snap = getSnapshot (a_model a) \<and>
         map dataset_id (objectRows u) = map obj_id (fst (getListRows (currentFilter u) 1000 (a_model a))))"
proof -
  have inv: "app_inv a" "reflects (u, a)"
    using whole_page.inv_reachable [OF assms] by (simp_all add: page_inv_def)
  then have g: "get (a_store a) = current (a_store a)" by (simp add: app_inv_def get_current)
  have panel: "mode_shown u (current (a_store a))" "form_shown u (current (a_store a))" "list_shown u"
    using inv(2) by (simp_all add: reflects_def panel_inv_def)
  have "case a_snapshot a of None \<Rightarrow> objectRows u = []
     | Some snap \<Rightarrow> snap = getSnapshot (a_model a) \<and>
         map dataset_id (objectRows u) = map obj_id (fst (getListRows (currentFilter u) 1000 (a_model a)))"
    using inv(2) panel(3)
    by (cases "a_snapshot a") (simp_all add: reflects_def list_shown_def make_tr_def comp_def)
  moreover have "status_ok (a_world a) (shown_status a)" "statusText u = status_name (shown_status a)"
    using inv by (simp_all add: app_inv_def conn_ok_def reflects_def)
  then have "case socket (the_conn (a_world a)) of
       Some ws \<Rightarrow> statusText u = (if ws \<in> opened (a_world a) then ''open'' else ''connecting'')
     | None \<Rightarrow> statusText u = ''closed'' \<or> statusText u = ''connecting''"
    by (cases "shown_status a") (auto simp: status_ok_def split: option.splits if_splits)
  ultimately show ?thesis using inv panel
    by (simp add: g app_inv_def in_force_def endpoint_of_def reflects_def mode_shown_def form_shown_def Let_def)
qed

theorem page_in_agreement_witness:
  "\<exists>u a. page_boot (\<lambda>s. None) empty_storage (JObj []) [] True = Inr (u, a) \<and>
     wsUrl_text u = ''ws://127.0.0.1:8765/''"
proof -
  let ?st = "\<lparr>current = DEFAULTS, effectiveDefaults = DEFAULTS, listeners = [], storage = empty_storage\<rparr>"
  obtain u0 st1 where "createUi ?st = (u0, st1)" by (cases "createUi ?st")
  then have "\<exists>q. page_boot (\<lambda>s. None) empty_storage (JObj []) [] True = Inr q"
    by (simp add: page_boot_def createSettings_empty Let_def)
  then obtain q where q: "page_boot (\<lambda>s. None) empty_storage (JObj []) [] True = Inr q" by blast
  then obtain u a where ua: "q = (u, a)" by (cases q)
  have b: "boot empty_storage (JObj []) [] True = Inr a"
    using page_boot_app [of "\<lambda>s. None" empty_storage "JObj []" "[]" True] by (simp add: q ua)
  then have host: "a_hostname a = []" and store: "current (a_store a) = DEFAULTS"
    by (auto simp: boot_def createSettings_empty Let_def conn_act_keeps onChange_def)
  with boot_inv [OF b] have g: "get (a_store a) = DEFAULTS" by (simp add: app_inv_def get_current)
  have "reachable (page_start (\<lambda>s. None)) (page_step (\<lambda>s. None)) (u, a)"
    using q ua by (intro reach_init) (auto simp: page_start_def)
  from page_in_agreement [OF this] have "wsUrl_text u = wsUrl (resolveHost [] DEFAULTS) (port DEFAULTS)"
    by (simp add: g host Let_def)
  moreover have "show_int 8765 = ''8765''"
    by (simp add: show_int_def show_nat.simps digit_char_def char_of_eq_iff take_bit_eq_mod)
  then have "wsUrl (resolveHost [] DEFAULTS) (port DEFAULTS) = ''ws://127.0.0.1:8765/''"
    by (simp add: wsUrl_def resolveHost_def DEFAULTS_def)
  ultimately show ?thesis using q ua by auto
qed

end
